(* ===== verification/Rbox_Prelude.thy ===== *)
theory Rbox_Prelude
  imports Main "HOL-Library.Char_ord" "HOL-Library.List_Lexorder"
begin

text \<open>
  Shared vocabulary of the development: the pieces of the C++ standard library that the
  sources use (byte strings, \<open>std::getline\<close>, \<open>find\<close>, \<open>substr\<close>, \<open>std::to_string\<close>,
  \<open>std::stol\<close>, ordered maps and sets), the error codes, and the lemmas the components share.
  A \<open>std::string\<close> and a \<open>ceph::bufferlist\<close> are both a \<^typ>\<open>string\<close>, a list of bytes.
  A \<open>std::map<std::string, T>\<close> is an association list in key order, because the sources
  iterate over such maps; its meaning is \<^const>\<open>map_of\<close>.
\<close>

named_theorems getline_simps \<open>facts that evaluate the getline loops\<close>
named_theorems smap_simps \<open>facts that evaluate ordered maps\<close>

section \<open>Error codes and exceptions\<close>

abbreviation ENOENT :: int where "ENOENT \<equiv> 2"
abbreviation ETIMEDOUT :: int where "ETIMEDOUT \<equiv> 110"
abbreviation INT_MAX :: int where "INT_MAX \<equiv> 2147483647"
abbreviation LONG_MAX :: int where "LONG_MAX \<equiv> 9223372036854775807"

text \<open>Conversion of an integer to \<open>int\<close> (32 bits), \<open>int64_t\<close>, \<open>unsigned\<close> and \<open>uint64_t\<close>; signed sums wrap around.\<close>

definition to_int32 :: "int \<Rightarrow> int" where
  "to_int32 x = (x + 2147483648) mod 4294967296 - 2147483648"

definition to_int64 :: "int \<Rightarrow> int" where
  "to_int64 x = (x + 9223372036854775808) mod 18446744073709551616 - 9223372036854775808"

definition to_uint32 :: "int \<Rightarrow> nat" where
  "to_uint32 x = nat (x mod 4294967296)"

definition to_uint64 :: "int \<Rightarrow> nat" where
  "to_uint64 x = nat (x mod 18446744073709551616)"

lemma to_int32_id: "- 2147483648 \<le> x \<Longrightarrow> x \<le> INT_MAX \<Longrightarrow> to_int32 x = x"
  by (simp add: to_int32_def mod_pos_pos_trivial)

lemma to_int64_id: "- 9223372036854775808 \<le> x \<Longrightarrow> x \<le> LONG_MAX \<Longrightarrow> to_int64 x = x"
  by (simp add: to_int64_def mod_pos_pos_trivial)

lemma to_uint32_id: "0 \<le> x \<Longrightarrow> x \<le> INT_MAX \<Longrightarrow> to_uint32 x = nat x"
  by (simp add: to_uint32_def mod_pos_pos_trivial)

lemma to_uint64_id: "0 \<le> x \<Longrightarrow> x \<le> LONG_MAX \<Longrightarrow> to_uint64 x = nat x"
  by (simp add: to_uint64_def mod_pos_pos_trivial)

datatype cpp_exn = Invalid_argument | Out_of_range

section \<open>Byte strings\<close>

type_synonym bytes = string

abbreviation NUL :: char where "NUL \<equiv> CHR 0x00"
abbreviation newline :: char where "newline \<equiv> CHR 0x0A"

text \<open>Reading a buffer as a C string stops at the first NUL byte.\<close>

definition c_str :: "bytes \<Rightarrow> string" where
  "c_str b = takeWhile (\<lambda>c. c \<noteq> NUL) b"

lemma c_str_no_nul: "NUL \<notin> set s \<Longrightarrow> c_str s = s"
  by (auto simp: c_str_def takeWhile_eq_all_conv)

lemma c_str_append: "NUL \<notin> set s \<Longrightarrow> c_str (s @ t) = s @ c_str t"
  by (simp add: c_str_def takeWhile_append)

lemma c_str_terminated: "NUL \<notin> set s \<Longrightarrow> c_str (s @ NUL # t) = s"
  by (simp add: c_str_def takeWhile_append)

definition isdigit :: "char \<Rightarrow> bool" where
  "isdigit c \<longleftrightarrow> 48 \<le> (of_char c :: nat) \<and> (of_char c :: nat) \<le> 57"

definition isspace :: "char \<Rightarrow> bool" where
  "isspace c \<longleftrightarrow> (of_char c :: nat) = 32 \<or> 9 \<le> (of_char c :: nat) \<and> (of_char c :: nat) \<le> 13"

text \<open>\<open>key.compare(0, strlen(p), p) == 0\<close>: the key starts with the given prefix.\<close>

definition starts_with :: "string \<Rightarrow> string \<Rightarrow> bool" where
  "starts_with p s \<longleftrightarrow> take (length p) s = p"

text \<open>\<open>s.find(n)\<close>: index of the first occurrence of \<open>n\<close>, \<^const>\<open>None\<close> for \<open>npos\<close>.\<close>

fun str_find :: "string \<Rightarrow> string \<Rightarrow> nat option" where
  "str_find n [] = (if n = [] then Some 0 else None)"
| "str_find n (c # s) =
     (if starts_with n (c # s) then Some 0 else map_option Suc (str_find n s))"

text \<open>\<open>s.substr(pos)\<close>: throws \<open>std::out_of_range\<close> when \<open>pos > s.size()\<close>.\<close>

definition substr_from :: "string \<Rightarrow> nat \<Rightarrow> cpp_exn + string" where
  "substr_from s pos = (if pos \<le> length s then Inr (drop pos s) else Inl Out_of_range)"

section \<open>The getline loop\<close>

text \<open>
  \<open>while (std::getline(ss, tok, sep)) v.push_back(tok);\<close> One call takes the characters up to
  the separator and consumes it; it fails only when nothing is left to read. So a trailing
  separator yields no empty last token.
\<close>

definition getline :: "char \<Rightarrow> string \<Rightarrow> string \<times> string" where
  "getline sep s = (takeWhile (\<lambda>c. c \<noteq> sep) s, tl (dropWhile (\<lambda>c. c \<noteq> sep) s))"

lemma getline_shorter: "s \<noteq> [] \<Longrightarrow> length (snd (getline sep s)) < length s"
  using length_dropWhile_le [of "\<lambda>c. c \<noteq> sep" "tl s"]
  by (cases s) (auto simp: getline_def)

function getline_tokens :: "char \<Rightarrow> string \<Rightarrow> string list" where
  "getline_tokens sep s =
     (if s = [] then []
      else fst (getline sep s) # getline_tokens sep (snd (getline sep s)))"
  by pat_completeness auto
termination
  by (relation "measure (\<lambda>(sep, s). length s)") (auto simp: getline_shorter)

declare getline_tokens.simps [simp del]

lemma getline_tokens_Nil [simp, getline_simps]: "getline_tokens sep [] = []"
  by (simp add: getline_tokens.simps)

lemma getline_tokens_sep [getline_simps]:
  "sep \<notin> set t \<Longrightarrow> getline_tokens sep (t @ sep # s) = t # getline_tokens sep s"
  by (subst getline_tokens.simps) (simp add: getline_def takeWhile_append dropWhile_append2)

lemma getline_tokens_last [getline_simps]:
  assumes "sep \<notin> set t" and "t \<noteq> []"
  shows "getline_tokens sep t = [t]"
proof -
  have "takeWhile (\<lambda>c. c \<noteq> sep) t = t" and "dropWhile (\<lambda>c. c \<noteq> sep) t = []"
    using assms(1) by (auto simp: takeWhile_eq_all_conv dropWhile_eq_Nil_conv)
  then have "getline sep t = (t, [])"
    by (simp only: getline_def list.sel)
  then show ?thesis
    using assms(2) by (subst getline_tokens.simps) simp
qed

text \<open>Joining with a terminator after every token is undone by the loop.\<close>

lemma getline_tokens_terminated:
  "\<forall>t \<in> set ts. sep \<notin> set t \<Longrightarrow> getline_tokens sep (concat (map (\<lambda>t. t @ [sep]) ts)) = ts"
  by (induction ts) (auto simp: getline_simps)

text \<open>Joining with a separator between the tokens is undone when the last one is not empty.\<close>

fun join_sep :: "string \<Rightarrow> string list \<Rightarrow> string" where
  "join_sep sep [] = []"
| "join_sep sep [t] = t"
| "join_sep sep (t # u # ts) = t @ sep @ join_sep sep (u # ts)"

lemma getline_tokens_join:
  "\<forall>t \<in> set ts. sep \<notin> set t \<Longrightarrow> ts = [] \<or> last ts \<noteq> [] \<Longrightarrow>
   getline_tokens sep (join_sep [sep] ts) = ts"
  by (induction "[sep]" ts rule: join_sep.induct) (auto simp: getline_simps)

lemma getline_tokens_no_sep: "t \<in> set (getline_tokens sep s) \<Longrightarrow> sep \<notin> set t"
proof (induction sep s rule: getline_tokens.induct)
  case (1 sep s)
  show ?case
  proof (cases "s = []")
    case False
    with "1.prems" have "t = fst (getline sep s) \<or> t \<in> set (getline_tokens sep (snd (getline sep s)))"
      by (subst (asm) getline_tokens.simps) auto
    then show ?thesis
      using "1.IH" [OF False] by (auto simp: getline_def dest: set_takeWhileD)
  qed (use "1.prems" in simp)
qed

section \<open>Decimal numbers\<close>

text \<open>\<open>std::to_string\<close> on integers.\<close>

definition digit_char :: "nat \<Rightarrow> char" where
  "digit_char d = char_of (48 + d)"

definition digit_val :: "char \<Rightarrow> nat" where
  "digit_val c = of_char c - 48"

fun nat_to_string :: "nat \<Rightarrow> string" where
  "nat_to_string n =
     (if n < 10 then [digit_char n] else nat_to_string (n div 10) @ [digit_char (n mod 10)])"

declare nat_to_string.simps [simp del]

definition int_to_string :: "int \<Rightarrow> string" where
  "int_to_string i =
     (if i < 0 then CHR ''-'' # nat_to_string (nat (- i)) else nat_to_string (nat i))"

definition string_to_nat :: "string \<Rightarrow> nat" where
  "string_to_nat s = foldl (\<lambda>n c. 10 * n + digit_val c) 0 s"

lemma of_char_digit_char: "d < 10 \<Longrightarrow> of_char (digit_char d) = (48 + d :: nat)"
  by (simp add: digit_char_def of_char_of)

lemma isdigit_digit_char: "d < 10 \<Longrightarrow> isdigit (digit_char d)"
  by (simp add: isdigit_def of_char_digit_char)

lemma digit_val_digit_char: "d < 10 \<Longrightarrow> digit_val (digit_char d) = d"
  by (simp add: digit_val_def of_char_digit_char)

lemma nat_to_string_digits: "c \<in> set (nat_to_string n) \<Longrightarrow> isdigit c"
proof (induction n rule: nat_to_string.induct)
  case (1 n)
  then show ?case
    by (subst (asm) nat_to_string.simps) (auto simp: isdigit_digit_char split: if_splits)
qed

lemma nat_to_string_nonempty [simp]: "nat_to_string n \<noteq> []"
  by (subst nat_to_string.simps) simp

lemma string_to_nat_nat_to_string [simp]: "string_to_nat (nat_to_string n) = n"
proof (induction n rule: nat_to_string.induct)
  case (1 n)
  then show ?case
    by (subst nat_to_string.simps) (auto simp: string_to_nat_def digit_val_digit_char)
qed

text \<open>
  \<open>std::stol\<close> and \<open>std::stoi\<close>: skip white space, take an optional sign and the digits, and
  throw when there are none or when the value leaves the range of the type.
\<close>

definition parse_sign :: "string \<Rightarrow> bool \<times> string" where
  "parse_sign t = (case t of [] \<Rightarrow> (False, [])
     | c # r \<Rightarrow> if c = CHR ''-'' then (True, r) else if c = CHR ''+'' then (False, r) else (False, t))"

definition parse_int :: "int \<Rightarrow> int \<Rightarrow> string \<Rightarrow> cpp_exn + int" where
  "parse_int lo hi s =
     (let (neg, u) = parse_sign (dropWhile isspace s);
          ds = takeWhile isdigit u;
          v = (if neg then - int (string_to_nat ds) else int (string_to_nat ds))
      in if ds = [] then Inl Invalid_argument
         else if lo \<le> v \<and> v \<le> hi then Inr v else Inl Out_of_range)"

definition stol :: "string \<Rightarrow> cpp_exn + int" where
  "stol s = parse_int (- 9223372036854775808) LONG_MAX s"

definition stoi :: "string \<Rightarrow> cpp_exn + int" where
  "stoi s = parse_int (- 2147483648) INT_MAX s"

lemma isdigit_not_space: "isdigit c \<Longrightarrow> \<not> isspace c"
  by (auto simp: isdigit_def isspace_def)

lemma isdigit_not_sign: "isdigit c \<Longrightarrow> c \<noteq> CHR ''-'' \<and> c \<noteq> CHR ''+'' \<and> c \<noteq> NUL"
  by (auto simp: isdigit_def)

lemma parse_sign_digits:
  assumes "\<And>c. c \<in> set s \<Longrightarrow> isdigit c"
  shows "parse_sign s = (False, s)"
  using assms isdigit_not_sign by (cases s) (auto simp: parse_sign_def)

lemma dropWhile_space_digits:
  assumes "\<And>c. c \<in> set s \<Longrightarrow> isdigit c"
  shows "dropWhile isspace s = s"
  using assms isdigit_not_space by (cases s) auto

lemma parse_int_to_string:
  "parse_int lo hi (int_to_string i) = (if lo \<le> i \<and> i \<le> hi then Inr i else Inl Out_of_range)"
proof -
  have d: "\<And>n c. c \<in> set (nat_to_string n) \<Longrightarrow> isdigit c" by (rule nat_to_string_digits)
  have tw: "\<And>n. takeWhile isdigit (nat_to_string n) = nat_to_string n"
    using d by (simp add: takeWhile_eq_all_conv)
  have neg: "parse_sign (CHR ''-'' # s) = (True, s)" for s
    by (simp add: parse_sign_def)
  show ?thesis
    using d
    by (simp add: parse_int_def int_to_string_def isspace_def neg tw
        dropWhile_space_digits [OF d] parse_sign_digits [OF d])
qed

lemma int_to_string_no_nul: "NUL \<notin> set (int_to_string i)"
  using nat_to_string_digits isdigit_not_sign by (auto simp: int_to_string_def)

lemma stol_to_string:
  "- 9223372036854775808 \<le> i \<Longrightarrow> i \<le> LONG_MAX \<Longrightarrow> stol (int_to_string i) = Inr i"
  by (simp add: stol_def parse_int_to_string)

lemma length_nat_to_string: "n < 10 ^ m \<Longrightarrow> 0 < m \<Longrightarrow> length (nat_to_string n) \<le> m"
proof (induction m arbitrary: n)
  case (Suc m)
  show ?case
  proof (cases "n < 10")
    case True
    then show ?thesis by (subst nat_to_string.simps) simp
  next
    case False
    with Suc.prems have "n div 10 < 10 ^ m" and "0 < m"
      by (auto simp: less_mult_imp_div_less mult.commute intro: gr0I)
    then have "length (nat_to_string (n div 10)) \<le> m" by (rule Suc.IH)
    with False show ?thesis by (subst nat_to_string.simps) simp
  qed
qed simp

lemma length_int_to_string:
  assumes "- 9223372036854775808 \<le> i" and "i \<le> LONG_MAX"
  shows "length (int_to_string i) \<le> 21"
proof -
  have "nat (- i) < 10 ^ 20" and "nat i < 10 ^ 20"
    using assms by simp_all
  then show ?thesis
    using length_nat_to_string [of "nat (- i)" 20] length_nat_to_string [of "nat i" 20]
    by (simp add: int_to_string_def)
qed

section \<open>Ordered maps\<close>

text \<open>
  \<open>std::map<std::string, T>\<close> as an association list in key order. \<open>smap_put\<close> is
  \<open>m[k] = v\<close>, \<open>smap_del\<close> is \<open>m.erase(k)\<close>, \<open>smap_get\<close> is \<open>m.find(k)\<close>.
\<close>

type_synonym 'v smap = "(string \<times> 'v) list"

fun smap_put :: "string \<Rightarrow> 'v \<Rightarrow> 'v smap \<Rightarrow> 'v smap" where
  "smap_put k v [] = [(k, v)]"
| "smap_put k v ((a, b) # m) =
     (if k < a then (k, v) # (a, b) # m
      else if k = a then (k, v) # m
      else (a, b) # smap_put k v m)"

definition smap_get :: "string \<Rightarrow> 'v smap \<Rightarrow> 'v option" where
  "smap_get k m = map_of m k"

definition smap_del :: "string \<Rightarrow> 'v smap \<Rightarrow> 'v smap" where
  "smap_del k m = filter (\<lambda>p. fst p \<noteq> k) m"

definition smap_ok :: "'v smap \<Rightarrow> bool" where
  "smap_ok m \<longleftrightarrow> sorted_wrt (<) (map fst m)"

lemma map_of_smap_put [simp, smap_simps]: "map_of (smap_put k v m) = (map_of m)(k \<mapsto> v)"
  by (induction k v m rule: smap_put.induct) (auto simp: fun_eq_iff)

lemma map_of_filter_key: "map_of (filter (\<lambda>p. fst p \<noteq> k) m) = (map_of m)(k := None)"
  by (induction m) (auto simp: fun_eq_iff)

lemma map_of_smap_del [simp, smap_simps]: "map_of (smap_del k m) = (map_of m)(k := None)"
  by (simp add: smap_del_def map_of_filter_key)

lemma smap_get_put [simp]: "smap_get a (smap_put k v m) = (if a = k then Some v else smap_get a m)"
  by (simp add: smap_get_def)

lemma smap_get_del [simp]: "smap_get a (smap_del k m) = (if a = k then None else smap_get a m)"
  by (simp add: smap_get_def)

lemma keys_smap_put: "fst ` set (smap_put k v m) = insert k (fst ` set m)"
  by (induction k v m rule: smap_put.induct) auto

lemma smap_ok_Nil [simp]: "smap_ok []"
  by (simp add: smap_ok_def)

lemma smap_ok_put [simp]: "smap_ok m \<Longrightarrow> smap_ok (smap_put k v m)"
proof (induction k v m rule: smap_put.induct)
  case (2 k v a b m)
  then show ?case
    using keys_smap_put [of k v m] by (fastforce simp: smap_ok_def)
qed (simp add: smap_ok_def)

lemma smap_ok_del [simp]: "smap_ok m \<Longrightarrow> smap_ok (smap_del k m)"
  by (induction m) (auto simp: smap_ok_def smap_del_def)

lemma smap_ok_distinct: "smap_ok m \<Longrightarrow> distinct (map fst m)"
  by (simp add: smap_ok_def strict_sorted_iff)

text \<open>Two ordered maps with the same meaning are the same list.\<close>

lemma smap_ext:
  assumes "smap_ok m" and "smap_ok n" and "map_of m = map_of n"
  shows "m = n"
proof -
  have d: "distinct (map fst m)" "distinct (map fst n)"
    using assms(1,2) by (auto dest: smap_ok_distinct)
  have "set m = set n"
    using assms(3) d by (metis map_of_eqI map_of_inject_set)
  moreover have "sorted (map fst m)" "sorted (map fst n)"
    using assms(1,2) by (auto simp: smap_ok_def strict_sorted_iff)
  moreover have "inj_on fst (set m \<union> set n)"
    using \<open>set m = set n\<close> d(1) by (simp add: distinct_map)
  ultimately show ?thesis
    using d by (metis distinct_map map_sorted_distinct_set_unique)
qed

end
