(* ===== verification/Rados_Types.thy ===== *)
theory Rados_Types
  imports Rbox_Prelude "HOL-Library.Word"
begin

unbundle bit_operations_syntax

text \<open>
  The data of \<open>librmb\<close>: the metadata keys (\<open>rados-types.h\<close>), one metadata entry
  (\<open>rados-metadata.h\<close>), the mail object (\<open>rados-mail.h\<close>) and the ceph wire encoding
  (\<open>encoding.h\<close>), with the round trips and injectivity facts the other components use.
\<close>

section \<open>Metadata keys\<close>

text \<open>
  \<open>enum rbox_metadata_key\<close>. The sources also cast an arbitrary character to the enum
  (\<open>static_cast<rbox_metadata_key>(*key.c_str())\<close>); the values outside the enumerators are
  \<open>RBOX_METADATA_OTHER\<close>.
\<close>

datatype rbox_metadata_key =
    RBOX_METADATA_MAILBOX_GUID
  | RBOX_METADATA_GUID
  | RBOX_METADATA_POP3_UIDL
  | RBOX_METADATA_POP3_ORDER
  | RBOX_METADATA_RECEIVED_TIME
  | RBOX_METADATA_PHYSICAL_SIZE
  | RBOX_METADATA_VIRTUAL_SIZE
  | RBOX_METADATA_EXT_REF
  | RBOX_METADATA_ORIG_MAILBOX
  | RBOX_METADATA_MAIL_UID
  | RBOX_METADATA_VERSION
  | RBOX_METADATA_FROM_ENVELOPE
  | RBOX_METADATA_PVT_FLAGS
  | RBOX_METADATA_OLDV1_EXPUNGED
  | RBOX_METADATA_OLDV1_FLAGS
  | RBOX_METADATA_OLDV1_KEYWORDS
  | RBOX_METADATA_OLDV1_SAVE_TIME
  | RBOX_METADATA_OLDV1_SPACE
  | RBOX_METADATA_OTHER char

fun rbox_metadata_key_to_char :: "rbox_metadata_key \<Rightarrow> string" where
  "rbox_metadata_key_to_char RBOX_METADATA_MAILBOX_GUID = ''M''"
| "rbox_metadata_key_to_char RBOX_METADATA_GUID = ''G''"
| "rbox_metadata_key_to_char RBOX_METADATA_POP3_UIDL = ''P''"
| "rbox_metadata_key_to_char RBOX_METADATA_POP3_ORDER = ''O''"
| "rbox_metadata_key_to_char RBOX_METADATA_RECEIVED_TIME = ''R''"
| "rbox_metadata_key_to_char RBOX_METADATA_PHYSICAL_SIZE = ''Z''"
| "rbox_metadata_key_to_char RBOX_METADATA_VIRTUAL_SIZE = ''V''"
| "rbox_metadata_key_to_char RBOX_METADATA_EXT_REF = ''X''"
| "rbox_metadata_key_to_char RBOX_METADATA_ORIG_MAILBOX = ''B''"
| "rbox_metadata_key_to_char RBOX_METADATA_MAIL_UID = ''U''"
| "rbox_metadata_key_to_char RBOX_METADATA_VERSION = ''I''"
| "rbox_metadata_key_to_char RBOX_METADATA_FROM_ENVELOPE = ''A''"
| "rbox_metadata_key_to_char RBOX_METADATA_PVT_FLAGS = ''C''"
| "rbox_metadata_key_to_char RBOX_METADATA_OLDV1_EXPUNGED = ''E''"
| "rbox_metadata_key_to_char RBOX_METADATA_OLDV1_FLAGS = ''F''"
| "rbox_metadata_key_to_char RBOX_METADATA_OLDV1_KEYWORDS = ''K''"
| "rbox_metadata_key_to_char RBOX_METADATA_OLDV1_SAVE_TIME = ''S''"
| "rbox_metadata_key_to_char RBOX_METADATA_OLDV1_SPACE = '' ''"
| "rbox_metadata_key_to_char (RBOX_METADATA_OTHER c) = ''''"

text \<open>The cast from a character to the enum.\<close>

definition metadata_key_of_char :: "char \<Rightarrow> rbox_metadata_key" where
  "metadata_key_of_char c =
     (if c = CHR ''M'' then RBOX_METADATA_MAILBOX_GUID
      else if c = CHR ''G'' then RBOX_METADATA_GUID
      else if c = CHR ''P'' then RBOX_METADATA_POP3_UIDL
      else if c = CHR ''O'' then RBOX_METADATA_POP3_ORDER
      else if c = CHR ''R'' then RBOX_METADATA_RECEIVED_TIME
      else if c = CHR ''Z'' then RBOX_METADATA_PHYSICAL_SIZE
      else if c = CHR ''V'' then RBOX_METADATA_VIRTUAL_SIZE
      else if c = CHR ''X'' then RBOX_METADATA_EXT_REF
      else if c = CHR ''B'' then RBOX_METADATA_ORIG_MAILBOX
      else if c = CHR ''U'' then RBOX_METADATA_MAIL_UID
      else if c = CHR ''I'' then RBOX_METADATA_VERSION
      else if c = CHR ''A'' then RBOX_METADATA_FROM_ENVELOPE
      else if c = CHR ''C'' then RBOX_METADATA_PVT_FLAGS
      else if c = CHR ''E'' then RBOX_METADATA_OLDV1_EXPUNGED
      else if c = CHR ''F'' then RBOX_METADATA_OLDV1_FLAGS
      else if c = CHR ''K'' then RBOX_METADATA_OLDV1_KEYWORDS
      else if c = CHR ''S'' then RBOX_METADATA_OLDV1_SAVE_TIME
      else if c = CHR '' '' then RBOX_METADATA_OLDV1_SPACE
      else RBOX_METADATA_OTHER c)"

text \<open>The value the enumerator has in the source (its character).\<close>

definition metadata_key_char :: "rbox_metadata_key \<Rightarrow> char" where
  "metadata_key_char k = (case k of RBOX_METADATA_OTHER c \<Rightarrow> c | _ \<Rightarrow> hd (rbox_metadata_key_to_char k))"

lemma metadata_key_of_to_char:
  "rbox_metadata_key_to_char k \<noteq> [] \<Longrightarrow> metadata_key_of_char (hd (rbox_metadata_key_to_char k)) = k"
  by (cases k) (simp_all add: metadata_key_of_char_def)

lemma rbox_metadata_key_to_char_inj:
  assumes "rbox_metadata_key_to_char k \<noteq> []"
    and "rbox_metadata_key_to_char k = rbox_metadata_key_to_char k'"
  shows "k = k'"
  using assms metadata_key_of_to_char by metis

section \<open>One metadata entry\<close>

text \<open>\<open>class RadosMetadata\<close>: a key and a buffer that normally ends with a NUL byte.\<close>

record rados_metadata =
  md_key :: string
  md_bl :: bytes

text \<open>\<open>RadosMetadata(std::string& key_, std::string& value_)\<close>.\<close>

definition metadata_kv :: "string \<Rightarrow> string \<Rightarrow> rados_metadata" where
  "metadata_kv key value = \<lparr>md_key = key, md_bl = value @ [NUL]\<rparr>"

text \<open>The \<open>convert\<close> overloads for strings, C strings, \<open>time_t\<close>, \<open>uint\<close>, \<open>size_t\<close> and \<open>int\<close>.\<close>

definition convert_str :: "rbox_metadata_key \<Rightarrow> string \<Rightarrow> rados_metadata" where
  "convert_str key val = \<lparr>md_key = rbox_metadata_key_to_char key, md_bl = val @ [NUL]\<rparr>"

definition convert_cstr :: "rbox_metadata_key \<Rightarrow> bytes \<Rightarrow> rados_metadata" where
  "convert_cstr key val = (let str = c_str val in
     \<lparr>md_key = rbox_metadata_key_to_char key, md_bl = str @ [NUL]\<rparr>)"

definition convert_time :: "rbox_metadata_key \<Rightarrow> int \<Rightarrow> rados_metadata" where
  "convert_time key t = (let val = int_to_string t in
     \<lparr>md_key = rbox_metadata_key_to_char key, md_bl = val @ [NUL]\<rparr>)"

definition convert_uint :: "rbox_metadata_key \<Rightarrow> 32 word \<Rightarrow> rados_metadata" where
  "convert_uint key value = (let val = int_to_string (uint value) in
     \<lparr>md_key = rbox_metadata_key_to_char key, md_bl = val @ [NUL]\<rparr>)"

definition convert_size :: "rbox_metadata_key \<Rightarrow> 64 word \<Rightarrow> rados_metadata" where
  "convert_size key value = (let val = int_to_string (sint (ucast value :: 32 word)) in
     \<lparr>md_key = rbox_metadata_key_to_char key, md_bl = val @ [NUL]\<rparr>)"

definition convert_int :: "rbox_metadata_key \<Rightarrow> 32 word \<Rightarrow> rados_metadata" where
  "convert_int key value = (let val = int_to_string (sint value) in
     \<lparr>md_key = rbox_metadata_key_to_char key, md_bl = val @ [NUL]\<rparr>)"

text \<open>\<open>RadosMetadata::from_string\<close> splits at \<open>'='\<close>; the value is stored without a NUL.\<close>

definition metadata_from_string :: "string \<Rightarrow> rados_metadata option" where
  "metadata_from_string str =
     (case getline_tokens (CHR ''='') str of
        [k, v] \<Rightarrow> Some \<lparr>md_key = k, md_bl = v\<rparr>
      | _ \<Rightarrow> None)"

text \<open>
  \<open>RadosMetadata::to_string\<close> drops the last byte of the buffer. On an empty buffer
  \<open>bl.length() - 1\<close> wraps to the largest unsigned value, so nothing is dropped.
\<close>

definition metadata_to_string :: "rados_metadata \<Rightarrow> string" where
  "metadata_to_string m = md_key m @ ''='' @ butlast (md_bl m)"

text \<open>
  An entry written by \<open>to_string\<close> reads back with the same key and value, less
  the NUL byte, when key and value contain no \<open>'='\<close> and the value is not empty.
\<close>

lemma metadata_string_roundtrip_aux:
  assumes "CHR ''='' \<notin> set k" and "CHR ''='' \<notin> set v" and "v \<noteq> []"
  shows "metadata_from_string (metadata_to_string \<lparr>md_key = k, md_bl = v @ [NUL]\<rparr>)
           = Some \<lparr>md_key = k, md_bl = v\<rparr>"
  using assms
  by (simp add: metadata_to_string_def metadata_from_string_def getline_simps)

section \<open>The mail object\<close>

text \<open>
  \<open>class RadosMail\<close>. Of the pointer to an outstanding completion the model keeps the return
  value that the completion delivers, \<^const>\<open>None\<close> for a null pointer. A buffer that was deleted
  is the empty buffer.
\<close>

record rados_mail =
  m_oid :: string
  m_object_size :: int
  m_completion :: "int option"
  m_active_op :: int
  m_buffer :: bytes
  m_save_date :: int
  m_attrset :: "bytes smap"
  m_extended :: "bytes smap"
  m_valid :: bool
  m_index_ref :: bool
  m_deprecated_uid :: bool
  m_restored :: bool
  m_lost_object :: bool

definition new_rados_mail :: rados_mail where
  "new_rados_mail =
     \<lparr>m_oid = [], m_object_size = -1, m_completion = None, m_active_op = 0, m_buffer = [],
      m_save_date = -1, m_attrset = [], m_extended = [], m_valid = True, m_index_ref = False,
      m_deprecated_uid = False, m_restored = False, m_lost_object = False\<rparr>"

definition has_active_op :: "rados_mail \<Rightarrow> bool" where
  "has_active_op m \<longleftrightarrow> m_active_op m > 0"

definition add_metadata :: "rados_metadata \<Rightarrow> rados_mail \<Rightarrow> rados_mail" where
  "add_metadata md m = m\<lparr>m_attrset := smap_put (md_key md) (md_bl md) (m_attrset m)\<rparr>"

definition add_extended_metadata :: "rados_metadata \<Rightarrow> rados_mail \<Rightarrow> rados_mail" where
  "add_extended_metadata md m = m\<lparr>m_extended := smap_put (md_key md) (md_bl md) (m_extended m)\<rparr>"

text \<open>\<open>RadosMail::get_extended_metadata(key)\<close> (a missing key is a null string in the source).\<close>

definition get_extended_metadata :: "string \<Rightarrow> rados_mail \<Rightarrow> bytes option" where
  "get_extended_metadata key m = smap_get key (m_extended m)"

definition mail_wf :: "rados_mail \<Rightarrow> bool" where
  "mail_wf m \<longleftrightarrow> smap_ok (m_attrset m) \<and> smap_ok (m_extended m)"

lemma mail_wf_new: "mail_wf new_rados_mail"
  by (simp add: mail_wf_def new_rados_mail_def)

lemma mail_wf_add [simp]:
  "mail_wf m \<Longrightarrow> mail_wf (add_metadata md m)"
  "mail_wf m \<Longrightarrow> mail_wf (add_extended_metadata md m)"
  by (simp_all add: mail_wf_def add_metadata_def add_extended_metadata_def)

section \<open>The ceph wire encoding\<close>

text \<open>
  \<open>encode_raw\<close> copies the bytes of the (little endian) value. \<open>le_bytes n v\<close> are the \<open>n\<close>
  bytes of \<open>v\<close>; \<open>le_val\<close> reads them back.
\<close>

fun le_bytes :: "nat \<Rightarrow> nat \<Rightarrow> bytes" where
  "le_bytes 0 v = []"
| "le_bytes (Suc n) v = char_of (v mod 256) # le_bytes n (v div 256)"

fun le_val :: "bytes \<Rightarrow> nat" where
  "le_val [] = 0"
| "le_val (c # s) = of_char c + 256 * le_val s"

lemma length_le_bytes [simp]: "length (le_bytes n v) = n"
  by (induction n v rule: le_bytes.induct) auto

lemma le_val_le_bytes: "le_val (le_bytes n v) = v mod 256 ^ n"
proof (induction n v rule: le_bytes.induct)
  case (2 n v)
  then show ?case
    by (simp add: of_char_of mod_mult2_eq)
qed simp

text \<open>\<open>encode\<close> and \<open>decode\<close> of the integer types; decoding past the end of the buffer throws.\<close>

definition encode_le64 :: "64 word \<Rightarrow> bytes" where
  "encode_le64 v = le_bytes 8 (unat v)"

definition encode_le32 :: "32 word \<Rightarrow> bytes" where
  "encode_le32 v = le_bytes 4 (unat v)"

definition encode_le16 :: "16 word \<Rightarrow> bytes" where
  "encode_le16 v = le_bytes 2 (unat v)"

definition decode_raw :: "nat \<Rightarrow> bytes \<Rightarrow> (nat \<times> bytes) option" where
  "decode_raw n p = (if n \<le> length p then Some (le_val (take n p), drop n p) else None)"

definition decode_le64 :: "bytes \<Rightarrow> (64 word \<times> bytes) option" where
  "decode_le64 p = map_option (\<lambda>(v, r). (word_of_nat v, r)) (decode_raw 8 p)"

definition decode_le32 :: "bytes \<Rightarrow> (32 word \<times> bytes) option" where
  "decode_le32 p = map_option (\<lambda>(v, r). (word_of_nat v, r)) (decode_raw 4 p)"

definition decode_le16 :: "bytes \<Rightarrow> (16 word \<times> bytes) option" where
  "decode_le16 p = map_option (\<lambda>(v, r). (word_of_nat v, r)) (decode_raw 2 p)"

definition encode_bool :: "bool \<Rightarrow> bytes" where
  "encode_bool v = [char_of (if v then 1 else 0 :: nat)]"

definition decode_bool :: "bytes \<Rightarrow> (bool \<times> bytes) option" where
  "decode_bool p = map_option (\<lambda>(v, r). (v \<noteq> 0, r)) (decode_raw 1 p)"

text \<open>\<open>encode(const std::string &s, bufferlist &bl)\<close>: a 32 bit length, then the bytes.\<close>

definition encode_string :: "string \<Rightarrow> bytes" where
  "encode_string s = (let len = word_of_nat (length s) :: 32 word in
     encode_le32 len @ (if len \<noteq> 0 then take (unat len) s else []))"

text \<open>\<open>encode(const char *s, bufferlist &bl)\<close>: the same for a C string.\<close>

definition encode_cstring :: "bytes \<Rightarrow> bytes" where
  "encode_cstring s = encode_string (c_str s)"

text \<open>The byte swaps of the header, used only on big endian hosts.\<close>

definition swab16 :: "16 word \<Rightarrow> 16 word" where
  "swab16 val = (drop_bit 8 val) OR (push_bit 8 val)"

definition swab32 :: "32 word \<Rightarrow> 32 word" where
  "swab32 val = (drop_bit 24 val) OR (drop_bit 8 val AND 0xff00) OR
                (push_bit 8 val AND 0xff0000) OR (push_bit 24 val)"

definition swab64 :: "64 word \<Rightarrow> 64 word" where
  "swab64 val = (drop_bit 56 val) OR (drop_bit 40 val AND 0xff00) OR (drop_bit 24 val AND 0xff0000) OR
                (drop_bit 8 val AND 0xff000000) OR (push_bit 8 val AND 0xff00000000) OR
                (push_bit 24 val AND 0xff0000000000) OR (push_bit 40 val AND 0xff000000000000) OR
                (push_bit 56 val)"

lemma unat_bound_bytes:
  "unat (v :: 64 word) < 18446744073709551616"
  "unat (w :: 32 word) < 4294967296"
  "unat (x :: 16 word) < 65536"
  using unsigned_less [where 'a = nat, of v] unsigned_less [where 'a = nat, of w]
    unsigned_less [where 'a = nat, of x] by simp_all

lemma unat_word_of_nat_less: "n < 2 ^ LENGTH('a) \<Longrightarrow> unat (word_of_nat n :: 'a::len word) = n"
  by (simp add: unsigned_of_nat take_bit_nat_eq_self)

lemma decode_encode_le64: "decode_le64 (encode_le64 v @ r) = Some (v, r)"
  by (simp add: decode_le64_def decode_raw_def encode_le64_def le_val_le_bytes
      unat_bound_bytes)

lemma decode_encode_le32: "decode_le32 (encode_le32 v @ r) = Some (v, r)"
  by (simp add: decode_le32_def decode_raw_def encode_le32_def le_val_le_bytes
      unat_bound_bytes)

lemma decode_encode_le16: "decode_le16 (encode_le16 v @ r) = Some (v, r)"
  by (simp add: decode_le16_def decode_raw_def encode_le16_def le_val_le_bytes
      unat_bound_bytes)

lemma decode_encode_bool: "decode_bool (encode_bool b @ r) = Some (b, r)"
  by (simp add: decode_bool_def decode_raw_def encode_bool_def of_char_of)

lemma encode_string_short:
  assumes "length s < 2 ^ 32"
  shows "encode_string s = encode_le32 (word_of_nat (length s)) @ s"
proof -
  have n: "unat (word_of_nat (length s) :: 32 word) = length s"
    using assms by (intro unat_word_of_nat_less) simp
  then have "(word_of_nat (length s) :: 32 word) = 0 \<Longrightarrow> s = []"
    by auto
  with n show ?thesis
    by (auto simp: encode_string_def Let_def)
qed

lemma encode_string_append_inj:
  assumes "length s < 2 ^ 32" and "length t < 2 ^ 32"
    and eq: "encode_string s @ x = encode_string t @ y"
  shows "s = t \<and> x = y"
proof -
  let ?n = "\<lambda>s :: string. word_of_nat (length s) :: 32 word"
  have "encode_le32 (?n s) @ (s @ x) = encode_le32 (?n t) @ (t @ y)"
    using eq assms(1,2) by (simp add: encode_string_short)
  then have "decode_le32 (encode_le32 (?n s) @ (s @ x)) = decode_le32 (encode_le32 (?n t) @ (t @ y))"
    by simp
  then have n: "?n s = ?n t" and r: "s @ x = t @ y"
    by (auto simp: decode_encode_le32)
  have "unat (?n s) = length s" and "unat (?n t) = length t"
    using assms(1,2) unat_word_of_nat_less [where 'a = 32, of "length s"]
      unat_word_of_nat_less [where 'a = 32, of "length t"] by simp_all
  with n have "length s = length t" by metis
  with r show ?thesis by simp
qed

end
