(* ===== verification/Rados_Api.thy ===== *)
theory Rados_Api
  imports Rados_Types "HOL-Library.AList"
begin

text \<open>
  The boundary to \<open>librados\<close>. The library is not part of the repository, so its operations are
  the fields of a record \<open>'w rados\<close> that every definition which calls them takes as an
  argument; \<open>'w\<close> is the unknown state of the cluster. What the plugin relies on is the list of
  named laws below, each a documented effect of one call on the objects of the pool, seen
  through an observer \<open>V :: 'w \<Rightarrow> (obj_key \<rightharpoonup> robj)\<close>. \<open>mem_rados\<close> is one concrete object store
  that satisfies all of them: it is used to evaluate the witnesses, never in the model.
\<close>

section \<open>Handles, objects and write operations\<close>

text \<open>An \<open>librados::IoCtx\<close> names a pool and the current namespace in it.\<close>

record io_ctx =
  ctx_pool :: string
  ctx_ns :: string

definition set_namespace :: "string \<Rightarrow> io_ctx \<Rightarrow> io_ctx" where
  "set_namespace ns c = c\<lparr>ctx_ns := ns\<rparr>"

type_synonym obj_key = "string \<times> string \<times> string"

definition okey :: "io_ctx \<Rightarrow> string \<Rightarrow> obj_key" where
  "okey c oid = (ctx_pool c, ctx_ns c, oid)"

record robj =
  o_data :: bytes
  o_xattrs :: "bytes smap"
  o_omap :: "bytes smap"
  o_mtime :: int

text \<open>A \<open>librados::ObjectWriteOperation\<close> is the list of the steps added to it.\<close>

datatype write_item =
    WSetXattr string bytes
  | WOmapSet "bytes smap"
  | WWrite nat bytes
  | WMtime int
  | WAllocHint nat nat
  | WCopyFrom string io_ctx

type_synonym write_op = "write_item list"

text \<open>The omap reads a \<open>librados::ObjectReadOperation\<close> can hold: given keys, or all keys with a prefix.\<close>

datatype read_item = ROmapKeys "string list" | ROmapPrefix string

record 'w rados =
  rd_operate :: "io_ctx \<Rightarrow> string \<Rightarrow> write_op \<Rightarrow> 'w \<Rightarrow> int \<times> 'w"
  rd_aio_operate :: "io_ctx \<Rightarrow> string \<Rightarrow> write_op \<Rightarrow> 'w \<Rightarrow> int \<times> int \<times> 'w"
  rd_write_full :: "io_ctx \<Rightarrow> string \<Rightarrow> bytes \<Rightarrow> 'w \<Rightarrow> int \<times> 'w"
  rd_append :: "io_ctx \<Rightarrow> string \<Rightarrow> bytes \<Rightarrow> 'w \<Rightarrow> int \<times> 'w"
  rd_read :: "io_ctx \<Rightarrow> string \<Rightarrow> 'w \<Rightarrow> int \<times> bytes \<times> 'w"
  rd_stat :: "io_ctx \<Rightarrow> string \<Rightarrow> 'w \<Rightarrow> int \<times> nat \<times> int \<times> 'w"
  rd_remove :: "io_ctx \<Rightarrow> string \<Rightarrow> 'w \<Rightarrow> int \<times> 'w"
  rd_getxattrs :: "io_ctx \<Rightarrow> string \<Rightarrow> 'w \<Rightarrow> int \<times> bytes smap \<times> 'w"
  rd_setxattr :: "io_ctx \<Rightarrow> string \<Rightarrow> string \<Rightarrow> bytes \<Rightarrow> 'w \<Rightarrow> int \<times> 'w"
  rd_omap_set :: "io_ctx \<Rightarrow> string \<Rightarrow> bytes smap \<Rightarrow> 'w \<Rightarrow> int \<times> 'w"
  rd_omap_rm_keys :: "io_ctx \<Rightarrow> string \<Rightarrow> string list \<Rightarrow> 'w \<Rightarrow> int \<times> 'w"
  rd_omap_get_keys :: "io_ctx \<Rightarrow> string \<Rightarrow> 'w \<Rightarrow> int \<times> string list \<times> 'w"
  rd_omap_get_vals_by_keys ::
    "io_ctx \<Rightarrow> string \<Rightarrow> string list \<Rightarrow> 'w \<Rightarrow> int \<times> bytes smap \<times> 'w"
  rd_exec :: "io_ctx \<Rightarrow> string \<Rightarrow> string \<Rightarrow> string \<Rightarrow> bytes \<Rightarrow> 'w \<Rightarrow> int \<times> 'w"
  rd_objects :: "io_ctx \<Rightarrow> 'w \<Rightarrow> string list"
  rd_objects_from :: "io_ctx \<Rightarrow> 32 word \<Rightarrow> 'w \<Rightarrow> string list"
  rd_objects_filter :: "io_ctx \<Rightarrow> bytes \<Rightarrow> 'w \<Rightarrow> string list"
  rd_read_stat :: "io_ctx \<Rightarrow> string \<Rightarrow> 'w \<Rightarrow> int \<times> bytes \<times> nat \<times> int \<times> 'w"
  rd_aio_read :: "io_ctx \<Rightarrow> string \<Rightarrow> read_item list \<Rightarrow> 'w \<Rightarrow> int \<times> int \<times> (int \<times> bytes smap \<times> bool) list \<times> 'w"

section \<open>The effect of a write operation on one object\<close>

definition empty_robj :: robj where
  "empty_robj = \<lparr>o_data = [], o_xattrs = [], o_omap = [], o_mtime = 0\<rparr>"

definition write_at :: "nat \<Rightarrow> bytes \<Rightarrow> bytes \<Rightarrow> bytes" where
  "write_at off d old =
     take off old @ replicate (off - length old) NUL @ d @ drop (off + length d) old"

definition smap_put_all :: "'v smap \<Rightarrow> 'v smap \<Rightarrow> 'v smap" where
  "smap_put_all kvs m = foldl (\<lambda>m (k, v). smap_put k v m) m kvs"

fun apply_item :: "(obj_key \<rightharpoonup> robj) \<Rightarrow> write_item \<Rightarrow> robj \<Rightarrow> robj" where
  "apply_item st (WSetXattr k v) ob = ob\<lparr>o_xattrs := smap_put k v (o_xattrs ob)\<rparr>"
| "apply_item st (WOmapSet m) ob = ob\<lparr>o_omap := smap_put_all m (o_omap ob)\<rparr>"
| "apply_item st (WWrite off d) ob = ob\<lparr>o_data := write_at off d (o_data ob)\<rparr>"
| "apply_item st (WMtime t) ob = ob\<lparr>o_mtime := t\<rparr>"
| "apply_item st (WAllocHint a b) ob = ob"
| "apply_item st (WCopyFrom src c) ob = (case st (okey c src) of None \<Rightarrow> ob | Some s \<Rightarrow> s)"

definition apply_op :: "(obj_key \<rightharpoonup> robj) \<Rightarrow> write_op \<Rightarrow> robj \<Rightarrow> robj" where
  "apply_op st op ob = foldl (\<lambda>ob i. apply_item st i ob) ob op"

definition obj_or_new :: "(obj_key \<rightharpoonup> robj) \<Rightarrow> obj_key \<Rightarrow> robj" where
  "obj_or_new st k = (case st k of None \<Rightarrow> empty_robj | Some ob \<Rightarrow> ob)"

lemma apply_op_append: "apply_op st (xs @ ys) ob = apply_op st ys (apply_op st xs ob)"
  by (simp add: apply_op_def)

lemma apply_op_simps [simp]:
  "apply_op st [] ob = ob"
  "apply_op st (i # op) ob = apply_op st op (apply_item st i ob)"
  by (simp_all add: apply_op_def)

lemma obj_or_new_Some [simp]: "st k = Some ob \<Longrightarrow> obj_or_new st k = ob"
  by (simp add: obj_or_new_def)

lemma map_of_smap_put_all: "distinct (map fst kvs) \<Longrightarrow> map_of (smap_put_all kvs m) = map_of m ++ map_of kvs"
  unfolding smap_put_all_def
proof (induction kvs arbitrary: m)
  case (Cons p kvs)
  obtain k v where p: "p = (k, v)" by (cases p)
  have "map_of kvs k = None"
    using Cons.prems p by (simp add: map_of_eq_None_iff)
  with Cons p show ?case
    by (auto simp: map_add_def fun_eq_iff split: option.splits)
qed simp

lemma smap_ok_put_all: "smap_ok m \<Longrightarrow> smap_ok (smap_put_all kvs m)"
  unfolding smap_put_all_def by (induction kvs arbitrary: m) auto

lemma smap_put_all_empty: "smap_ok kvs \<Longrightarrow> smap_put_all kvs [] = kvs"
  by (intro smap_ext)
     (auto simp: smap_ok_put_all map_of_smap_put_all smap_ok_distinct)

lemma write_at_0_empty [simp]: "write_at 0 d [] = d"
  by (simp add: write_at_def)

lemma write_at_end: "write_at (length old) d old = old @ d"
  by (simp add: write_at_def)

section \<open>What the plugin relies on\<close>

text \<open>
  A write operation that reports success has been applied to its object, and to nothing else.
  Every write also sets the modification time to some \<open>t\<close>, unless the operation gives one.
\<close>

definition touched :: "int \<Rightarrow> (obj_key \<rightharpoonup> robj) \<Rightarrow> obj_key \<Rightarrow> robj" where
  "touched t st k = (obj_or_new st k)\<lparr>o_mtime := t\<rparr>"

lemma touched_same: "touched (o_mtime (obj_or_new st k)) st k = obj_or_new st k"
  by (simp add: touched_def)

lemma touched_sel [simp]:
  "o_data (touched t st k) = o_data (obj_or_new st k)"
  "o_xattrs (touched t st k) = o_xattrs (obj_or_new st k)"
  "o_omap (touched t st k) = o_omap (obj_or_new st k)"
  "o_mtime (touched t st k) = t"
  by (simp_all add: touched_def)

definition law_operate :: "'w rados \<Rightarrow> ('w \<Rightarrow> obj_key \<rightharpoonup> robj) \<Rightarrow> bool" where
  "law_operate R V \<longleftrightarrow> (\<forall>c oid op w r w'. rd_operate R c oid op w = (r, w') \<longrightarrow> 0 \<le> r \<longrightarrow>
     (\<exists>t. V w' = (V w)(okey c oid \<mapsto> apply_op (V w) op (touched t (V w) (okey c oid)))))"

text \<open>The same for the asynchronous call: it was queued and its completion reports success.\<close>

definition law_aio_operate :: "'w rados \<Rightarrow> ('w \<Rightarrow> obj_key \<rightharpoonup> robj) \<Rightarrow> bool" where
  "law_aio_operate R V \<longleftrightarrow>
     (\<forall>c oid op w r cr w'. rd_aio_operate R c oid op w = (r, cr, w') \<longrightarrow> 0 \<le> r \<longrightarrow> 0 \<le> cr \<longrightarrow>
        (\<exists>t. V w' = (V w)(okey c oid \<mapsto> apply_op (V w) op (touched t (V w) (okey c oid)))))"

definition law_write_full :: "'w rados \<Rightarrow> ('w \<Rightarrow> obj_key \<rightharpoonup> robj) \<Rightarrow> bool" where
  "law_write_full R V \<longleftrightarrow> (\<forall>c oid d w r w'. rd_write_full R c oid d w = (r, w') \<longrightarrow> 0 \<le> r \<longrightarrow>
     (\<exists>t. V w' = (V w)(okey c oid \<mapsto> (touched t (V w) (okey c oid))\<lparr>o_data := d\<rparr>)))"

definition law_append :: "'w rados \<Rightarrow> ('w \<Rightarrow> obj_key \<rightharpoonup> robj) \<Rightarrow> bool" where
  "law_append R V \<longleftrightarrow> (\<forall>c oid d w r w'. rd_append R c oid d w = (r, w') \<longrightarrow> 0 \<le> r \<longrightarrow>
     (\<exists>t. V w' = (V w)(okey c oid \<mapsto>
       (let ob = touched t (V w) (okey c oid) in ob\<lparr>o_data := o_data ob @ d\<rparr>))))"

text \<open>
  Reading calls change nothing; a successful one returns what the object holds. \<open>read\<close> returns the number of bytes it
  read; the callers ask for up to \<open>INT_MAX\<close> bytes, which is more than an object of a cluster can have
  (\<open>osd_max_object_size\<close>).
\<close>

definition law_read :: "'w rados \<Rightarrow> ('w \<Rightarrow> obj_key \<rightharpoonup> robj) \<Rightarrow> bool" where
  "law_read R V \<longleftrightarrow> (\<forall>c oid w r b w'. rd_read R c oid w = (r, b, w') \<longrightarrow>
     V w' = V w \<and> (0 \<le> r \<longrightarrow> r = int (length b) \<and> (\<exists>ob. V w (okey c oid) = Some ob \<and> b = o_data ob)))"

definition law_stat :: "'w rados \<Rightarrow> ('w \<Rightarrow> obj_key \<rightharpoonup> robj) \<Rightarrow> bool" where
  "law_stat R V \<longleftrightarrow> (\<forall>c oid w r n t w'. rd_stat R c oid w = (r, n, t, w') \<longrightarrow>
     V w' = V w \<and> (0 \<le> r \<longrightarrow> (\<exists>ob. V w (okey c oid) = Some ob \<and> n = length (o_data ob) \<and> t = o_mtime ob)))"

definition law_getxattrs :: "'w rados \<Rightarrow> ('w \<Rightarrow> obj_key \<rightharpoonup> robj) \<Rightarrow> bool" where
  "law_getxattrs R V \<longleftrightarrow> (\<forall>c oid w r m w'. rd_getxattrs R c oid w = (r, m, w') \<longrightarrow>
     V w' = V w \<and> (0 \<le> r \<longrightarrow> (\<exists>ob. V w (okey c oid) = Some ob \<and> m = o_xattrs ob)))"

definition law_setxattr :: "'w rados \<Rightarrow> ('w \<Rightarrow> obj_key \<rightharpoonup> robj) \<Rightarrow> bool" where
  "law_setxattr R V \<longleftrightarrow> (\<forall>c oid k v w r w'. rd_setxattr R c oid k v w = (r, w') \<longrightarrow> 0 \<le> r \<longrightarrow>
     (\<exists>t. V w' = (V w)(okey c oid \<mapsto> apply_item (V w) (WSetXattr k v) (touched t (V w) (okey c oid)))))"

definition law_omap_set :: "'w rados \<Rightarrow> ('w \<Rightarrow> obj_key \<rightharpoonup> robj) \<Rightarrow> bool" where
  "law_omap_set R V \<longleftrightarrow> (\<forall>c oid m w r w'. rd_omap_set R c oid m w = (r, w') \<longrightarrow> 0 \<le> r \<longrightarrow>
     (\<exists>t. V w' = (V w)(okey c oid \<mapsto> apply_item (V w) (WOmapSet m) (touched t (V w) (okey c oid)))))"

definition law_omap_rm_keys :: "'w rados \<Rightarrow> ('w \<Rightarrow> obj_key \<rightharpoonup> robj) \<Rightarrow> bool" where
  "law_omap_rm_keys R V \<longleftrightarrow> (\<forall>c oid ks w r w'. rd_omap_rm_keys R c oid ks w = (r, w') \<longrightarrow> 0 \<le> r \<longrightarrow>
     (\<exists>t. V w' = (V w)(okey c oid \<mapsto> (let ob = touched t (V w) (okey c oid) in
       ob\<lparr>o_omap := filter (\<lambda>p. fst p \<notin> set ks) (o_omap ob)\<rparr>))))"

definition law_omap_get_keys :: "'w rados \<Rightarrow> ('w \<Rightarrow> obj_key \<rightharpoonup> robj) \<Rightarrow> bool" where
  "law_omap_get_keys R V \<longleftrightarrow> (\<forall>c oid w r ks w'. rd_omap_get_keys R c oid w = (r, ks, w') \<longrightarrow>
     V w' = V w \<and> (0 \<le> r \<longrightarrow> (\<exists>ob. V w (okey c oid) = Some ob \<and> ks = map fst (o_omap ob))))"

definition law_omap_get_vals :: "'w rados \<Rightarrow> ('w \<Rightarrow> obj_key \<rightharpoonup> robj) \<Rightarrow> bool" where
  "law_omap_get_vals R V \<longleftrightarrow> (\<forall>c oid ks w r m w'. rd_omap_get_vals_by_keys R c oid ks w = (r, m, w') \<longrightarrow>
     V w' = V w \<and> (0 \<le> r \<longrightarrow> (\<exists>ob. V w (okey c oid) = Some ob \<and>
        m = filter (\<lambda>p. fst p \<in> set ks) (o_omap ob))))"

definition law_remove :: "'w rados \<Rightarrow> ('w \<Rightarrow> obj_key \<rightharpoonup> robj) \<Rightarrow> bool" where
  "law_remove R V \<longleftrightarrow> (\<forall>c oid w r w'. rd_remove R c oid w = (r, w') \<longrightarrow> 0 \<le> r \<longrightarrow>
     V w' = (V w)(okey c oid := None))"

text \<open>
  The \<open>numops\<close> object class: \<open>add\<close> reads the number stored under a key of the omap (0 when the
  key is missing) and stores the sum as text. The class computes with floating point numbers and
  prints few digits, so the law speaks only of stored integers and of sums below a million.
\<close>

definition counter :: "bytes option \<Rightarrow> int" where
  "counter v = (case v of None \<Rightarrow> 0 | Some b \<Rightarrow> (case stol b of Inl _ \<Rightarrow> 0 | Inr i \<Rightarrow> i))"

definition is_counter :: "bytes option \<Rightarrow> bool" where
  "is_counter v \<longleftrightarrow> v = None \<or> v = Some (int_to_string (counter v))"

definition addable :: "bytes option \<Rightarrow> int \<Rightarrow> bool" where
  "addable v d \<longleftrightarrow> is_counter v \<and> \<bar>d\<bar> < 1000000 \<and> \<bar>counter v + d\<bar> < 1000000"

definition omap_add :: "string \<Rightarrow> int \<Rightarrow> robj \<Rightarrow> robj" where
  "omap_add k d ob = ob\<lparr>o_omap := smap_put k (int_to_string (counter (smap_get k (o_omap ob)) + d)) (o_omap ob)\<rparr>"

definition law_numops_add :: "'w rados \<Rightarrow> ('w \<Rightarrow> obj_key \<rightharpoonup> robj) \<Rightarrow> bool" where
  "law_numops_add R V \<longleftrightarrow> (\<forall>c oid k d w r w'. length k < 2 ^ 32 \<longrightarrow>
     addable (smap_get k (o_omap (obj_or_new (V w) (okey c oid)))) d \<longrightarrow>
     rd_exec R c oid ''numops'' ''add'' (encode_string k @ encode_string (int_to_string d)) w = (r, w')
       \<longrightarrow> 0 \<le> r \<longrightarrow>
     (\<exists>t. V w' = (V w)(okey c oid \<mapsto> omap_add k d (touched t (V w) (okey c oid)))))"

text \<open>\<open>nobjects_begin()\<close> iterates over the objects of the namespace.\<close>

definition law_objects :: "'w rados \<Rightarrow> ('w \<Rightarrow> obj_key \<rightharpoonup> robj) \<Rightarrow> bool" where
  "law_objects R V \<longleftrightarrow> (\<forall>c w. set (rd_objects R c w) = {oid. V w (okey c oid) \<noteq> None})"

text \<open>
  \<open>nobjects_begin(position)\<close> starts at a hash position and iterates to the end: only objects of the
  namespace, and all of them from position 0.
\<close>

definition law_objects_from :: "'w rados \<Rightarrow> ('w \<Rightarrow> obj_key \<rightharpoonup> robj) \<Rightarrow> bool" where
  "law_objects_from R V \<longleftrightarrow> (\<forall>c p w. set (rd_objects_from R c p w) \<subseteq> {oid. V w (okey c oid) \<noteq> None} \<and>
     (p = 0 \<longrightarrow> set (rd_objects_from R c p w) = {oid. V w (okey c oid) \<noteq> None}))"

text \<open>
  With a filter: the \<open>plain\<close> filter of the OSD selects the objects whose raw attribute (an
  underscore and the name of the extended attribute) has the given value.
\<close>

definition plain_filter :: "string \<Rightarrow> bytes \<Rightarrow> bytes" where
  "plain_filter k v = encode_string ''plain'' @ encode_string (''_'' @ k) @ encode_string v"

definition law_objects_filter :: "'w rados \<Rightarrow> ('w \<Rightarrow> obj_key \<rightharpoonup> robj) \<Rightarrow> bool" where
  "law_objects_filter R V \<longleftrightarrow> (\<forall>c k v w. length k + 1 < 2 ^ 32 \<longrightarrow> length v < 2 ^ 32 \<longrightarrow>
     set (rd_objects_filter R c (plain_filter k v) w) =
     {oid. \<exists>ob. V w (okey c oid) = Some ob \<and> smap_get k (o_xattrs ob) = Some v})"

text \<open>
  A read operation yields the result of its submission, the one of its completion and, for every read it holds, a
  result with the entries and the flag \<open>more\<close>. The OSD bounds what one answer carries
  (\<open>osd_max_omap_entries_per_request\<close>, \<open>osd_max_omap_bytes_per_request\<close>), whatever number the caller asks for:
  \<open>fits\<close> says which entries are within the bounds. An answer to a read by prefix that is cut off has the first entries only
  and sets \<open>more\<close>; a read by keys returns all of them.
\<close>

fun read_omap :: "read_item \<Rightarrow> bytes smap \<Rightarrow> bytes smap" where
  "read_omap (ROmapKeys ks) m = filter (\<lambda>p. fst p \<in> set ks) m"
| "read_omap (ROmapPrefix k) m = filter (\<lambda>p. starts_with k (fst p)) m"

fun law_answer :: "(bytes smap \<Rightarrow> bool) \<Rightarrow> read_item \<Rightarrow> bytes smap \<Rightarrow> bytes smap \<times> bool \<Rightarrow> bool" where
  "law_answer fits rd m (a, trunc) \<longleftrightarrow> (\<exists>n. a = take n (read_omap rd m)) \<and> (\<not> trunc \<longrightarrow> a = read_omap rd m) \<and>
     (case rd of ROmapKeys _ \<Rightarrow> \<not> trunc | ROmapPrefix _ \<Rightarrow> fits (read_omap rd m) \<longrightarrow> \<not> trunc)"

lemma law_answer_all: "law_answer fits rd m (read_omap rd m, False)"
  by (auto intro: exI [of _ "length (read_omap rd m)"] split: read_item.splits)

definition law_aio_read :: "'w rados \<Rightarrow> (bytes smap \<Rightarrow> bool) \<Rightarrow> ('w \<Rightarrow> obj_key \<rightharpoonup> robj) \<Rightarrow> bool" where
  "law_aio_read R fits V \<longleftrightarrow> (\<forall>c oid op w r cr res w'. rd_aio_read R c oid op w = (r, cr, res, w') \<longrightarrow>
     V w' = V w \<and> length res = length op \<and>
     (0 \<le> r \<and> 0 \<le> cr \<longrightarrow> (\<exists>ob. V w (okey c oid) = Some ob \<and>
        (\<forall>i < length op. 0 \<le> fst (res ! i) \<longrightarrow> law_answer fits (op ! i) (o_omap ob) (snd (res ! i))))))"

text \<open>Reading up to \<open>INT_MAX\<close> bytes and the size and time of an object in one operation.\<close>

definition law_read_stat :: "'w rados \<Rightarrow> ('w \<Rightarrow> obj_key \<rightharpoonup> robj) \<Rightarrow> bool" where
  "law_read_stat R V \<longleftrightarrow> (\<forall>c oid w r b n t w'. rd_read_stat R c oid w = (r, b, n, t, w') \<longrightarrow>
     V w' = V w \<and> (0 \<le> r \<longrightarrow> (\<exists>ob. V w (okey c oid) = Some ob \<and> (int (length (o_data ob)) \<le> INT_MAX \<longrightarrow> b = o_data ob) \<and>
        n = length (o_data ob) \<and> t = o_mtime ob)))"

lemmas rados_laws =
  law_operate_def law_aio_operate_def law_write_full_def law_append_def law_read_def law_stat_def
  law_getxattrs_def law_setxattr_def law_omap_set_def law_omap_rm_keys_def law_omap_get_keys_def
  law_omap_get_vals_def law_remove_def law_numops_add_def law_objects_def

section \<open>A concrete object store\<close>

text \<open>
  An in-memory store: the state lists the objects. Writes always succeed, reads and removals of
  a missing object report \<open>-ENOENT\<close>. It shows that the laws can hold together.
\<close>

type_synonym mem = "(obj_key \<times> robj) list"

definition mem_set :: "io_ctx \<Rightarrow> string \<Rightarrow> (robj \<Rightarrow> robj) \<Rightarrow> mem \<Rightarrow> int \<times> mem" where
  "mem_set c oid f w = (0, AList.update (okey c oid) (f (obj_or_new (map_of w) (okey c oid))) w)"

definition mem_get :: "io_ctx \<Rightarrow> string \<Rightarrow> (robj \<Rightarrow> 'a) \<Rightarrow> 'a \<Rightarrow> mem \<Rightarrow> int \<times> 'a" where
  "mem_get c oid f d w = (case map_of w (okey c oid) of None \<Rightarrow> (- ENOENT, d) | Some ob \<Rightarrow> (0, f ob))"

definition decode_string :: "bytes \<Rightarrow> string \<times> bytes" where
  "decode_string p = (case decode_le32 p of None \<Rightarrow> ([], [])
     | Some (n, r) \<Rightarrow> (take (unat n) r, drop (unat n) r))"

definition mem_numops :: "io_ctx \<Rightarrow> string \<Rightarrow> string \<Rightarrow> string \<Rightarrow> bytes \<Rightarrow> mem \<Rightarrow> int \<times> mem" where
  "mem_numops c oid cls meth inp w =
     (let (k, r) = decode_string inp; (v, _) = decode_string r in
      case stol v of Inl _ \<Rightarrow> (-22, w) | Inr d \<Rightarrow> mem_set c oid (omap_add k d) w)"

definition mem_objects :: "io_ctx \<Rightarrow> mem \<Rightarrow> string list" where
  "mem_objects c w = map (\<lambda>(k, _). snd (snd k))
     (filter (\<lambda>(k, _). fst k = ctx_pool c \<and> fst (snd k) = ctx_ns c) w)"

definition mem_filter :: "io_ctx \<Rightarrow> bytes \<Rightarrow> mem \<Rightarrow> string list" where
  "mem_filter c f w =
     (let (_, r) = decode_string f; (k, r') = decode_string r; (v, _) = decode_string r' in
      filter (\<lambda>oid. case map_of w (okey c oid) of None \<Rightarrow> False
                | Some ob \<Rightarrow> smap_get (tl k) (o_xattrs ob) = Some v) (mem_objects c w))"

definition mem_rados :: "mem rados" where
  "mem_rados =
     \<lparr>rd_operate = (\<lambda>c oid op w. mem_set c oid (apply_op (map_of w) op) w),
      rd_aio_operate = (\<lambda>c oid op w. (0, 0, snd (mem_set c oid (apply_op (map_of w) op) w))),
      rd_write_full = (\<lambda>c oid d w. mem_set c oid (\<lambda>ob. ob\<lparr>o_data := d\<rparr>) w),
      rd_append = (\<lambda>c oid d w. mem_set c oid (\<lambda>ob. ob\<lparr>o_data := o_data ob @ d\<rparr>) w),
      rd_read = (\<lambda>c oid w. case mem_get c oid o_data [] w of (r, b) \<Rightarrow> (if r < 0 then r else int (length b), b, w)),
      rd_stat = (\<lambda>c oid w. case mem_get c oid (\<lambda>ob. (length (o_data ob), o_mtime ob)) (0, 0) w of
                   (r, n, t) \<Rightarrow> (r, n, t, w)),
      rd_remove = (\<lambda>c oid w. if map_of w (okey c oid) = None then (- ENOENT, w)
                             else (0, AList.delete (okey c oid) w)),
      rd_getxattrs = (\<lambda>c oid w. case mem_get c oid o_xattrs [] w of (r, m) \<Rightarrow> (r, m, w)),
      rd_setxattr = (\<lambda>c oid k v w. mem_set c oid (apply_item (map_of w) (WSetXattr k v)) w),
      rd_omap_set = (\<lambda>c oid m w. mem_set c oid (apply_item (map_of w) (WOmapSet m)) w),
      rd_omap_rm_keys = (\<lambda>c oid ks w. mem_set c oid
                   (\<lambda>ob. ob\<lparr>o_omap := filter (\<lambda>p. fst p \<notin> set ks) (o_omap ob)\<rparr>) w),
      rd_omap_get_keys = (\<lambda>c oid w. case mem_get c oid (\<lambda>ob. map fst (o_omap ob)) [] w of
                   (r, ks) \<Rightarrow> (r, ks, w)),
      rd_omap_get_vals_by_keys = (\<lambda>c oid ks w.
                   case mem_get c oid (\<lambda>ob. filter (\<lambda>p. fst p \<in> set ks) (o_omap ob)) [] w of
                   (r, m) \<Rightarrow> (r, m, w)),
      rd_exec = mem_numops,
      rd_objects = mem_objects,
      rd_objects_from = (\<lambda>c _. mem_objects c),
      rd_objects_filter = mem_filter,
      rd_read_stat = (\<lambda>c oid w. case mem_get c oid (\<lambda>ob. (o_data ob, length (o_data ob), o_mtime ob)) ([], 0, 0) w of
                   (r, b, n, t) \<Rightarrow> (r, b, n, t, w)),
      rd_aio_read = (\<lambda>c oid op w. case map_of w (okey c oid) of
                   None \<Rightarrow> (0, - ENOENT, map (\<lambda>_. (- ENOENT, [], False)) op, w)
                 | Some ob \<Rightarrow> (0, 0, map (\<lambda>i. (0, read_omap i (o_omap ob), False)) op, w))\<rparr>"

lemma mem_set_view: "map_of (snd (mem_set c oid f w)) =
    (map_of w)(okey c oid \<mapsto> f (obj_or_new (map_of w) (okey c oid)))"
  by (simp add: mem_set_def update_conv')

lemma decode_encode_string: "length s < 2 ^ 32 \<Longrightarrow> decode_string (encode_string s @ r) = (s, r)"
  using unat_word_of_nat_less [where 'a = 32, of "length s"]
  by (simp add: decode_string_def encode_string_short decode_encode_le32)

lemma mem_numops_view:
  assumes "length k < 2 ^ 32" and "- 9223372036854775808 \<le> d" and "d \<le> LONG_MAX"
  shows "mem_numops c oid cls meth (encode_string k @ encode_string (int_to_string d)) w =
         mem_set c oid (omap_add k d) w"
proof -
  have "length (int_to_string d) < 2 ^ 32"
    using length_int_to_string [OF assms(2,3)] by simp
  then have "decode_string (encode_string (int_to_string d)) = (int_to_string d, [])"
    using decode_encode_string [of "int_to_string d" "[]"] by simp
  then show ?thesis
    using assms by (simp add: mem_numops_def decode_encode_string stol_to_string)
qed

lemma mem_objects_iff: "oid \<in> set (mem_objects c w) \<longleftrightarrow> map_of w (okey c oid) \<noteq> None"
proof -
  have "oid \<in> set (mem_objects c w) \<longleftrightarrow> okey c oid \<in> fst ` set w"
    by (auto simp: mem_objects_def okey_def image_iff Bex_def)
  then show ?thesis by (simp add: map_of_eq_None_iff)
qed

lemma mem_law_objects: "law_objects mem_rados map_of"
  using mem_objects_iff by (auto simp: law_objects_def mem_rados_def)

lemma mem_law_objects_filter: "law_objects_filter mem_rados map_of"
proof -
  have "oid \<in> set (mem_filter c (plain_filter k v) w) \<longleftrightarrow>
        (\<exists>ob. map_of w (okey c oid) = Some ob \<and> smap_get k (o_xattrs ob) = Some v)"
    if "length k + 1 < 2 ^ 32" and "length v < 2 ^ 32" for c k v w oid
  proof -
    have "decode_string (plain_filter k v) = (''plain'', encode_string (''_'' @ k) @ encode_string v)"
      unfolding plain_filter_def by (rule decode_encode_string) simp
    moreover have "decode_string (encode_string (''_'' @ k) @ encode_string v) = (''_'' @ k, encode_string v)"
      using that by (intro decode_encode_string) simp
    moreover have "decode_string (encode_string v) = (v, [])"
      using decode_encode_string [of v "[]"] that by simp
    ultimately show ?thesis
      by (auto simp: mem_filter_def mem_objects_iff split: option.splits)
  qed
  then show ?thesis by (auto simp: law_objects_filter_def mem_rados_def)
qed

lemma mem_set_law:
  "mem_set c oid f w = (r, w') \<Longrightarrow>
   \<exists>t. map_of w' = (map_of w)(okey c oid \<mapsto> f (touched t (map_of w) (okey c oid)))"
  by (metis mem_set_view snd_conv touched_same)

lemma mem_write_laws:
  "law_operate mem_rados map_of" "law_write_full mem_rados map_of" "law_append mem_rados map_of"
  "law_setxattr mem_rados map_of" "law_omap_set mem_rados map_of" "law_omap_rm_keys mem_rados map_of"
  "law_numops_add mem_rados map_of"
  by (auto simp: rados_laws mem_rados_def mem_numops_view addable_def Let_def dest!: mem_set_law)

lemma mem_law_aio: "law_aio_operate mem_rados map_of"
  unfolding law_aio_operate_def mem_rados_def
  by (auto intro: mem_set_law [OF surjective_pairing])

lemma mem_rados_laws:
  "law_operate mem_rados map_of" "law_aio_operate mem_rados map_of"
  "law_write_full mem_rados map_of" "law_append mem_rados map_of"
  "law_read mem_rados map_of" "law_stat mem_rados map_of"
  "law_getxattrs mem_rados map_of" "law_setxattr mem_rados map_of"
  "law_omap_set mem_rados map_of" "law_omap_rm_keys mem_rados map_of"
  "law_omap_get_keys mem_rados map_of" "law_omap_get_vals mem_rados map_of"
  "law_remove mem_rados map_of" "law_numops_add mem_rados map_of" "law_objects mem_rados map_of"
  "law_objects_filter mem_rados map_of" "law_aio_read mem_rados fits map_of"
  using mem_law_objects mem_law_objects_filter mem_write_laws mem_law_aio
  by (auto simp: law_aio_read_def law_read_def law_stat_def law_getxattrs_def law_omap_get_keys_def law_omap_get_vals_def
      law_remove_def mem_rados_def mem_get_def delete_conv' law_answer_all simp del: law_answer.simps
      split: option.splits if_splits)

lemma mem_law_objects_from: "law_objects_from mem_rados map_of"
  using mem_law_objects by (simp add: law_objects_from_def law_objects_def mem_rados_def)

lemma mem_law_read_stat: "law_read_stat mem_rados map_of"
  by (auto simp: law_read_stat_def mem_rados_def mem_get_def split: option.splits)

text \<open>The cluster accepts and completes every asynchronous write.\<close>

definition aio_succeeds :: "'w rados \<Rightarrow> bool" where
  "aio_succeeds R \<longleftrightarrow> (\<forall>c oid op w r cr w'. rd_aio_operate R c oid op w = (r, cr, w') \<longrightarrow> r = 0 \<and> cr = 0)"

lemma mem_aio_succeeds: "aio_succeeds mem_rados"
  by (simp add: aio_succeeds_def mem_rados_def)

text \<open>A cluster that answers every \<open>stat\<close>, and removes every object that is there.\<close>

definition stats_succeed :: "'w rados \<Rightarrow> ('w \<Rightarrow> obj_key \<rightharpoonup> robj) \<Rightarrow> bool" where
  "stats_succeed R V \<longleftrightarrow> (\<forall>c oid w. 0 \<le> fst (rd_stat R c oid w) \<longleftrightarrow> V w (okey c oid) \<noteq> None)"

definition removes_existing :: "'w rados \<Rightarrow> ('w \<Rightarrow> obj_key \<rightharpoonup> robj) \<Rightarrow> bool" where
  "removes_existing R V \<longleftrightarrow> (\<forall>c oid w. V w (okey c oid) \<noteq> None \<longrightarrow> fst (rd_remove R c oid w) = 0)"

lemma mem_answers: "stats_succeed mem_rados map_of" "removes_existing mem_rados map_of"
  by (auto simp: stats_succeed_def removes_existing_def mem_rados_def mem_get_def split: option.split)

end
