(* ===== verification/Rados_Util.thy ===== *)
theory Rados_Util
  imports Rados_Api
begin

text \<open>
  \<open>RadosUtils\<close> (\<open>src/src/librmb/rados-util.cpp\<close>): number and flag conversions, text
  replacement, metadata lookup and validation, the parsers of the monitor output, and the text
  format of the ceph index. Date conversion depends on the locale of the host, so the C library
  calls are the parameters \<open>parse_date\<close> (\<open>strptime\<close> and \<open>mktime\<close>) and \<open>fmt_date\<close>
  (\<open>localtime_r\<close> and \<open>strftime\<close>).
\<close>

section \<open>Dates and numbers\<close>

definition convert_str_to_time_t :: "(string \<Rightarrow> int option) \<Rightarrow> string \<Rightarrow> bool \<times> int" where
  "convert_str_to_time_t parse_date date =
     (case parse_date date of Some t \<Rightarrow> (True, t) | None \<Rightarrow> (False, 0))"

definition convert_string_to_date :: "(string \<Rightarrow> int option) \<Rightarrow> string \<Rightarrow> string option" where
  "convert_string_to_date parse_date date_string =
     (case convert_str_to_time_t parse_date date_string of
        (True, t) \<Rightarrow> Some (int_to_string t) | (False, _) \<Rightarrow> None)"

text \<open>A \<open>const char *\<close> argument is \<^const>\<open>None\<close> for \<open>NULL\<close>.\<close>

fun is_numeric_loop :: "string \<Rightarrow> bool" where
  "is_numeric_loop [] = True"
| "is_numeric_loop (c # s) = (if \<not> isdigit c then False else is_numeric_loop s)"

definition is_numeric :: "bytes option \<Rightarrow> bool" where
  "is_numeric s = (case s of None \<Rightarrow> False | Some b \<Rightarrow> is_numeric_loop (c_str b))"

definition is_numeric_optional :: "bytes option \<Rightarrow> bool" where
  "is_numeric_optional text = (case text of None \<Rightarrow> True | Some b \<Rightarrow> is_numeric (Some b))"

definition is_date_attribute :: "rbox_metadata_key \<Rightarrow> bool" where
  "is_date_attribute key \<longleftrightarrow> key = RBOX_METADATA_OLDV1_SAVE_TIME \<or> key = RBOX_METADATA_RECEIVED_TIME"

definition convert_time_t_to_str :: "(int \<Rightarrow> string) \<Rightarrow> int \<Rightarrow> int \<times> string" where
  "convert_time_t_to_str fmt_date t =
     (if t = -1 then (-1, ''invalid date'') else (0, fmt_date t))"

section \<open>Flags\<close>

text \<open>
  \<open>std::hex\<close> does not apply to \<open>uint8_t\<close>: the stream prints and reads it as one character.
  Reading the string back skips white space, so a white space character is not found and the
  output keeps its old value.
\<close>

definition flags_to_string :: "8 word \<Rightarrow> string \<Rightarrow> bool \<times> string" where
  "flags_to_string fl old = (let c = char_of (unat fl) in (True, if isspace c then old else [c]))"

definition string_to_flags :: "string \<Rightarrow> 8 word option" where
  "string_to_flags s = (case dropWhile isspace s of [] \<Rightarrow> None | c # _ \<Rightarrow> Some (word_of_nat (of_char c)))"

definition resolve_flags :: "8 word \<Rightarrow> string" where
  "resolve_flags fl =
     (if fl AND 0x01 \<noteq> 0 then CHR 0x5C # ''Answered '' else []) @
     (if fl AND 0x02 \<noteq> 0 then CHR 0x5C # ''Flagged '' else []) @
     (if fl AND 0x04 \<noteq> 0 then CHR 0x5C # ''Deleted '' else []) @
     (if fl AND 0x08 \<noteq> 0 then CHR 0x5C # ''Seen '' else []) @
     (if fl AND 0x10 \<noteq> 0 then CHR 0x5C # ''Draft '' else []) @
     (if fl AND 0x20 \<noteq> 0 then CHR 0x5C # ''Recent '' else [])"

section \<open>find\_and\_replace\<close>

text \<open>\<open>source->find(find, i)\<close>: \<open>npos\<close> when \<open>i\<close> is past the end.\<close>

definition str_find_from :: "string \<Rightarrow> string \<Rightarrow> nat \<Rightarrow> nat option" where
  "str_find_from n s i = (if i \<le> length s then map_option ((+) i) (str_find n (drop i s)) else None)"

text \<open>The loop may run forever (an empty search text), which is the value \<^const>\<open>None\<close>.\<close>

partial_function (option) find_and_replace_loop ::
    "string \<Rightarrow> string \<Rightarrow> string \<Rightarrow> nat \<Rightarrow> string option" where
  "find_and_replace_loop sub repl src i =
     (case str_find_from sub src i of
        None \<Rightarrow> Some src
      | Some j \<Rightarrow> find_and_replace_loop sub repl
                    (take j src @ repl @ drop (j + length sub) src) (j + length repl))"

definition find_and_replace :: "string \<Rightarrow> string \<Rightarrow> string \<Rightarrow> string option" where
  "find_and_replace source sub repl = find_and_replace_loop sub repl source 0"

section \<open>Access to omap and metadata\<close>

definition get_all_keys_and_values ::
    "'w rados \<Rightarrow> io_ctx \<Rightarrow> string \<Rightarrow> bytes smap \<Rightarrow> 'w \<Rightarrow> int \<times> bytes smap \<times> 'w" where
  "get_all_keys_and_values R c oid kv_map w =
     (case rd_omap_get_keys R c oid w of (ret, ks, w1) \<Rightarrow>
        if ret < 0 then (ret, kv_map, w1)
        else rd_omap_get_vals_by_keys R c oid ks w1)"

definition osd_add :: "'w rados \<Rightarrow> io_ctx \<Rightarrow> string \<Rightarrow> string \<Rightarrow> int \<Rightarrow> 'w \<Rightarrow> int \<times> 'w" where
  "osd_add R c oid key value_to_add w =
     rd_exec R c oid ''numops'' ''add''
       (encode_string key @ encode_string (int_to_string value_to_add)) w"

definition osd_sub :: "'w rados \<Rightarrow> io_ctx \<Rightarrow> string \<Rightarrow> string \<Rightarrow> int \<Rightarrow> 'w \<Rightarrow> int \<times> 'w" where
  "osd_sub R c oid key value_to_subtract w = osd_add R c oid key (- value_to_subtract) w"

text \<open>\<open>get_metadata\<close> hands out a pointer to the buffer, \<^const>\<open>None\<close> when the key is missing.\<close>

definition get_metadata_str :: "string \<Rightarrow> bytes smap \<Rightarrow> bytes option" where
  "get_metadata_str key metadata = smap_get key metadata"

definition get_metadata :: "rbox_metadata_key \<Rightarrow> bytes smap \<Rightarrow> bytes option" where
  "get_metadata key metadata = get_metadata_str (rbox_metadata_key_to_char key) metadata"

definition validate_metadata :: "bytes smap \<Rightarrow> bool" where
  "validate_metadata metadata =
     (let uid = get_metadata RBOX_METADATA_MAIL_UID metadata;
          recv_time_str = get_metadata RBOX_METADATA_RECEIVED_TIME metadata;
          p_size = get_metadata RBOX_METADATA_PHYSICAL_SIZE metadata;
          v_size = get_metadata RBOX_METADATA_VIRTUAL_SIZE metadata;
          mailbox_guid = get_metadata RBOX_METADATA_MAILBOX_GUID metadata;
          mail_guid = get_metadata RBOX_METADATA_GUID metadata;
          flags = get_metadata RBOX_METADATA_OLDV1_FLAGS metadata;
          pvt_flags = get_metadata RBOX_METADATA_PVT_FLAGS metadata;
          test = (if is_numeric uid then 0 else 1) + (if is_numeric recv_time_str then 0 else 1) +
                 (if is_numeric p_size then 0 else 1) + (if is_numeric v_size then 0 else 1) +
                 (if is_numeric_optional flags then 0 else 1) +
                 (if is_numeric_optional pvt_flags then 0 else 1) +
                 (if mailbox_guid = None then 1 else 0) + (if mail_guid = None then 1 else (0::nat))
      in test = 0)"

section \<open>Monitor output\<close>

definition strip_space :: "string \<Rightarrow> string" where
  "strip_space s = filter (\<lambda>c. \<not> isspace c) s"

definition split_str :: "string \<Rightarrow> char \<Rightarrow> string list" where
  "split_str s d = filter (\<lambda>t. t \<noteq> []) (map strip_space (getline_tokens d s))"

text \<open>
  \<open>extractPgs\<close> drops the header and the footer line; on fewer than two lines the source
  erases from an empty vector, which is \<^const>\<open>None\<close> here.
\<close>

definition extractPgs :: "string \<Rightarrow> string list option" where
  "extractPgs str =
     (let tokens = map (\<lambda>t. strip_space (take 10 t)) (getline_tokens newline str)
      in case tokens of [] \<Rightarrow> None | _ # ts \<Rightarrow> if ts = [] then None else Some (butlast ts))"

definition pg_line :: "string \<Rightarrow> string list smap \<Rightarrow> string list smap option" where
  "pg_line token tokens =
     (let line = split_str token (CHR '' '') in
      if length line < 14 then Some tokens
      else case split_str (line ! 13) (CHR '','') of
        [] \<Rightarrow> None
      | tmp # _ \<Rightarrow>
          let primary_osd = drop 1 tmp; pgs = hd line in
          (case smap_get primary_osd tokens of
             Some v \<Rightarrow> Some (smap_put primary_osd (v @ [pgs]) tokens)
           | None \<Rightarrow> Some (smap_put primary_osd [pgs] tokens)))"

fun pg_lines :: "string list \<Rightarrow> string list smap \<Rightarrow> string list smap option" where
  "pg_lines [] tokens = Some tokens"
| "pg_lines (l # ls) tokens =
     (case pg_line l tokens of None \<Rightarrow> None | Some t \<Rightarrow> pg_lines ls t)"

definition extractPgAndPrimaryOsd :: "string \<Rightarrow> string list smap option" where
  "extractPgAndPrimaryOsd str =
     (case getline_tokens newline str of [] \<Rightarrow> Some [] | _ # ls \<Rightarrow> pg_lines ls [])"

section \<open>The ceph index\<close>

text \<open>
  The index object holds the object ids of a namespace, each followed by a comma. A
  \<open>std::set\<close> is iterated in order.
\<close>

definition convert_to_ceph_index_str :: "string \<Rightarrow> bytes" where
  "convert_to_ceph_index_str str = str @ '',''"

definition convert_to_ceph_index :: "string set \<Rightarrow> bytes" where
  "convert_to_ceph_index lst = concat (map (\<lambda>s. s @ '','') (sorted_list_of_set lst))"

text \<open>\<open>while (ss.good()) { getline(ss, substr, ','); if (substr.length() != 0) index.insert(substr); }\<close>\<close>

function ceph_index_loop :: "string \<Rightarrow> string set \<Rightarrow> string set" where
  "ceph_index_loop ss index =
     (let substr = takeWhile (\<lambda>c. c \<noteq> CHR '','') ss;
          index' = (if length substr \<noteq> 0 then insert substr index else index)
      in case dropWhile (\<lambda>c. c \<noteq> CHR '','') ss of
           [] \<Rightarrow> index' | _ # rest \<Rightarrow> ceph_index_loop rest index')"
  by pat_completeness auto
termination
proof (relation "measure (\<lambda>(ss, _). length ss)")
  fix ss rest :: string and x :: char and index a b :: "string set" and s
  assume "dropWhile (\<lambda>c. c \<noteq> CHR '','') ss = x # rest"
  then have "length (x # rest) \<le> length ss" by (metis length_dropWhile_le)
  then show "((rest, b), ss, index) \<in> measure (\<lambda>(ss, _). length ss)" by simp
qed simp

declare ceph_index_loop.simps [simp del]

definition ceph_index_to_set :: "bytes \<Rightarrow> string set" where
  "ceph_index_to_set str = ceph_index_loop str {}"

section \<open>Lemmas\<close>

lemma is_numeric_loop_iff: "is_numeric_loop s \<longleftrightarrow> (\<forall>c \<in> set s. isdigit c)"
  by (induction s) auto

lemma is_numeric_iff: "is_numeric s \<longleftrightarrow> (\<exists>b. s = Some b \<and> (\<forall>c \<in> set (c_str b). isdigit c))"
  by (auto simp: is_numeric_def is_numeric_loop_iff split: option.splits)

lemma is_numeric_int_to_string: "0 \<le> i \<Longrightarrow> is_numeric (Some (int_to_string i @ [NUL]))"
  using nat_to_string_digits int_to_string_no_nul [of i]
  by (auto simp: is_numeric_iff c_str_terminated int_to_string_def)

lemma ceph_index_loop_eq:
  "ceph_index_loop ss index = index \<union> {t \<in> set (getline_tokens (CHR '','') ss). t \<noteq> []}"
proof (induction ss index rule: ceph_index_loop.induct)
  case (1 ss index)
  let ?t = "takeWhile (\<lambda>c. c \<noteq> CHR '','') ss"
  show ?case
  proof (cases "dropWhile (\<lambda>c. c \<noteq> CHR '','') ss")
    case Nil
    then have t: "?t = ss" and c: "CHR '','' \<notin> set ss"
      by (auto simp: dropWhile_eq_Nil_conv takeWhile_eq_all_conv)
    then have "ceph_index_loop ss index = (if ss \<noteq> [] then insert ss index else index)"
      by (simp only: ceph_index_loop.simps [of ss index] Let_def Nil t list.case length_0_conv)
    moreover have "ss = [] \<or> getline_tokens (CHR '','') ss = [ss]"
      using getline_tokens_last [OF c] by blast
    ultimately show ?thesis by auto
  next
    case (Cons x rest)
    have "x = CHR '',''" using Cons by (metis (mono_tags, lifting) dropWhile_eq_Cons_conv)
    then have ss: "ss = ?t @ CHR '','' # rest" using Cons by (metis takeWhile_dropWhile_id)
    have nt: "CHR '','' \<notin> set ?t" by (auto dest: set_takeWhileD)
    have tok: "getline_tokens (CHR '','') ss = ?t # getline_tokens (CHR '','') rest"
      using getline_tokens_sep [OF nt, of rest] ss by simp
    have "ceph_index_loop ss index =
          ceph_index_loop rest (if length ?t \<noteq> 0 then insert ?t index else index)"
      using Cons by (subst ceph_index_loop.simps) (simp add: Let_def)
    also have "\<dots> = (if length ?t \<noteq> 0 then insert ?t index else index) \<union>
          {t \<in> set (getline_tokens (CHR '','') rest). t \<noteq> []}"
      using "1.IH" [OF refl refl Cons] by simp
    finally show ?thesis using tok by auto
  qed
qed

lemma ceph_index_to_set_eq:
  "ceph_index_to_set s = {t \<in> set (getline_tokens (CHR '','') s). t \<noteq> []}"
  by (simp add: ceph_index_to_set_def ceph_index_loop_eq)

lemma getline_tokens_append:
  "getline_tokens sep (b @ sep # x) = getline_tokens sep (b @ [sep]) @ getline_tokens sep x"
proof (induction "length b" arbitrary: b rule: less_induct)
  case less
  show ?case
  proof (cases "sep \<in> set b")
    case False
    then show ?thesis by (simp add: getline_tokens_sep)
  next
    case True
    then obtain t r where "b = t @ sep # r" and "sep \<notin> set t"
      by (metis split_list_first)
    then show ?thesis using less [of r] by (simp add: getline_tokens_sep)
  qed
qed

lemma ceph_index_to_set_append:
  assumes "b = [] \<or> last b = CHR '',''"
  shows "ceph_index_to_set (b @ x) = ceph_index_to_set b \<union> ceph_index_to_set x"
proof (cases b rule: rev_cases)
  case (snoc b' c)
  then show ?thesis
    using assms getline_tokens_append [of "CHR '',''" b' x] by (auto simp: ceph_index_to_set_eq)
qed (simp add: ceph_index_to_set_eq)

text \<open>An index is well formed when it is a sequence of ids, each followed by its comma.\<close>

definition oid_ok :: "string \<Rightarrow> bool" where
  "oid_ok oid \<longleftrightarrow> oid \<noteq> [] \<and> CHR '','' \<notin> set oid \<and> NUL \<notin> set oid"

definition index_of_list :: "string list \<Rightarrow> bytes" where
  "index_of_list oids = concat (map (\<lambda>s. s @ '','') oids)"

lemma ceph_index_of_list: "\<forall>t \<in> set ts. oid_ok t \<Longrightarrow> ceph_index_to_set (index_of_list ts) = set ts"
  using getline_tokens_terminated [of ts "CHR '',''"]
  by (auto simp: ceph_index_to_set_eq index_of_list_def oid_ok_def)

lemma index_of_list_append:
  "index_of_list ts @ convert_to_ceph_index_str t = index_of_list (ts @ [t])"
  "finite S \<Longrightarrow> index_of_list ts @ convert_to_ceph_index S = index_of_list (ts @ sorted_list_of_set S)"
  by (simp_all add: index_of_list_def convert_to_ceph_index_str_def convert_to_ceph_index_def)

lemma index_of_list_no_nul: "\<forall>t \<in> set ts. oid_ok t \<Longrightarrow> NUL \<notin> set (index_of_list ts)"
  by (auto simp: index_of_list_def oid_ok_def)

text \<open>Removing one character everywhere, as the callers do with hyphens.\<close>

lemma str_find_char: "str_find [c] s = (if c \<in> set s then Some (length (takeWhile (\<lambda>x. x \<noteq> c) s)) else None)"
  by (induction s) (auto simp: starts_with_def)

lemma find_and_replace_char_loop:
  "c \<notin> set pre \<Longrightarrow>
   find_and_replace_loop [c] [] (pre @ s) (length pre) = Some (pre @ filter (\<lambda>x. x \<noteq> c) s)"
proof (induction "length s" arbitrary: pre s rule: less_induct)
  case less
  show ?case
  proof (cases "c \<in> set s")
    case False
    then have "filter (\<lambda>x. x \<noteq> c) s = s" by (auto simp: filter_id_conv)
    with False show ?thesis
      by (subst find_and_replace_loop.simps)
         (simp add: str_find_from_def str_find_char)
  next
    case True
    let ?t = "takeWhile (\<lambda>x. x \<noteq> c) s" and ?r = "tl (dropWhile (\<lambda>x. x \<noteq> c) s)"
    have s: "s = ?t @ c # ?r"
      using True by (metis (mono_tags, lifting) dropWhile_eq_Nil_conv hd_dropWhile list.collapse takeWhile_dropWhile_id)
    then have len: "length ?r < length s"
      by (metis add_Suc_right length_append length_Cons less_add_Suc2)
    have t: "c \<notin> set ?t" "filter (\<lambda>x. x \<noteq> c) ?t = ?t"
      by (auto dest: set_takeWhileD simp: filter_id_conv)
    have f: "str_find_from [c] (pre @ s) (length pre) = Some (length (pre @ ?t))"
      using True by (simp add: str_find_from_def str_find_char)
    have "pre @ s = (pre @ ?t) @ c # ?r"
      using s by (metis append_assoc)
    then have "take (length (pre @ ?t)) (pre @ s) @ [] @ drop (length (pre @ ?t) + length [c]) (pre @ s)
               = (pre @ ?t) @ ?r"
      by (metis append_Nil append_eq_conv_conj append_Cons append_assoc length_append)
    with f have "find_and_replace_loop [c] [] (pre @ s) (length pre) =
          find_and_replace_loop [c] [] ((pre @ ?t) @ ?r) (length (pre @ ?t))"
      by (subst find_and_replace_loop.simps) (simp only: option.case list.size add_0_right)
    also have "\<dots> = Some ((pre @ ?t) @ filter (\<lambda>x. x \<noteq> c) ?r)"
      using less.hyps [OF len, of "pre @ ?t"] less.prems t(1) by simp
    also have "(pre @ ?t) @ filter (\<lambda>x. x \<noteq> c) ?r = pre @ filter (\<lambda>x. x \<noteq> c) s"
      using t(2) by (subst (3) s) simp
    finally show ?thesis .
  qed
qed

lemma starts_with_length: "starts_with n s \<Longrightarrow> length n \<le> length s"
  by (metis length_take min.cobounded1 starts_with_def)

lemma str_find_bound: "str_find n s = Some j \<Longrightarrow> j + length n \<le> length s"
proof (induction n s arbitrary: j rule: str_find.induct)
  case (2 n c s)
  then show ?case
    using starts_with_length [of n "c # s"] by (fastforce split: if_splits)
qed (simp split: if_splits)

lemma str_find_from_bound: "str_find_from n s i = Some j \<Longrightarrow> i \<le> j \<and> j + length n \<le> length s"
  using str_find_bound [of n "drop i s"]
  by (fastforce simp: str_find_from_def split: if_splits)

lemma find_and_replace_loop_returns:
  "sub \<noteq> [] \<Longrightarrow> \<exists>r. find_and_replace_loop sub repl src i = Some r"
proof (induction "length src - i" arbitrary: src i rule: less_induct)
  case less
  show ?case
  proof (cases "str_find_from sub src i")
    case None
    then show ?thesis by (subst find_and_replace_loop.simps) simp
  next
    case (Some j)
    let ?src = "take j src @ repl @ drop (j + length sub) src"
    have "length ?src - (j + length repl) < length src - i"
      using str_find_from_bound [OF Some] less.prems by (cases sub) auto
    then show ?thesis
      using less.hyps [of ?src "j + length repl"] less.prems Some
      by (subst find_and_replace_loop.simps) simp
  qed
qed

lemma find_and_replace_loop_empty:
  assumes "find_and_replace_loop sub repl src i = Some y"
  shows "\<not> (sub = [] \<and> i \<le> length src)"
proof (rule find_and_replace_loop.raw_induct [OF _ assms])
  fix rec sub repl src i y
  assume IH: "\<And>sub repl src i y. rec sub repl src i = Some y \<Longrightarrow> \<not> (sub = [] \<and> i \<le> length src)"
    and eq: "(case str_find_from sub src i of None \<Rightarrow> Some src
      | Some j \<Rightarrow> rec sub repl (take j src @ repl @ drop (j + length sub) src) (j + length repl)) = Some y"
  have "str_find [] t = Some 0" for t
    by (cases t) (auto simp: starts_with_def)
  then show "\<not> (sub = [] \<and> i \<le> length src)"
    using IH [of sub repl "take i src @ repl @ drop i src" "i + length repl" y] eq
    by (auto simp: str_find_from_def)
qed

section \<open>Properties\<close>

text \<open>
  The ceph index is appended to. For an index that is empty or ends with its comma,
  appending a set of object ids and parsing the result yields exactly the ids the index had and
  the new ones.
\<close>

theorem ceph_index_append:
  assumes "b = [] \<or> last b = CHR '',''" and "finite S" and "\<forall>t \<in> S. oid_ok t"
  shows "ceph_index_to_set (b @ convert_to_ceph_index S) = ceph_index_to_set b \<union> S"
proof -
  have "convert_to_ceph_index S = index_of_list (sorted_list_of_set S)"
    by (simp add: convert_to_ceph_index_def index_of_list_def)
  then have "ceph_index_to_set (convert_to_ceph_index S) = S"
    using ceph_index_of_list [of "sorted_list_of_set S"] assms(2,3) by simp
  then show ?thesis
    using ceph_index_to_set_append [OF assms(1)] by simp
qed

theorem ceph_index_append_witness:
  "ceph_index_to_set (''a,'' @ convert_to_ceph_index {''b''}) = ceph_index_to_set ''a,'' \<union> {''b''}"
  by (rule ceph_index_append) (simp_all add: oid_ok_def)

text \<open>
  Property C31: \<open>find_and_replace\<close> returns for every non-empty search text; removing a single
  character (the plugin removes the hyphens of a GUID) deletes all its occurrences; an empty
  search text makes the loop run forever.
\<close>

theorem find_and_replace_behaviour:
  "(sub \<noteq> [] \<longrightarrow> (\<exists>r. find_and_replace source sub repl = Some r)) \<and>
   find_and_replace source [c] [] = Some (filter (\<lambda>x. x \<noteq> c) source) \<and>
   find_and_replace source [] repl = None"
proof -
  have "find_and_replace source [] repl = None"
    using find_and_replace_loop_empty [of "[]" repl source 0]
    by (cases "find_and_replace_loop [] repl source 0") (auto simp: find_and_replace_def)
  then show ?thesis
    using find_and_replace_loop_returns [of sub repl source 0]
      find_and_replace_char_loop [of c "[]" source]
    by (simp add: find_and_replace_def)
qed

theorem find_and_replace_behaviour_witness:
  "\<exists>r. find_and_replace ''a-b-c'' ''-'' ''+'' = Some r"
  using find_and_replace_behaviour [of "''-''" "''a-b-c''" "''+''" "CHR ''x''"] by simp

text \<open>
  \<open>validate_metadata\<close> accepts a mail exactly when uid, received time, physical
  and virtual size are present and contain digits only, flags and private flags are absent or
  contain digits only, and both GUIDs are present.
\<close>

theorem validate_metadata_iff:
  "validate_metadata m \<longleftrightarrow>
     list_all (\<lambda>k. \<exists>b. smap_get k m = Some b \<and> list_all isdigit (c_str b)) [''U'', ''R'', ''Z'', ''V''] \<and>
     list_all (\<lambda>k. smap_get k m = None \<or> (\<exists>b. smap_get k m = Some b \<and> list_all isdigit (c_str b))) [''F'', ''C''] \<and>
     smap_get ''M'' m \<noteq> None \<and> smap_get ''G'' m \<noteq> None"
  by (auto simp: validate_metadata_def Let_def get_metadata_def get_metadata_str_def is_numeric_iff
      is_numeric_optional_def list_all_iff split: option.splits if_splits)

text \<open>
  The flag conversion writes the byte as one character, not as a hexadecimal
  number. Reading it back gives the same flags for every byte that is no white space; for white
  space (for example \<open>0x09\<close>, answered and seen) the text is left unchanged.
\<close>

theorem flags_roundtrip:
  "(\<not> isspace (char_of (unat fl)) \<longrightarrow>
      flags_to_string fl old = (True, [char_of (unat fl)]) \<and>
      string_to_flags (snd (flags_to_string fl old)) = Some fl) \<and>
   (isspace (char_of (unat fl)) \<longrightarrow> flags_to_string fl old = (True, old))"
proof -
  have "unat fl < 256" using unsigned_less [where 'a = nat, of fl] by simp
  then show ?thesis
    by (simp add: flags_to_string_def string_to_flags_def of_char_of)
qed

theorem flags_roundtrip_witness:
  "string_to_flags (snd (flags_to_string 0x41 [])) = Some 0x41 \<and>
   flags_to_string 0x09 ''old'' = (True, ''old'')"
  using flags_roundtrip [of "0x41" "[]"] flags_roundtrip [of "0x09" "''old''"]
  by (auto simp: isspace_def of_char_of)

end
