(* ===== verification/Cluster.thy ===== *)
theory Cluster
  imports Rados_Util
begin

text \<open>
  \<open>RadosClusterImpl\<close> (\<open>src/src/librmb/rados-cluster-impl.cpp\<close>): the one connection to the ceph
  cluster that all storages and dictionaries of a process share, with its reference count. The
  \<open>librados::Rados\<close> client is the record \<open>'w client\<close> of its calls. Following a null \<open>cluster\<close>
  pointer is the result \<^const>\<open>None\<close>.
\<close>

section \<open>The client library\<close>

record 'w client =
  cc_init :: "'w \<Rightarrow> int \<times> 'w"
  cc_init2 :: "string \<Rightarrow> string \<Rightarrow> 'w \<Rightarrow> int \<times> 'w"
  cc_conf_parse_env :: "'w \<Rightarrow> int \<times> 'w"
  cc_conf_read_file :: "'w \<Rightarrow> int \<times> 'w"
  cc_conf_get :: "string \<Rightarrow> 'w \<Rightarrow> int \<times> string \<times> 'w"
  cc_conf_set :: "string \<Rightarrow> string \<Rightarrow> 'w \<Rightarrow> int \<times> 'w"
  cc_connect :: "'w \<Rightarrow> int \<times> 'w"
  cc_shutdown :: "'w \<Rightarrow> 'w"
  cc_pool_list2 :: "'w \<Rightarrow> int \<times> (int \<times> string) list \<times> 'w"
  cc_pool_create :: "string \<Rightarrow> 'w \<Rightarrow> int \<times> 'w"
  cc_ioctx_create :: "string \<Rightarrow> 'w \<Rightarrow> int \<times> io_ctx \<times> 'w"
  cc_mon_command :: "string \<Rightarrow> 'w \<Rightarrow> int \<times> bytes \<times> 'w"

section \<open>State and operations\<close>

text \<open>
  The static members of the class, and the options of the object of the class that makes the calls.
  \<open>c_cluster\<close> tells whether the pointer is set, \<open>c_handles\<close> counts the \<open>librados::Rados\<close> objects that
  were created and not yet deleted. The reference count is an \<open>int\<close> of the source: it wraps around.
\<close>

record cluster =
  c_cluster :: bool
  c_handles :: nat
  c_ref_count :: int
  c_connected :: bool
  c_client_options :: "(string \<times> string) list"

definition initial_cluster :: "(string \<times> string) list \<Rightarrow> cluster" where
  "initial_cluster opts = \<lparr>c_cluster = False, c_handles = 0, c_ref_count = 0, c_connected = False,
     c_client_options = opts\<rparr>"

definition CLIENT_MOUNT_TIMEOUT :: string where "CLIENT_MOUNT_TIMEOUT = ''client_mount_timeout''"
definition RADOS_MON_OP_TIMEOUT :: string where "RADOS_MON_OP_TIMEOUT = ''rados_mon_op_timeout''"
definition RADOS_OSD_OP_TIMEOUT :: string where "RADOS_OSD_OP_TIMEOUT = ''rados_osd_op_timeout''"
definition CLIENT_MOUNT_TIMEOUT_DEFAULT :: string where "CLIENT_MOUNT_TIMEOUT_DEFAULT = ''600''"
definition RADOS_MON_OP_TIMEOUT_DEFAULT :: string where "RADOS_MON_OP_TIMEOUT_DEFAULT = ''600''"
definition RADOS_OSD_OP_TIMEOUT_DEFAULT :: string where "RADOS_OSD_OP_TIMEOUT_DEFAULT = ''600''"

lemmas timeout_defs = CLIENT_MOUNT_TIMEOUT_def RADOS_MON_OP_TIMEOUT_def RADOS_OSD_OP_TIMEOUT_def
  CLIENT_MOUNT_TIMEOUT_DEFAULT_def RADOS_MON_OP_TIMEOUT_DEFAULT_def RADOS_OSD_OP_TIMEOUT_DEFAULT_def

fun set_client_options :: "'w client \<Rightarrow> (string \<times> string) list \<Rightarrow> 'w \<Rightarrow> 'w" where
  "set_client_options C [] w = w"
| "set_client_options C ((k, v) # opts) w = set_client_options C opts (snd (cc_conf_set C k v w))"

text \<open>
  \<open>initialize\<close> is called right after the client was created. Its result is the one of the last
  \<open>conf_get\<close>: the results of \<open>conf_parse_env\<close> and \<open>conf_read_file\<close> are overwritten.
\<close>

definition mount_timeout :: "'w client \<Rightarrow> 'w \<Rightarrow> 'w" where
  "mount_timeout C w =
     (case cc_conf_get C CLIENT_MOUNT_TIMEOUT w of (r, _, w1) \<Rightarrow>
        if r < 0 then snd (cc_conf_set C CLIENT_MOUNT_TIMEOUT CLIENT_MOUNT_TIMEOUT_DEFAULT w1) else w1)"

definition op_timeout :: "'w client \<Rightarrow> string \<Rightarrow> string \<Rightarrow> 'w \<Rightarrow> int \<times> 'w" where
  "op_timeout C opt dflt w =
     (case cc_conf_get C opt w of (ret, cfg_value, w1) \<Rightarrow>
        (ret, if ret < 0 \<or> cfg_value = ''0'' then snd (cc_conf_set C opt dflt w1) else w1))"

definition initialize :: "'w client \<Rightarrow> cluster \<Rightarrow> 'w \<Rightarrow> int \<times> 'w" where
  "initialize C cl w =
     (let (r0, w0) = cc_conf_parse_env C w;
          w1 = (if r0 = 0 then snd (cc_conf_read_file C w0) else w0);
          w2 = mount_timeout C w1;
          (r1, w3) = op_timeout C RADOS_MON_OP_TIMEOUT RADOS_MON_OP_TIMEOUT_DEFAULT w2;
          (ret, w4) = op_timeout C RADOS_OSD_OP_TIMEOUT RADOS_OSD_OP_TIMEOUT_DEFAULT w3
      in (ret, set_client_options C (c_client_options cl) w4))"

text \<open>
  Both \<open>init\<close> methods; they differ in the call that initialises the client.
\<close>

definition init_with :: "('w \<Rightarrow> int \<times> 'w) \<Rightarrow> 'w client \<Rightarrow> cluster \<Rightarrow> 'w \<Rightarrow> int \<times> cluster \<times> 'w" where
  "init_with first C cl w =
     (let (ret, cl1, w1) =
        (if c_ref_count cl = 0 then
           let cl1 = cl\<lparr>c_cluster := True, c_handles := c_handles cl + 1\<rparr>;
               (r, w1) = first w in
           if r = 0 then (case initialize C cl1 w1 of (r2, w2) \<Rightarrow> (r2, cl1, w2)) else (r, cl1, w1)
         else (0, cl, w))
      in if ret = 0 then (ret, cl1\<lparr>c_ref_count := to_int32 (c_ref_count cl1 + 1)\<rparr>, w1) else (ret, cl1, w1))"

definition init :: "'w client \<Rightarrow> cluster \<Rightarrow> 'w \<Rightarrow> int \<times> cluster \<times> 'w" where
  "init C = init_with (cc_init C) C"

definition init_user :: "string \<Rightarrow> string \<Rightarrow> 'w client \<Rightarrow> cluster \<Rightarrow> 'w \<Rightarrow> int \<times> cluster \<times> 'w" where
  "init_user clustername rados_username C = init_with (cc_init2 C rados_username clustername) C"

definition connect :: "'w client \<Rightarrow> cluster \<Rightarrow> 'w \<Rightarrow> (int \<times> cluster \<times> 'w) option" where
  "connect C cl w =
     (if c_ref_count cl > 0 \<and> \<not> c_connected cl then
        if c_cluster cl then case cc_connect C w of (ret, w1) \<Rightarrow> Some (ret, cl\<lparr>c_connected := (ret = 0)\<rparr>, w1)
        else None
      else Some (0, cl, w))"

definition deinit :: "'w client \<Rightarrow> cluster \<Rightarrow> 'w \<Rightarrow> (cluster \<times> 'w) option" where
  "deinit C cl w =
     (if c_ref_count cl > 0 then
        let cl1 = cl\<lparr>c_ref_count := c_ref_count cl - 1\<rparr> in
        if c_ref_count cl1 = 0 then
          if c_connected cl1 then
            if c_cluster cl1 then
              Some (cl1\<lparr>c_connected := False, c_cluster := False, c_handles := c_handles cl1 - 1\<rparr>,
                    cc_shutdown C w)
            else None
          else Some (cl1, w)
        else Some (cl1, w)
      else Some (cl, w))"

definition pool_create :: "'w client \<Rightarrow> string \<Rightarrow> cluster \<Rightarrow> 'w \<Rightarrow> (int \<times> cluster \<times> 'w) option" where
  "pool_create C pool cl w =
     (case connect C cl w of None \<Rightarrow> None
      | Some (ret, cl1, w1) \<Rightarrow>
        if ret < 0 then Some (ret, cl1, w1)
        else if \<not> c_cluster cl1 then None
        else case cc_pool_list2 C w1 of (ret, pools, w2) \<Rightarrow>
          if ret < 0 then Some (ret, cl1, w2)
          else if \<exists>p \<in> set pools. snd p = pool then Some (ret, cl1, w2)
          else case cc_pool_create C pool w2 of (ret, w3) \<Rightarrow> Some (ret, cl1, w3))"

definition ioctx_of_pool :: "'w client \<Rightarrow> string \<Rightarrow> io_ctx \<Rightarrow> cluster \<Rightarrow> 'w \<Rightarrow> (int \<times> io_ctx \<times> cluster \<times> 'w) option" where
  "ioctx_of_pool C pool io cl w =
     (case pool_create C pool cl w of None \<Rightarrow> None
      | Some (ret, cl1, w1) \<Rightarrow>
        if ret = 0 then case cc_ioctx_create C pool w1 of (ret, io1, w2) \<Rightarrow>
          Some (ret, if ret < 0 then io else io1, cl1, w2)
        else Some (ret, io, cl1, w1))"

definition io_ctx_create :: "'w client \<Rightarrow> string \<Rightarrow> io_ctx \<Rightarrow> cluster \<Rightarrow> 'w \<Rightarrow> (int \<times> io_ctx \<times> cluster \<times> 'w) option" where
  "io_ctx_create C pool io cl w =
     (if c_ref_count cl = 0 then Some (- ENOENT, io, cl, w)
      else case connect C cl w of None \<Rightarrow> None
        | Some (ret, cl1, w1) \<Rightarrow>
          if ret < 0 then Some (ret, io, cl1, w1) else ioctx_of_pool C pool io cl1 w1)"

definition recovery_index_io_ctx :: "'w client \<Rightarrow> string \<Rightarrow> io_ctx \<Rightarrow> cluster \<Rightarrow> 'w \<Rightarrow> (int \<times> io_ctx \<times> cluster \<times> 'w) option" where
  "recovery_index_io_ctx C pool io cl w =
     (if \<not> c_connected cl then Some (-1, io, cl, w) else ioctx_of_pool C pool io cl w)"

definition get_config_option :: "'w client \<Rightarrow> string \<Rightarrow> cluster \<Rightarrow> 'w \<Rightarrow> (int \<times> string \<times> 'w) option" where
  "get_config_option C option cl w = (if c_cluster cl then Some (cc_conf_get C option w) else None)"

definition set_config_option :: "string \<Rightarrow> string \<Rightarrow> cluster \<Rightarrow> cluster" where
  "set_config_option option value cl =
     cl\<lparr>c_client_options := AList.update option value (c_client_options cl)\<rparr>"

definition pg_command :: "string \<Rightarrow> string" where
  "pg_command pool_name = (let q = [CHR 0x22] in
     ''{'' @ q @ ''prefix'' @ q @ '': '' @ q @ ''pg ls-by-pool'' @ q @ '', '' @
     q @ ''poolstr'' @ q @ '': '' @ q @ pool_name @ q @ ''}'')"

text \<open>
  The monitor is asked even when \<open>connect\<close> failed; its output is then empty. Both results also
  are \<^const>\<open>None\<close> when the parser of the output leaves its vector.
\<close>

definition pg_listing :: "'w client \<Rightarrow> string \<Rightarrow> cluster \<Rightarrow> 'w \<Rightarrow> (string \<times> cluster \<times> 'w) option" where
  "pg_listing C pool_name cl w =
     (case (if c_connected cl then Some (0, cl, w) else connect C cl w) of None \<Rightarrow> None
      | Some (_, cl1, w1) \<Rightarrow>
        if \<not> c_cluster cl1 then None
        else case cc_mon_command C (pg_command pool_name) w1 of (_, out, w2) \<Rightarrow> Some (c_str out, cl1, w2))"

definition list_pgs_for_pool :: "'w client \<Rightarrow> string \<Rightarrow> cluster \<Rightarrow> 'w \<Rightarrow> (string list \<times> cluster \<times> 'w) option" where
  "list_pgs_for_pool C pool_name cl w =
     (case pg_listing C pool_name cl w of None \<Rightarrow> None
      | Some (out, cl1, w1) \<Rightarrow> map_option (\<lambda>pgs. (pgs, cl1, w1)) (extractPgs out))"

definition list_pgs_osd_for_pool ::
    "'w client \<Rightarrow> string \<Rightarrow> cluster \<Rightarrow> 'w \<Rightarrow> (string list smap \<times> cluster \<times> 'w) option" where
  "list_pgs_osd_for_pool C pool_name cl w =
     (case pg_listing C pool_name cl w of None \<Rightarrow> None
      | Some (out, cl1, w1) \<Rightarrow> map_option (\<lambda>pgs. (pgs, cl1, w1)) (extractPgAndPrimaryOsd out))"


section \<open>The life of the connection\<close>

text \<open>
  One call of the class, by any of its users in the process: each object of the class has options of its
  own (\<open>step_other\<close>: the next call is made by another object).
\<close>

inductive cluster_step :: "'w client \<Rightarrow> cluster \<times> 'w \<Rightarrow> cluster \<times> 'w \<Rightarrow> bool" for C :: "'w client" where
  step_init: "init C cl w = (r, cl', w') \<Longrightarrow> cluster_step C (cl, w) (cl', w')"
| step_init_user: "init_user cn un C cl w = (r, cl', w') \<Longrightarrow> cluster_step C (cl, w) (cl', w')"
| step_connect: "connect C cl w = Some (r, cl', w') \<Longrightarrow> cluster_step C (cl, w) (cl', w')"
| step_deinit: "deinit C cl w = Some (cl', w') \<Longrightarrow> cluster_step C (cl, w) (cl', w')"
| step_pool_create: "pool_create C pool cl w = Some (r, cl', w') \<Longrightarrow> cluster_step C (cl, w) (cl', w')"
| step_io_ctx_create: "io_ctx_create C pool io cl w = Some (r, io', cl', w') \<Longrightarrow> cluster_step C (cl, w) (cl', w')"
| step_recovery: "recovery_index_io_ctx C pool io cl w = Some (r, io', cl', w') \<Longrightarrow> cluster_step C (cl, w) (cl', w')"
| step_list_pgs: "list_pgs_for_pool C pool cl w = Some (l, cl', w') \<Longrightarrow> cluster_step C (cl, w) (cl', w')"
| step_list_osds: "list_pgs_osd_for_pool C pool cl w = Some (l', cl', w') \<Longrightarrow> cluster_step C (cl, w) (cl', w')"
| step_option: "cluster_step C (cl, w) (set_config_option k v cl, w)"
| step_other: "cluster_step C (cl, w) (cl\<lparr>c_client_options := opts\<rparr>, w)"

text \<open>A run of \<open>n\<close> calls from the start of the process.\<close>

inductive cluster_run :: "'w client \<Rightarrow> nat \<Rightarrow> cluster \<times> 'w \<Rightarrow> bool" for C :: "'w client" where
  start: "cluster_run C 0 (initial_cluster opts, w)"
| step: "cluster_run C n s \<Longrightarrow> cluster_step C s t \<Longrightarrow> cluster_run C (Suc n) t"

definition cluster_ok :: "cluster \<Rightarrow> bool" where
  "cluster_ok cl \<longleftrightarrow> 0 \<le> c_ref_count cl \<and> (c_connected cl \<longrightarrow> 0 < c_ref_count cl) \<and>
     (0 < c_ref_count cl \<longrightarrow> c_cluster cl) \<and> (c_cluster cl \<longrightarrow> 0 < c_handles cl)"

lemma init_with_ok:
  assumes "init_with f C cl w = (r, cl', w')" and "cluster_ok cl" and "c_ref_count cl < INT_MAX"
  shows "cluster_ok cl' \<and> c_ref_count cl' \<le> c_ref_count cl + 1"
proof -
  have "to_int32 (c_ref_count cl + 1) = c_ref_count cl + 1"
    using assms(2,3) by (intro to_int32_id) (simp_all add: cluster_ok_def)
  then show ?thesis
    using assms(1,2) by (auto simp: init_with_def cluster_ok_def Let_def split: if_splits prod.splits)
qed

lemma connect_ok: "connect C cl w = Some (r, cl', w') \<Longrightarrow> cluster_ok cl \<Longrightarrow>
    cluster_ok cl' \<and> c_ref_count cl' = c_ref_count cl \<and> c_cluster cl' = c_cluster cl"
  by (auto simp: connect_def cluster_ok_def split: if_splits prod.splits)

lemma connect_safe: "cluster_ok cl \<Longrightarrow> connect C cl w \<noteq> None"
  by (auto simp: connect_def cluster_ok_def split: prod.splits)

lemma deinit_ok: "deinit C cl w = Some (cl', w') \<Longrightarrow> cluster_ok cl \<Longrightarrow> cluster_ok cl'"
  by (auto simp: deinit_def cluster_ok_def Let_def split: if_splits)

lemma pool_create_ok: "pool_create C pool cl w = Some (r, cl', w') \<Longrightarrow> cluster_ok cl \<Longrightarrow>
    cluster_ok cl' \<and> c_ref_count cl' = c_ref_count cl"
  by (auto simp: pool_create_def dest!: connect_ok split: option.splits prod.splits if_splits)

lemma pool_create_safe:
  assumes "cluster_ok cl" and "0 < c_ref_count cl"
  shows "pool_create C pool cl w \<noteq> None"
proof -
  obtain r cl1 w1 where c: "connect C cl w = Some (r, cl1, w1)"
    using connect_safe [OF assms(1)] by (metis not_None_eq prod_cases3)
  then have "c_cluster cl1" using connect_ok [OF c assms(1)] assms by (simp add: cluster_ok_def)
  with c show ?thesis by (auto simp: pool_create_def split: prod.splits)
qed

lemma ioctx_of_pool_ok: "ioctx_of_pool C pool io cl w = Some (r, io', cl', w') \<Longrightarrow> cluster_ok cl \<Longrightarrow> cluster_ok cl'"
  by (auto simp: ioctx_of_pool_def dest!: pool_create_ok split: option.splits prod.splits if_splits)

lemma ioctx_of_pool_safe: "cluster_ok cl \<Longrightarrow> 0 < c_ref_count cl \<Longrightarrow> ioctx_of_pool C pool io cl w \<noteq> None"
  using pool_create_safe [of cl C pool w] by (auto simp: ioctx_of_pool_def split: option.splits prod.splits)

lemma io_ctx_create_ok: "io_ctx_create C pool io cl w = Some (r, io', cl', w') \<Longrightarrow> cluster_ok cl \<Longrightarrow> cluster_ok cl'"
  by (auto simp: io_ctx_create_def dest!: connect_ok dest: ioctx_of_pool_ok split: option.splits prod.splits if_splits)

lemma pg_listing_ok: "pg_listing C pool cl w = Some (l, cl', w') \<Longrightarrow> cluster_ok cl \<Longrightarrow> cluster_ok cl'"
  by (auto simp: pg_listing_def dest!: connect_ok split: option.splits prod.splits if_splits)

lemma keeps_ref_count:
  "deinit C cl w = Some (cl', w') \<Longrightarrow> c_ref_count cl' \<le> c_ref_count cl"
  "ioctx_of_pool C pool io cl w = Some (r, io', cl', w') \<Longrightarrow> c_ref_count cl' = c_ref_count cl"
  "io_ctx_create C pool io cl w = Some (r, io', cl', w') \<Longrightarrow> c_ref_count cl' = c_ref_count cl"
  "pg_listing C pool cl w = Some (l, cl', w') \<Longrightarrow> c_ref_count cl' = c_ref_count cl"
  by (auto simp: deinit_def ioctx_of_pool_def io_ctx_create_def pool_create_def connect_def pg_listing_def Let_def
      split: option.splits prod.splits if_splits)

text \<open>A call keeps the state consistent and adds at most one reference.\<close>

definition step_bound :: "cluster \<Rightarrow> cluster \<Rightarrow> bool" where
  "step_bound cl cl' \<longleftrightarrow> cluster_ok cl' \<and> c_ref_count cl' \<le> c_ref_count cl + 1"

lemmas cluster_op_ok = connect_ok deinit_ok pool_create_ok io_ctx_create_ok ioctx_of_pool_ok pg_listing_ok

lemma cluster_step_ok:
  "cluster_step C s t \<Longrightarrow> cluster_ok (fst s) \<Longrightarrow> c_ref_count (fst s) < INT_MAX \<Longrightarrow> step_bound (fst s) (fst t)"
proof (induction rule: cluster_step.induct)
  case (step_recovery pool io cl w r io' cl' w')
  then show ?case
    by (auto simp: step_bound_def recovery_index_io_ctx_def dest: ioctx_of_pool_ok keeps_ref_count split: if_splits)
next
  case (step_io_ctx_create pool io cl w r io' cl' w')
  then show ?case using io_ctx_create_ok keeps_ref_count(3) by (fastforce simp: step_bound_def)
next
  case (step_deinit cl w cl' w')
  then show ?case using deinit_ok keeps_ref_count(1) by (fastforce simp: step_bound_def)
next
  case (step_list_pgs pool cl w l cl' w')
  then show ?case using pg_listing_ok keeps_ref_count(4)
    by (fastforce simp: step_bound_def list_pgs_for_pool_def split: option.splits)
next
  case (step_list_osds pool cl w l cl' w')
  then show ?case using pg_listing_ok keeps_ref_count(4)
    by (fastforce simp: step_bound_def list_pgs_osd_for_pool_def split: option.splits)
qed (auto simp: step_bound_def init_def init_user_def set_config_option_def cluster_ok_def [of "c_client_options_update _ _"]
      dest: init_with_ok connect_ok pool_create_ok, auto simp: cluster_ok_def)

lemma cluster_run_ok: "cluster_run C n s \<Longrightarrow> int n \<le> INT_MAX \<Longrightarrow> cluster_ok (fst s) \<and> c_ref_count (fst s) \<le> int n"
proof (induction rule: cluster_run.induct)
  case (start opts w)
  show ?case by (simp add: cluster_ok_def initial_cluster_def)
next
  case (step n s t)
  then show ?case using cluster_step_ok [OF step.hyps(2)] by (simp add: step_bound_def)
qed

text \<open>The calls that follow the pointer without asking for a reference.\<close>

lemma pool_create_null: "cluster_ok cl \<Longrightarrow> pool_create C pool cl w = None \<longleftrightarrow> \<not> c_cluster cl"
  by (auto simp: pool_create_def connect_def cluster_ok_def split: option.splits prod.splits if_splits)

lemma pg_listing_null: "cluster_ok cl \<Longrightarrow> pg_listing C pool cl w = None \<longleftrightarrow> \<not> c_cluster cl"
  by (auto simp: pg_listing_def connect_def cluster_ok_def split: option.splits prod.splits if_splits)

text \<open>Several users give up the connection one after the other.\<close>

fun deinit_times :: "nat \<Rightarrow> 'w client \<Rightarrow> cluster \<Rightarrow> 'w \<Rightarrow> (cluster \<times> 'w) option" where
  "deinit_times 0 C cl w = Some (cl, w)"
| "deinit_times (Suc n) C cl w =
     (case deinit C cl w of None \<Rightarrow> None | Some (cl', w') \<Rightarrow> deinit_times n C cl' w')"

lemma deinit_times_keeps:
  "int n < c_ref_count cl \<Longrightarrow> deinit_times n C cl w = Some (cl\<lparr>c_ref_count := c_ref_count cl - int n\<rparr>, w)"
  by (induction n arbitrary: cl) (simp_all add: deinit_def)

lemma deinit_times_add:
  "deinit_times (m + n) C cl w =
     (case deinit_times m C cl w of None \<Rightarrow> None | Some (cl', w') \<Rightarrow> deinit_times n C cl' w')"
  by (induction m arbitrary: cl w) (auto split: option.splits)

text \<open>
  What \<open>initialize\<close> relies on: \<open>conf_get\<close> reads an option of the configuration that the observer \<open>K\<close> sees and
  fails when it is not set; \<open>conf_set\<close> stores the option when it returns 0 and changes nothing when it refuses it.
\<close>

definition law_conf :: "'w client \<Rightarrow> ('w \<Rightarrow> string \<rightharpoonup> string) \<Rightarrow> bool" where
  "law_conf C K \<longleftrightarrow>
     (\<forall>k v w r w'. cc_conf_set C k v w = (r, w') \<longrightarrow> K w' = (if r = 0 then (K w)(k \<mapsto> v) else K w)) \<and>
     (\<forall>k w r v w'. cc_conf_get C k w = (r, v, w') \<longrightarrow> K w' = K w \<and> K w k = (if r < 0 then None else Some v))"

text \<open>The option is known to the library and accepts the value.\<close>

definition accepts :: "'w client \<Rightarrow> string \<Rightarrow> string \<Rightarrow> bool" where
  "accepts C k v \<longleftrightarrow> (\<forall>w. fst (cc_conf_set C k v w) = 0)"

lemma conf_set_accepted: "law_conf C K \<Longrightarrow> accepts C k v \<Longrightarrow> K (snd (cc_conf_set C k v w)) = (K w)(k \<mapsto> v)"
  unfolding law_conf_def accepts_def by (metis prod.collapse)

lemma op_timeout_set:
  assumes "law_conf C K" and "accepts C opt dflt" and "op_timeout C opt dflt w = (r, w')"
  shows "K w' = (K w)(opt \<mapsto> (case K w opt of None \<Rightarrow> dflt | Some t \<Rightarrow> if t = ''0'' then dflt else t))"
proof -
  obtain r1 v w1 where g: "cc_conf_get C opt w = (r1, v, w1)" by (metis prod_cases3)
  then have "K w1 = K w \<and> K w opt = (if r1 < 0 then None else Some v)"
    using assms(1) by (auto simp: law_conf_def)
  then show ?thesis
    using assms(3) g conf_set_accepted [OF assms(1,2)] by (auto simp: op_timeout_def split: if_splits)
qed

lemma mount_timeout_set:
  assumes "law_conf C K" and "accepts C CLIENT_MOUNT_TIMEOUT CLIENT_MOUNT_TIMEOUT_DEFAULT"
  shows "K (mount_timeout C w) = (K w)(CLIENT_MOUNT_TIMEOUT \<mapsto>
    (case K w CLIENT_MOUNT_TIMEOUT of None \<Rightarrow> CLIENT_MOUNT_TIMEOUT_DEFAULT | Some t \<Rightarrow> t))"
proof -
  obtain r v w1 where g: "cc_conf_get C CLIENT_MOUNT_TIMEOUT w = (r, v, w1)" by (metis prod_cases3)
  then have "K w1 = K w \<and> K w CLIENT_MOUNT_TIMEOUT = (if r < 0 then None else Some v)"
    using assms(1) by (auto simp: law_conf_def)
  then show ?thesis
    using g conf_set_accepted [OF assms] by (auto simp: mount_timeout_def)
qed

lemma set_client_options_other:
  assumes "law_conf C K"
  shows "k \<notin> fst ` set opts \<Longrightarrow> K (set_client_options C opts w) k = K w k"
proof (induction opts arbitrary: w)
  case (Cons p opts)
  obtain k' v where p: "p = (k', v)" by (cases p)
  obtain r w1 where c: "cc_conf_set C k' v w = (r, w1)" by (metis prod.collapse)
  then have "K w1 = (if r = 0 then (K w)(k' \<mapsto> v) else K w)" using assms by (simp add: law_conf_def)
  then show ?case using Cons p c by auto
qed simp

text \<open>The configuration after the environment and the configuration file were read.\<close>

definition conf_loaded :: "'w client \<Rightarrow> 'w \<Rightarrow> 'w" where
  "conf_loaded C w = (case cc_conf_parse_env C w of (r, w0) \<Rightarrow> if r = 0 then snd (cc_conf_read_file C w0) else w0)"

text \<open>A client with a fixed configuration and pool list, and one that only keeps a configuration.\<close>

definition fixed_client :: "(string \<times> string) list \<Rightarrow> string list \<Rightarrow> 'w client" where
  "fixed_client conf pools =
     \<lparr>cc_init = Pair 0, cc_init2 = (\<lambda>u c. Pair 0), cc_conf_parse_env = Pair 0, cc_conf_read_file = Pair 0,
      cc_conf_get = (\<lambda>k w. case map_of conf k of None \<Rightarrow> (- ENOENT, [], w) | Some v \<Rightarrow> (0, v, w)),
      cc_conf_set = (\<lambda>k v. Pair 0), cc_connect = Pair 0, cc_shutdown = id,
      cc_pool_list2 = (\<lambda>w. (0, map (Pair 0) pools, w)), cc_pool_create = (\<lambda>p. Pair 0),
      cc_ioctx_create = (\<lambda>p w. (0, \<lparr>ctx_pool = p, ctx_ns = []\<rparr>, w)),
      cc_mon_command = (\<lambda>c w. (0, [], w))\<rparr>"

definition conf_client :: "(string \<times> string) list client" where
  "conf_client = (fixed_client [] [])
     \<lparr>cc_conf_get := (\<lambda>k w. case map_of w k of None \<Rightarrow> (- ENOENT, [], w) | Some v \<Rightarrow> (0, v, w)),
      cc_conf_set := (\<lambda>k v w. (0, AList.update k v w))\<rparr>"

lemma conf_client_law: "law_conf conf_client map_of"
  by (auto simp: law_conf_def conf_client_def update_conv' split: option.splits)

section \<open>Properties\<close>



text \<open>
  Property C27: the connection is shared. With \<open>n\<close> references held on a connected cluster, fewer
  than \<open>n\<close> calls of \<open>deinit\<close> keep it connected and do nothing else; the \<open>n\<close>th one shuts it
  down, exactly once, and deletes the client.
\<close>

theorem cluster_shared_until_last:
  assumes "c_ref_count cl = int n" and "0 < n" and "c_connected cl" and "c_cluster cl"
  shows "(\<forall>k < n. deinit_times k C cl w = Some (cl\<lparr>c_ref_count := int n - int k\<rparr>, w)) \<and>
    deinit_times n C cl w =
      Some (cl\<lparr>c_ref_count := 0, c_connected := False, c_cluster := False, c_handles := c_handles cl - 1\<rparr>,
            cc_shutdown C w)"
proof -
  have "deinit_times (n - 1) C cl w = Some (cl\<lparr>c_ref_count := 1\<rparr>, w)"
    using deinit_times_keeps [of "n - 1" cl C w] assms(1,2) by (simp add: of_nat_diff)
  then have "deinit_times (n - 1 + 1) C cl w =
      Some (cl\<lparr>c_ref_count := 0, c_connected := False, c_cluster := False, c_handles := c_handles cl - 1\<rparr>,
            cc_shutdown C w)"
    unfolding deinit_times_add using assms by (simp add: deinit_def)
  then show ?thesis
    using assms deinit_times_keeps [of _ cl C w] by simp
qed


theorem cluster_shared_until_last_witness:
  "deinit_times 2 conf_client \<lparr>c_cluster = True, c_handles = 1, c_ref_count = 2, c_connected = True,
      c_client_options = []\<rparr> [] =
   Some (\<lparr>c_cluster = False, c_handles = 0, c_ref_count = 0, c_connected = False, c_client_options = []\<rparr>, [])"
  using cluster_shared_until_last [of "\<lparr>c_cluster = True, c_handles = 1, c_ref_count = 2, c_connected = True,
      c_client_options = []\<rparr>" 2 conf_client "[]"]
  by (simp add: conf_client_def fixed_client_def)



text \<open>
  A client that is given up without having been connected is leaked. A successful
  \<open>init\<close> followed by \<open>deinit\<close> leaves the object alive, and the next \<open>init\<close> allocates another.
\<close>

theorem cluster_leak_without_connect:
  assumes "init C (initial_cluster opts) w = (0, cl1, w1)" and "deinit C cl1 w1 = Some (cl2, w2)"
    and "init C cl2 w2 = (0, cl3, w3)"
  shows "c_ref_count cl2 = 0 \<and> c_cluster cl2 \<and> c_handles cl2 = 1 \<and> c_handles cl3 = 2"
  using assms
  by (auto simp: init_def init_with_def deinit_def initial_cluster_def Let_def to_int32_id split: prod.splits if_splits)

theorem cluster_leak_without_connect_witness:
  "c_handles (fst (snd (init (fixed_client [(''rados_osd_op_timeout'', ''600'')] [])
     \<lparr>c_cluster = True, c_handles = 1, c_ref_count = 0, c_connected = False, c_client_options = []\<rparr> ()))) = 2"
proof -
  let ?C = "fixed_client [(''rados_osd_op_timeout'', ''600'')] [] :: unit client"
  let ?cl = "\<lambda>h r. \<lparr>c_cluster = True, c_handles = h, c_ref_count = r, c_connected = False, c_client_options = []\<rparr>"
  have i: "initialize ?C cl () = (0, ())" for cl
    by (simp add: initialize_def fixed_client_def mount_timeout_def op_timeout_def timeout_defs)
  have 1: "init ?C (initial_cluster []) () = (0, ?cl 1 1, ())"
    and 3: "init ?C (?cl 1 0) () = (0, ?cl 2 1, ())"
    using i by (simp_all add: init_def init_with_def initial_cluster_def) (simp_all add: fixed_client_def to_int32_id)
  have 2: "deinit ?C (?cl 1 1) () = Some (?cl 1 0, ())"
    by (simp add: deinit_def)
  show ?thesis
    using cluster_leak_without_connect [OF 1 2 3] by (simp only: 3 fst_conv snd_conv)
qed

end
