(* ===== verification/Storage_Impl.thy ===== *)
theory Storage_Impl
  imports Cluster
begin

text \<open>
  \<open>RadosStorageImpl\<close> (\<open>src/src/librmb/rados-storage-impl.cpp\<close>): opening the pools, reading,
  writing, copying, moving and deleting mail objects, and the ceph index of a namespace. Every
  operation that talks to the cluster first checks the connection, as the source does. A C++
  exception or a failed assertion is the result \<^const>\<open>None\<close>.
\<close>

section \<open>State\<close>

datatype aio_wait_method = WAIT_FOR_COMPLETE_AND_CB | WAIT_FOR_SAFE_AND_CB

record storage =
  st_max_write_size :: int
  st_max_object_size :: int
  st_nspace :: string
  st_io_ctx :: io_ctx
  st_recovery_ctx :: io_ctx
  st_io_ctx_created :: bool
  st_pool_name :: string
  st_wait_method :: aio_wait_method

definition null_ctx :: io_ctx where "null_ctx = \<lparr>ctx_pool = [], ctx_ns = []\<rparr>"

definition new_storage :: storage where
  "new_storage = \<lparr>st_max_write_size = 10, st_max_object_size = 134217728, st_nspace = [],
     st_io_ctx = null_ctx, st_recovery_ctx = null_ctx, st_io_ctx_created = False, st_pool_name = [],
     st_wait_method = WAIT_FOR_COMPLETE_AND_CB\<rparr>"

definition storage_ready :: "cluster \<Rightarrow> storage \<Rightarrow> bool" where
  "storage_ready cl st \<longleftrightarrow> c_connected cl \<and> st_io_ctx_created st"

definition get_max_write_size_bytes :: "storage \<Rightarrow> int" where
  "get_max_write_size_bytes st = to_int32 (st_max_write_size st * 1024 * 1024)"

definition st_set_namespace :: "string \<Rightarrow> storage \<Rightarrow> storage" where
  "st_set_namespace ns st = st\<lparr>st_io_ctx := set_namespace ns (st_io_ctx st), st_nspace := ns\<rparr>"

section \<open>Connections\<close>

text \<open>
  A configuration value of the cluster that is no number raises an exception: the result \<^const>\<open>Inl\<close>
  together with the state at that point.
\<close>

definition create_connection :: "'w client \<Rightarrow> string \<Rightarrow> string \<Rightarrow> cluster \<Rightarrow> storage \<Rightarrow> 'w \<Rightarrow>
    ((cpp_exn + int) \<times> cluster \<times> storage \<times> 'w) option" where
  "create_connection C poolname index_pool cl st w =
     (case io_ctx_create C poolname (st_io_ctx st) cl w of None \<Rightarrow> None
      | Some (err, io, cl1, w1) \<Rightarrow>
        let st1 = st\<lparr>st_io_ctx := io\<rparr> in
        if err < 0 then Some (Inr err, cl1, st1, w1)
        else case recovery_index_io_ctx C index_pool (st_recovery_ctx st1) cl1 w1 of None \<Rightarrow> None
        | Some (err, rio, cl2, w2) \<Rightarrow>
          let st2 = st1\<lparr>st_recovery_ctx := rio\<rparr> in
          if err < 0 then Some (Inr err, cl2, st2, w2)
          else case get_config_option C ''osd_max_write_size'' cl2 w2 of None \<Rightarrow> None
          | Some (err, ws, w3) \<Rightarrow>
            if err < 0 then Some (Inr err, cl2, st2, w3)
            else case stoi ws of Inl e \<Rightarrow> Some (Inl e, cl2, st2, w3)
            | Inr wn \<Rightarrow>
              let st3 = st2\<lparr>st_max_write_size := wn\<rparr> in
              case get_config_option C ''osd_max_object_size'' cl2 w3 of None \<Rightarrow> None
              | Some (err, os, w4) \<Rightarrow>
                if err < 0 then Some (Inr err, cl2, st3, w4)
                else case stoi os of Inl e \<Rightarrow> Some (Inl e, cl2, st3, w4)
                | Inr on \<Rightarrow>
                  let st4 = st3\<lparr>st_max_object_size := on\<rparr>;
                      st5 = (if err = 0 then st4\<lparr>st_io_ctx_created := True\<rparr> else st4)
                  in Some (Inr 0, cl2, st5\<lparr>st_pool_name := poolname\<rparr>, w4))"

text \<open>
  The overloads of \<open>open_connection\<close>: with cluster and user name they return 1 when the storage
  is already connected; without them they always take another reference.
\<close>

definition open_connection_user :: "'w client \<Rightarrow> string \<Rightarrow> string \<Rightarrow> string \<Rightarrow> string \<Rightarrow>
    cluster \<Rightarrow> storage \<Rightarrow> 'w \<Rightarrow> ((cpp_exn + int) \<times> cluster \<times> storage \<times> 'w) option" where
  "open_connection_user C poolname index_pool clustername rados_username cl st w =
     (if storage_ready cl st then Some (Inr 1, cl, st, w)
      else case init_user clustername rados_username C cl w of (r, cl1, w1) \<Rightarrow>
        if r < 0 then Some (Inr (-1), cl1, st, w1) else create_connection C poolname index_pool cl1 st w1)"

definition open_connection3 :: "'w client \<Rightarrow> string \<Rightarrow> string \<Rightarrow> string \<Rightarrow>
    cluster \<Rightarrow> storage \<Rightarrow> 'w \<Rightarrow> ((cpp_exn + int) \<times> cluster \<times> storage \<times> 'w) option" where
  "open_connection3 C poolname clustername rados_username cl st w =
     (if storage_ready cl st then Some (Inr 1, cl, st, w)
      else case init_user clustername rados_username C cl w of (r, cl1, w1) \<Rightarrow>
        if r < 0 then Some (Inr (-1), cl1, st, w1) else create_connection C poolname poolname cl1 st w1)"

definition open_connection2 :: "'w client \<Rightarrow> string \<Rightarrow> string \<Rightarrow>
    cluster \<Rightarrow> storage \<Rightarrow> 'w \<Rightarrow> ((cpp_exn + int) \<times> cluster \<times> storage \<times> 'w) option" where
  "open_connection2 C poolname index_pool cl st w =
     (case init C cl w of (r, cl1, w1) \<Rightarrow>
        if r < 0 then Some (Inr (-1), cl1, st, w1) else create_connection C poolname index_pool cl1 st w1)"

definition open_connection :: "'w client \<Rightarrow> string \<Rightarrow>
    cluster \<Rightarrow> storage \<Rightarrow> 'w \<Rightarrow> ((cpp_exn + int) \<times> cluster \<times> storage \<times> 'w) option" where
  "open_connection C poolname cl st w = open_connection2 C poolname poolname cl st w"

definition close_connection :: "'w client \<Rightarrow> cluster \<Rightarrow> storage \<Rightarrow> 'w \<Rightarrow> (cluster \<times> 'w) option" where
  "close_connection C cl st w = (if st_io_ctx_created st then deinit C cl w else Some (cl, w))"

section \<open>Single object operations\<close>

definition save_mail_full :: "'w rados \<Rightarrow> storage \<Rightarrow> string \<Rightarrow> bytes \<Rightarrow> 'w \<Rightarrow> int \<times> 'w" where
  "save_mail_full R st oid buffer w = rd_write_full R (st_io_ctx st) oid buffer w"

definition read_mail :: "'w rados \<Rightarrow> cluster \<Rightarrow> storage \<Rightarrow> string \<Rightarrow> 'w \<Rightarrow> int \<times> bytes \<times> 'w" where
  "read_mail R cl st oid w =
     (if \<not> storage_ready cl st then (-1, [], w) else rd_read R (st_io_ctx st) oid w)"

definition delete_mail :: "'w rados \<Rightarrow> cluster \<Rightarrow> storage \<Rightarrow> string \<Rightarrow> 'w \<Rightarrow> int \<times> 'w" where
  "delete_mail R cl st oid w =
     (if \<not> c_connected cl \<or> oid = [] \<or> \<not> st_io_ctx_created st then (-1, w)
      else rd_remove R (st_io_ctx st) oid w)"

definition delete_mail_ptr :: "'w rados \<Rightarrow> cluster \<Rightarrow> storage \<Rightarrow> rados_mail option \<Rightarrow> 'w \<Rightarrow> int \<times> 'w" where
  "delete_mail_ptr R cl st mail w =
     (case mail of None \<Rightarrow> (-1, w)
      | Some m \<Rightarrow> if storage_ready cl st then delete_mail R cl st (m_oid m) w else (-1, w))"

definition execute_operation :: "'w rados \<Rightarrow> cluster \<Rightarrow> storage \<Rightarrow> string \<Rightarrow> write_op \<Rightarrow> 'w \<Rightarrow> bool \<times> 'w" where
  "execute_operation R cl st oid write_op_xattr w =
     (if \<not> storage_ready cl st then (False, w)
      else case rd_operate R (st_io_ctx st) oid write_op_xattr w of (r, w1) \<Rightarrow> (0 \<le> r, w1))"

text \<open>\<open>append(oid, bl, len)\<close> appends the first \<open>len\<close> bytes of the buffer.\<close>

definition append_to_object :: "'w rados \<Rightarrow> cluster \<Rightarrow> storage \<Rightarrow> string \<Rightarrow> bytes \<Rightarrow> nat \<Rightarrow> 'w \<Rightarrow> bool \<times> 'w" where
  "append_to_object R cl st oid bl len w =
     (if \<not> storage_ready cl st then (False, w)
      else case rd_append R (st_io_ctx st) oid (take len bl) w of (r, w1) \<Rightarrow> (0 \<le> r, w1))"

text \<open>The read operation the mail storage builds: the data, the size and the time of an object.\<close>

definition read_operate :: "'w rados \<Rightarrow> cluster \<Rightarrow> storage \<Rightarrow> string \<Rightarrow> 'w \<Rightarrow> int \<times> bytes \<times> nat \<times> int \<times> 'w" where
  "read_operate R cl st oid w =
     (if \<not> storage_ready cl st then (-1, [], 0, 0, w) else rd_read_stat R (st_io_ctx st) oid w)"

text \<open>
  \<open>aio_operate\<close> returns the code of the submission and the value its completion will deliver.
\<close>

definition aio_operate :: "'w rados \<Rightarrow> cluster \<Rightarrow> storage \<Rightarrow> io_ctx option \<Rightarrow> string \<Rightarrow> write_op \<Rightarrow> 'w \<Rightarrow>
    int \<times> int \<times> 'w" where
  "aio_operate R cl st io oid op w =
     (if \<not> storage_ready cl st then (-1, 0, w)
      else case io of Some c \<Rightarrow> rd_aio_operate R c oid op w
                    | None \<Rightarrow> rd_aio_operate R (st_io_ctx st) oid op w)"

definition stat_mail :: "'w rados \<Rightarrow> cluster \<Rightarrow> storage \<Rightarrow> string \<Rightarrow> 'w \<Rightarrow> int \<times> nat \<times> int \<times> 'w" where
  "stat_mail R cl st oid w =
     (if \<not> storage_ready cl st then (-1, 0, 0, w) else rd_stat R (st_io_ctx st) oid w)"

definition find_mails :: "'w rados \<Rightarrow> cluster \<Rightarrow> storage \<Rightarrow> rados_metadata option \<Rightarrow> 'w \<Rightarrow> string list" where
  "find_mails R cl st attr w =
     (if \<not> storage_ready cl st then []
      else case attr of
        Some a \<Rightarrow> rd_objects_filter R (st_io_ctx st)
                    (encode_string ''plain'' @ encode_string (''_'' @ md_key a) @ encode_string (md_bl a)) w
      | None \<Rightarrow> rd_objects R (st_io_ctx st) w)"

text \<open>
  The parallel search. One thread per OSD reads the listing from the position of each of its
  placement groups on, and inserts what it finds into one set under a lock, so the order of the
  threads does not matter. \<open>sscanf\<close> reads the position from the id of the group; when it cannot, the
  variable keeps what it held (\<open>garbage\<close>). With no threads allowed the code takes the first of an
  empty vector: \<^const>\<open>None\<close>.
\<close>

definition isxdigit :: "char \<Rightarrow> bool" where
  "isxdigit c \<longleftrightarrow> isdigit c \<or> c \<in> set ''abcdefABCDEF''"

definition xdigit_val :: "char \<Rightarrow> nat" where
  "xdigit_val c = (if isdigit c then digit_val c
     else if c \<in> set ''abcdef'' then of_char c - 87 else of_char c - 55)"

definition skip_0x :: "string \<Rightarrow> string" where
  "skip_0x s = (if take 2 s = ''0x'' \<or> take 2 s = ''0X'' then drop 2 s else s)"

definition scan_pg :: "string \<Rightarrow> 32 word option" where
  "scan_pg pg =
     (let u = snd (parse_sign (dropWhile isspace pg)); r = dropWhile isdigit u in
      if takeWhile isdigit u = [] \<or> take 1 r \<noteq> ''.'' then None
      else
        let (neg, v) = parse_sign (dropWhile isspace (drop 1 r)); h = takeWhile isxdigit (skip_0x v);
            n = word_of_nat (foldl (\<lambda>n c. 16 * n + xdigit_val c) 0 h)
        in if h = [] then None else Some (if neg then - n else n))"

definition pg_position :: "32 word \<Rightarrow> string \<Rightarrow> 32 word" where
  "pg_position garbage pg = (case scan_pg pg of None \<Rightarrow> garbage | Some p \<Rightarrow> p)"

definition find_mails_async :: "'w client \<Rightarrow> 'w rados \<Rightarrow> 32 word \<Rightarrow> rados_metadata option \<Rightarrow> string \<Rightarrow> int \<Rightarrow>
    cluster \<Rightarrow> storage \<Rightarrow> 'w \<Rightarrow> (string set \<times> cluster \<times> 'w) option" where
  "find_mails_async C R garbage attr pool_name num_threads cl st w =
     (case list_pgs_osd_for_pool C pool_name cl w of None \<Rightarrow> None
      | Some (osd_pg_map, cl1, w1) \<Rightarrow>
          if attr = None \<or> num_threads = 0 \<and> osd_pg_map \<noteq> [] then None
          else Some (\<Union>pg \<in> set (concat (map snd (filter (\<lambda>x. fst x \<noteq> ''oon'') osd_pg_map))).
                 set (rd_objects_from R (st_io_ctx st) (pg_position garbage pg) w1), cl1, w1))"

definition wait_for_write_operations_complete :: "storage \<Rightarrow> int option \<Rightarrow> bool" where
  "wait_for_write_operations_complete st completion =
     (case completion of None \<Rightarrow> True | Some rv \<Rightarrow> rv < 0)"

fun wait_for_rados_operations :: "storage \<Rightarrow> rados_mail list \<Rightarrow> bool \<times> rados_mail list" where
  "wait_for_rados_operations st [] = (False, [])"
| "wait_for_rados_operations st (m # ms) =
     (let op_failed = has_active_op m \<and> wait_for_write_operations_complete st (m_completion m);
          m' = (if has_active_op m then m\<lparr>m_active_op := 0\<rparr> else m)\<lparr>m_buffer := []\<rparr>;
          (rest_failed, ms') = wait_for_rados_operations st ms
      in (op_failed \<or> rest_failed, m' # ms'))"

section \<open>Writing a mail in pieces\<close>

text \<open>
  One round of the loop of \<open>split_buffer_and_exec_op\<close>, with the integer types of the source:
  \<open>offset\<close> is an \<open>int\<close>; \<open>substr_of\<close> takes unsigned arguments and throws past the end.
\<close>

definition split_op :: "bytes \<Rightarrow> nat \<Rightarrow> nat \<Rightarrow> int \<Rightarrow> nat \<Rightarrow> write_op option" where
  "split_op buf sz max_write dv i =
     (let offset = to_int32 (int (i * max_write));
          rest = sz mod max_write;
          len = (if sz < to_uint64 (int ((i + 1) * max_write)) then rest else max_write);
          hint = WAllocHint sz len
      in if dv = 1 then Some [hint, WWrite 0 buf]
         else if to_uint32 offset + to_uint32 (int len) \<le> length buf
         then Some [hint, WWrite (to_uint64 offset) (take (to_uint32 (int len)) (drop (to_uint32 offset) buf))]
         else None)"

function split_loop :: "'w rados \<Rightarrow> io_ctx \<Rightarrow> string \<Rightarrow> bytes \<Rightarrow> nat \<Rightarrow> nat \<Rightarrow> int \<Rightarrow> nat \<Rightarrow> int \<Rightarrow> 'w \<Rightarrow>
    (int \<times> 'w) option" where
  "split_loop R c oid buf sz max_write dv i ret_val w =
     (if int i < dv then
        case split_op buf sz max_write dv i of None \<Rightarrow> None
        | Some op \<Rightarrow> (case rd_operate R c oid op w of (r, w1) \<Rightarrow>
            if r < 0 then Some (-1, w1)
            else split_loop R c oid buf sz max_write dv (i + 1) r w1)
      else Some (ret_val, w))"
  by pat_completeness auto
termination
  by (relation "measure (\<lambda>(R, c, oid, buf, sz, max_write, dv, i, ret_val, w). nat (dv - int i))") auto

declare split_loop.simps [simp del]

definition split_buffer_and_exec_op :: "'w rados \<Rightarrow> cluster \<Rightarrow> storage \<Rightarrow> rados_mail \<Rightarrow> write_op \<Rightarrow> nat \<Rightarrow> 'w \<Rightarrow>
    (int \<times> rados_mail \<times> 'w) option" where
  "split_buffer_and_exec_op R cl st m write_op_xattr max_write w =
     (if \<not> storage_ready cl st then Some (-1, m, w)
      else let sz = to_uint64 (m_object_size m) in
        if max_write = 0 then None
        else if sz = 0 then Some (-1, m, w)
        else case rd_operate R (st_io_ctx st) (m_oid m) write_op_xattr w of (r, w1) \<Rightarrow>
          if r < 0 then Some (-1, m, w1)
          else let rest = sz mod max_write;
                   dv = to_int32 (int (sz div max_write + (if rest > 0 then 1 else 0)))
            in (case split_loop R (st_io_ctx st) (m_oid m) (m_buffer m) sz max_write dv 0 r w1 of
                  None \<Rightarrow> None
                | Some (ret, w2) \<Rightarrow>
                    Some (ret, m\<lparr>m_completion := None, m_active_op := 0, m_buffer := []\<rparr>, w2)))"

definition save_mail_op :: "'w rados \<Rightarrow> cluster \<Rightarrow> storage \<Rightarrow> write_op \<Rightarrow> rados_mail \<Rightarrow> 'w \<Rightarrow>
    (bool \<times> rados_mail \<times> 'w) option" where
  "save_mail_op R cl st write_op_xattr m w =
     (if \<not> storage_ready cl st then Some (False, m, w)
      else case split_buffer_and_exec_op R cl st m (write_op_xattr @ [WMtime (m_save_date m)]) 10240 w of
        None \<Rightarrow> None
      | Some (ret, m1, w1) \<Rightarrow>
          Some (ret = 0, if ret \<noteq> 0 then m1\<lparr>m_active_op := 0\<rparr> else m1, w1))"

definition save_mail :: "'w rados \<Rightarrow> cluster \<Rightarrow> storage \<Rightarrow> rados_mail \<Rightarrow> 'w \<Rightarrow> (bool \<times> rados_mail \<times> 'w) option" where
  "save_mail R cl st m w =
     (if \<not> storage_ready cl st then Some (False, m, w)
      else save_mail_op R cl st
             (map (\<lambda>(k, v). WSetXattr k v) (m_attrset m) @
              (if length (m_extended m) > 0 then [WOmapSet (m_extended m)] else [])) m w)"


section \<open>Copy and move\<close>

text \<open>
  \<open>dest_io_ctx = io_ctx\<close> makes both handles share one state, so the namespace set on the copy is
  the namespace of the storage afterwards; \<open>dup\<close> makes an independent handle for the source. The
  namespaces are C strings and \<open>now\<close> is \<open>time(NULL)\<close>.
\<close>

definition metadata_ops :: "rados_metadata list \<Rightarrow> write_op" where
  "metadata_ops to_update = map (\<lambda>m. WSetXattr (md_key m) (md_bl m)) to_update"

definition move :: "'w rados \<Rightarrow> cluster \<Rightarrow> storage \<Rightarrow> int \<Rightarrow> string \<Rightarrow> string \<Rightarrow> string \<Rightarrow> string \<Rightarrow>
    rados_metadata list \<Rightarrow> bool \<Rightarrow> 'w \<Rightarrow> int \<times> storage \<times> 'w" where
  "move R cl st now src_oid src_ns dest_oid dest_ns to_update delete_source w =
     (if \<not> storage_ready cl st then (-1, st, w)
      else
        let src_ctx = (if src_ns \<noteq> dest_ns then set_namespace src_ns (st_io_ctx st) else st_io_ctx st);
            dest_ctx = (if src_ns \<noteq> dest_ns then set_namespace dest_ns (st_io_ctx st) else st_io_ctx st);
            st1 = st\<lparr>st_io_ctx := dest_ctx\<rparr>;
            (ret, w1) = (if src_ns \<noteq> dest_ns then (0, w)
                         else case rd_stat R src_ctx src_oid w of (r, _, _, w1) \<Rightarrow> (r, w1))
        in if ret < 0 then (ret, st1, w1)
           else
             let op = (if src_ns \<noteq> dest_ns then [WCopyFrom src_oid src_ctx] else []) @
                      [WMtime now] @ metadata_ops to_update;
                 (r, cr, w2) = aio_operate R cl st1 (Some dest_ctx) dest_oid op w1;
                 (ret2, w3) =
                   (if 0 \<le> r then
                      if delete_source \<and> src_ns \<noteq> dest_ns \<and> cr = 0 then rd_remove R src_ctx src_oid w2
                      else (cr, w2)
                    else (r, w2))
             in (ret2, st1\<lparr>st_io_ctx := set_namespace dest_ns (st_io_ctx st1)\<rparr>, w3))"

definition copy :: "'w rados \<Rightarrow> cluster \<Rightarrow> storage \<Rightarrow> int \<Rightarrow> string \<Rightarrow> string \<Rightarrow> string \<Rightarrow> string \<Rightarrow>
    rados_metadata list \<Rightarrow> 'w \<Rightarrow> int \<times> storage \<times> 'w" where
  "copy R cl st now src_oid src_ns dest_oid dest_ns to_update w =
     (if \<not> storage_ready cl st then (-1, st, w)
      else
        let src_ctx = (if src_ns \<noteq> dest_ns then set_namespace src_ns (st_io_ctx st) else st_io_ctx st);
            dest_ctx = (if src_ns \<noteq> dest_ns then set_namespace dest_ns (st_io_ctx st) else st_io_ctx st);
            st1 = st\<lparr>st_io_ctx := dest_ctx\<rparr>;
            op = [WCopyFrom src_oid src_ctx, WMtime now] @ metadata_ops to_update;
            (r, cr, w1) = aio_operate R cl st1 (Some dest_ctx) dest_oid op w
        in ((if 0 \<le> r then cr else r),
            st1\<lparr>st_io_ctx := set_namespace dest_ns (st_io_ctx st1)\<rparr>, w1))"

section \<open>The ceph index of the namespace\<close>

text \<open>
  The size variables are not initialised before \<open>stat\<close>; \<open>garbage\<close> is the value they happen to
  have when it fails.
\<close>

definition ceph_index_size :: "'w rados \<Rightarrow> storage \<Rightarrow> nat \<Rightarrow> 'w \<Rightarrow> nat \<times> 'w" where
  "ceph_index_size R st garbage w =
     (case rd_stat R (st_recovery_ctx st) (st_nspace st) w of (r, n, _, w1) \<Rightarrow>
        (if r < 0 then garbage else n, w1))"

definition ceph_index_append :: "'w rados \<Rightarrow> storage \<Rightarrow> string \<Rightarrow> 'w \<Rightarrow> int \<times> 'w" where
  "ceph_index_append R st oid w =
     rd_append R (st_recovery_ctx st) (st_nspace st) (convert_to_ceph_index_str oid) w"

definition ceph_index_append_set :: "'w rados \<Rightarrow> storage \<Rightarrow> string set \<Rightarrow> 'w \<Rightarrow> int \<times> 'w" where
  "ceph_index_append_set R st oids w =
     rd_append R (st_recovery_ctx st) (st_nspace st) (convert_to_ceph_index oids) w"

definition ceph_index_overwrite :: "'w rados \<Rightarrow> storage \<Rightarrow> string set \<Rightarrow> 'w \<Rightarrow> int \<times> 'w" where
  "ceph_index_overwrite R st oids w =
     rd_write_full R (st_recovery_ctx st) (st_nspace st) (convert_to_ceph_index oids) w"

text \<open>
  The data of a bufferlist is not terminated, so \<open>bl.c_str()\<close> read as a C string goes on into the memory behind it;
  \<open>behind\<close> is what that memory holds.
\<close>

definition ceph_index_read :: "'w rados \<Rightarrow> storage \<Rightarrow> int \<Rightarrow> bytes \<Rightarrow> 'w \<Rightarrow> string set \<times> 'w" where
  "ceph_index_read R st garbage behind w =
     (case rd_stat R (st_recovery_ctx st) (st_nspace st) w of (r, n, _, w1) \<Rightarrow>
        let psize = (if r < 0 then garbage else int n) in
        if psize \<le> 0 then ({}, w1)
        else case rd_read R (st_recovery_ctx st) (st_nspace st) w1 of (ret, bl, w2) \<Rightarrow>
          if ret < 0 then ({}, w2) else (ceph_index_to_set (c_str (bl @ behind)), w2))"

definition ceph_index_delete :: "'w rados \<Rightarrow> storage \<Rightarrow> 'w \<Rightarrow> int \<times> 'w" where
  "ceph_index_delete R st w = rd_remove R (st_recovery_ctx st) (st_nspace st) w"


section \<open>Lemmas\<close>

text \<open>The number of pieces, and what piece \<open>i\<close> writes.\<close>

definition pieces :: "nat \<Rightarrow> nat \<Rightarrow> nat" where
  "pieces sz max_write = sz div max_write + (if sz mod max_write > 0 then 1 else 0)"

lemma pieces_less:
  assumes "0 < mx" and "i < pieces sz mx"
  shows "i * mx < sz"
proof (cases "i < sz div mx")
  case True
  then have "(i + 1) * mx \<le> sz div mx * mx" by (intro mult_le_mono1) simp
  also have "\<dots> \<le> sz" by simp
  finally show ?thesis using assms(1) by simp
next
  case False
  then have "i = sz div mx" and "0 < sz mod mx"
    using assms(2) by (auto simp: pieces_def split: if_splits)
  then show ?thesis by (metis add.commute div_mult_mod_eq less_add_same_cancel2)
qed

lemma pieces_last:
  assumes "0 < mx" and "pieces sz mx \<le> i"
  shows "sz \<le> i * mx"
proof -
  have "sz \<le> pieces sz mx * mx"
  proof -
    have "sz = sz div mx * mx + sz mod mx" by simp
    then show ?thesis
      using mod_less_divisor [OF assms(1), of sz]
      unfolding pieces_def add_mult_distrib by (cases "0 < sz mod mx"; simp only: if_True if_False; linarith)
  qed
  also have "\<dots> \<le> i * mx" using assms(2) by (rule mult_le_mono1)
  finally show ?thesis .
qed

lemma last_piece:
  assumes "0 < (mx::nat)" and "i * mx < sz" and "sz < (i + 1) * mx"
  shows "sz mod mx = sz - i * mx"
proof -
  have "sz div mx = i"
    using assms by (intro div_nat_eqI) (simp_all add: mult.commute)
  then show ?thesis
    by (metis minus_mod_eq_div_mult minus_div_mult_eq_mod)
qed

lemma split_op_piece:
  assumes "0 < mx" and "int mx \<le> INT_MAX" and "int (length buf) \<le> INT_MAX"
    and "i < pieces (length buf) mx"
  shows "\<exists>n. split_op buf (length buf) mx (int (pieces (length buf) mx)) i =
     Some [WAllocHint (length buf) n, WWrite (i * mx) (take mx (drop (i * mx) buf))]"
proof -
  let ?sz = "length buf"
  have i: "i * mx < ?sz" by (rule pieces_less [OF assms(1,4)])
  have "int ((i + 1) * mx) \<le> LONG_MAX"
    using i assms(2,3) unfolding add_mult_distrib by linarith
  then have "to_uint64 (int ((i + 1) * mx)) = (i + 1) * mx"
    by (metis nat_int of_nat_0_le_iff to_uint64_id)
  then have len: "(if ?sz < to_uint64 (int ((i + 1) * mx)) then ?sz mod mx else mx) = min mx (?sz - i * mx)"
    using i last_piece [OF assms(1) i] by (auto simp: min_def)
  have off: "to_int32 (int (i * mx)) = int (i * mx)" "to_uint32 (int (i * mx)) = i * mx"
    "to_uint64 (int (i * mx)) = i * mx"
    using i assms(3) by (simp_all only: to_int32_id to_uint32_id to_uint64_id nat_int of_nat_0_le_iff)
  have m: "to_uint32 (int (min mx (?sz - i * mx))) = min mx (?sz - i * mx)"
    using assms(2) by (subst to_uint32_id) (simp_all add: min_def)
  show ?thesis
  proof (cases "int (pieces ?sz mx) = 1")
    case True
    then have i0: "i = 0" using assms(4) by simp
    have "?sz \<le> mx" using pieces_last [OF assms(1), of ?sz 1] True by simp
    with i0 show ?thesis using True by (simp add: split_op_def Let_def)
  next
    case False
    have t: "take (min mx (?sz - i * mx)) (drop (i * mx) buf) = take mx (drop (i * mx) buf)"
      by (metis length_drop take_all_iff take_take nle_le min.commute length_take order_refl)
    have "i * mx + min mx (?sz - i * mx) \<le> ?sz" using i by simp
    then show ?thesis
      using False unfolding split_op_def Let_def len off m t by simp
  qed
qed


lemma write_piece:
  assumes "n \<le> length buf"
  shows "write_at n (take mx (drop n buf)) (take n buf @ drop n old) =
         take (n + mx) buf @ drop (min (n + mx) (length buf)) old"
proof -
  have t: "take n buf @ take mx (drop n buf) = take (n + mx) buf" by (simp add: take_add)
  have "n + length (take mx (drop n buf)) = min (n + mx) (length buf)"
    using assms by (auto simp: min_def)
  then have "drop (n + length (take mx (drop n buf))) (take n buf @ drop n old) = drop (min (n + mx) (length buf)) old"
    using assms by (simp add: min_def)
  then show ?thesis
    using assms t unfolding write_at_def by (simp add: min_def)
qed

lemma split_loop_stores:
  assumes "law_operate R V" and "0 < mx" and "int mx \<le> INT_MAX" and "int (length buf) \<le> INT_MAX"
  shows "\<lbrakk>i \<le> pieces (length buf) mx; V w (okey c oid) = Some ob;
     o_data ob = take (i * mx) buf @ drop (min (i * mx) (length buf)) old;
     split_loop R c oid buf (length buf) mx (int (pieces (length buf) mx)) i r0 w = Some (r, w'); 0 \<le> r\<rbrakk> \<Longrightarrow>
     \<exists>t. V w' = (V w)(okey c oid \<mapsto> ob\<lparr>o_mtime := t, o_data := buf @ drop (length buf) old\<rparr>)"
proof (induction "pieces (length buf) mx - i" arbitrary: i w ob r0)
  case 0
  then have i: "i = pieces (length buf) mx" and "length buf \<le> i * mx"
    using pieces_last [OF assms(2), of "length buf" i] by simp_all
  then have "o_data ob = buf @ drop (length buf) old" and "w' = w"
    using 0 by (simp_all add: min_def split_loop.simps)
  then have "V w' = (V w)(okey c oid \<mapsto> ob\<lparr>o_mtime := o_mtime ob, o_data := buf @ drop (length buf) old\<rparr>)"
    using "0.prems"(2) by (auto simp: fun_eq_iff)
  then show ?case ..
next
  case (Suc n)
  let ?k = "okey c oid" and ?n = "i * mx"
  have i: "i < pieces (length buf) mx" using Suc.hyps(2) by simp
  then obtain h where op: "split_op buf (length buf) mx (int (pieces (length buf) mx)) i =
      Some [WAllocHint (length buf) h, WWrite ?n (take mx (drop ?n buf))]"
    using split_op_piece [OF assms(2-4)] by blast
  obtain r1 w1 where o: "rd_operate R c oid [WAllocHint (length buf) h, WWrite ?n (take mx (drop ?n buf))] w = (r1, w1)"
    by fastforce
  then have step: "0 \<le> r1" "split_loop R c oid buf (length buf) mx (int (pieces (length buf) mx)) (i + 1) r1 w1 = Some (r, w')"
    using Suc.prems(4,5) i op by (subst (asm) split_loop.simps; simp split: if_splits)+
  have "?n \<le> length buf" using pieces_less [OF assms(2) i] by simp
  obtain t where V1: "V w1 = (V w)(?k \<mapsto> (touched t (V w) ?k)\<lparr>o_data := write_at ?n (take mx (drop ?n buf)) (o_data ob)\<rparr>)"
    using assms(1) o step(1) Suc.prems(2) unfolding law_operate_def by (fastforce simp: touched_def)
  let ?ob = "ob\<lparr>o_mtime := t, o_data := take (?n + mx) buf @ drop (min (?n + mx) (length buf)) old\<rparr>"
  have "V w1 = (V w)(?k \<mapsto> ?ob)"
    using V1 Suc.prems(2,3) write_piece [OF \<open>?n \<le> length buf\<close>] \<open>?n \<le> length buf\<close>
    by (simp add: touched_def min_def)
  then show ?case
    using Suc.hyps(1) [of "i + 1" w1 ?ob r1] Suc.hyps(2) i step Suc.prems(5)
    by (auto simp: add.commute)
qed

lemma split_loop_returns:
  assumes "0 < mx" and "int mx \<le> INT_MAX" and "int (length buf) \<le> INT_MAX"
  shows "split_loop R c oid buf (length buf) mx (int (pieces (length buf) mx)) i r0 w \<noteq> None"
proof (induction "pieces (length buf) mx - i" arbitrary: i r0 w)
  case 0
  then show ?case by (simp add: split_loop.simps)
next
  case (Suc n)
  then have "i < pieces (length buf) mx" by simp
  then show ?case
    using split_op_piece [OF assms] Suc.hyps(1) [of "i + 1"] Suc.hyps(2)
    by (subst split_loop.simps) (fastforce split: prod.splits)
qed


lemma apply_setxattrs:
  "apply_op V (map (\<lambda>(k, v). WSetXattr k v) kvs) ob = ob\<lparr>o_xattrs := smap_put_all kvs (o_xattrs ob)\<rparr>"
  by (induction kvs arbitrary: ob) (auto simp: smap_put_all_def)

lemma apply_metadata_ops:
  "apply_op V (metadata_ops md) ob =
   ob\<lparr>o_xattrs := smap_put_all (map (\<lambda>m. (md_key m, md_bl m)) md) (o_xattrs ob)\<rparr>"
  by (induction md arbitrary: ob) (auto simp: smap_put_all_def metadata_ops_def)

text \<open>What the metadata part of \<open>save_mail\<close> writes.\<close>

definition xattr_op :: "rados_mail \<Rightarrow> write_op" where
  "xattr_op m = map (\<lambda>(k, v). WSetXattr k v) (m_attrset m) @
     (if length (m_extended m) > 0 then [WOmapSet (m_extended m)] else [])"

lemma apply_xattr_op:
  "apply_op V (xattr_op m) ob = ob\<lparr>o_xattrs := smap_put_all (m_attrset m) (o_xattrs ob),
     o_omap := smap_put_all (m_extended m) (o_omap ob)\<rparr>"
  by (simp add: xattr_op_def apply_op_append apply_setxattrs smap_put_all_def)

lemma pieces_le:
  assumes "0 < mx"
  shows "pieces sz mx \<le> sz"
proof (cases "pieces sz mx")
  case (Suc n)
  then have "n * mx < sz" using pieces_less [OF assms, of n sz] by simp
  moreover have "n \<le> n * mx" using assms by simp
  ultimately have "n < sz" by (rule le_less_trans [rotated])
  then show ?thesis using Suc by simp
qed simp

lemma split_buffer_eq:
  assumes "storage_ready cl st" and "m_object_size m = int (length (m_buffer m))"
    and "int (length (m_buffer m)) \<le> INT_MAX" and "m_buffer m \<noteq> []" and "0 < mx"
  shows "split_buffer_and_exec_op R cl st m op mx w =
    (case rd_operate R (st_io_ctx st) (m_oid m) op w of (r, w1) \<Rightarrow>
       if r < 0 then Some (-1, m, w1)
       else case split_loop R (st_io_ctx st) (m_oid m) (m_buffer m) (length (m_buffer m)) mx
                   (int (pieces (length (m_buffer m)) mx)) 0 r w1 of
          None \<Rightarrow> None
        | Some (ret, w2) \<Rightarrow> Some (ret, m\<lparr>m_completion := None, m_active_op := 0, m_buffer := []\<rparr>, w2))"
proof -
  let ?sz = "length (m_buffer m)"
  have sz: "to_uint64 (m_object_size m) = ?sz"
    using assms(2,3) by (simp add: to_uint64_id)
  have "to_int32 (int (pieces ?sz mx)) = int (pieces ?sz mx)"
    using pieces_le [OF assms(5), of ?sz] assms(3) by (intro to_int32_id) simp_all
  then have dv: "to_int32 (int (?sz div mx + (if 0 < ?sz mod mx then 1 else 0))) = int (pieces ?sz mx)"
    by (simp only: pieces_def)
  show ?thesis
    using assms(1,4,5) unfolding split_buffer_and_exec_op_def sz Let_def dv by simp
qed

text \<open>Saving with any metadata operation: what it returns, and the object it leaves.\<close>

lemma save_mail_op_eq:
  assumes "storage_ready cl st" and "m_object_size m = int (length (m_buffer m))"
    and "int (length (m_buffer m)) \<le> INT_MAX" and "m_buffer m \<noteq> []"
    and "rd_operate R (st_io_ctx st) (m_oid m) (op @ [WMtime (m_save_date m)]) w = (r, w1)"
  shows "save_mail_op R cl st op m w = (if r < 0 then Some (False, m\<lparr>m_active_op := 0\<rparr>, w1)
     else case split_loop R (st_io_ctx st) (m_oid m) (m_buffer m) (length (m_buffer m)) 10240
                (int (pieces (length (m_buffer m)) 10240)) 0 r w1 of None \<Rightarrow> None
       | Some (ret, w2) \<Rightarrow> Some (ret = 0, m\<lparr>m_completion := None, m_active_op := 0, m_buffer := []\<rparr>, w2))"
  using assms split_buffer_eq [OF assms(1-4), of 10240 R "op @ [WMtime (m_save_date m)]" w]
  by (auto simp: save_mail_op_def split: option.splits)

lemma save_mail_op_returns:
  assumes "m_object_size m = int (length (m_buffer m))" and "int (length (m_buffer m)) \<le> INT_MAX"
  shows "save_mail_op R cl st op m w \<noteq> None"
proof (cases "storage_ready cl st \<and> m_buffer m \<noteq> []")
  case False
  then show ?thesis
    using assms(1) by (auto simp: save_mail_op_def split_buffer_and_exec_op_def to_uint64_def)
next
  case True
  obtain r w1 where o: "rd_operate R (st_io_ctx st) (m_oid m) (op @ [WMtime (m_save_date m)]) w = (r, w1)" by fastforce
  show ?thesis
    using save_mail_op_eq [OF _ assms _ o, of cl] True assms(2)
      split_loop_returns [of 10240 "m_buffer m" R "st_io_ctx st" "m_oid m" 0 r w1]
    by (auto split: option.splits)
qed

lemma save_mail_op_stores:
  assumes "law_operate R V" and "m_object_size m = int (length (m_buffer m))"
    and "int (length (m_buffer m)) \<le> INT_MAX" and "V w (okey (st_io_ctx st) (m_oid m)) = None"
    and data: "\<And>ob. o_data (apply_op (V w) op ob) = o_data ob"
    and s: "save_mail_op R cl st op m w = Some (True, m1, w')"
  shows "\<exists>t t'. V w' = (V w)(okey (st_io_ctx st) (m_oid m) \<mapsto>
     (apply_op (V w) op (empty_robj\<lparr>o_mtime := t'\<rparr>))\<lparr>o_mtime := t, o_data := m_buffer m\<rparr>)"
proof -
  let ?c = "st_io_ctx st" and ?k = "okey (st_io_ctx st) (m_oid m)" and ?b = "m_buffer m"
  let ?loop = "\<lambda>r w. split_loop R ?c (m_oid m) ?b (length ?b) 10240 (int (pieces (length ?b) 10240)) 0 r w"
  have ready: "storage_ready cl st" and ne: "?b \<noteq> []"
    using s assms(2) by (auto simp: save_mail_op_def split_buffer_and_exec_op_def to_uint64_def split: if_splits)
  obtain r w1 where o: "rd_operate R ?c (m_oid m) (op @ [WMtime (m_save_date m)]) w = (r, w1)" by fastforce
  have r: "0 \<le> r" and l: "?loop r w1 = Some (0, w')"
    using s save_mail_op_eq [OF ready assms(2,3) ne o] by (auto split: if_splits option.splits)
  obtain t' where V1: "V w1 = (V w)(?k \<mapsto> (apply_op (V w) op (empty_robj\<lparr>o_mtime := t'\<rparr>))\<lparr>o_mtime := m_save_date m\<rparr>)"
    using assms(1,4) o r unfolding law_operate_def
    by (fastforce simp: apply_op_append touched_def obj_or_new_def)
  let ?ob = "(apply_op (V w) op (empty_robj\<lparr>o_mtime := t'\<rparr>))\<lparr>o_mtime := m_save_date m\<rparr>"
  have "o_data ?ob = []" using data by (simp add: empty_robj_def)
  then have "\<exists>t. V w' = (V w1)(?k \<mapsto> ?ob\<lparr>o_mtime := t, o_data := ?b @ drop (length ?b) []\<rparr>)"
    using split_loop_stores [OF assms(1) _ _ assms(3) _ _ _ l, where ob = ?ob and old = "[]"] V1 by simp
  then show ?thesis using V1 by auto
qed

text \<open>The ceph index of the namespace, as the observer sees it.\<close>

definition index_data :: "('w \<Rightarrow> obj_key \<rightharpoonup> robj) \<Rightarrow> storage \<Rightarrow> 'w \<Rightarrow> bytes" where
  "index_data V st w = o_data (obj_or_new (V w) (okey (st_recovery_ctx st) (st_nspace st)))"

definition index_wf :: "bytes \<Rightarrow> bool" where
  "index_wf b \<longleftrightarrow> (b = [] \<or> last b = CHR '','') \<and> NUL \<notin> set b"

lemma index_wf_append:
  assumes "index_wf b" and "finite S" and "\<forall>t \<in> S. oid_ok t"
  shows "index_wf (b @ convert_to_ceph_index S) \<and>
         ceph_index_to_set (b @ convert_to_ceph_index S) = ceph_index_to_set b \<union> S"
proof -
  let ?l = "sorted_list_of_set S"
  have eq: "convert_to_ceph_index S = index_of_list ?l"
    by (simp add: convert_to_ceph_index_def index_of_list_def)
  have ok: "\<forall>t \<in> set ?l. oid_ok t" using assms(2,3) by simp
  have "index_wf (index_of_list ?l)"
    using index_of_list_no_nul [OF ok] by (cases ?l rule: rev_cases) (simp_all add: index_wf_def index_of_list_def)
  then have "index_wf (b @ index_of_list ?l)"
    using assms(1) by (auto simp: index_wf_def last_append split: if_splits)
  then show ?thesis
    using assms(1,2) ceph_index_of_list [OF ok] ceph_index_to_set_append [of b "index_of_list ?l"] eq
    by (simp add: index_wf_def)
qed

lemma ceph_index_read_data:
  assumes "law_stat R V" and "law_read R V" and "index_wf (index_data V st w)"
    and "rd_stat R (st_recovery_ctx st) (st_nspace st) w = (0, n, mt, w1)"
    and "rd_read R (st_recovery_ctx st) (st_nspace st) w1 = (r, bl, w2)" and "0 \<le> r" and "0 < n"
  shows "fst (ceph_index_read R st g behind w) = ceph_index_to_set (index_data V st w) \<union> ceph_index_to_set (c_str behind)"
proof -
  obtain ob where "V w (okey (st_recovery_ctx st) (st_nspace st)) = Some ob"
      and n: "n = length (o_data ob)" and "V w1 = V w"
    using assms(1,4) unfolding law_stat_def by fastforce
  moreover from this have "bl = o_data ob"
    using assms(2,5,6) unfolding law_read_def by fastforce
  moreover from calculation have "c_str (bl @ behind) = bl @ c_str behind"
    using assms(3) by (intro c_str_append) (simp add: index_data_def index_wf_def)
  ultimately show ?thesis
    using assms(3-7) ceph_index_to_set_append [of bl "c_str behind"]
    by (simp add: ceph_index_read_def index_data_def index_wf_def)
qed

definition conn_ok :: "cpp_exn + int \<Rightarrow> bool" where
  "conn_ok r \<longleftrightarrow> (case r of Inl _ \<Rightarrow> False | Inr n \<Rightarrow> 0 \<le> n)"

lemma conn_ok_simps [simp]: "\<not> conn_ok (Inl e)" "conn_ok (Inr n) \<longleftrightarrow> 0 \<le> n"
  by (simp_all add: conn_ok_def)

lemma connected_stays:
  "c_connected cl \<Longrightarrow> connect C cl w = Some (0, cl, w)"
  "ioctx_of_pool C pool io cl w = Some (r, io', cl', w') \<Longrightarrow> c_connected cl \<Longrightarrow> c_connected cl'"
  by (auto simp: connect_def ioctx_of_pool_def pool_create_def split: option.splits prod.splits if_splits)

lemma create_connection_ready:
  assumes "create_connection C pool ipool cl st w = Some (Inr 0, cl', st', w')"
    and "\<And>k w. fst (cc_conf_get C k w) \<le> 0"
  shows "c_connected cl' \<and> st_io_ctx_created st' \<and> st_pool_name st' = pool"
proof -
  have neg: "r < 0 \<or> r = 0" if "cc_conf_get C k w = (r, v, w')" for k w r v w'
    using assms(2) [of k w] that by auto
  show ?thesis
    using assms(1)
    by (auto simp: create_connection_def recovery_index_io_ctx_def get_config_option_def Let_def
        dest: connected_stays(2) neg split: option.splits prod.splits if_splits sum.splits)
qed

lemma create_connection_nonneg:
  "create_connection C pool ipool cl st w = Some (Inr r, cl', st', w') \<Longrightarrow> r \<le> 0"
  by (auto simp: create_connection_def Let_def split: option.splits prod.splits if_splits sum.splits)

lemma init_with_ref:
  "init_with f C cl w = (0, cl', w') \<Longrightarrow> 0 \<le> c_ref_count cl \<Longrightarrow> c_ref_count cl < INT_MAX \<Longrightarrow>
   c_ref_count cl' = c_ref_count cl + 1"
  by (auto simp: init_with_def Let_def to_int32_id split: if_splits prod.splits)

lemma connect_ref: "connect C cl w = Some (r, cl', w') \<Longrightarrow> c_ref_count cl' = c_ref_count cl"
  by (auto simp: connect_def split: if_splits prod.splits)

lemma io_ctx_create_ref: "io_ctx_create C pool io cl w = Some (r, io', cl', w') \<Longrightarrow> c_ref_count cl' = c_ref_count cl"
  by (auto simp: io_ctx_create_def ioctx_of_pool_def pool_create_def dest!: connect_ref
      split: if_splits prod.splits option.splits)

lemma create_connection_ref:
  "create_connection C pool ipool cl st w = Some (r, cl', st', w') \<Longrightarrow>
   c_ref_count cl' = c_ref_count cl \<and> (\<not> conn_ok r \<longrightarrow> st_io_ctx_created st' = st_io_ctx_created st)"
  by (auto simp: create_connection_def recovery_index_io_ctx_def ioctx_of_pool_def pool_create_def Let_def
      dest!: io_ctx_create_ref connect_ref split: option.splits prod.splits if_splits sum.splits)

text \<open>Concrete values for the witnesses.\<close>

definition sample_mail :: rados_mail where
  "sample_mail = new_rados_mail\<lparr>m_oid := ''oid'', m_object_size := 5, m_buffer := ''hello''\<rparr>"

definition sample_storage :: storage where
  "sample_storage = new_storage\<lparr>st_io_ctx_created := True\<rparr>"

definition sample_cluster :: cluster where
  "sample_cluster = \<lparr>c_cluster = True, c_handles = 1, c_ref_count = 1, c_connected = True, c_client_options = []\<rparr>"

definition sample_ctx :: io_ctx where "sample_ctx = \<lparr>ctx_pool = ''p'', ctx_ns = ''n''\<rparr>"

lemma sample_ready: "storage_ready sample_cluster sample_storage"
  by (simp add: storage_ready_def sample_cluster_def sample_storage_def)

lemma sample_key:
  "okey (set_namespace n (st_io_ctx sample_storage)) oid = ([], n, oid)"
  "okey \<lparr>ctx_pool = p, ctx_ns = n\<rparr> oid = (p, n, oid)"
  by (simp_all add: sample_storage_def new_storage_def null_ctx_def set_namespace_def okey_def)

section \<open>Properties\<close>

text \<open>
  Property C1: saving a mail never throws, and when it reports success for an object that did
  not exist, the object then holds exactly the mail: the data is the whole buffer, joined from
  the pieces of at most 10240 bytes, the extended attributes are the metadata and the omap is
  the extended metadata of the mail. No other object changes.
\<close>

theorem save_mail_stores_mail:
  assumes "law_operate R V" and "mail_wf m" and "m_object_size m = int (length (m_buffer m))"
    and "int (length (m_buffer m)) \<le> INT_MAX"
  shows "save_mail R cl st m w \<noteq> None \<and>
    (\<forall>m1 w'. save_mail R cl st m w = Some (True, m1, w') \<longrightarrow>
       V w (okey (st_io_ctx st) (m_oid m)) = None \<longrightarrow>
       (\<exists>t. V w' = (V w)(okey (st_io_ctx st) (m_oid m) \<mapsto>
          \<lparr>o_data = m_buffer m, o_xattrs = m_attrset m, o_omap = m_extended m, o_mtime = t\<rparr>)))"
proof -
  have eq: "save_mail R cl st m w = (if storage_ready cl st then save_mail_op R cl st (xattr_op m) m w else Some (False, m, w))"
    by (simp add: save_mail_def xattr_op_def)
  have "smap_put_all (m_attrset m) [] = m_attrset m" "smap_put_all (m_extended m) [] = m_extended m"
    using assms(2) by (simp_all add: mail_wf_def smap_put_all_empty)
  then have "\<exists>t. V w' = (V w)(okey (st_io_ctx st) (m_oid m) \<mapsto>
       \<lparr>o_data = m_buffer m, o_xattrs = m_attrset m, o_omap = m_extended m, o_mtime = t\<rparr>)"
    if "save_mail R cl st m w = Some (True, m1, w')" and "V w (okey (st_io_ctx st) (m_oid m)) = None" for m1 w'
    using save_mail_op_stores [OF assms(1,3,4) that(2), of "xattr_op m" cl m1 w'] that(1)
    by (auto simp: eq apply_xattr_op empty_robj_def split: if_splits)
  then show ?thesis
    using eq save_mail_op_returns [OF assms(3,4)] by auto
qed

theorem save_mail_stores_mail_witness:
  "\<exists>m1 w' t. save_mail mem_rados sample_cluster sample_storage sample_mail [] = Some (True, m1, w') \<and>
     map_of w' (okey (st_io_ctx sample_storage) ''oid'') =
       Some \<lparr>o_data = ''hello'', o_xattrs = [], o_omap = [], o_mtime = t\<rparr>"
proof -
  have "case save_mail mem_rados sample_cluster sample_storage sample_mail [] of
          None \<Rightarrow> False | Some (b, _, _) \<Rightarrow> b"
    by code_simp
  then obtain m1 w' where s: "save_mail mem_rados sample_cluster sample_storage sample_mail [] = Some (True, m1, w')"
    by (auto split: option.splits prod.splits)
  then show ?thesis
    using save_mail_stores_mail [OF mem_rados_laws(1), of sample_mail sample_cluster sample_storage "[]"]
    by (fastforce simp: sample_mail_def mail_wf_def new_rados_mail_def)
qed


text \<open>
  Property C23: appending object ids to the ceph index and reading it back. When the index was empty or well formed, at least
  one id is appended, and append, stat and read succeed, reading yields the old ids and the new ones, and the index stays
  well formed. Because the buffer that is read is not terminated, the result also has the ids that the bytes behind it in
  memory spell up to the next NUL; it is exact when a NUL comes first.
\<close>

theorem ceph_index_append_read:
  assumes "law_append R V" and "law_stat R V" and "law_read R V" and "index_wf (index_data V st w)"
    and "finite S" and "\<forall>t \<in> S. oid_ok t" and "S \<noteq> {}"
    and "ceph_index_append_set R st S w = (0, w1)"
    and "rd_stat R (st_recovery_ctx st) (st_nspace st) w1 = (0, n, mt, w2)"
    and "rd_read R (st_recovery_ctx st) (st_nspace st) w2 = (r, bl, w3)" and "0 \<le> r"
  shows "fst (ceph_index_read R st g behind w1) =
           ceph_index_to_set (index_data V st w) \<union> S \<union> ceph_index_to_set (c_str behind) \<and>
         (behind \<noteq> [] \<and> hd behind = NUL \<longrightarrow> fst (ceph_index_read R st g behind w1) = ceph_index_to_set (index_data V st w) \<union> S) \<and>
         index_wf (index_data V st w1)"
proof -
  have "index_data V st w1 = index_data V st w @ convert_to_ceph_index S"
    using assms(1,8) unfolding law_append_def ceph_index_append_set_def index_data_def
    by (fastforce simp: Let_def)
  moreover have "index_data V st w1 \<noteq> []"
    using assms(5,7) calculation by (simp add: convert_to_ceph_index_def)
  then have "0 < n" using assms(2,9) unfolding law_stat_def index_data_def by fastforce
  moreover have "ceph_index_to_set (c_str behind) = {}" if "behind \<noteq> [] \<and> hd behind = NUL"
    using that by (cases behind) (simp_all add: c_str_def ceph_index_to_set_eq)
  ultimately show ?thesis
    using index_wf_append [OF assms(4-6)] ceph_index_read_data [OF assms(2,3) _ assms(9-11), of g behind] by simp
qed

theorem ceph_index_append_read_witness:
  "\<exists>w1. fst (ceph_index_read mem_rados sample_storage 7 [NUL, CHR ''x''] w1) = {''b'', ''c''} \<and>
        fst (ceph_index_read mem_rados sample_storage 7 ''x,y'' w1) = {''b'', ''c'', ''x'', ''y''} \<and>
        ceph_index_append_set mem_rados sample_storage {''b'', ''c''} [] = (0, w1)"
proof -
  let ?S = "{''b'', ''c''} :: string set" and ?st = sample_storage
  obtain w1 where a: "ceph_index_append_set mem_rados ?st ?S [] = (0, w1)"
    by (simp add: ceph_index_append_set_def mem_rados_def mem_set_def)
  then have "map_of w1 (okey (st_recovery_ctx ?st) (st_nspace ?st)) \<noteq> None"
    by (auto simp: ceph_index_append_set_def mem_rados_def mem_set_def update_conv')
  then obtain n mt r bl where "rd_stat mem_rados (st_recovery_ctx ?st) (st_nspace ?st) w1 = (0, n, mt, w1)"
      and "rd_read mem_rados (st_recovery_ctx ?st) (st_nspace ?st) w1 = (r, bl, w1)" and "0 \<le> r"
    by (auto simp: mem_rados_def mem_get_def)
  moreover have "index_wf (index_data map_of ?st [])" "ceph_index_to_set (index_data map_of ?st []) = {}"
    by (simp_all add: index_data_def index_wf_def obj_or_new_def empty_robj_def ceph_index_to_set_eq)
  moreover have "\<forall>t \<in> ?S. oid_ok t" by (simp add: oid_ok_def)
  moreover have "getline_tokens (CHR '','') ''x,y'' = [''x'', ''y'']" by code_simp
  then have "ceph_index_to_set (c_str [NUL, CHR ''x'']) = {}" "ceph_index_to_set (c_str ''x,y'') = {''x'', ''y''}"
    by (auto simp: c_str_def ceph_index_to_set_eq)
  ultimately have "fst (ceph_index_read mem_rados ?st 7 [NUL, CHR ''x''] w1) = ?S"
      "fst (ceph_index_read mem_rados ?st 7 ''x,y'' w1) = ?S \<union> {''x'', ''y''}"
    using ceph_index_append_read [OF mem_rados_laws(4,6,5) _ _ _ _ a] by (metis (no_types, lifting) Un_empty_left Un_empty_right finite.simps insert_not_empty)+
  then show ?thesis using a by (intro exI [of _ w1]) auto
qed

text \<open>
  The effect of a copy within a namespace or between two; within one, the namespace of the io
  context counts, whatever the given name.
\<close>

definition copy_ctx :: "string \<Rightarrow> string \<Rightarrow> io_ctx \<Rightarrow> string \<Rightarrow> io_ctx" where
  "copy_ctx src_ns dest_ns io ns = (if src_ns \<noteq> dest_ns then set_namespace ns io else io)"

lemma copy_succeeds:
  assumes "aio_succeeds R" and "storage_ready cl st"
  shows "fst (copy R cl st now src_oid src_ns dest_oid dest_ns md w) = 0"
  using assms
  by (auto simp: copy_def aio_operate_def Let_def storage_ready_def aio_succeeds_def split: prod.splits)

lemma copy_effect:
  assumes "law_aio_operate R V" and "storage_ready cl st"
    and "copy R cl st now src_oid src_ns dest_oid dest_ns md w = (0, st', w')"
    and "V w (okey (copy_ctx src_ns dest_ns (st_io_ctx st) src_ns) src_oid) = Some ob"
  shows "V w' = (V w)(okey (copy_ctx src_ns dest_ns (st_io_ctx st) dest_ns) dest_oid \<mapsto>
      ob\<lparr>o_mtime := now, o_xattrs := smap_put_all (map (\<lambda>m. (md_key m, md_bl m)) md) (o_xattrs ob)\<rparr>) \<and>
    st' = st\<lparr>st_io_ctx := set_namespace dest_ns (st_io_ctx st)\<rparr>"
proof -
  let ?dest = "copy_ctx src_ns dest_ns (st_io_ctx st) dest_ns" and ?src = "copy_ctx src_ns dest_ns (st_io_ctx st) src_ns"
  let ?op = "[WCopyFrom src_oid ?src, WMtime now] @ metadata_ops md"
  obtain r cr w1 where o: "rd_aio_operate R ?dest dest_oid ?op w = (r, cr, w1)" by (metis prod_cases3)
  have ok: "0 \<le> r" "cr = 0" "w1 = w'" "st' = st\<lparr>st_io_ctx := set_namespace dest_ns (st_io_ctx st)\<rparr>"
    using assms(2,3) o
    by (auto simp: copy_def copy_ctx_def aio_operate_def storage_ready_def set_namespace_def Let_def split: if_splits)
  obtain t where "V w' = (V w)(okey ?dest dest_oid \<mapsto> apply_op (V w) ?op (touched t (V w) (okey ?dest dest_oid)))"
    using assms(1) o ok unfolding law_aio_operate_def by blast
  then show ?thesis using assms(4) ok(4) by (simp add: apply_metadata_ops)
qed

text \<open>
  Property C26: \<open>copy\<close>, within a namespace and between two. When the copy is submitted and completes successfully, the
  destination object has the data and omap of the source, its attributes updated by the given metadata, and the current
  time as its modification time; nothing else changes. Source and destination lie in the given namespaces when these differ.
  When they are equal the code does not select a namespace for the copy: both objects are those of the namespace
  the io context happens to have, which is the given one when the storage was opened for it.
\<close>

theorem copy_copies:
  assumes "law_aio_operate R V" and "storage_ready cl st"
    and "copy R cl st now src_oid src_ns dest_oid dest_ns md w = (0, st', w')"
    and "V w (okey (copy_ctx src_ns dest_ns (st_io_ctx st) src_ns) src_oid) = Some ob"
    and "ob' = ob\<lparr>o_mtime := now, o_xattrs := smap_put_all (map (\<lambda>m. (md_key m, md_bl m)) md) (o_xattrs ob)\<rparr>"
  shows "V w' = (V w)(okey (copy_ctx src_ns dest_ns (st_io_ctx st) dest_ns) dest_oid \<mapsto> ob') \<and>
    (src_ns \<noteq> dest_ns \<or> ctx_ns (st_io_ctx st) = dest_ns \<longrightarrow>
       V w' = (V w)((ctx_pool (st_io_ctx st), dest_ns, dest_oid) \<mapsto> ob') \<and>
       V w (ctx_pool (st_io_ctx st), src_ns, src_oid) = Some ob) \<and>
    (src_ns = dest_ns \<longrightarrow> V w' = (V w)(okey (st_io_ctx st) dest_oid \<mapsto> ob')) \<and>
    ctx_ns (st_io_ctx st') = dest_ns"
  using copy_effect [OF assms(1-4)] assms(4,5) by (auto simp: copy_ctx_def set_namespace_def okey_def)

theorem copy_copies_witness:
  "map_of (snd (snd (copy mem_rados sample_cluster sample_storage 9 ''o'' ''a'' ''o2'' ''b'' []
       [(([], ''a'', ''o''), empty_robj\<lparr>o_data := ''x''\<rparr>)])))
     ([], ''b'', ''o2'') = Some (empty_robj\<lparr>o_data := ''x'', o_mtime := 9\<rparr>) \<and>
   map_of (snd (snd (copy mem_rados sample_cluster sample_storage 9 ''o'' [] ''o2'' [] []
       [(([], [], ''o''), empty_robj\<lparr>o_data := ''x''\<rparr>)])))
     ([], [], ''o2'') = Some (empty_robj\<lparr>o_data := ''x'', o_mtime := 9\<rparr>)"
proof -
  let ?w = "\<lambda>ns. [(([], ns, ''o''), empty_robj\<lparr>o_data := ''x''\<rparr>)]"
  have io: "st_io_ctx sample_storage = \<lparr>ctx_pool = [], ctx_ns = []\<rparr>"
    by (simp add: sample_storage_def new_storage_def null_ctx_def)
  obtain st1 w1 st2 w2 where
      1: "copy mem_rados sample_cluster sample_storage 9 ''o'' ''a'' ''o2'' ''b'' [] (?w ''a'') = (0, st1, w1)" and
      2: "copy mem_rados sample_cluster sample_storage 9 ''o'' [] ''o2'' [] [] (?w []) = (0, st2, w2)"
    by (auto simp: copy_def sample_storage_def sample_cluster_def storage_ready_def aio_operate_def
        mem_rados_def Let_def)
  show ?thesis
    unfolding 1 2 using copy_copies [OF mem_rados_laws(2) sample_ready 1 _ refl] copy_copies [OF mem_rados_laws(2) sample_ready 2 _ refl]
    by (simp add: smap_put_all_def copy_ctx_def set_namespace_def okey_def io empty_robj_def)
qed

text \<open>
  Property C16: \<open>move\<close> to another namespace with deletion of the source. When it reports success,
  the destination holds the source object with updated metadata and the current time, and the
  source object is gone.
\<close>

theorem move_moves:
  assumes "law_aio_operate R V" and "law_remove R V" and "src_ns \<noteq> dest_ns" and "storage_ready cl st"
    and "move R cl st now src_oid src_ns dest_oid dest_ns md True w = (0, st', w')"
    and "V w (okey (set_namespace src_ns (st_io_ctx st)) src_oid) = Some ob"
  shows "V w' = (V w)(okey (set_namespace dest_ns (st_io_ctx st)) dest_oid \<mapsto>
      ob\<lparr>o_mtime := now, o_xattrs := smap_put_all (map (\<lambda>m. (md_key m, md_bl m)) md) (o_xattrs ob)\<rparr>,
      okey (set_namespace src_ns (st_io_ctx st)) src_oid := None)"
proof -
  let ?dest = "set_namespace dest_ns (st_io_ctx st)" and ?src = "set_namespace src_ns (st_io_ctx st)"
  let ?op = "[WCopyFrom src_oid ?src, WMtime now] @ metadata_ops md"
  obtain r cr w1 where o: "rd_aio_operate R ?dest dest_oid ?op w = (r, cr, w1)"
    by (metis prod_cases3)
  have ok: "0 \<le> r" "cr = 0" "rd_remove R ?src src_oid w1 = (0, w')"
    using assms(3-5) o
    by (auto simp: move_def aio_operate_def storage_ready_def Let_def split: if_splits prod.splits)
  obtain t where "V w1 = (V w)(okey ?dest dest_oid \<mapsto> apply_op (V w) ?op (touched t (V w) (okey ?dest dest_oid)))"
    using assms(1) o ok unfolding law_aio_operate_def by blast
  moreover have "V w' = (V w1)(okey ?src src_oid := None)"
    using assms(2) ok(3) unfolding law_remove_def by blast
  ultimately show ?thesis
    using assms(6) by (simp add: apply_metadata_ops)
qed

theorem move_moves_witness:
  "map_of (snd (snd (move mem_rados sample_cluster sample_storage 9 ''o'' ''a'' ''o2'' ''b'' [] True
       [(okey \<lparr>ctx_pool = [], ctx_ns = ''a''\<rparr> ''o'', empty_robj\<lparr>o_data := ''x''\<rparr>)])))
     (okey \<lparr>ctx_pool = [], ctx_ns = ''a''\<rparr> ''o'') = None"
proof -
  let ?w = "[(okey \<lparr>ctx_pool = [], ctx_ns = ''a''\<rparr> ''o'', empty_robj\<lparr>o_data := ''x''\<rparr>)]"
  obtain st' w' where c: "move mem_rados sample_cluster sample_storage 9 ''o'' ''a'' ''o2'' ''b'' [] True ?w = (0, st', w')"
    by (auto simp: move_def sample_storage_def sample_cluster_def storage_ready_def aio_operate_def
        mem_rados_def Let_def new_storage_def null_ctx_def set_namespace_def okey_def mem_set_def metadata_ops_def)
  show ?thesis
    unfolding c using move_moves [OF mem_rados_laws(2,13) _ sample_ready c]
    by (simp add: sample_key)
qed


text \<open>
  \<open>find_mails\<close> on a ready storage lists exactly the objects of the namespace whose
  extended attribute has the wanted value, or all objects when no attribute is given; on a
  storage that is not connected it lists nothing.
\<close>

theorem find_mails_exact:
  assumes "law_objects R V" and "law_objects_filter R V"
    and "length (md_key a) + 1 < 2 ^ 32" and "length (md_bl a) < 2 ^ 32"
  shows "set (find_mails R cl st (Some a) w) =
      {oid. storage_ready cl st \<and> (\<exists>ob. V w (okey (st_io_ctx st) oid) = Some ob \<and>
         smap_get (md_key a) (o_xattrs ob) = Some (md_bl a))} \<and>
    set (find_mails R cl st None w) = {oid. storage_ready cl st \<and> V w (okey (st_io_ctx st) oid) \<noteq> None}"
proof -
  have "set (rd_objects_filter R (st_io_ctx st) (plain_filter (md_key a) (md_bl a)) w) =
      {oid. \<exists>ob. V w (okey (st_io_ctx st) oid) = Some ob \<and> smap_get (md_key a) (o_xattrs ob) = Some (md_bl a)}"
    using assms unfolding law_objects_filter_def by blast
  then show ?thesis
    using assms(1) by (auto simp: find_mails_def plain_filter_def law_objects_def)
qed

theorem find_mails_exact_witness:
  "set (find_mails mem_rados sample_cluster sample_storage (Some \<lparr>md_key = ''M'', md_bl = ''g''\<rparr>)
     [(([], [], ''o1''), empty_robj\<lparr>o_xattrs := [(''M'', ''g'')]\<rparr>), (([], [], ''o2''), empty_robj)]) = {''o1''}"
proof -
  have k: "okey (st_io_ctx sample_storage) oid = ([], [], oid)" for oid
    by (simp add: sample_storage_def new_storage_def null_ctx_def okey_def)
  show ?thesis
    using find_mails_exact [OF mem_rados_laws(15,16), of "\<lparr>md_key = ''M'', md_bl = ''g''\<rparr>"
        sample_cluster sample_storage] sample_ready
    by (auto simp: k smap_get_def empty_robj_def split: if_splits)
qed

text \<open>
  Opening a connection. A result of 0 or more means the storage is ready: connected,
  with its io context. A failure or an exception after the cluster was initialised keeps the reference that was
  taken: the count stays one higher and \<open>close_connection\<close> on that storage does not release it.
\<close>

theorem open_connection_outcome:
  assumes "\<And>k w. fst (cc_conf_get C k w) \<le> 0"
    and "open_connection_user C pool ipool cn un cl st w = Some (r, cl', st', w')"
    and "0 \<le> c_ref_count cl" and "c_ref_count cl < INT_MAX"
  shows "(conn_ok r \<longrightarrow> storage_ready cl' st') \<and>
    (\<not> conn_ok r \<and> \<not> st_io_ctx_created st \<and> fst (init_user cn un C cl w) = 0 \<longrightarrow>
       c_ref_count cl' = c_ref_count cl + 1 \<and> close_connection C cl' st' w' = Some (cl', w'))"
proof (cases "storage_ready cl st")
  case True
  then show ?thesis using assms(2) by (auto simp: open_connection_user_def)
next
  case False
  obtain r1 cl1 w1 where i: "init_user cn un C cl w = (r1, cl1, w1)" by (metis prod_cases3)
  then have o: "if r1 < 0 then (r, cl', st', w') = (Inr (-1), cl1, st, w1)
      else create_connection C pool ipool cl1 st w1 = Some (r, cl', st', w')"
    using False assms(2) by (auto simp: open_connection_user_def split: if_splits)
  have ref: "r1 = 0 \<Longrightarrow> c_ref_count cl1 = c_ref_count cl + 1"
    using i init_with_ref assms(3,4) unfolding init_user_def by metis
  show ?thesis
  proof (cases "r1 < 0")
    case True
    then show ?thesis using o i by auto
  next
    case False
    then have c: "create_connection C pool ipool cl1 st w1 = Some (r, cl', st', w')" using o by simp
    show ?thesis
      using create_connection_ready [of C pool ipool cl1 st w1 cl' st' w'] assms(1)
        create_connection_nonneg create_connection_ref [OF c] c i ref
      by (cases r) (fastforce simp: storage_ready_def close_connection_def)+
  qed
qed

theorem open_connection_outcome_witness:
  "case open_connection_user (fixed_client [(''rados_osd_op_timeout'', ''30''), (''osd_max_write_size'', ''90''),
       (''osd_max_object_size'', ''100'')] [''mail'']) ''mail'' ''index'' ''ceph'' ''client.admin''
       (initial_cluster []) new_storage () of
     Some (r, cl, st, w) \<Rightarrow> conn_ok r \<and> storage_ready cl st | None \<Rightarrow> False"
proof -
  let ?C = "fixed_client [(''rados_osd_op_timeout'', ''30''), (''osd_max_write_size'', ''90''),
       (''osd_max_object_size'', ''100'')] [''mail''] :: unit client"
  have neg: "fst (cc_conf_get ?C k w) \<le> 0" for k w
    by (simp add: fixed_client_def split: option.splits)
  have "case open_connection_user ?C ''mail'' ''index'' ''ceph'' ''client.admin''
       (initial_cluster []) new_storage () of Some (r, _, _, _) \<Rightarrow> conn_ok r | None \<Rightarrow> False"
    by code_simp
  then obtain r cl st w where o: "open_connection_user ?C ''mail'' ''index'' ''ceph'' ''client.admin''
       (initial_cluster []) new_storage () = Some (r, cl, st, w)" and "conn_ok r"
    by (auto split: option.splits prod.splits)
  then show ?thesis
    using open_connection_outcome [of ?C, OF neg o] by (simp only: o option.case prod.case) (simp add: initial_cluster_def)
qed

end
