(* ===== verification/Json_Lib.thy ===== *)
theory Json_Lib
  imports Rados_Api
begin

text \<open>
  The boundary to \<open>jansson\<close>. The sources build and read JSON objects whose members are strings or
  objects of strings, so a root is a list of members in insertion order; a root that is no object
  behaves like an empty one in every call the sources make. \<open>json_loads\<close>, \<open>json_dumps\<close> and the
  UTF-8 check of the library are parameters with one named law; \<open>flat_json\<close> is one instance.
\<close>

datatype jleaf = JStr string | JNonStr
datatype jval = JLeaf jleaf | JObj "(string \<times> jleaf) list"
type_synonym json = "(string \<times> jval) list"

record json_lib =
  js_loads :: "string \<Rightarrow> json option"
  js_dumps :: "json \<Rightarrow> string"
  js_utf8 :: "string \<Rightarrow> bool"

text \<open>
  \<open>json_string\<close> copies a C string and yields \<open>NULL\<close> unless it is valid UTF-8;
  \<open>json_object_set_new\<close> does nothing for \<open>NULL\<close> or an invalid key.
\<close>

definition json_string :: "json_lib \<Rightarrow> bytes \<Rightarrow> jleaf option" where
  "json_string J b = (let s = c_str b in if js_utf8 J s then Some (JStr s) else None)"

definition json_object_set :: "json_lib \<Rightarrow> string \<Rightarrow> 'a option \<Rightarrow> (string \<times> 'a) list \<Rightarrow> (string \<times> 'a) list" where
  "json_object_set J k v root =
     (case v of None \<Rightarrow> root | Some x \<Rightarrow> if js_utf8 J (c_str k) then AList.update (c_str k) x root else root)"

text \<open>\<open>json_string_value\<close> is \<open>NULL\<close> on anything but a string.\<close>

fun leaf_value :: "jleaf \<Rightarrow> string option" where
  "leaf_value (JStr s) = Some s"
| "leaf_value JNonStr = None"

fun json_string_value :: "jval option \<Rightarrow> string option" where
  "json_string_value (Some (JLeaf l)) = leaf_value l"
| "json_string_value _ = None"

definition json_object_get :: "json \<Rightarrow> string \<Rightarrow> jval option" where
  "json_object_get root k = map_of root k"

text \<open>Objects that \<open>json_dumps\<close> writes so that \<open>json_loads\<close> reads them back.\<close>

fun leaf_ok :: "json_lib \<Rightarrow> jleaf \<Rightarrow> bool" where
  "leaf_ok J (JStr s) = (js_utf8 J s \<and> NUL \<notin> set s)"
| "leaf_ok J JNonStr = False"

definition members_ok :: "json_lib \<Rightarrow> (string \<times> 'a) list \<Rightarrow> bool" where
  "members_ok J m \<longleftrightarrow> distinct (map fst m) \<and> list_all (\<lambda>(k, _). js_utf8 J k \<and> NUL \<notin> set k) m"

fun jval_ok :: "json_lib \<Rightarrow> jval \<Rightarrow> bool" where
  "jval_ok J (JLeaf l) = leaf_ok J l"
| "jval_ok J (JObj m) = (members_ok J m \<and> list_all (\<lambda>(_, l). leaf_ok J l) m)"

definition json_ok :: "json_lib \<Rightarrow> json \<Rightarrow> bool" where
  "json_ok J root \<longleftrightarrow> members_ok J root \<and> list_all (\<lambda>(_, v). jval_ok J v) root"

definition law_json :: "json_lib \<Rightarrow> bool" where
  "law_json J \<longleftrightarrow> (\<forall>root. json_ok J root \<longrightarrow>
     NUL \<notin> set (js_dumps J root) \<and> js_loads J (js_dumps J root) = Some root)"

section \<open>Lemmas\<close>

lemma json_string_Some: "js_utf8 J (c_str b) \<Longrightarrow> json_string J b = Some (JStr (c_str b))"
  by (simp add: json_string_def)

lemma c_str_nul_free [simp]: "NUL \<notin> set (c_str b)"
  by (auto simp: c_str_def dest: set_takeWhileD)

lemma list_all_update:
  "list_all (\<lambda>(_, x). P x) m \<Longrightarrow> P v \<Longrightarrow> list_all (\<lambda>(_, x). P x) (AList.update k v m)"
  by (induction m) auto

lemma list_all_keys_update:
  "list_all (\<lambda>(a, _). P a) m \<Longrightarrow> P k \<Longrightarrow> list_all (\<lambda>(a, _). P a) (AList.update k v m)"
  by (induction m) auto

lemma members_ok_update:
  "members_ok J m \<Longrightarrow> js_utf8 J k \<Longrightarrow> NUL \<notin> set k \<Longrightarrow> members_ok J (AList.update k v m)"
  by (simp add: members_ok_def distinct_update list_all_keys_update [where P = "\<lambda>k. js_utf8 J k \<and> NUL \<notin> set k"])

lemma members_ok_set: "members_ok J m \<Longrightarrow> members_ok J (json_object_set J k v m)"
  by (simp add: json_object_set_def members_ok_update split: option.splits)

lemma leaves_ok_set:
  "list_all (\<lambda>(_, x). P x) m \<Longrightarrow> (\<And>x. v = Some x \<Longrightarrow> P x) \<Longrightarrow> list_all (\<lambda>(_, x). P x) (json_object_set J k v m)"
  by (simp add: json_object_set_def list_all_update split: option.splits)

lemma json_string_ok: "json_string J b = Some l \<Longrightarrow> leaf_ok J l"
  by (auto simp: json_string_def Let_def split: if_splits)

lemma update_new: "k \<notin> fst ` set acc \<Longrightarrow> AList.update k x acc = acc @ [(k, x)]"
  by (induction acc) auto

text \<open>Building an object from members with new, valid keys and valid values appends them in order.\<close>

lemma json_object_build:
  assumes "distinct (map fst acc @ map fst kvs)"
    and "\<forall>(k, v) \<in> set kvs. js_utf8 J k \<and> NUL \<notin> set k \<and> js_utf8 J (c_str v)"
  shows "fold (\<lambda>(k, v). json_object_set J k (map_option f (json_string J v))) kvs acc =
         acc @ map (\<lambda>(k, v). (k, f (JStr (c_str v)))) kvs"
  using assms
proof (induction kvs arbitrary: acc)
  case (Cons p kvs)
  obtain k v where p: "p = (k, v)" by (cases p)
  then have ok: "js_utf8 J k" "js_utf8 J (c_str v)" "c_str k = k" and new: "k \<notin> fst ` set acc"
    using Cons.prems by (auto simp: c_str_no_nul)
  then have "json_object_set J k (map_option f (json_string J v)) acc = acc @ [(k, f (JStr (c_str v)))]"
    by (simp add: json_object_set_def json_string_def update_new)
  then show ?case
    using Cons.IH [of "acc @ [(k, f (JStr (c_str v)))]"] Cons.prems p by simp
qed simp

section \<open>One instance\<close>

text \<open>
  A text form with control characters as separators, for strings of printable characters. It shows
  that the law can hold; the model never refers to it.
\<close>

definition printable :: "string \<Rightarrow> bool" where
  "printable s \<longleftrightarrow> list_all (\<lambda>c. 32 \<le> (of_char c :: nat)) s"

abbreviation SEP1 :: char where "SEP1 \<equiv> CHR 0x01"
abbreviation SEP2 :: char where "SEP2 \<equiv> CHR 0x02"
abbreviation SEP3 :: char where "SEP3 \<equiv> CHR 0x03"

fun flat_leaf :: "string \<times> jleaf \<Rightarrow> string" where
  "flat_leaf (k, JStr s) = k @ SEP1 # s"
| "flat_leaf (k, JNonStr) = k"

definition unflat_pair :: "string \<Rightarrow> string \<times> string" where
  "unflat_pair t = (takeWhile (\<lambda>c. c \<noteq> SEP1) t, tl (dropWhile (\<lambda>c. c \<noteq> SEP1) t))"

definition unflat_leaf :: "string \<Rightarrow> string \<times> jleaf" where
  "unflat_leaf t = (let (k, s) = unflat_pair t in (k, JStr s))"

fun flat_member :: "string \<times> jval \<Rightarrow> string" where
  "flat_member (k, JLeaf (JStr s)) = k @ SEP1 # CHR ''s'' # s"
| "flat_member (k, JLeaf JNonStr) = k"
| "flat_member (k, JObj m) = k @ SEP1 # CHR ''o'' # concat (map (\<lambda>t. t @ [SEP3]) (map flat_leaf m))"

definition unflat_member :: "string \<Rightarrow> string \<times> jval" where
  "unflat_member t = (let (k, s) = unflat_pair t in
     (k, if hd s = CHR ''s'' then JLeaf (JStr (tl s))
         else JObj (map unflat_leaf (getline_tokens SEP3 (tl s)))))"

definition flat_json :: json_lib where
  "flat_json = \<lparr>js_loads = (\<lambda>t. Some (map unflat_member (getline_tokens SEP2 t))),
     js_dumps = (\<lambda>root. concat (map (\<lambda>t. t @ [SEP2]) (map flat_member root))),
     js_utf8 = printable\<rparr>"

lemma flat_json_utf8 [simp]: "js_utf8 flat_json = printable"
  by (simp add: flat_json_def)

lemma printable_no_sep:
  "printable s \<Longrightarrow> SEP1 \<notin> set s \<and> SEP2 \<notin> set s \<and> SEP3 \<notin> set s \<and> NUL \<notin> set s"
  by (auto simp: printable_def list_all_iff)

lemma unflat_pair_join: "SEP1 \<notin> set k \<Longrightarrow> unflat_pair (k @ SEP1 # s) = (k, s)"
  by (simp add: unflat_pair_def takeWhile_append dropWhile_append2)

lemma unflat_leaf_flat:
  assumes "printable k" and "leaf_ok flat_json l"
  shows "unflat_leaf (flat_leaf (k, l)) = (k, l) \<and> set (flat_leaf (k, l)) \<inter> {SEP2, SEP3, NUL} = {}"
  using assms printable_no_sep [of k] unflat_pair_join [of k]
  by (cases l) (auto simp: unflat_leaf_def dest: printable_no_sep)

lemma unflat_leaves:
  assumes "\<forall>(k, l) \<in> set m. printable k \<and> leaf_ok flat_json l"
  shows "map (unflat_leaf \<circ> flat_leaf) m = m \<and> (\<forall>t \<in> set (map flat_leaf m). set t \<inter> {SEP2, SEP3, NUL} = {})"
  using assms unflat_leaf_flat by (induction m) auto

lemma unflat_member_flat:
  assumes "printable k" and "jval_ok flat_json v"
  shows "unflat_member (flat_member (k, v)) = (k, v) \<and> set (flat_member (k, v)) \<inter> {SEP2, NUL} = {}"
proof (cases v)
  case (JLeaf l)
  then show ?thesis
    using assms printable_no_sep [of k] unflat_pair_join [of k]
    by (cases l) (auto simp: unflat_member_def dest: printable_no_sep)
next
  case (JObj m)
  then have "\<forall>(k, l) \<in> set m. printable k \<and> leaf_ok flat_json l"
    using assms(2) by (auto simp: members_ok_def list_all_iff)
  note m = unflat_leaves [OF this]
  then have "getline_tokens SEP3 (concat (map (\<lambda>t. t @ [SEP3]) (map flat_leaf m))) = map flat_leaf m"
    by (intro getline_tokens_terminated) auto
  then show ?thesis
    using assms(1) JObj m printable_no_sep [of k] unflat_pair_join [of k]
    by (auto simp: unflat_member_def)
qed

lemma flat_json_law: "law_json flat_json"
proof -
  have "NUL \<notin> set (js_dumps flat_json root) \<and> js_loads flat_json (js_dumps flat_json root) = Some root"
    if ok: "json_ok flat_json root" for root
  proof -
    have all: "\<forall>(k, v) \<in> set root. unflat_member (flat_member (k, v)) = (k, v) \<and>
        set (flat_member (k, v)) \<inter> {SEP2, NUL} = {}"
      using ok unflat_member_flat by (fastforce simp: json_ok_def members_ok_def list_all_iff)
    then have "getline_tokens SEP2 (concat (map (\<lambda>t. t @ [SEP2]) (map flat_member root))) = map flat_member root"
      by (intro getline_tokens_terminated) auto
    moreover have "map (unflat_member \<circ> flat_member) root = root"
      using all by (auto intro: map_idI)
    ultimately show ?thesis using all by (auto simp: flat_json_def)
  qed
  then show ?thesis by (simp add: law_json_def)
qed

end
