(* ===== verification/Ceph_Config.thy ===== *)
theory Ceph_Config
  imports Json_Lib
begin

text \<open>
  The configuration: \<open>RadosCephJsonConfig\<close> and \<open>RadosCephConfig\<close> (settings stored in a rados
  object, \<open>rados-ceph-json-config.cpp\<close>, \<open>rados-ceph-config.cpp\<close>), \<open>RadosConfig\<close> (settings of
  the dovecot plugin, \<open>rados-dovecot-config.cpp\<close>) and \<open>RadosDovecotCephCfgImpl\<close>, which joins both.
\<close>

section \<open>Settings in ceph\<close>

record json_config =
  jc_cfg_object_name :: string
  jc_valid :: bool
  jc_user_mapping :: string
  jc_user_ns :: string
  jc_user_suffix :: string
  jc_public_namespace :: string
  jc_mail_attributes :: string
  jc_update_attributes :: string
  jc_updateable_attributes :: string
  jc_metadata_storage_module :: string
  jc_metadata_storage_attribute :: string

definition key_user_mapping :: string where "key_user_mapping = ''user_mapping''"
definition key_user_ns :: string where "key_user_ns = ''user_ns''"
definition key_user_suffix :: string where "key_user_suffix = ''user_suffix''"
definition key_public_namespace :: string where "key_public_namespace = ''rbox_public_namespace''"
definition key_mail_attributes :: string where "key_mail_attributes = ''rbox_mail_attributes''"
definition key_update_attributes :: string where "key_update_attributes = ''rbox_update_attributes''"
definition key_updateable_attributes :: string where "key_updateable_attributes = ''rbox_updateable_attributes''"
definition key_metadata_storage_module :: string where "key_metadata_storage_module = ''rbox_metadata_storage''"
definition key_metadata_storage_attribute :: string where "key_metadata_storage_attribute = ''rbox_storage_metadata_attr''"

lemmas config_keys = key_user_mapping_def key_user_ns_def key_user_suffix_def key_public_namespace_def
  key_mail_attributes_def key_update_attributes_def key_updateable_attributes_def
  key_metadata_storage_module_def key_metadata_storage_attribute_def

definition set_default_mail_attributes :: "json_config \<Rightarrow> json_config" where
  "set_default_mail_attributes c = c\<lparr>jc_mail_attributes := jc_mail_attributes c @ map metadata_key_char
     [RBOX_METADATA_MAILBOX_GUID, RBOX_METADATA_GUID, RBOX_METADATA_POP3_UIDL, RBOX_METADATA_POP3_ORDER,
      RBOX_METADATA_RECEIVED_TIME, RBOX_METADATA_PHYSICAL_SIZE, RBOX_METADATA_VIRTUAL_SIZE,
      RBOX_METADATA_ORIG_MAILBOX, RBOX_METADATA_MAIL_UID, RBOX_METADATA_VERSION]\<rparr>"

definition set_default_updateable_attributes :: "json_config \<Rightarrow> json_config" where
  "set_default_updateable_attributes c = c\<lparr>jc_updateable_attributes :=
     jc_updateable_attributes c @ [metadata_key_char RBOX_METADATA_ORIG_MAILBOX]\<rparr>"

definition new_json_config :: json_config where
  "new_json_config = set_default_updateable_attributes (set_default_mail_attributes
     \<lparr>jc_cfg_object_name = ''rbox_cfg'', jc_valid = False, jc_user_mapping = ''false'',
      jc_user_ns = ''users'', jc_user_suffix = ''_u'', jc_public_namespace = ''public'',
      jc_mail_attributes = [], jc_update_attributes = ''false'', jc_updateable_attributes = [],
      jc_metadata_storage_module = ''default'', jc_metadata_storage_attribute = ''ima''\<rparr>)"

text \<open>
  \<open>from_json\<close>. A member that is missing or no string makes \<open>json_string_value\<close> return \<open>NULL\<close>;
  assigning that to a \<open>std::string\<close> is undefined behaviour, which is \<^const>\<open>None\<close>.
\<close>

definition from_json :: "json_lib \<Rightarrow> bytes \<Rightarrow> json_config \<Rightarrow> (bool \<times> json_config) option" where
  "from_json J buffer c =
     (case js_loads J (c_str buffer) of
        None \<Rightarrow> Some (False, c)
      | Some root \<Rightarrow>
          let val = (\<lambda>k. json_string_value (json_object_get root k)) in
          (case (val key_user_mapping, val key_user_ns, val key_user_suffix, val key_public_namespace,
                 val key_update_attributes, val key_mail_attributes, val key_updateable_attributes,
                 val key_metadata_storage_module, val key_metadata_storage_attribute) of
             (Some um, Some un, Some us, Some pn, Some ua, Some ma, Some up, Some ms, Some mt) \<Rightarrow>
               Some (True, c\<lparr>jc_valid := True, jc_user_mapping := um, jc_user_ns := un, jc_user_suffix := us,
                 jc_public_namespace := pn, jc_mail_attributes := ma, jc_update_attributes := ua,
                 jc_updateable_attributes := up, jc_metadata_storage_module := ms,
                 jc_metadata_storage_attribute := mt\<rparr>)
           | _ \<Rightarrow> None))"

definition to_json_members :: "json_config \<Rightarrow> (string \<times> string) list" where
  "to_json_members c =
     [(key_user_mapping, jc_user_mapping c), (key_user_ns, jc_user_ns c), (key_user_suffix, jc_user_suffix c),
      (key_public_namespace, jc_public_namespace c), (key_mail_attributes, jc_mail_attributes c),
      (key_updateable_attributes, jc_updateable_attributes c), (key_update_attributes, jc_update_attributes c),
      (key_metadata_storage_module, jc_metadata_storage_module c),
      (key_metadata_storage_attribute, jc_metadata_storage_attribute c)]"

definition to_json :: "json_lib \<Rightarrow> json_config \<Rightarrow> bool \<times> bytes" where
  "to_json J c = (True, js_dumps J
     (fold (\<lambda>(k, v). json_object_set J k (map_option JLeaf (json_string J v))) (to_json_members c) []))"

definition config_to_string :: "json_config \<Rightarrow> string" where
  "config_to_string c =
     ''Configuration : '' @ jc_cfg_object_name c @ [newline] @
     concat (map (\<lambda>(k, v). ''  '' @ k @ ''='' @ v @ [newline])
       [(key_user_mapping, jc_user_mapping c), (key_user_ns, jc_user_ns c), (key_user_suffix, jc_user_suffix c),
        (key_public_namespace, jc_public_namespace c), (key_update_attributes, jc_update_attributes c),
        (key_mail_attributes, jc_mail_attributes c), (key_updateable_attributes, jc_updateable_attributes c),
        (key_metadata_storage_module, jc_metadata_storage_module c),
        (key_metadata_storage_attribute, jc_metadata_storage_attribute c)])"

text \<open>\<open>find_first_of(key)\<close>: some character of the key's text occurs in the attribute list.\<close>

definition is_mail_attribute :: "json_config \<Rightarrow> rbox_metadata_key \<Rightarrow> bool" where
  "is_mail_attribute c key \<longleftrightarrow> (\<exists>x \<in> set (jc_mail_attributes c). x \<in> set (rbox_metadata_key_to_char key))"

definition is_updateable_attribute :: "json_config \<Rightarrow> rbox_metadata_key \<Rightarrow> bool" where
  "is_updateable_attribute c key \<longleftrightarrow>
     (\<exists>x \<in> set (jc_updateable_attributes c). x \<in> set (rbox_metadata_key_to_char key))"

definition is_update_attributes :: "json_config \<Rightarrow> bool" where
  "is_update_attributes c \<longleftrightarrow> jc_update_attributes c = ''true''"

definition update_mail_attribute :: "bytes option \<Rightarrow> json_config \<Rightarrow> json_config" where
  "update_mail_attribute value c = (case value of None \<Rightarrow> c | Some v \<Rightarrow> c\<lparr>jc_mail_attributes := c_str v\<rparr>)"

definition update_updateable_attribute :: "bytes option \<Rightarrow> json_config \<Rightarrow> json_config" where
  "update_updateable_attribute value c =
     (case value of None \<Rightarrow> c | Some v \<Rightarrow> c\<lparr>jc_updateable_attributes := c_str v\<rparr>)"

section \<open>The configuration object\<close>

record ceph_config =
  cf_config :: json_config
  cf_io_ctx :: "io_ctx option"

definition is_user_mapping :: "ceph_config \<Rightarrow> bool" where
  "is_user_mapping c \<longleftrightarrow> jc_user_mapping (cf_config c) = ''true''"

definition save_object :: "'w rados \<Rightarrow> ceph_config \<Rightarrow> string \<Rightarrow> bytes \<Rightarrow> 'w \<Rightarrow> int \<times> 'w" where
  "save_object R c oid buffer w =
     (case cf_io_ctx c of None \<Rightarrow> (-1, w) | Some io \<Rightarrow> rd_write_full R io oid buffer w)"

text \<open>
  The retry loop of \<open>read_object\<close>: it stops on success or when the object does not exist. A failed
  round clears the buffer.
\<close>

fun read_retry :: "'w rados \<Rightarrow> io_ctx \<Rightarrow> string \<Rightarrow> nat \<Rightarrow> int \<Rightarrow> 'w \<Rightarrow> int \<times> bytes \<times> 'w" where
  "read_retry R io oid 0 ret w = (ret, [], w)"
| "read_retry R io oid (Suc n) ret w =
     (case rd_read R io oid w of (r, bl, w1) \<Rightarrow>
        if 0 \<le> r \<or> r = - ENOENT then (r, bl, w1) else read_retry R io oid n r w1)"

definition read_object :: "'w rados \<Rightarrow> ceph_config \<Rightarrow> string \<Rightarrow> 'w \<Rightarrow> int \<times> bytes \<times> 'w" where
  "read_object R c oid w =
     (case cf_io_ctx c of None \<Rightarrow> (-1, [], w) | Some io \<Rightarrow> read_retry R io oid 10 (-1) w)"

definition set_io_ctx_namespace :: "string \<Rightarrow> ceph_config \<Rightarrow> ceph_config" where
  "set_io_ctx_namespace ns c = c\<lparr>cf_io_ctx := map_option (set_namespace ns) (cf_io_ctx c)\<rparr>"

definition save_cfg :: "json_lib \<Rightarrow> 'w rados \<Rightarrow> ceph_config \<Rightarrow> 'w \<Rightarrow> int \<times> 'w" where
  "save_cfg J R c w =
     (case to_json J (cf_config c) of (ok, buffer) \<Rightarrow>
        if ok then case save_object R c (jc_cfg_object_name (cf_config c)) buffer w of (r, w1) \<Rightarrow>
          (if 0 \<le> r then 0 else -1, w1)
        else (-1, w))"

definition load_cfg :: "json_lib \<Rightarrow> 'w rados \<Rightarrow> ceph_config \<Rightarrow> 'w \<Rightarrow> (int \<times> ceph_config \<times> 'w) option" where
  "load_cfg J R c w =
     (if jc_valid (cf_config c) then Some (0, c, w)
      else case read_object R c (jc_cfg_object_name (cf_config c)) w of (ret, buffer, w1) \<Rightarrow>
        if ret < 0 then Some (ret, c, w1)
        else case from_json J buffer ((cf_config c)\<lparr>jc_valid := True\<rparr>) of
          None \<Rightarrow> None
        | Some (ok, cfg) \<Rightarrow> Some (if ok then 0 else -1, c\<lparr>cf_config := cfg\<rparr>, w1))"

definition is_valid_key_value :: "string \<Rightarrow> string \<Rightarrow> bool" where
  "is_valid_key_value key value =
     (if value = [] \<or> key = [] then False
      else if key = key_user_mapping then value = ''true'' \<or> value = ''false''
      else if key = key_user_ns then True
      else if key = key_user_suffix then True
      else if key = key_public_namespace then True
      else if key = key_mail_attributes then True
      else if key = key_updateable_attributes then True
      else if key = key_update_attributes then value = ''true'' \<or> value = ''false''
      else if key = key_metadata_storage_module then value = ''default'' \<or> value = ''ima''
      else if key = key_metadata_storage_attribute then True
      else False)"

definition update_valid_key_value :: "string \<Rightarrow> string \<Rightarrow> json_config \<Rightarrow> bool \<times> json_config" where
  "update_valid_key_value key value c =
     (if value = [] \<or> key = [] then (False, c)
      else if key = key_user_mapping then (True, c\<lparr>jc_user_mapping := value\<rparr>)
      else if key = key_user_ns then (True, c\<lparr>jc_user_ns := value\<rparr>)
      else if key = key_user_suffix then (True, c\<lparr>jc_user_suffix := value\<rparr>)
      else if key = key_public_namespace then (True, c\<lparr>jc_public_namespace := value\<rparr>)
      else if key = key_mail_attributes then (True, c\<lparr>jc_mail_attributes := value\<rparr>)
      else if key = key_updateable_attributes then (True, c\<lparr>jc_updateable_attributes := value\<rparr>)
      else if key = key_update_attributes then (True, c\<lparr>jc_update_attributes := value\<rparr>)
      else if key = key_metadata_storage_module then (True, c\<lparr>jc_metadata_storage_module := value\<rparr>)
      else if key = key_metadata_storage_attribute then (True, c\<lparr>jc_metadata_storage_attribute := value\<rparr>)
      else (False, c))"

section \<open>Settings of the dovecot plugin\<close>

record rados_config =
  rc_config :: "string smap"
  rc_valid :: bool

definition new_rados_config :: rados_config where
  "new_rados_config = \<lparr>rc_config = fold (\<lambda>(k, v). smap_put k v)
     [(''rbox_pool_name'', ''mail_storage''), (''rbox_index_pool_name'', ''object_recovery''),
      (''rbox_cfg_object_name'', ''rbox_cfg''), (''rbox_cluster_name'', ''ceph''),
      (''rados_user_name'', ''client.admin''), (''rbox_bugfix_cephfs_21652'', ''false''),
      (''rados_save_log'', []), (''rados_check_empty_mailboxes'', ''false''),
      (''rbox_ceph_aio_wait_for_safe_and_cb'', ''false''), (''rbox_ceph_write_chunks'', ''false''),
      (''rbox_chunk_size'', ''10240''), (''rbox_write_method'', ''0''),
      (''rbox_object_search_method'', ''0''), (''rbox_object_search_threads'', ''4'')] [],
     rc_valid = False\<rparr>"

text \<open>\<open>config[key]\<close> of a \<open>std::map\<close>: a missing key reads as the empty string.\<close>

definition rc_get :: "rados_config \<Rightarrow> string \<Rightarrow> string" where
  "rc_get c k = (case smap_get k (rc_config c) of None \<Rightarrow> [] | Some v \<Rightarrow> v)"

definition string_contains_key :: "string \<Rightarrow> rbox_metadata_key \<Rightarrow> bool" where
  "string_contains_key str key \<longleftrightarrow> str_find (rbox_metadata_key_to_char key) str \<noteq> None"

definition update_pool_name_metadata :: "bytes option \<Rightarrow> rados_config \<Rightarrow> rados_config" where
  "update_pool_name_metadata value c =
     (case value of None \<Rightarrow> c | Some v \<Rightarrow> c\<lparr>rc_config := smap_put ''rbox_pool_name'' (c_str v) (rc_config c)\<rparr>)"

definition rc_update_metadata :: "string \<Rightarrow> bytes option \<Rightarrow> rados_config \<Rightarrow> rados_config" where
  "rc_update_metadata key value c =
     (case value of None \<Rightarrow> c
      | Some v \<Rightarrow> if smap_get key (rc_config c) \<noteq> None
                  then c\<lparr>rc_config := smap_put key (c_str v) (rc_config c)\<rparr> else c)"

definition rados_config_to_string :: "rados_config \<Rightarrow> string" where
  "rados_config_to_string c =
     ''Dovecot configuration: (90-plugin.conf)'' @ [newline] @
     concat (map (\<lambda>k. ''  '' @ k @ ''='' @ rc_get c k @ [newline])
       [''rbox_pool_name'', ''rbox_index_pool_name'', ''rbox_cfg_object_name'', ''rbox_cluster_name'',
        ''rados_user_name'', ''rbox_bugfix_cephfs_21652'', ''rados_save_log'', ''rados_check_empty_mailboxes'',
        ''rbox_ceph_aio_wait_for_safe_and_cb'', ''rbox_ceph_write_chunks'', ''rbox_write_method'',
        ''rbox_chunk_size'', ''rbox_object_search_method'', ''rbox_object_search_threads''])"

section \<open>Both together\<close>

record dovecot_ceph_cfg =
  dc_dovecot :: rados_config
  dc_rados :: ceph_config

definition dc_is_config_valid :: "dovecot_ceph_cfg \<Rightarrow> bool" where
  "dc_is_config_valid c \<longleftrightarrow> rc_valid (dc_dovecot c) \<and> jc_valid (cf_config (dc_rados c))"

definition dc_set_config_valid :: "bool \<Rightarrow> dovecot_ceph_cfg \<Rightarrow> dovecot_ceph_cfg" where
  "dc_set_config_valid v c =
     (let c1 = c\<lparr>dc_dovecot := (dc_dovecot c)\<lparr>rc_valid := v\<rparr>\<rparr> in
      if v then c1\<lparr>dc_rados := (dc_rados c1)\<lparr>cf_config := (cf_config (dc_rados c1))
             \<lparr>jc_cfg_object_name := rc_get (dc_dovecot c1) ''rbox_cfg_object_name''\<rparr>\<rparr>\<rparr>
      else c1)"

definition get_write_method :: "dovecot_ceph_cfg \<Rightarrow> cpp_exn + int" where
  "get_write_method c = stoi (rc_get (dc_dovecot c) ''rbox_write_method'')"

definition get_chunk_size :: "dovecot_ceph_cfg \<Rightarrow> cpp_exn + int" where
  "get_chunk_size c = stoi (rc_get (dc_dovecot c) ''rbox_chunk_size'')"

definition get_object_search_method :: "dovecot_ceph_cfg \<Rightarrow> cpp_exn + int" where
  "get_object_search_method c = stoi (rc_get (dc_dovecot c) ''rbox_object_search_method'')"

definition get_object_search_threads :: "dovecot_ceph_cfg \<Rightarrow> cpp_exn + int" where
  "get_object_search_threads c = stoi (rc_get (dc_dovecot c) ''rbox_object_search_threads'')"

definition load_rados_config ::
    "json_lib \<Rightarrow> 'w rados \<Rightarrow> dovecot_ceph_cfg \<Rightarrow> 'w \<Rightarrow> (int \<times> dovecot_ceph_cfg \<times> 'w) option" where
  "load_rados_config J R c w =
     map_option (\<lambda>(r, rc, w1). (r, c\<lparr>dc_rados := rc\<rparr>, w1)) (load_cfg J R (dc_rados c) w)"

definition save_default_rados_config :: "json_lib \<Rightarrow> 'w rados \<Rightarrow> dovecot_ceph_cfg \<Rightarrow> 'w \<Rightarrow> int \<times> dovecot_ceph_cfg \<times> 'w" where
  "save_default_rados_config J R c w =
     (case save_cfg J R (dc_rados c) w of (r, w1) \<Rightarrow>
        let valid = (r = 0) in
        (if valid then 0 else -1,
         c\<lparr>dc_rados := (dc_rados c)\<lparr>cf_config := (cf_config (dc_rados c))\<lparr>jc_valid := valid\<rparr>\<rparr>\<rparr>, w1))"


section \<open>Lemmas\<close>

definition settings :: "json_config \<Rightarrow> string list" where
  "settings c = map snd (to_json_members c)"

definition config_text_ok :: "json_lib \<Rightarrow> json_config \<Rightarrow> bool" where
  "config_text_ok J c \<longleftrightarrow>
     list_all (\<lambda>(k, v). js_utf8 J k \<and> js_utf8 J v \<and> NUL \<notin> set v) (to_json_members c)"

lemma config_keys_distinct: "distinct (map fst (to_json_members c))"
  by (simp add: to_json_members_def config_keys)

lemma config_keys_no_nul: "\<forall>(k, v) \<in> set (to_json_members c). NUL \<notin> set k"
  by (simp add: to_json_members_def config_keys)

lemma to_json_root:
  assumes "config_text_ok J c"
  shows "fold (\<lambda>(k, v). json_object_set J k (map_option JLeaf (json_string J v))) (to_json_members c) [] =
         map (\<lambda>(k, v). (k, JLeaf (JStr v))) (to_json_members c)"
proof -
  have ok: "\<forall>(k, v) \<in> set (to_json_members c). js_utf8 J k \<and> NUL \<notin> set k \<and> js_utf8 J (c_str v) \<and> c_str v = v"
    using assms config_keys_no_nul [of c] by (fastforce simp: config_text_ok_def list_all_iff c_str_no_nul)
  then have "map (\<lambda>(k, v). (k, JLeaf (JStr (c_str v)))) (to_json_members c) =
      map (\<lambda>(k, v). (k, JLeaf (JStr v))) (to_json_members c)"
    by auto
  moreover have "fold (\<lambda>(k, v). json_object_set J k (map_option JLeaf (json_string J v))) (to_json_members c) [] =
      [] @ map (\<lambda>(k, v). (k, JLeaf (JStr (c_str v)))) (to_json_members c)"
    using ok config_keys_distinct [of c] by (intro json_object_build) auto
  ultimately show ?thesis by simp
qed

lemma from_to_json:
  assumes "law_json J" and "config_text_ok J c"
  shows "from_json J (snd (to_json J c)) c' =
    Some (True, c\<lparr>jc_cfg_object_name := jc_cfg_object_name c', jc_valid := True\<rparr>)"
proof -
  let ?root = "map (\<lambda>(k, v). (k, JLeaf (JStr v))) (to_json_members c)"
  have "json_ok J ?root"
    using assms(2) config_keys_distinct [of c] config_keys_no_nul [of c]
    by (auto simp: json_ok_def members_ok_def config_text_ok_def list_all_iff comp_def case_prod_beta)
  then have l: "js_loads J (c_str (js_dumps J ?root)) = Some ?root"
    using assms(1) by (simp add: law_json_def c_str_no_nul)
  have v: "json_string_value (json_object_get ?root k) = map_of (to_json_members c) k" for k
    by (simp add: json_object_get_def map_of_map comp_def case_prod_beta split: option.splits)
       (cases "map_of (to_json_members c) k"; simp)
  show ?thesis
    unfolding from_json_def to_json_def to_json_root [OF assms(2)] snd_conv l option.case v Let_def
    by (cases c) (simp add: to_json_members_def config_keys)
qed

lemma read_retry_data:
  assumes "law_read R V"
  shows "read_retry R io oid n r0 w = (r, b, w') \<Longrightarrow> V w' = V w \<and>
     (0 \<le> r \<longrightarrow> r0 < 0 \<longrightarrow> (\<exists>ob. V w (okey io oid) = Some ob \<and> b = o_data ob))"
proof (induction n arbitrary: r0 w)
  case (Suc n)
  obtain r1 b1 w1 where rd: "rd_read R io oid w = (r1, b1, w1)" by (metis prod_cases3)
  then have "V w1 = V w" and "0 \<le> r1 \<Longrightarrow> \<exists>ob. V w (okey io oid) = Some ob \<and> b1 = o_data ob"
    using assms unfolding law_read_def by blast+
  then show ?case
    using Suc.IH [of r1 w1] Suc.prems rd by (auto split: if_splits)
qed auto


section \<open>Properties\<close>

text \<open>
  Property C21: the configuration saved in ceph is read back. When \<open>save_cfg\<close> succeeded and
  \<open>load_cfg\<close> of a configuration that was not valid yet reads the same object, every setting is
  the saved one and the configuration is valid; this holds for all settings that are UTF-8 text
  without NUL bytes.
\<close>

theorem cfg_save_load:
  assumes "law_json J" and "law_write_full R V" and "law_read R V" and "config_text_ok J (cf_config c)"
    and "cf_io_ctx c = Some io" and "save_cfg J R c w = (0, w1)"
    and "cf_io_ctx c' = Some io" and "\<not> jc_valid (cf_config c')"
    and "jc_cfg_object_name (cf_config c') = jc_cfg_object_name (cf_config c)"
    and "0 \<le> fst (read_object R c' (jc_cfg_object_name (cf_config c)) w1)"
  shows "\<exists>w2. load_cfg J R c' w1 = Some (0, c'\<lparr>cf_config := (cf_config c)\<lparr>jc_valid := True\<rparr>\<rparr>, w2)"
proof -
  let ?oid = "jc_cfg_object_name (cf_config c)"
  obtain r b w2 where rd: "read_object R c' ?oid w1 = (r, b, w2)" by (metis prod_cases3)
  have wr: "rd_write_full R io ?oid (snd (to_json J (cf_config c))) w = (r', w1) \<and> 0 \<le> r'"
    if "rd_write_full R io ?oid (snd (to_json J (cf_config c))) w = (r', w1')" for r' w1'
    using assms(5,6) that by (auto simp: save_cfg_def save_object_def to_json_def split: if_splits)
  then obtain r' where w: "rd_write_full R io ?oid (snd (to_json J (cf_config c))) w = (r', w1)" "0 \<le> r'"
    by (metis surj_pair)
  then obtain ob where ob: "V w1 (okey io ?oid) = Some ob" "o_data ob = snd (to_json J (cf_config c))"
    using assms(2) unfolding law_write_full_def by fastforce
  have "b = snd (to_json J (cf_config c))" and "0 \<le> r"
    using rd assms(7,10) ob read_retry_data [OF assms(3), of io ?oid 10 "-1" w1 r b w2]
    by (auto simp: read_object_def)
  then show ?thesis
    using rd assms(8,9) from_to_json [OF assms(1,4), of "(cf_config c')\<lparr>jc_valid := True\<rparr>"]
    by (cases "cf_config c") (auto simp: load_cfg_def)
qed

theorem cfg_save_load_witness:
  "\<exists>w2. load_cfg flat_json mem_rados
       \<lparr>cf_config = new_json_config, cf_io_ctx = Some \<lparr>ctx_pool = ''p'', ctx_ns = []\<rparr>\<rparr>
       (snd (save_cfg flat_json mem_rados \<lparr>cf_config = new_json_config\<lparr>jc_user_mapping := ''true''\<rparr>,
          cf_io_ctx = Some \<lparr>ctx_pool = ''p'', ctx_ns = []\<rparr>\<rparr> [])) =
     Some (0, \<lparr>cf_config = new_json_config\<lparr>jc_user_mapping := ''true'', jc_valid := True\<rparr>,
        cf_io_ctx = Some \<lparr>ctx_pool = ''p'', ctx_ns = []\<rparr>\<rparr>, w2)"
proof -
  let ?io = "\<lparr>ctx_pool = ''p'', ctx_ns = []\<rparr>"
  let ?c = "\<lparr>cf_config = new_json_config\<lparr>jc_user_mapping := ''true''\<rparr>, cf_io_ctx = Some ?io\<rparr>"
  let ?c' = "\<lparr>cf_config = new_json_config, cf_io_ctx = Some ?io\<rparr>"
  note defs = new_json_config_def set_default_mail_attributes_def set_default_updateable_attributes_def
  have t: "config_text_ok flat_json (cf_config ?c)"
    by (simp add: config_text_ok_def to_json_members_def config_keys printable_def defs metadata_key_char_def)
  have s: "save_cfg flat_json mem_rados ?c [] = (0, snd (save_cfg flat_json mem_rados ?c []))"
    by (simp add: save_cfg_def to_json_def save_object_def mem_rados_def mem_set_def)
  have r: "0 \<le> fst (read_object mem_rados ?c' (jc_cfg_object_name (cf_config ?c)) (snd (save_cfg flat_json mem_rados ?c [])))"
    by (simp add: save_cfg_def to_json_def save_object_def mem_rados_def mem_set_def read_object_def mem_get_def
        numeral_eq_Suc)
  show ?thesis
    using cfg_save_load [OF flat_json_law mem_rados_laws(3,5) t _ s _ _ _ r] by (simp add: defs)
qed

text \<open>
  A configuration object that cannot be parsed is reported once only. The first
  \<open>load_cfg\<close> returns -1 but leaves the configuration marked valid with its previous settings, so
  the next \<open>load_cfg\<close> returns 0 without reading anything.
\<close>

theorem load_cfg_unparsable:
  assumes "\<not> jc_valid (cf_config c)"
    and "read_object R c (jc_cfg_object_name (cf_config c)) w = (r, b, w1)" and "0 \<le> r"
    and "js_loads J (c_str b) = None"
  shows "load_cfg J R c w = Some (-1, c\<lparr>cf_config := (cf_config c)\<lparr>jc_valid := True\<rparr>\<rparr>, w1) \<and>
    load_cfg J R (c\<lparr>cf_config := (cf_config c)\<lparr>jc_valid := True\<rparr>\<rparr>) w2 =
      Some (0, c\<lparr>cf_config := (cf_config c)\<lparr>jc_valid := True\<rparr>\<rparr>, w2)"
  using assms by (simp add: load_cfg_def from_json_def)

theorem load_cfg_unparsable_witness:
  "fst (the (load_cfg (flat_json\<lparr>js_loads := (\<lambda>_. None)\<rparr>) mem_rados
      \<lparr>cf_config = new_json_config, cf_io_ctx = Some \<lparr>ctx_pool = [], ctx_ns = []\<rparr>\<rparr>
      [(([], [], ''rbox_cfg''), empty_robj)])) = -1"
proof -
  let ?c = "\<lparr>cf_config = new_json_config, cf_io_ctx = Some \<lparr>ctx_pool = [], ctx_ns = []\<rparr>\<rparr>"
  let ?w = "[(([], [], ''rbox_cfg''), empty_robj)]"
  have "read_object mem_rados ?c (jc_cfg_object_name (cf_config ?c)) ?w = (0, [], ?w)"
    by (simp add: read_object_def numeral_eq_Suc mem_rados_def mem_get_def okey_def new_json_config_def
        set_default_mail_attributes_def set_default_updateable_attributes_def empty_robj_def)
  then show ?thesis
    using load_cfg_unparsable [of ?c mem_rados ?w 0 "[]" ?w "flat_json\<lparr>js_loads := (\<lambda>_. None)\<rparr>"]
    by (simp add: new_json_config_def set_default_mail_attributes_def set_default_updateable_attributes_def)
qed

text \<open>
  \<open>update_valid_key_value\<close> changes a setting exactly when the key is known and the
  value is not empty. It accepts everything \<open>is_valid_key_value\<close> accepts, and also values that
  function rejects, such as a user mapping of \<open>yes\<close>.
\<close>

theorem update_key_value_accepts:
  "(fst (update_valid_key_value key value c) \<longleftrightarrow>
      value \<noteq> [] \<and> key \<in> {key_user_mapping, key_user_ns, key_user_suffix, key_public_namespace,
        key_mail_attributes, key_updateable_attributes, key_update_attributes,
        key_metadata_storage_module, key_metadata_storage_attribute}) \<and>
   (is_valid_key_value key value \<longrightarrow> fst (update_valid_key_value key value c)) \<and>
   fst (update_valid_key_value key_user_mapping ''yes'' c) \<and> \<not> is_valid_key_value key_user_mapping ''yes''"
  by (auto simp: update_valid_key_value_def is_valid_key_value_def config_keys)


theorem update_key_value_accepts_witness:
  "fst (update_valid_key_value key_user_ns ''users'' new_json_config)"
  using update_key_value_accepts [of key_user_ns "''users''" new_json_config]
  by (simp add: is_valid_key_value_def config_keys)

end
