(* ===== verification/Namespace_Mgr.thy ===== *)
theory Namespace_Mgr
  imports Ceph_Config
begin

text \<open>
  \<open>RadosNamespaceManager\<close> (\<open>src/src/librmb/rados-namespace-manager.cpp\<close>): the map from a user to
  the namespace that holds the user's mails. With user mapping the namespace is a generated GUID
  stored in an object of the user namespace and cached in memory; without it the namespace is the
  user name. The GUID generator belongs to dovecot: the GUID it returns is an argument.
\<close>

section \<open>Operations\<close>

record ns_mgr =
  nm_config :: "dovecot_ceph_cfg option"
  nm_cache :: "string smap"

definition cfg_set_namespace :: "string \<Rightarrow> dovecot_ceph_cfg \<Rightarrow> dovecot_ceph_cfg" where
  "cfg_set_namespace ns c = c\<lparr>dc_rados := set_io_ctx_namespace ns (dc_rados c)\<rparr>"

definition cfg_user_ns :: "dovecot_ceph_cfg \<Rightarrow> string" where
  "cfg_user_ns c = jc_user_ns (cf_config (dc_rados c))"

text \<open>\<open>value\<close> is the output variable of the caller, unchanged when the lookup fails.\<close>

definition lookup_key :: "'w rados \<Rightarrow> string \<Rightarrow> string \<Rightarrow> ns_mgr \<Rightarrow> 'w \<Rightarrow> bool \<times> string \<times> ns_mgr \<times> 'w" where
  "lookup_key R uid value m w =
     (if uid = [] then (True, uid, m, w)
      else case nm_config m of None \<Rightarrow> (False, value, m, w)
      | Some cfg \<Rightarrow>
        if \<not> dc_is_config_valid cfg then (False, value, m, w)
        else if \<not> is_user_mapping (dc_rados cfg) then (True, uid, m, w)
        else case smap_get uid (nm_cache m) of
          Some v \<Rightarrow> (True, v, m, w)
        | None \<Rightarrow>
            let cfg1 = cfg_set_namespace (cfg_user_ns cfg) cfg;
                (err, bl, w1) = read_object R (dc_rados cfg1) uid w;
                cfg2 = cfg_set_namespace [] cfg1
            in if 0 \<le> err \<and> bl \<noteq> []
               then (True, bl, m\<lparr>nm_config := Some cfg2, nm_cache := smap_put uid bl (nm_cache m)\<rparr>, w1)
               else (False, value, m\<lparr>nm_config := Some cfg2\<rparr>, w1))"

definition add_namespace_entry :: "'w rados \<Rightarrow> string \<Rightarrow> string \<Rightarrow> string option \<Rightarrow> ns_mgr \<Rightarrow> 'w \<Rightarrow>
    bool \<times> string \<times> ns_mgr \<times> 'w" where
  "add_namespace_entry R uid value guid m w =
     (case nm_config m of None \<Rightarrow> (False, value, m, w)
      | Some cfg \<Rightarrow>
        if \<not> dc_is_config_valid cfg then (False, value, m, w)
        else case guid of None \<Rightarrow> (False, value, m, w)
        | Some g \<Rightarrow>
            let cfg1 = cfg_set_namespace (cfg_user_ns cfg) cfg;
                (r, w1) = save_object R (dc_rados cfg1) uid g w;
                cfg2 = cfg_set_namespace [] cfg1
            in if 0 \<le> r then (True, g, m\<lparr>nm_config := Some cfg2, nm_cache := smap_put uid g (nm_cache m)\<rparr>, w1)
               else (False, g, m\<lparr>nm_config := Some cfg2\<rparr>, w1))"

section \<open>Lemmas\<close>

text \<open>The namespace switch changes nothing but the namespace of the io context.\<close>

lemma cfg_set_namespace_sel [simp]:
  "dc_is_config_valid (cfg_set_namespace ns c) = dc_is_config_valid c"
  "is_user_mapping (dc_rados (cfg_set_namespace ns c)) = is_user_mapping (dc_rados c)"
  "cfg_user_ns (cfg_set_namespace ns c) = cfg_user_ns c"
  "cf_io_ctx (dc_rados (cfg_set_namespace ns c)) = map_option (set_namespace ns) (cf_io_ctx (dc_rados c))"
  by (simp_all add: cfg_set_namespace_def set_io_ctx_namespace_def dc_is_config_valid_def
      is_user_mapping_def cfg_user_ns_def)

lemma set_namespace_twice [simp]: "set_namespace a (set_namespace b c) = set_namespace a c"
  by (simp add: set_namespace_def)

definition user_object :: "dovecot_ceph_cfg \<Rightarrow> io_ctx \<Rightarrow> string \<Rightarrow> obj_key" where
  "user_object cfg io uid = okey (set_namespace (cfg_user_ns cfg) io) uid"

lemma save_object_data:
  assumes "law_write_full R V" and "cf_io_ctx (dc_rados cfg) = Some io"
    and "save_object R (dc_rados (cfg_set_namespace (cfg_user_ns cfg) cfg)) uid g w = (r, w1)" and "0 \<le> r"
  shows "\<exists>ob. V w1 (user_object cfg io uid) = Some ob \<and> o_data ob = g"
  using assms unfolding law_write_full_def save_object_def user_object_def by fastforce

lemma read_object_data:
  assumes "law_read R V" and "cf_io_ctx (dc_rados cfg) = Some io"
    and "read_object R (dc_rados (cfg_set_namespace (cfg_user_ns cfg) cfg)) uid w = (r, b, w1)" and "0 \<le> r"
  shows "\<exists>ob. V w (user_object cfg io uid) = Some ob \<and> b = o_data ob"
proof -
  have "read_retry R (set_namespace (cfg_user_ns cfg) io) uid 10 (-1) w = (r, b, w1)"
    using assms(2,3) by (simp add: read_object_def)
  then show ?thesis
    using read_retry_data [OF assms(1)] assms(4) unfolding user_object_def by fastforce
qed

text \<open>Concrete values for the witnesses.\<close>

definition sample_cfg :: dovecot_ceph_cfg where
  "sample_cfg = \<lparr>dc_dovecot = new_rados_config\<lparr>rc_valid := True\<rparr>,
     dc_rados = \<lparr>cf_config = new_json_config\<lparr>jc_valid := True, jc_user_mapping := ''true''\<rparr>,
                 cf_io_ctx = Some \<lparr>ctx_pool = ''p'', ctx_ns = ''n''\<rparr>\<rparr>\<rparr>"

definition sample_mgr :: ns_mgr where
  "sample_mgr = \<lparr>nm_config = Some sample_cfg, nm_cache = []\<rparr>"

lemma sample_cfg_facts:
  "nm_config sample_mgr = Some sample_cfg" "dc_is_config_valid sample_cfg" "is_user_mapping (dc_rados sample_cfg)"
  "cf_io_ctx (dc_rados sample_cfg) = Some \<lparr>ctx_pool = ''p'', ctx_ns = ''n''\<rparr>" "smap_get uid (nm_cache sample_mgr) = None"
  by (simp_all add: sample_cfg_def sample_mgr_def dc_is_config_valid_def is_user_mapping_def smap_get_def)

section \<open>Properties\<close>

text \<open>
  Property C29: a namespace entry that was added is found again. After a successful
  \<open>add_namespace_entry\<close> the same manager answers with the generated GUID, from its cache and
  without touching the cluster; and a manager with an empty cache, when it can read the object,
  finds the same GUID in ceph.
\<close>

theorem namespace_add_lookup:
  assumes "law_write_full R V" and "law_read R V"
    and "nm_config m = Some cfg" and "dc_is_config_valid cfg" and "is_user_mapping (dc_rados cfg)"
    and "cf_io_ctx (dc_rados cfg) = Some io" and "uid \<noteq> []" and "g \<noteq> []"
    and "add_namespace_entry R uid v (Some g) m w = (True, g', m1, w1)"
    and "nm_config m2 = Some cfg" and "smap_get uid (nm_cache m2) = None"
    and "0 \<le> fst (read_object R (dc_rados (cfg_set_namespace (cfg_user_ns cfg) cfg)) uid w1)"
  shows "g' = g \<and> lookup_key R uid v m1 w2 = (True, g, m1, w2) \<and>
    (\<exists>m3 w3. lookup_key R uid v m2 w1 = (True, g, m3, w3) \<and> smap_get uid (nm_cache m3) = Some g)"
proof -
  let ?cfg1 = "cfg_set_namespace (cfg_user_ns cfg) cfg"
  obtain r where sv: "save_object R (dc_rados ?cfg1) uid g w = (r, w1)" "0 \<le> r"
      and m1: "g' = g" "m1 = m\<lparr>nm_config := Some (cfg_set_namespace [] ?cfg1), nm_cache := smap_put uid g (nm_cache m)\<rparr>"
    using assms(3,4,9) by (auto simp: add_namespace_entry_def Let_def split: if_splits prod.splits)
  obtain r2 b w3 where rd: "read_object R (dc_rados ?cfg1) uid w1 = (r2, b, w3)" by (metis prod_cases3)
  then have "b = g" and "0 \<le> r2"
    using save_object_data [OF assms(1,6) sv] read_object_data [OF assms(2,6) rd] assms(12) by auto
  then have "\<exists>m3 w3. lookup_key R uid v m2 w1 = (True, g, m3, w3) \<and> smap_get uid (nm_cache m3) = Some g"
    using assms rd by (auto simp: lookup_key_def)
  then show ?thesis
    using m1 assms(4,5,7) by (simp add: lookup_key_def)
qed

theorem namespace_add_lookup_witness:
  "\<exists>m1 w1 m3 w3. add_namespace_entry mem_rados ''bob_u'' [] (Some ''guid1'') sample_mgr [] = (True, ''guid1'', m1, w1) \<and>
     lookup_key mem_rados ''bob_u'' [] sample_mgr w1 = (True, ''guid1'', m3, w3)"
proof -
  note f = sample_cfg_facts
  obtain m1 w1 where a: "add_namespace_entry mem_rados ''bob_u'' [] (Some ''guid1'') sample_mgr [] = (True, ''guid1'', m1, w1)"
    by (simp add: add_namespace_entry_def f save_object_def mem_rados_def mem_set_def Let_def)
  then have w1: "w1 = [(okey (set_namespace (cfg_user_ns sample_cfg) \<lparr>ctx_pool = ''p'', ctx_ns = ''n''\<rparr>) ''bob_u'',
      empty_robj\<lparr>o_data := ''guid1''\<rparr>)]"
    by (simp add: add_namespace_entry_def f save_object_def mem_rados_def mem_set_def Let_def obj_or_new_def)
  have "0 \<le> fst (read_object mem_rados (dc_rados (cfg_set_namespace (cfg_user_ns sample_cfg) sample_cfg)) ''bob_u'' w1)"
    by (simp add: read_object_def f w1 numeral_eq_Suc mem_rados_def mem_get_def)
  from namespace_add_lookup [OF mem_rados_laws(3,5) f(1-4) _ _ a f(1) f(5) this] a
  show ?thesis by fastforce
qed

text \<open>
  Every lookup that consults the cluster, and every attempt to add an entry, leaves
  the shared io context in the empty namespace, not in the one it had before.
\<close>

theorem namespace_reset:
  assumes "nm_config m = Some cfg" and "dc_is_config_valid cfg" and "cf_io_ctx (dc_rados cfg) = Some io"
  shows "(\<exists>ok v' m' w' cfg'. add_namespace_entry R uid v (Some g) m w = (ok, v', m', w') \<and>
       nm_config m' = Some cfg' \<and> cf_io_ctx (dc_rados cfg') = Some (io\<lparr>ctx_ns := []\<rparr>)) \<and>
    (uid \<noteq> [] \<and> is_user_mapping (dc_rados cfg) \<and> smap_get uid (nm_cache m) = None \<longrightarrow>
     (\<exists>ok v' m' w' cfg'. lookup_key R uid v m w = (ok, v', m', w') \<and>
       nm_config m' = Some cfg' \<and> cf_io_ctx (dc_rados cfg') = Some (io\<lparr>ctx_ns := []\<rparr>)))"
  using assms
  by (auto simp: add_namespace_entry_def lookup_key_def Let_def set_namespace_def split: prod.splits)


theorem namespace_reset_witness:
  "\<exists>ok v' m' w' cfg'. lookup_key mem_rados ''bob_u'' [] sample_mgr [] = (ok, v', m', w') \<and>
     nm_config m' = Some cfg' \<and> cf_io_ctx (dc_rados cfg') = Some \<lparr>ctx_pool = ''p'', ctx_ns = []\<rparr>"
  using namespace_reset [OF sample_cfg_facts(1,2,4), of mem_rados "''bob_u''" "[]" "[]" "[]"] sample_cfg_facts
  by simp

end
