(* ===== verification/Metadata_Storage.thy ===== *)
theory Metadata_Storage
  imports Storage_Impl Namespace_Mgr
begin

text \<open>
  The metadata modules: \<open>RadosMetadataStorageDefault\<close> keeps every metadata entry of a mail in an
  extended attribute of its own, \<open>RadosMetadataStorageIma\<close> keeps the immutable ones together in
  one JSON attribute. Both implement \<open>RadosStorageMetadataModule\<close>, which is the locale
  \<open>metadata_module\<close> below.
\<close>

section \<open>The default module\<close>

definition default_load_metadata :: "'w rados \<Rightarrow> io_ctx \<Rightarrow> rados_mail \<Rightarrow> 'w \<Rightarrow> int \<times> rados_mail \<times> 'w" where
  "default_load_metadata R io mail w =
     (case rd_getxattrs R io (m_oid mail) w of (ret, attrs, w1) \<Rightarrow>
        let mail1 = mail\<lparr>m_attrset := (if 0 \<le> ret then attrs else [])\<rparr> in
        if 0 \<le> ret then
          case get_all_keys_and_values R io (m_oid mail) (m_extended mail1) w1 of (ret2, kv, w2) \<Rightarrow>
            (ret2, mail1\<lparr>m_extended := kv\<rparr>, w2)
        else (ret, mail1, w1))"

definition default_set_metadata :: "'w rados \<Rightarrow> io_ctx \<Rightarrow> rados_mail \<Rightarrow> rados_metadata \<Rightarrow> 'w \<Rightarrow> int \<times> rados_mail \<times> 'w" where
  "default_set_metadata R io mail xattr w =
     (case rd_setxattr R io (m_oid mail) (md_key xattr) (md_bl xattr) w of (r, w1) \<Rightarrow>
        (r, add_metadata xattr mail, w1))"

text \<open>
  The overload with a write operation submits that operation as the caller built it. A completion
  the mail already has is reused; its return value is the one of the new submission.
\<close>

definition default_set_metadata_op ::
    "'w rados \<Rightarrow> io_ctx \<Rightarrow> rados_mail \<Rightarrow> rados_metadata \<Rightarrow> write_op \<Rightarrow> 'w \<Rightarrow> int \<times> rados_mail \<times> 'w" where
  "default_set_metadata_op R io mail xattr op w =
     (let mail1 = add_metadata xattr mail;
          mail2 = (if m_completion mail1 = None then mail1\<lparr>m_active_op := 1\<rparr> else mail1)
      in case rd_aio_operate R io (m_oid mail) op w of (r, cr, w1) \<Rightarrow>
           (r, mail2\<lparr>m_completion := Some cr\<rparr>, w1))"

definition default_save_metadata :: "write_op \<Rightarrow> rados_mail \<Rightarrow> write_op" where
  "default_save_metadata op mail =
     op @ map (\<lambda>(k, v). WSetXattr k v) (m_attrset mail) @
     (if length (m_extended mail) > 0 then [WOmapSet (m_extended mail)] else [])"

text \<open>\<open>update_metadata\<close> waits for the completion but looks only at the result of the submission.\<close>

definition default_update_metadata :: "'w rados \<Rightarrow> io_ctx \<Rightarrow> string \<Rightarrow> rados_metadata list \<Rightarrow> 'w \<Rightarrow> bool \<times> 'w" where
  "default_update_metadata R io oid to_update w =
     (case rd_aio_operate R io oid (metadata_ops to_update) w of (r, _, w1) \<Rightarrow> (r = 0, w1))"

definition default_update_keyword_metadata :: "'w rados \<Rightarrow> io_ctx \<Rightarrow> string \<Rightarrow> rados_metadata option \<Rightarrow> 'w \<Rightarrow> int \<times> 'w" where
  "default_update_keyword_metadata R io oid metadata w =
     (case metadata of None \<Rightarrow> (-1, w) | Some m \<Rightarrow> rd_omap_set R io oid [(md_key m, md_bl m)] w)"

definition default_remove_keyword_metadata :: "'w rados \<Rightarrow> io_ctx \<Rightarrow> string \<Rightarrow> string \<Rightarrow> 'w \<Rightarrow> int \<times> 'w" where
  "default_remove_keyword_metadata R io oid key w = rd_omap_rm_keys R io oid [key] w"

definition default_load_keyword_metadata ::
    "'w rados \<Rightarrow> io_ctx \<Rightarrow> string \<Rightarrow> string list \<Rightarrow> 'w \<Rightarrow> int \<times> bytes smap \<times> 'w" where
  "default_load_keyword_metadata R io oid keys w = rd_omap_get_vals_by_keys R io oid keys w"

section \<open>The IMA module\<close>

definition ima_module_name :: string where "ima_module_name = ''ima''"
definition keyword_key :: string where "keyword_key = ''K''"

text \<open>
  \<open>parse_attribute\<close>. A member that is no string makes \<open>json_string_value\<close> return \<open>NULL\<close>, which
  the buffer cannot append: \<^const>\<open>None\<close>.
\<close>

fun parse_keywords :: "(string \<times> jleaf) list \<Rightarrow> bytes smap \<Rightarrow> bytes smap option" where
  "parse_keywords [] ext = Some ext"
| "parse_keywords ((k, v) # kvs) ext =
     (case leaf_value v of None \<Rightarrow> None | Some s \<Rightarrow> parse_keywords kvs (smap_put k s ext))"

fun keyword_members :: "jval \<Rightarrow> (string \<times> jleaf) list" where
  "keyword_members (JObj m) = m"
| "keyword_members (JLeaf l) = []"

fun parse_attribute :: "json \<Rightarrow> rados_mail \<Rightarrow> rados_mail option" where
  "parse_attribute [] mail = Some mail"
| "parse_attribute ((key, value) # root) mail =
     (if key = keyword_key then
        (case parse_keywords (keyword_members value) (m_extended mail) of
           None \<Rightarrow> None | Some ext \<Rightarrow> parse_attribute root (mail\<lparr>m_extended := ext\<rparr>))
      else
        (case json_string_value (Some value) of
           None \<Rightarrow> None
         | Some s \<Rightarrow> parse_attribute root (mail\<lparr>m_attrset := smap_put key s (m_attrset mail)\<rparr>)))"

fun getxattrs_retry :: "'w rados \<Rightarrow> io_ctx \<Rightarrow> string \<Rightarrow> nat \<Rightarrow> int \<Rightarrow> 'w \<Rightarrow> int \<times> bytes smap \<times> 'w" where
  "getxattrs_retry R io oid 0 ret w = (ret, [], w)"
| "getxattrs_retry R io oid (Suc n) ret w =
     (case rd_getxattrs R io oid w of (r, attrs, w1) \<Rightarrow>
        if 0 \<le> r then (r, attrs, w1) else getxattrs_retry R io oid n r w1)"

definition ima_load_metadata ::
    "json_lib \<Rightarrow> 'w rados \<Rightarrow> io_ctx \<Rightarrow> json_config \<Rightarrow> rados_mail \<Rightarrow> 'w \<Rightarrow> (int \<times> rados_mail \<times> 'w) option" where
  "ima_load_metadata J R io cfg mail w =
     (if length (m_attrset mail) > 0 then Some (0, mail, w)
      else case getxattrs_retry R io (m_oid mail) 10 (-1) w of (ret, attr, w1) \<Rightarrow>
        if ret < 0 then Some (ret, mail, w1)
        else
          case (case smap_get (jc_metadata_storage_attribute cfg) attr of
                  None \<Rightarrow> Some mail
                | Some b \<Rightarrow> (case js_loads J (c_str b) of None \<Rightarrow> Some mail | Some root \<Rightarrow> parse_attribute root mail)) of
            None \<Rightarrow> None
          | Some mail1 \<Rightarrow>
              let mail2 = mail1\<lparr>m_attrset := fold (\<lambda>(k, v). smap_put k v)
                    (filter (\<lambda>(k, v). k \<noteq> jc_metadata_storage_attribute cfg) attr) (m_attrset mail1)\<rparr>
              in if is_updateable_attribute cfg RBOX_METADATA_OLDV1_KEYWORDS then
                   (case get_all_keys_and_values R io (m_oid mail) (m_extended mail2) w1 of (ret2, kv, w2) \<Rightarrow>
                      Some (ret2, mail2\<lparr>m_extended := kv\<rparr>, w2))
                 else Some (ret, mail2, w1))"

text \<open>\<open>*key.c_str()\<close>: the first character, NUL for an empty key.\<close>

definition first_char_key :: "string \<Rightarrow> rbox_metadata_key" where
  "first_char_key k = metadata_key_of_char (case c_str k of [] \<Rightarrow> NUL | c # _ \<Rightarrow> c)"

definition stored_apart :: "json_config \<Rightarrow> rbox_metadata_key \<Rightarrow> bool" where
  "stored_apart cfg k \<longleftrightarrow> is_updateable_attribute cfg k \<and> is_update_attributes cfg"

definition ima_save_metadata :: "json_lib \<Rightarrow> json_config \<Rightarrow> write_op \<Rightarrow> rados_mail \<Rightarrow> write_op" where
  "ima_save_metadata J cfg op mail =
     (let attrs = m_attrset mail;
          root1 = fold (\<lambda>(k, v) root. if stored_apart cfg (first_char_key k) then root
                     else json_object_set J k (map_option JLeaf (json_string J v)) root) attrs [];
          op1 = op @ map (\<lambda>(k, v). WSetXattr k v) (filter (\<lambda>(k, v). stored_apart cfg (first_char_key k)) attrs);
          ext = m_extended mail;
          keyword = fold (\<lambda>(k, v). json_object_set J k (json_string J v)) ext [];
          (root2, op2) =
            (if length ext > 0 then
               if \<not> stored_apart cfg RBOX_METADATA_OLDV1_KEYWORDS
               then (json_object_set J keyword_key (Some (JObj keyword)) root1, op1)
               else (root1, op1 @ [WOmapSet ext])
             else (root1, op1))
      in op2 @ [WSetXattr (jc_metadata_storage_attribute cfg) (js_dumps J root2)])"

definition ima_set_metadata :: "json_lib \<Rightarrow> 'w rados \<Rightarrow> io_ctx \<Rightarrow> json_config \<Rightarrow> rados_mail \<Rightarrow> rados_metadata \<Rightarrow> 'w \<Rightarrow>
    int \<times> rados_mail \<times> 'w" where
  "ima_set_metadata J R io cfg mail xattr w =
     (if \<not> is_updateable_attribute cfg (first_char_key (md_key xattr)) then
        let mail1 = add_metadata xattr mail in
        (case rd_operate R io (m_oid mail1) (ima_save_metadata J cfg [] mail1) w of (r, w1) \<Rightarrow> (r, mail1, w1))
      else case rd_setxattr R io (m_oid mail) (md_key xattr) (md_bl xattr) w of (r, w1) \<Rightarrow> (r, mail, w1))"

text \<open>The overload with a write operation does not use the operation.\<close>

definition ima_set_metadata_op :: "json_lib \<Rightarrow> 'w rados \<Rightarrow> io_ctx \<Rightarrow> json_config \<Rightarrow> rados_mail \<Rightarrow> rados_metadata \<Rightarrow>
    write_op \<Rightarrow> 'w \<Rightarrow> int \<times> rados_mail \<times> 'w" where
  "ima_set_metadata_op J R io cfg mail xattr op w =
     (if \<not> is_updateable_attribute cfg (first_char_key (md_key xattr)) then
        let mail1 = add_metadata xattr mail in
        (case rd_operate R io (m_oid mail1) (ima_save_metadata J cfg [] mail1) w of (r, w1) \<Rightarrow> (r, mail1, w1))
      else case rd_setxattr R io (m_oid mail) (md_key xattr) (md_bl xattr) w of (r, w1) \<Rightarrow> (r, mail, w1))"

definition ima_update_metadata :: "json_lib \<Rightarrow> 'w rados \<Rightarrow> io_ctx \<Rightarrow> json_config \<Rightarrow> string \<Rightarrow> rados_metadata list \<Rightarrow> 'w \<Rightarrow>
    (bool \<times> 'w) option" where
  "ima_update_metadata J R io cfg oid to_update w =
     (if to_update = [] then Some (True, w)
      else case ima_load_metadata J R io cfg (new_rados_mail\<lparr>m_oid := oid\<rparr>) w of
        None \<Rightarrow> None
      | Some (_, obj, w1) \<Rightarrow>
          let obj1 = obj\<lparr>m_extended := fold (\<lambda>m. smap_put (md_key m) (md_bl m)) to_update (m_extended obj)\<rparr> in
          (case rd_aio_operate R io oid (ima_save_metadata J cfg [] obj1) w1 of (r, _, w2) \<Rightarrow> Some (r = 0, w2)))"

definition ima_update_keyword_metadata ::
    "'w rados \<Rightarrow> io_ctx \<Rightarrow> json_config \<Rightarrow> string \<Rightarrow> rados_metadata option \<Rightarrow> 'w \<Rightarrow> int \<times> 'w" where
  "ima_update_keyword_metadata R io cfg oid metadata w =
     (case metadata of None \<Rightarrow> (-1, w)
      | Some m \<Rightarrow> if \<not> stored_apart cfg RBOX_METADATA_OLDV1_KEYWORDS then (-1, w)
                  else rd_omap_set R io oid [(md_key m, md_bl m)] w)"

definition ima_remove_keyword_metadata :: "'w rados \<Rightarrow> io_ctx \<Rightarrow> string \<Rightarrow> string \<Rightarrow> 'w \<Rightarrow> int \<times> 'w" where
  "ima_remove_keyword_metadata R io oid key w = rd_omap_rm_keys R io oid [key] w"

definition ima_load_keyword_metadata ::
    "'w rados \<Rightarrow> io_ctx \<Rightarrow> string \<Rightarrow> string list \<Rightarrow> 'w \<Rightarrow> int \<times> bytes smap \<times> 'w" where
  "ima_load_keyword_metadata R io oid keys w = rd_omap_get_vals_by_keys R io oid keys w"

section \<open>Choosing the module\<close>

datatype metadata_module_kind = Module_Ima | Module_Default

text \<open>\<open>create_metadata_storage\<close> decides once; a module that exists is kept.\<close>

definition create_metadata_storage :: "json_config \<Rightarrow> metadata_module_kind option \<Rightarrow> metadata_module_kind" where
  "create_metadata_storage cfg st =
     (case st of Some k \<Rightarrow> k
      | None \<Rightarrow> if jc_metadata_storage_module cfg = ima_module_name then Module_Ima else Module_Default)"

definition module_save :: "json_lib \<Rightarrow> json_config \<Rightarrow> metadata_module_kind \<Rightarrow> rados_mail \<Rightarrow> write_op" where
  "module_save J cfg kind mail =
     (case kind of Module_Ima \<Rightarrow> ima_save_metadata J cfg [] mail
                 | Module_Default \<Rightarrow> default_save_metadata [] mail)"

definition module_load :: "json_lib \<Rightarrow> 'w rados \<Rightarrow> json_config \<Rightarrow> metadata_module_kind \<Rightarrow> io_ctx \<Rightarrow> rados_mail \<Rightarrow> 'w \<Rightarrow>
    (int \<times> rados_mail \<times> 'w) option" where
  "module_load J R cfg kind io mail w =
     (case kind of Module_Ima \<Rightarrow> ima_load_metadata J R io cfg mail w
                 | Module_Default \<Rightarrow> Some (default_load_metadata R io mail w))"

definition module_set :: "json_lib \<Rightarrow> 'w rados \<Rightarrow> json_config \<Rightarrow> metadata_module_kind \<Rightarrow> io_ctx \<Rightarrow> rados_mail \<Rightarrow>
    rados_metadata \<Rightarrow> 'w \<Rightarrow> int \<times> rados_mail \<times> 'w" where
  "module_set J R cfg kind io mail xattr w =
     (case kind of Module_Ima \<Rightarrow> ima_set_metadata J R io cfg mail xattr w
                 | Module_Default \<Rightarrow> default_set_metadata R io mail xattr w)"

definition module_set_op :: "json_lib \<Rightarrow> 'w rados \<Rightarrow> json_config \<Rightarrow> metadata_module_kind \<Rightarrow> io_ctx \<Rightarrow> rados_mail \<Rightarrow>
    rados_metadata \<Rightarrow> write_op \<Rightarrow> 'w \<Rightarrow> int \<times> rados_mail \<times> 'w" where
  "module_set_op J R cfg kind io mail xattr op w =
     (case kind of Module_Ima \<Rightarrow> ima_set_metadata_op J R io cfg mail xattr op w
                 | Module_Default \<Rightarrow> default_set_metadata_op R io mail xattr op w)"

definition module_update :: "json_lib \<Rightarrow> 'w rados \<Rightarrow> json_config \<Rightarrow> metadata_module_kind \<Rightarrow> io_ctx \<Rightarrow> string \<Rightarrow>
    rados_metadata list \<Rightarrow> 'w \<Rightarrow> (bool \<times> 'w) option" where
  "module_update J R cfg kind io oid to_update w =
     (case kind of Module_Ima \<Rightarrow> ima_update_metadata J R io cfg oid to_update w
                 | Module_Default \<Rightarrow> Some (default_update_metadata R io oid to_update w))"

definition module_update_keyword :: "'w rados \<Rightarrow> json_config \<Rightarrow> metadata_module_kind \<Rightarrow> io_ctx \<Rightarrow> string \<Rightarrow>
    rados_metadata option \<Rightarrow> 'w \<Rightarrow> int \<times> 'w" where
  "module_update_keyword R cfg kind io oid metadata w =
     (case kind of Module_Ima \<Rightarrow> ima_update_keyword_metadata R io cfg oid metadata w
                 | Module_Default \<Rightarrow> default_update_keyword_metadata R io oid metadata w)"

definition module_remove_keyword :: "'w rados \<Rightarrow> metadata_module_kind \<Rightarrow> io_ctx \<Rightarrow> string \<Rightarrow> string \<Rightarrow> 'w \<Rightarrow> int \<times> 'w" where
  "module_remove_keyword R kind io oid key w =
     (case kind of Module_Ima \<Rightarrow> ima_remove_keyword_metadata R io oid key w
                 | Module_Default \<Rightarrow> default_remove_keyword_metadata R io oid key w)"

section \<open>The contract of a metadata module\<close>

text \<open>
  What the users of \<open>RadosStorageMetadataModule\<close> rely on. They read metadata as C strings, so two
  mails carry the same metadata when the same keys have the same text.
\<close>

definition same_text :: "rados_mail \<Rightarrow> rados_mail \<Rightarrow> bool" where
  "same_text m n \<longleftrightarrow>
     (\<forall>k. map_option c_str (smap_get k (m_attrset m)) = map_option c_str (smap_get k (m_attrset n))) \<and>
     (\<forall>k. map_option c_str (smap_get k (m_extended m)) = map_option c_str (smap_get k (m_extended n)))"

definition md_laws :: "'w rados \<Rightarrow> ('w \<Rightarrow> obj_key \<rightharpoonup> robj) \<Rightarrow> bool" where
  "md_laws R V \<longleftrightarrow> law_getxattrs R V \<and> law_omap_get_keys R V \<and> law_omap_get_vals R V"

text \<open>An operation that writes attributes and omap entries only.\<close>

fun metadata_item :: "write_item \<Rightarrow> bool" where
  "metadata_item (WSetXattr k v) = True"
| "metadata_item (WOmapSet m) = True"
| "metadata_item _ = False"

lemma apply_metadata_only:
  assumes "list_all metadata_item op" and "o_xattrs ob = o_xattrs ob'" and "o_omap ob = o_omap ob'"
  shows "o_xattrs (apply_op st op ob) = o_xattrs (apply_op st' op ob') \<and>
         o_omap (apply_op st op ob) = o_omap (apply_op st' op ob') \<and>
         o_data (apply_op st op ob) = o_data ob"
  using assms
proof (induction op arbitrary: ob ob')
  case (Cons i op)
  then show ?case
    using Cons.IH [of "apply_item st i ob" "apply_item st' i ob'"] by (cases i) simp_all
qed simp

text \<open>The object holds the metadata that an operation writes to a new object.\<close>

definition holds_metadata :: "write_op \<Rightarrow> robj \<Rightarrow> bool" where
  "holds_metadata op ob \<longleftrightarrow> o_xattrs ob = o_xattrs (apply_op Map.empty op empty_robj) \<and>
     o_omap ob = o_omap (apply_op Map.empty op empty_robj)"

locale metadata_module =
  fixes save_md :: "json_lib \<Rightarrow> json_config \<Rightarrow> rados_mail \<Rightarrow> write_op"
    and load_md :: "json_lib \<Rightarrow> 'w rados \<Rightarrow> json_config \<Rightarrow> io_ctx \<Rightarrow> rados_mail \<Rightarrow> 'w \<Rightarrow> (int \<times> rados_mail \<times> 'w) option"
    and md_ok :: "json_lib \<Rightarrow> json_config \<Rightarrow> rados_mail \<Rightarrow> bool"
  assumes save_only: "list_all metadata_item (save_md J cfg m)"
    and load_saved: "\<lbrakk>law_json J; md_laws R V; md_ok J cfg m; m_attrset m0 = []; m_extended m0 = [];
          V w (okey io (m_oid m0)) = Some ob; holds_metadata (save_md J cfg m) ob;
          load_md J R cfg io m0 w = Some (r, m1, w1); 0 \<le> r\<rbrakk> \<Longrightarrow>
          same_text m1 m \<and> V w1 = V w \<and> m_oid m1 = m_oid m0 \<and> m_buffer m1 = m_buffer m0 \<and>
          m_object_size m1 = m_object_size m0"
begin

lemma saved_holds:
  assumes "o_xattrs ob = []" and "o_omap ob = []"
  shows "holds_metadata (save_md J cfg m) (apply_op st (save_md J cfg m) ob) \<and>
         o_data (apply_op st (save_md J cfg m) ob) = o_data ob"
  using apply_metadata_only [OF save_only, of ob empty_robj st J cfg m Map.empty] assms
  by (simp add: holds_metadata_def empty_robj_def)

text \<open>Writing the metadata of a mail to a new object and loading it again.\<close>

lemma write_then_load:
  assumes "law_json J" and "md_laws R V" and "law_operate R V" and "md_ok J cfg m"
    and "m_attrset m0 = []" and "m_extended m0 = []" and "V w (okey io (m_oid m0)) = None"
    and "rd_operate R io (m_oid m0) (save_md J cfg m) w = (r, w1)" and "0 \<le> r"
    and "load_md J R cfg io m0 w1 = Some (r', m1, w2)" and "0 \<le> r'"
  shows "same_text m1 m"
proof -
  let ?k = "okey io (m_oid m0)"
  obtain t where "V w1 = (V w)(?k \<mapsto> apply_op (V w) (save_md J cfg m) (touched t (V w) ?k))"
    using assms(3,8,9) unfolding law_operate_def by blast
  then have "V w1 ?k = Some (apply_op (V w) (save_md J cfg m) (touched t (V w) ?k))"
    by simp
  moreover have "holds_metadata (save_md J cfg m) (apply_op (V w) (save_md J cfg m) (touched t (V w) ?k))"
    using saved_holds [of "touched t (V w) ?k"] assms(7) by (simp add: obj_or_new_def empty_robj_def)
  ultimately show ?thesis
    using load_saved [OF assms(1,2,4-6)] assms(10,11) by blast
qed

end

subsection \<open>The default module keeps it\<close>

definition default_ok :: "json_lib \<Rightarrow> json_config \<Rightarrow> rados_mail \<Rightarrow> bool" where
  "default_ok J cfg m \<longleftrightarrow> mail_wf m"

lemma get_all_keys_and_values_data:
  assumes "md_laws R V" and "get_all_keys_and_values R io oid kv0 w = (r, kv, w1)" and "0 \<le> r"
    and "V w (okey io oid) = Some ob"
  shows "kv = o_omap ob \<and> V w1 = V w"
proof -
  obtain r1 ks wa where k: "rd_omap_get_keys R io oid w = (r1, ks, wa)" by (metis prod_cases3)
  then have "0 \<le> r1" and g: "rd_omap_get_vals_by_keys R io oid ks wa = (r, kv, w1)"
    using assms(2,3) by (auto simp: get_all_keys_and_values_def split: if_splits)
  then have ks: "ks = map fst (o_omap ob)" "V wa = V w"
    using assms(1,4) k unfolding md_laws_def law_omap_get_keys_def by fastforce+
  then have "kv = filter (\<lambda>p. fst p \<in> set ks) (o_omap ob)" and "V w1 = V wa"
    using assms(1,3,4) g unfolding md_laws_def law_omap_get_vals_def by fastforce+
  with ks show ?thesis by (auto simp: filter_id_conv)
qed

lemma default_save_effect:
  assumes "mail_wf m"
  shows "o_xattrs (apply_op st (default_save_metadata [] m) empty_robj) = m_attrset m \<and>
         o_omap (apply_op st (default_save_metadata [] m) empty_robj) = m_extended m"
  using assms
  by (simp add: default_save_metadata_def apply_op_append apply_setxattrs empty_robj_def
      smap_put_all_empty mail_wf_def)

interpretation default_module: metadata_module
  "\<lambda>J cfg. module_save J cfg Module_Default" "\<lambda>J R cfg. module_load J R cfg Module_Default" default_ok
proof (unfold_locales, goal_cases)
  case (1 J cfg m)
  show ?case by (auto simp: module_save_def default_save_metadata_def list_all_iff)
next
  case (2 J R V cfg m m0 w io ob r m1 w1)
  let ?oid = "m_oid m0"
  obtain r1 at wa where g: "rd_getxattrs R io ?oid w = (r1, at, wa)" by (metis prod_cases3)
  obtain r2 kv wb where k: "get_all_keys_and_values R io ?oid [] wa = (r2, kv, wb)" by (metis prod_cases3)
  have ok: "0 \<le> r1" "0 \<le> r2" "wb = w1" "m1 = m0\<lparr>m_attrset := at, m_extended := kv\<rparr>"
    using 2 g k by (auto simp: module_load_def default_load_metadata_def Let_def split: if_splits)
  then have a: "at = o_xattrs ob" "V wa = V w"
    using 2(2,6) g unfolding md_laws_def law_getxattrs_def by fastforce+
  then have "kv = o_omap ob \<and> V wb = V wa"
    using get_all_keys_and_values_data [OF 2(2) k ok(2)] 2(6) by simp
  moreover have "o_xattrs ob = m_attrset m \<and> o_omap ob = m_extended m"
    using 2(3,7) default_save_effect by (simp add: holds_metadata_def module_save_def default_ok_def)
  ultimately show ?case using ok a by (simp add: same_text_def)
qed


subsection \<open>The IMA module keeps it\<close>

text \<open>
  The mails the IMA module stores without loss: text that JSON can hold, no entry named like the
  keyword member or the JSON attribute itself, and keywords either stored apart or not updateable.
\<close>

definition ima_ok :: "json_lib \<Rightarrow> json_config \<Rightarrow> rados_mail \<Rightarrow> bool" where
  "ima_ok J cfg m \<longleftrightarrow> mail_wf m \<and> js_utf8 J keyword_key \<and>
     list_all (\<lambda>(k, v). js_utf8 J k \<and> NUL \<notin> set k \<and> js_utf8 J (c_str v)) (m_attrset m) \<and>
     list_all (\<lambda>(k, v). js_utf8 J k \<and> NUL \<notin> set k \<and> js_utf8 J (c_str v)) (m_extended m) \<and>
     smap_get keyword_key (m_attrset m) = None \<and>
     smap_get (jc_metadata_storage_attribute cfg) (m_attrset m) = None \<and>
     (is_updateable_attribute cfg RBOX_METADATA_OLDV1_KEYWORDS \<longrightarrow>
        stored_apart cfg RBOX_METADATA_OLDV1_KEYWORDS \<or> m_extended m = [])"

definition apart :: "json_config \<Rightarrow> string \<times> bytes \<Rightarrow> bool" where
  "apart cfg p \<longleftrightarrow> stored_apart cfg (first_char_key (fst p))"

definition json_leaf :: "string \<times> bytes \<Rightarrow> string \<times> jleaf" where
  "json_leaf p = (fst p, JStr (c_str (snd p)))"

definition ima_root :: "json_config \<Rightarrow> rados_mail \<Rightarrow> json" where
  "ima_root cfg m = map (\<lambda>p. (fst p, JLeaf (JStr (c_str (snd p))))) (filter (\<lambda>p. \<not> apart cfg p) (m_attrset m)) @
     (if m_extended m \<noteq> [] \<and> \<not> stored_apart cfg RBOX_METADATA_OLDV1_KEYWORDS
      then [(keyword_key, JObj (map json_leaf (m_extended m)))] else [])"

definition ima_op :: "json_lib \<Rightarrow> json_config \<Rightarrow> rados_mail \<Rightarrow> write_op" where
  "ima_op J cfg m = map (\<lambda>(k, v). WSetXattr k v) (filter (apart cfg) (m_attrset m)) @
     (if m_extended m \<noteq> [] \<and> stored_apart cfg RBOX_METADATA_OLDV1_KEYWORDS then [WOmapSet (m_extended m)] else []) @
     [WSetXattr (jc_metadata_storage_attribute cfg) (js_dumps J (ima_root cfg m))]"

lemma fold_skip: "fold (\<lambda>(k, v) a. if P k then a else f k v a) kvs a =
    fold (\<lambda>(k, v). f k v) (filter (\<lambda>(k, v). \<not> P k) kvs) a"
  by (induction kvs arbitrary: a) auto

lemma distinct_filter_fst: "distinct (map fst m) \<Longrightarrow> distinct (map fst (filter P m))"
  by (induction m) auto

lemma ima_save_op:
  assumes "ima_ok J cfg m"
  shows "ima_save_metadata J cfg [] m = ima_op J cfg m"
proof -
  let ?js = "filter (\<lambda>p. \<not> apart cfg p) (m_attrset m)"
  let ?root = "map (\<lambda>p. (fst p, JLeaf (JStr (c_str (snd p))))) ?js"
  have d: "distinct (map fst (m_attrset m))" "distinct (map fst (m_extended m))"
    using assms by (auto simp: ima_ok_def mail_wf_def intro: smap_ok_distinct)
  have js: "filter (\<lambda>(k, v). \<not> stored_apart cfg (first_char_key k)) (m_attrset m) = ?js"
    "filter (\<lambda>(k, v). stored_apart cfg (first_char_key k)) (m_attrset m) = filter (apart cfg) (m_attrset m)"
    by (auto simp: apart_def intro!: filter_cong)
  have "fold (\<lambda>(k, v). json_object_set J k (map_option JLeaf (json_string J v))) ?js [] =
        [] @ map (\<lambda>(k, v). (k, JLeaf (JStr (c_str v)))) ?js"
    using assms d distinct_filter_fst by (intro json_object_build) (auto simp: ima_ok_def list_all_iff)
  then have r1: "fold (\<lambda>(k, v). json_object_set J k (map_option JLeaf (json_string J v))) ?js [] = ?root"
    by (simp add: case_prod_beta)
  have "fold (\<lambda>(k, v). json_object_set J k (map_option id (json_string J v))) (m_extended m) [] =
        [] @ map (\<lambda>(k, v). (k, id (JStr (c_str v)))) (m_extended m)"
    using assms d by (intro json_object_build) (auto simp: ima_ok_def list_all_iff)
  then have r2: "fold (\<lambda>(k, v). json_object_set J k (json_string J v)) (m_extended m) [] = map json_leaf (m_extended m)"
    by (simp add: json_leaf_def case_prod_beta option.map_id)
  have "keyword_key \<notin> fst ` set ?root"
    using assms by (auto simp: ima_ok_def smap_get_def map_of_eq_None_iff image_iff)
  then have "json_object_set J keyword_key (Some (JObj x)) ?root = ?root @ [(keyword_key, JObj x)]" for x
    using assms by (simp add: json_object_set_def update_new ima_ok_def keyword_key_def c_str_def)
  then show ?thesis
    unfolding ima_save_metadata_def ima_op_def ima_root_def Let_def fold_skip js r1 r2 by simp
qed

lemma ima_root_ok:
  assumes "ima_ok J cfg m"
  shows "json_ok J (ima_root cfg m)"
proof -
  have d: "distinct (map fst (filter (\<lambda>p. \<not> apart cfg p) (m_attrset m)))" "distinct (map fst (m_extended m))"
    using assms distinct_filter_fst by (auto simp: ima_ok_def mail_wf_def intro: smap_ok_distinct)
  have "keyword_key \<notin> fst ` set (m_attrset m)"
    using assms by (simp add: ima_ok_def smap_get_def map_of_eq_None_iff)
  then show ?thesis
    using assms d
    by (auto simp: ima_ok_def ima_root_def json_ok_def members_ok_def list_all_iff comp_def json_leaf_def
        keyword_key_def case_prod_beta)
qed


lemma fold_put_all: "fold (\<lambda>(k, v). smap_put k v) kvs m = smap_put_all kvs m"
  by (induction kvs arbitrary: m) (auto simp: smap_put_all_def)

lemma parse_keywords_leaves:
  "parse_keywords (map json_leaf kvs) ext = Some (smap_put_all (map (\<lambda>p. (fst p, c_str (snd p))) kvs) ext)"
  by (induction kvs arbitrary: ext) (simp_all add: json_leaf_def smap_put_all_def)

lemma parse_attribute_leaves:
  "keyword_key \<notin> fst ` set kvs \<Longrightarrow>
   parse_attribute (map (\<lambda>p. (fst p, JLeaf (JStr (c_str (snd p))))) kvs @ root) mail =
   parse_attribute root (mail\<lparr>m_attrset := smap_put_all (map (\<lambda>p. (fst p, c_str (snd p))) kvs) (m_attrset mail)\<rparr>)"
  by (induction kvs arbitrary: mail) (auto simp: smap_put_all_def)

lemma parse_ima_root:
  assumes "ima_ok J cfg m" and "m_attrset m0 = []" and "m_extended m0 = []"
  shows "parse_attribute (ima_root cfg m) m0 = Some (m0\<lparr>
     m_attrset := smap_put_all (map (\<lambda>p. (fst p, c_str (snd p))) (filter (\<lambda>p. \<not> apart cfg p) (m_attrset m))) [],
     m_extended := (if stored_apart cfg RBOX_METADATA_OLDV1_KEYWORDS then []
        else smap_put_all (map (\<lambda>p. (fst p, c_str (snd p))) (m_extended m)) [])\<rparr>)"
proof -
  have k: "keyword_key \<notin> fst ` set (filter (\<lambda>p. \<not> apart cfg p) (m_attrset m))"
    using assms(1) by (auto simp: ima_ok_def smap_get_def map_of_eq_None_iff)
  show ?thesis
    unfolding ima_root_def parse_attribute_leaves [OF k]
    using assms(2,3) by (cases m0) (auto simp: parse_keywords_leaves smap_put_all_def)
qed

lemma map_of_c_str: "map_of (map (\<lambda>p. (fst p, c_str (snd p))) m) k = map_option c_str (map_of m k)"
  by (induction m) auto

lemma map_of_filter_apart:
  "map_of (filter (\<lambda>p. P (fst p)) m) k = (if P k then map_of m k else None)"
  by (induction m) auto

lemma c_str_idem [simp]: "c_str (c_str b) = c_str b"
  by (simp add: c_str_no_nul)

lemma getxattrs_retry_data:
  assumes "law_getxattrs R V"
  shows "getxattrs_retry R io oid n r0 w = (r, at, w1) \<Longrightarrow> V w1 = V w \<and>
     (0 \<le> r \<longrightarrow> r0 < 0 \<longrightarrow> (\<exists>ob. V w (okey io oid) = Some ob \<and> at = o_xattrs ob))"
proof (induction n arbitrary: r0 w)
  case (Suc n)
  obtain r1 a1 w2 where g: "rd_getxattrs R io oid w = (r1, a1, w2)" by (metis prod_cases3)
  then have "V w2 = V w" and "0 \<le> r1 \<Longrightarrow> \<exists>ob. V w (okey io oid) = Some ob \<and> a1 = o_xattrs ob"
    using assms unfolding law_getxattrs_def by blast+
  then show ?case
    using Suc.IH [of r1 w2] Suc.prems g by (auto split: if_splits)
qed auto

text \<open>The attributes of an object written by the IMA module, and the metadata loaded from them.\<close>

lemma ima_xattrs:
  assumes "ima_ok J cfg m" and "holds_metadata (ima_op J cfg m) ob"
  shows "smap_get (jc_metadata_storage_attribute cfg) (o_xattrs ob) = Some (js_dumps J (ima_root cfg m)) \<and>
    distinct (map fst (o_xattrs ob)) \<and>
    map_of (filter (\<lambda>(k, v). k \<noteq> jc_metadata_storage_attribute cfg) (o_xattrs ob)) =
      map_of (filter (apart cfg) (m_attrset m)) \<and>
    o_omap ob = (if stored_apart cfg RBOX_METADATA_OLDV1_KEYWORDS then m_extended m else [])"
proof -
  let ?a = "jc_metadata_storage_attribute cfg"
  have wf: "smap_ok (m_attrset m)" "smap_ok (m_extended m)" and none: "map_of (m_attrset m) ?a = None"
    using assms(1) by (simp_all add: ima_ok_def mail_wf_def smap_get_def)
  have x: "o_xattrs ob = smap_put ?a (js_dumps J (ima_root cfg m)) (smap_put_all (filter (apart cfg) (m_attrset m)) [])"
    and o: "o_omap ob = (if stored_apart cfg RBOX_METADATA_OLDV1_KEYWORDS then m_extended m else [])"
    using assms(2) smap_put_all_empty [OF wf(2)]
    by (auto simp: holds_metadata_def ima_op_def apply_op_append apply_setxattrs empty_robj_def smap_put_all_def)
  have d: "distinct (map fst (filter (apart cfg) (m_attrset m)))"
    by (rule distinct_filter_fst [OF smap_ok_distinct [OF wf(1)]])
  have mx: "map_of (o_xattrs ob) = (map_of (filter (apart cfg) (m_attrset m)))(?a \<mapsto> js_dumps J (ima_root cfg m))"
    using d by (simp add: x map_of_smap_put_all)
  have "map_of (filter (apart cfg) (m_attrset m)) ?a = None"
    using none by (auto simp: map_of_eq_None_iff)
  moreover have "filter (\<lambda>(k, v). k \<noteq> ?a) (o_xattrs ob) = filter (\<lambda>p. fst p \<noteq> ?a) (o_xattrs ob)"
    by (auto intro: filter_cong)
  ultimately have "map_of (filter (\<lambda>(k, v). k \<noteq> ?a) (o_xattrs ob)) = map_of (filter (apart cfg) (m_attrset m))"
    by (auto simp: map_of_filter_key mx fun_eq_iff)
  moreover have "distinct (map fst (o_xattrs ob))"
    unfolding x by (intro smap_ok_distinct smap_ok_put smap_ok_put_all smap_ok_Nil)
  ultimately show ?thesis using mx o by (simp add: smap_get_def)
qed


lemma ima_loaded_text:
  assumes "ima_ok J cfg m" and "holds_metadata (ima_op J cfg m) ob"
  shows "map_option c_str (smap_get k (fold (\<lambda>(k, v). smap_put k v)
      (filter (\<lambda>(k, v). k \<noteq> jc_metadata_storage_attribute cfg) (o_xattrs ob))
      (smap_put_all (map (\<lambda>p. (fst p, c_str (snd p))) (filter (\<lambda>p. \<not> apart cfg p) (m_attrset m))) []))) =
    map_option c_str (smap_get k (m_attrset m))"
proof -
  let ?js = "filter (\<lambda>p. \<not> apart cfg p) (m_attrset m)"
  have "distinct (map fst (m_attrset m))"
    using assms(1) by (simp add: ima_ok_def mail_wf_def smap_ok_distinct)
  then have d: "distinct (map fst (map (\<lambda>p. (fst p, c_str (snd p))) ?js))"
    using distinct_filter_fst by (simp add: comp_def)
  note x = ima_xattrs [OF assms]
  have d2: "distinct (map fst (filter (\<lambda>(k, v). k \<noteq> jc_metadata_storage_attribute cfg) (o_xattrs ob)))"
    using x distinct_filter_fst by blast
  have a: "map_of (filter (apart cfg) (m_attrset m)) k = (if stored_apart cfg (first_char_key k) then map_of (m_attrset m) k else None)"
    "map_of ?js k = (if stored_apart cfg (first_char_key k) then None else map_of (m_attrset m) k)"
    using map_of_filter_apart [of "\<lambda>k. stored_apart cfg (first_char_key k)" "m_attrset m" k]
      map_of_filter_apart [of "\<lambda>k. \<not> stored_apart cfg (first_char_key k)" "m_attrset m" k]
    by (simp_all add: apart_def [abs_def])
  show ?thesis
    unfolding fold_put_all smap_get_def map_of_smap_put_all [OF d2] map_of_smap_put_all [OF d]
    using x a by (auto simp: map_add_def map_of_c_str option.map_comp comp_def split: option.splits)
qed

definition ima_loaded :: "json_config \<Rightarrow> rados_mail \<Rightarrow> robj \<Rightarrow> rados_mail \<Rightarrow> rados_mail" where
  "ima_loaded cfg m ob m0 = m0\<lparr>
     m_attrset := fold (\<lambda>(k, v). smap_put k v)
       (filter (\<lambda>(k, v). k \<noteq> jc_metadata_storage_attribute cfg) (o_xattrs ob))
       (smap_put_all (map (\<lambda>p. (fst p, c_str (snd p))) (filter (\<lambda>p. \<not> apart cfg p) (m_attrset m))) []),
     m_extended := (if stored_apart cfg RBOX_METADATA_OLDV1_KEYWORDS then []
        else smap_put_all (map (\<lambda>p. (fst p, c_str (snd p))) (m_extended m)) [])\<rparr>"

lemma ima_load_result:
  assumes "law_json J" and "md_laws R V" and "ima_ok J cfg m" and "m_attrset m0 = []" and "m_extended m0 = []"
    and "V w (okey io (m_oid m0)) = Some ob" and h: "holds_metadata (ima_op J cfg m) ob"
    and load: "ima_load_metadata J R io cfg m0 w = Some (r, m1, w1)" and "0 \<le> r"
  shows "V w1 = V w \<and> m1 = (ima_loaded cfg m ob m0)\<lparr>m_extended :=
      (if is_updateable_attribute cfg RBOX_METADATA_OLDV1_KEYWORDS then o_omap ob
       else m_extended (ima_loaded cfg m ob m0))\<rparr>"
proof -
  have l: "js_loads J (c_str (js_dumps J (ima_root cfg m))) = Some (ima_root cfg m)"
    using assms(1) ima_root_ok [OF assms(3)] by (simp add: law_json_def c_str_no_nul)
  obtain r1 at wa where g: "getxattrs_retry R io (m_oid m0) 10 (-1) w = (r1, at, wa)" by (metis prod_cases3)
  have "0 \<le> r1"
    using load g assms(4,9) by (auto simp: ima_load_metadata_def split: if_splits)
  then have at: "at = o_xattrs ob" "V wa = V w"
    using getxattrs_retry_data [OF _ g, of V] assms(2,6) by (auto simp: md_laws_def)
  let ?m2 = "ima_loaded cfg m ob m0"
  obtain r2 kv wb where k: "get_all_keys_and_values R io (m_oid m0) (m_extended ?m2) wa = (r2, kv, wb)"
    by (metis prod_cases3)
  have eq: "Some (r, m1, w1) = (if is_updateable_attribute cfg RBOX_METADATA_OLDV1_KEYWORDS
      then Some (r2, ?m2\<lparr>m_extended := kv\<rparr>, wb) else Some (r1, ?m2, wa))"
    using load g \<open>0 \<le> r1\<close> assms(4) ima_xattrs [OF assms(3) h] parse_ima_root [OF assms(3-5)] k
    by (cases m0) (simp add: ima_load_metadata_def at l ima_loaded_def Let_def split: if_splits)
  then show ?thesis
    using get_all_keys_and_values_data [OF assms(2) k, of ob] at assms(6,9) by (auto split: if_splits)
qed

interpretation ima_module: metadata_module
  "\<lambda>J cfg. module_save J cfg Module_Ima" "\<lambda>J R cfg. module_load J R cfg Module_Ima" ima_ok
proof (unfold_locales, goal_cases)
  case (1 J cfg m)
  show ?case by (auto simp: module_save_def ima_save_metadata_def list_all_iff Let_def)
next
  case (2 J R V cfg m m0 w io ob r m1 w1)
  have h: "holds_metadata (ima_op J cfg m) ob"
    using 2(3,7) ima_save_op by (simp add: module_save_def)
  note res = ima_load_result [OF 2(1-6) h _ 2(9), unfolded ima_loaded_def]
  have d: "distinct (map fst (map (\<lambda>p. (fst p, c_str (snd p))) (m_extended m)))"
    using 2(3) by (simp add: ima_ok_def mail_wf_def comp_def smap_ok_distinct)
  have "map_option c_str (smap_get k (smap_put_all (map (\<lambda>p. (fst p, c_str (snd p))) (m_extended m)) [])) =
        map_option c_str (smap_get k (m_extended m))" for k
    by (simp add: smap_get_def map_of_smap_put_all [OF d] map_of_c_str option.map_comp comp_def)
  then show ?case
    using res 2(3,8) ima_xattrs [OF 2(3) h] ima_loaded_text [OF 2(3) h]
    by (auto simp: same_text_def module_load_def ima_ok_def stored_apart_def)
qed


text \<open>\<open>update_metadata\<close> reports success although the completion reported an error.\<close>

lemma default_update_ignores_completion:
  assumes "rd_aio_operate R io oid (metadata_ops md) w = (0, cr, w1)" and "cr < 0"
  shows "default_update_metadata R io oid md w = (True, w1)"
  using assms by (simp add: default_update_metadata_def)

section \<open>Properties\<close>

text \<open>
  Property C4: metadata round trip, for whichever module the configuration selects. The metadata
  of a mail written to a new object and loaded into an empty mail has the same keys with the
  same text, extended metadata (keywords) included. The IMA module needs text that JSON can hold
  and keywords that are either stored apart or not updateable.
\<close>

theorem metadata_roundtrip:
  assumes "law_json J" and "md_laws R V" and "law_operate R V"
    and "mail_wf m" and "create_metadata_storage cfg None = Module_Ima \<longrightarrow> ima_ok J cfg m"
    and "V w (okey io oid) = None"
    and "rd_operate R io oid (module_save J cfg (create_metadata_storage cfg None) m) w = (r, w1)" and "0 \<le> r"
    and "module_load J R cfg (create_metadata_storage cfg None) io (new_rados_mail\<lparr>m_oid := oid\<rparr>) w1 = Some (r', m1, w2)"
    and "0 \<le> r'"
  shows "same_text m1 m"
proof -
  let ?m0 = "new_rados_mail\<lparr>m_oid := oid\<rparr>"
  have new: "m_attrset ?m0 = []" "m_extended ?m0 = []" "m_oid ?m0 = oid"
    by (simp_all add: new_rados_mail_def)
  show ?thesis
  proof (cases "create_metadata_storage cfg None")
    case Module_Ima
    then show ?thesis
      using ima_module.write_then_load [OF assms(1-3), of cfg m ?m0 w io r w1 r' m1 w2] assms(5-10) new by simp
  next
    case Module_Default
    then show ?thesis
      using default_module.write_then_load [OF assms(1-3), of cfg m ?m0 w io r w1 r' m1 w2] assms(4,6-10) new
      by (simp add: default_ok_def)
  qed
qed

definition sample_md_mail :: rados_mail where
  "sample_md_mail = add_extended_metadata (metadata_kv ''k1'' ''work'')
     (add_metadata (convert_str RBOX_METADATA_ORIG_MAILBOX ''INBOX'')
       (add_metadata (convert_str RBOX_METADATA_MAIL_UID ''7'') (new_rados_mail\<lparr>m_oid := ''oid''\<rparr>)))"

definition ima_cfg :: json_config where
  "ima_cfg = new_json_config\<lparr>jc_metadata_storage_module := ''ima''\<rparr>"

theorem metadata_roundtrip_witness:
  "\<exists>m1 w1 w2. module_load flat_json mem_rados ima_cfg Module_Ima sample_ctx (new_rados_mail\<lparr>m_oid := ''oid''\<rparr>) w1 =
       Some (0, m1, w2) \<and> same_text m1 sample_md_mail"
proof -
  let ?m0 = "new_rados_mail\<lparr>m_oid := ''oid''\<rparr>"
  have k: "create_metadata_storage ima_cfg None = Module_Ima"
    by (simp add: create_metadata_storage_def ima_cfg_def ima_module_name_def)
  have laws: "md_laws mem_rados map_of" by (simp add: md_laws_def mem_rados_laws)
  have ok: "ima_ok flat_json ima_cfg sample_md_mail" and wf: "mail_wf sample_md_mail"
    by code_simp+
  obtain w1 where w: "rd_operate mem_rados sample_ctx ''oid'' (module_save flat_json ima_cfg Module_Ima sample_md_mail) [] = (0, w1)"
    by (simp add: mem_rados_def mem_set_def)
  have "case module_load flat_json mem_rados ima_cfg Module_Ima sample_ctx ?m0
      (snd (rd_operate mem_rados sample_ctx ''oid'' (module_save flat_json ima_cfg Module_Ima sample_md_mail) [])) of
      None \<Rightarrow> False | Some (r, _, _) \<Rightarrow> r = 0"
    by code_simp
  then obtain m1 w2 where l: "module_load flat_json mem_rados ima_cfg Module_Ima sample_ctx ?m0 w1 = Some (0, m1, w2)"
    by (auto simp: w split: option.splits prod.splits)
  show ?thesis
    using metadata_roundtrip [OF flat_json_law laws mem_rados_laws(1) wf, of ima_cfg "[]" sample_ctx "''oid''" 0 w1 0 m1 w2]
      ok w l k by auto
qed

definition ima_stored :: mem where
  "ima_stored = snd (rd_operate mem_rados sample_ctx ''oid'' (ima_save_metadata flat_json ima_cfg [] sample_md_mail) [])"


end
