(* ===== verification/Alt_Storage.thy ===== *)
theory Alt_Storage
  imports Metadata_Storage
begin

text \<open>
  \<open>RadosUtils::copy_to_alt\<close> and \<open>move_to_alt\<close> (\<open>src/src/librmb/rados-util.cpp\<close>): copying a mail
  between the primary and the alternative storage. The metadata module is a client interface here:
  what the copy preserves follows from the contract \<open>metadata_module\<close>.
\<close>

section \<open>Operations\<close>

text \<open>The metadata module with the io context it currently points to.\<close>

record md_state =
  ms_kind :: metadata_module_kind
  ms_io :: io_ctx

text \<open>
  \<^const>\<open>None\<close> for a storage is a null pointer. The result is \<^const>\<open>None\<close> when a called operation throws.
\<close>

definition copy_to_alt :: "json_lib \<Rightarrow> 'w rados \<Rightarrow> json_config \<Rightarrow> cluster \<Rightarrow> string \<Rightarrow> string \<Rightarrow>
    storage option \<Rightarrow> storage option \<Rightarrow> md_state \<Rightarrow> bool \<Rightarrow> 'w \<Rightarrow> (int \<times> md_state \<times> 'w) option" where
  "copy_to_alt J R cfg cl src_oid dest_oid primary alt_storage metadata inv_dir w =
     (case (primary, alt_storage) of
        (Some prim, Some alt) \<Rightarrow>
          let (ret, bl, w1) = read_mail R cl (if inv_dir then alt else prim) src_oid w;
              ms1 = (if inv_dir then metadata\<lparr>ms_io := st_io_ctx alt\<rparr> else metadata)
          in if ret < 0 then Some (ret, ms1\<lparr>ms_io := st_io_ctx prim\<rparr>, w1)
             else
               let mail = new_rados_mail\<lparr>m_oid := src_oid, m_buffer := bl, m_object_size := to_int32 (int (length bl))\<rparr>
               in (case module_load J R cfg (ms_kind ms1) (ms_io ms1) mail w1 of
                     None \<Rightarrow> None
                   | Some (ret2, mail1, w2) \<Rightarrow>
                       if ret2 < 0 then Some (ret2, ms1, w2)
                       else
                         let mail2 = mail1\<lparr>m_oid := dest_oid\<rparr>;
                             write_op = module_save J cfg (ms_kind ms1) mail2
                         in (case save_mail_op R cl (if inv_dir then prim else alt) write_op mail2 w2 of
                               None \<Rightarrow> None
                             | Some (success, _, w3) \<Rightarrow>
                                 Some (if \<not> success then 0 else if success then 0 else 1, ms1, w3)))
      | _ \<Rightarrow> Some (0, metadata, w))"

definition move_to_alt :: "json_lib \<Rightarrow> 'w rados \<Rightarrow> json_config \<Rightarrow> cluster \<Rightarrow> string \<Rightarrow>
    storage option \<Rightarrow> storage option \<Rightarrow> md_state \<Rightarrow> bool \<Rightarrow> 'w \<Rightarrow> (int \<times> md_state \<times> 'w) option" where
  "move_to_alt J R cfg cl oid primary alt_storage metadata inv_dir w =
     (case copy_to_alt J R cfg cl oid oid primary alt_storage metadata inv_dir w of
        None \<Rightarrow> None
      | Some (ret, ms, w1) \<Rightarrow>
          if ret > 0 then
            (case (if inv_dir then alt_storage else primary) of
               None \<Rightarrow> None
             | Some st \<Rightarrow> (case rd_remove R (st_io_ctx st) oid w1 of (r, w2) \<Rightarrow> Some (r, ms, w2)))
          else Some (ret, ms, w1))"

section \<open>Lemmas\<close>

lemma copy_to_alt_not_positive:
  "copy_to_alt J R cfg cl src dest p a ms b w = Some (r, ms', w') \<Longrightarrow> r \<le> 0"
  by (auto simp: copy_to_alt_def Let_def split: option.splits prod.splits if_splits)

text \<open>When every write succeeds, so does saving a mail.\<close>

definition writes_succeed :: "'w rados \<Rightarrow> bool" where
  "writes_succeed R \<longleftrightarrow> (\<forall>c oid op w. fst (rd_operate R c oid op w) = 0)"

lemma split_loop_succeeds:
  assumes "writes_succeed R"
  shows "split_loop R c oid buf sz mx dv i 0 w = Some (r, w') \<Longrightarrow> r = 0"
proof (induction "nat (dv - int i)" arbitrary: i w)
  case 0
  then show ?case by (simp add: split_loop.simps)
next
  case (Suc n)
  then have i: "int i < dv" by simp
  obtain op where op: "split_op buf sz mx dv i = Some op"
    using Suc.prems i by (subst (asm) split_loop.simps) (auto split: option.splits)
  obtain w1 where o: "rd_operate R c oid op w = (0, w1)"
    using assms by (metis prod.collapse writes_succeed_def)
  have "split_loop R c oid buf sz mx dv (i + 1) 0 w1 = Some (r, w')"
    using Suc.prems i op o by (subst (asm) split_loop.simps) simp
  then show ?case using Suc.hyps(1) [of "i + 1"] Suc.hyps(2) by simp
qed

lemma save_mail_op_succeeds:
  assumes "writes_succeed R" and "storage_ready cl st" and "m_buffer m \<noteq> []"
    and "m_object_size m = int (length (m_buffer m))" and "int (length (m_buffer m)) \<le> INT_MAX"
  shows "\<exists>m1 w1. save_mail_op R cl st op m w = Some (True, m1, w1)"
proof -
  obtain w1 where o: "rd_operate R (st_io_ctx st) (m_oid m) (op @ [WMtime (m_save_date m)]) w = (0, w1)"
    using assms(1) by (metis prod.collapse writes_succeed_def)
  have "split_loop R (st_io_ctx st) (m_oid m) (m_buffer m) (length (m_buffer m)) 10240
      (int (pieces (length (m_buffer m)) 10240)) 0 0 w1 \<noteq> None"
    using assms(5) by (intro split_loop_returns) simp_all
  then obtain r w2 where "split_loop R (st_io_ctx st) (m_oid m) (m_buffer m) (length (m_buffer m)) 10240
      (int (pieces (length (m_buffer m)) 10240)) 0 0 w1 = Some (r, w2)"
    by fastforce
  then show ?thesis
    using save_mail_op_eq [OF assms(2,4,5,3) o] split_loop_succeeds [OF assms(1)] by fastforce
qed

text \<open>The copy, inside the contract of a metadata module.\<close>

context metadata_module
begin

lemma copied_object:
  assumes "law_json J" and "md_laws R V" and "law_operate R V" and "md_ok J cfg m"
    and "V w (okey src_io src) = Some ob" and "holds_metadata (save_md J cfg m) ob"
    and "load_md J R cfg src_io mail w = Some (r, mail1, w2)" and "0 \<le> r"
    and "mail = new_rados_mail\<lparr>m_oid := src, m_buffer := o_data ob, m_object_size := int (length (o_data ob))\<rparr>"
    and "int (length (o_data ob)) \<le> INT_MAX"
    and "V w (okey (st_io_ctx dst) dest) = None"
    and "save_mail_op R cl dst (save_md J cfg (mail1\<lparr>m_oid := dest\<rparr>)) (mail1\<lparr>m_oid := dest\<rparr>) w2 = Some (success, m3, w3)"
    and "writes_succeed R" and "storage_ready cl dst" and "o_data ob \<noteq> []"
  shows "same_text mail1 m \<and> (\<exists>ob'. V w3 = (V w)(okey (st_io_ctx dst) dest \<mapsto> ob') \<and> o_data ob' = o_data ob \<and>
     holds_metadata (save_md J cfg (mail1\<lparr>m_oid := dest\<rparr>)) ob')"
proof -
  let ?m2 = "mail1\<lparr>m_oid := dest\<rparr>"
  have new: "m_attrset mail = []" "m_extended mail = []" "m_oid mail = src" "m_buffer mail = o_data ob"
    using assms(9) by (simp_all add: new_rados_mail_def)
  have st: "same_text mail1 m" "V w2 = V w" "m_buffer mail1 = o_data ob" "m_object_size mail1 = m_object_size mail"
    using load_saved [OF assms(1,2,4) new(1,2) _ assms(6,7,8)] assms(5) new(3,4) by auto
  have data: "o_data (apply_op (V w2) (save_md J cfg ?m2) x) = o_data x" for x
    using apply_metadata_only [OF save_only] by blast
  have sz: "m_object_size ?m2 = int (length (m_buffer ?m2))" "int (length (m_buffer ?m2)) \<le> INT_MAX"
    using assms(9,10) st(3,4) by simp_all
  then have "success"
    using save_mail_op_succeeds [OF assms(13,14), of ?m2 "save_md J cfg ?m2" w2] assms(12,15) st(3) by auto
  with sz obtain t t' where V3: "V w3 = (V w)(okey (st_io_ctx dst) dest \<mapsto>
      (apply_op (V w) (save_md J cfg ?m2) (empty_robj\<lparr>o_mtime := t'\<rparr>))\<lparr>o_mtime := t, o_data := o_data ob\<rparr>)"
    using save_mail_op_stores [OF assms(3) _ _ _ data, of ?m2 dst cl m3 w3] assms(11,12) st(2,3) by auto
  have "holds_metadata (save_md J cfg ?m2) (apply_op (V w) (save_md J cfg ?m2) (empty_robj\<lparr>o_mtime := t'\<rparr>))"
    using saved_holds by (simp add: empty_robj_def)
  then show ?thesis using V3 st(1) by (auto simp: holds_metadata_def)
qed

end

text \<open>The mails a module stores without loss.\<close>

definition kind_ok :: "metadata_module_kind \<Rightarrow> json_lib \<Rightarrow> json_config \<Rightarrow> rados_mail \<Rightarrow> bool" where
  "kind_ok kind J cfg m \<longleftrightarrow> mail_wf m \<and> (kind = Module_Ima \<longrightarrow> ima_ok J cfg m)"

section \<open>Properties\<close>

text \<open>
  Property C33: \<open>move_to_alt\<close> only copies. Its result and every effect are those of
  \<open>copy_to_alt\<close>; the removal of the source is never reached, because \<open>copy_to_alt\<close> never returns
  a positive value.
\<close>

theorem move_to_alt_is_copy:
  "move_to_alt J R cfg cl oid p a ms b w = copy_to_alt J R cfg cl oid oid p a ms b w"
proof (cases "copy_to_alt J R cfg cl oid oid p a ms b w")
  case (Some x)
  obtain r ms' w' where "x = (r, ms', w')" by (metis prod_cases3)
  then show ?thesis
    using Some copy_to_alt_not_positive [of J R cfg cl oid oid p a ms b w r ms' w'] by (simp add: move_to_alt_def)
qed (simp add: move_to_alt_def)


text \<open>
  Property C22: when the writes succeed, \<open>copy_to_alt\<close> copies a stored mail faithfully with either
  metadata module: the destination object has the same data, it holds metadata with the same
  text as the source, and no other object changes.
\<close>

theorem copy_to_alt_preserves:
  assumes "law_json J" and "md_laws R V" and "law_operate R V" and "law_read R V" and "writes_succeed R"
    and "storage_ready cl prim" and "storage_ready cl alt" and "ms_io ms = st_io_ctx prim"
    and "kind_ok (ms_kind ms) J cfg m"
    and "V w (okey (st_io_ctx prim) src) = Some ob" and "holds_metadata (module_save J cfg (ms_kind ms) m) ob"
    and "o_data ob \<noteq> []" and "int (length (o_data ob)) \<le> INT_MAX"
    and "V w (okey (st_io_ctx alt) dest) = None"
    and "copy_to_alt J R cfg cl src dest (Some prim) (Some alt) ms False w = Some (0, ms', w')"
  shows "\<exists>ob' m'. V w' = (V w)(okey (st_io_ctx alt) dest \<mapsto> ob') \<and> o_data ob' = o_data ob \<and>
     same_text m' m \<and> holds_metadata (module_save J cfg (ms_kind ms) m') ob'"
proof -
  obtain r0 bl w1 where rd: "rd_read R (st_io_ctx prim) src w = (r0, bl, w1)" by (metis prod_cases3)
  have "0 \<le> r0"
    using assms(6,15) rd by (auto simp: copy_to_alt_def read_mail_def Let_def split: if_splits)
  then have bl: "bl = o_data ob" "V w1 = V w"
    using assms(4,10) rd unfolding law_read_def by fastforce+
  let ?mail = "new_rados_mail\<lparr>m_oid := src, m_buffer := o_data ob, m_object_size := int (length (o_data ob))\<rparr>"
  have sz: "to_int32 (int (length (o_data ob))) = int (length (o_data ob))"
    using assms(13) by (intro to_int32_id) simp_all
  obtain r2 mail1 w2 m3 w3 success where
      l: "module_load J R cfg (ms_kind ms) (st_io_ctx prim) ?mail w1 = Some (r2, mail1, w2)" "0 \<le> r2" and
      s: "save_mail_op R cl alt (module_save J cfg (ms_kind ms) (mail1\<lparr>m_oid := dest\<rparr>)) (mail1\<lparr>m_oid := dest\<rparr>) w2 =
        Some (success, m3, w3)" and w': "w' = w3"
    using assms(6,8,15) rd \<open>0 \<le> r0\<close> bl(1) sz
    by (auto simp: copy_to_alt_def read_mail_def Let_def split: if_splits option.splits prod.splits)
  have ok: "if ms_kind ms = Module_Ima then ima_ok J cfg m else default_ok J cfg m"
    using assms(9) by (simp add: kind_ok_def default_ok_def)
  have "same_text mail1 m \<and> (\<exists>ob'. V w3 = (V w1)(okey (st_io_ctx alt) dest \<mapsto> ob') \<and> o_data ob' = o_data ob \<and>
     holds_metadata (module_save J cfg (ms_kind ms) (mail1\<lparr>m_oid := dest\<rparr>)) ob')"
    using default_module.copied_object [OF assms(1-3), of cfg m w1 "st_io_ctx prim" src ob ?mail r2 mail1 w2 alt dest cl success m3 w3]
      ima_module.copied_object [OF assms(1-3), of cfg m w1 "st_io_ctx prim" src ob ?mail r2 mail1 w2 alt dest cl success m3 w3]
      ok assms(5,7,10-14) l s bl(2) by (cases "ms_kind ms") auto
  moreover have "same_text (mail1\<lparr>m_oid := dest\<rparr>) m = same_text mail1 m"
    by (simp add: same_text_def)
  ultimately show ?thesis
    unfolding w' using bl(2) by (metis (no_types))
qed


definition alt_primary :: storage where
  "alt_primary = sample_storage\<lparr>st_io_ctx := sample_ctx\<rparr>"

definition alt_secondary :: storage where
  "alt_secondary = sample_storage\<lparr>st_io_ctx := sample_ctx\<lparr>ctx_pool := ''alt''\<rparr>\<rparr>"

definition alt_object :: robj where
  "alt_object = (apply_op Map.empty (module_save flat_json ima_cfg Module_Ima sample_md_mail) empty_robj)\<lparr>o_data := ''hello''\<rparr>"

theorem copy_to_alt_preserves_witness:
  "\<exists>ms' w' ob' m'.
     copy_to_alt flat_json mem_rados ima_cfg sample_cluster ''s'' ''d'' (Some alt_primary) (Some alt_secondary)
       \<lparr>ms_kind = Module_Ima, ms_io = sample_ctx\<rparr> False [(okey sample_ctx ''s'', alt_object)] = Some (0, ms', w') \<and>
     map_of w' (okey (sample_ctx\<lparr>ctx_pool := ''alt''\<rparr>) ''d'') = Some ob' \<and> o_data ob' = ''hello'' \<and>
     same_text m' sample_md_mail \<and> holds_metadata (module_save flat_json ima_cfg Module_Ima m') ob' \<and>
     map_of w' (okey sample_ctx ''s'') = Some alt_object"
proof -
  let ?p = alt_primary and ?a = alt_secondary and ?ob = alt_object
  let ?ms = "\<lparr>ms_kind = Module_Ima, ms_io = sample_ctx\<rparr>" and ?w = "[(okey sample_ctx ''s'', alt_object)]"
  note defs = alt_primary_def alt_secondary_def alt_object_def
  have laws: "md_laws mem_rados map_of" "writes_succeed mem_rados"
    by (simp_all add: md_laws_def mem_rados_laws writes_succeed_def) (simp add: mem_rados_def mem_set_def)
  have ready: "storage_ready sample_cluster ?p" "storage_ready sample_cluster ?a"
    using sample_ready by (simp_all add: storage_ready_def defs)
  have "kind_ok Module_Ima flat_json ima_cfg sample_md_mail" by code_simp
  moreover have "case copy_to_alt flat_json mem_rados ima_cfg sample_cluster ''s'' ''d'' (Some ?p) (Some ?a) ?ms False ?w of
      None \<Rightarrow> False | Some (r, _, _) \<Rightarrow> r = 0"
    by code_simp
  then obtain ms' w' where c: "copy_to_alt flat_json mem_rados ima_cfg sample_cluster ''s'' ''d'' (Some ?p) (Some ?a) ?ms False ?w =
      Some (0, ms', w')"
    by (auto split: option.splits prod.splits)
  ultimately obtain ob' m' where "map_of w' = (map_of ?w)(okey (sample_ctx\<lparr>ctx_pool := ''alt''\<rparr>) ''d'' \<mapsto> ob')"
      and ob': "o_data ob' = ''hello''" "same_text m' sample_md_mail" "holds_metadata (module_save flat_json ima_cfg Module_Ima m') ob'"
    using copy_to_alt_preserves [OF flat_json_law laws(1) mem_rados_laws(1,5) laws(2) ready, of ?ms ima_cfg
        sample_md_mail ?w "''s''" ?ob "''d''" ms' w']
    by (auto simp: holds_metadata_def okey_def sample_ctx_def defs)
  then have "map_of w' (okey (sample_ctx\<lparr>ctx_pool := ''alt''\<rparr>) ''d'') = Some ob'" "map_of w' (okey sample_ctx ''s'') = Some ?ob"
    by (simp_all add: okey_def sample_ctx_def)
  then show ?thesis using c ob' by blast
qed

end
