(* ===== verification/Save_Log.thy ===== *)
theory Save_Log
  imports Rados_Util
begin

text \<open>
  The save log of \<open>src/src/librmb/rados-save-log.h\<close> and \<open>.cpp\<close>: one line per stored object,
  written while mails are saved, copied or moved and read back by the \<open>rmb\<close> tool to undo them.
  The log file is kept as its text; whether the file can be opened is an argument.
\<close>

section \<open>Entries\<close>

record save_log_entry =
  e_oid :: string
  e_ns :: string
  e_pool :: string
  e_op :: string
  e_src_oid :: string
  e_src_ns :: string
  e_src_user :: string
  e_metadata :: "rados_metadata list"

definition empty_entry :: save_log_entry where
  "empty_entry = \<lparr>e_oid = [], e_ns = [], e_pool = [], e_op = [],
     e_src_oid = [], e_src_ns = [], e_src_user = [], e_metadata = []\<rparr>"

text \<open>\<open>RadosSaveLogEntry(oid, ns, pool, op)\<close>.\<close>

definition save_log_entry_of :: "string \<Rightarrow> string \<Rightarrow> string \<Rightarrow> string \<Rightarrow> save_log_entry" where
  "save_log_entry_of oid ns pool op = empty_entry\<lparr>e_oid := oid, e_ns := ns, e_pool := pool, e_op := op\<rparr>"

definition op_save :: string where "op_save = ''save''"
definition op_cpy :: string where "op_cpy = ''cpy''"

text \<open>\<open>convert_metadata\<close>: the first entry, then a separator before each further one.\<close>

fun convert_metadata_rest :: "rados_metadata list \<Rightarrow> string \<Rightarrow> string" where
  "convert_metadata_rest [] separator = []"
| "convert_metadata_rest (m # ms) separator =
     separator @ metadata_to_string m @ convert_metadata_rest ms separator"

definition convert_metadata :: "rados_metadata list \<Rightarrow> string \<Rightarrow> string" where
  "convert_metadata metadata separator =
     (case metadata of [] \<Rightarrow> []
      | m # ms \<Rightarrow> metadata_to_string m @ convert_metadata_rest ms separator)"

definition op_mv :: "string \<Rightarrow> string \<Rightarrow> string \<Rightarrow> rados_metadata list \<Rightarrow> string" where
  "op_mv src_ns src_oid src_user metadata =
     ''mv:'' @ src_ns @ '':'' @ src_oid @ '':'' @ src_user @ '';'' @ convert_metadata metadata '':''"

text \<open>
  The loop of \<open>parse_mv_op\<close> over the metadata: entries parsed before a bad one stay in the list.
\<close>

fun parse_mv_metadata :: "string list \<Rightarrow> rados_metadata list \<Rightarrow> bool \<times> rados_metadata list" where
  "parse_mv_metadata [] md = (True, md)"
| "parse_mv_metadata (item # items) md =
     (case metadata_from_string item of
        None \<Rightarrow> (False, md)
      | Some m \<Rightarrow> parse_mv_metadata items (md @ [m]))"

definition parse_mv_op :: "save_log_entry \<Rightarrow> bool \<times> save_log_entry" where
  "parse_mv_op e =
     (case str_find '';'' (e_op e) of
        None \<Rightarrow> (False, e)
      | Some pos \<Rightarrow>
          if pos = 0 then (False, e)
          else let left_tokens = getline_tokens (CHR '':'') (take pos (e_op e)) in
            if length left_tokens < 4 then (False, e)
            else if left_tokens ! 0 \<noteq> ''mv'' then (True, e)
            else let e1 = e\<lparr>e_src_ns := left_tokens ! 1, e_src_oid := left_tokens ! 2,
                            e_src_user := left_tokens ! 3\<rparr>;
                     (ok, md) = parse_mv_metadata
                        (getline_tokens (CHR '':'') (drop (pos + 1) (e_op e))) (e_metadata e1)
                 in (ok, e1\<lparr>e_metadata := md\<rparr>))"

text \<open>\<open>operator<<\<close>.\<close>

definition entry_write :: "save_log_entry \<Rightarrow> string" where
  "entry_write e = e_op e @ '','' @ e_pool e @ '','' @ e_ns e @ '','' @ e_oid e @ [newline]"

text \<open>
  An input stream is its unread text with the end-of-file and fail flags. \<open>operator>>\<close> reads one
  line, which sets the end-of-file flag when the line is not terminated; a line that does not
  have four items sets the fail flag and leaves the entry as it was.
\<close>

record istream =
  is_text :: string
  is_eof :: bool
  is_fail :: bool

definition istream_getline :: "istream \<Rightarrow> string \<times> istream" where
  "istream_getline i =
     (if is_eof i \<or> is_fail i then ([], i\<lparr>is_fail := True\<rparr>)
      else let (l, r) = getline newline (is_text i);
               term = newline \<in> set (is_text i) in
        (l, i\<lparr>is_text := r, is_eof := \<not> term, is_fail := (is_text i = [])\<rparr>))"

definition entry_read :: "istream \<Rightarrow> save_log_entry \<Rightarrow> istream \<times> save_log_entry" where
  "entry_read is0 obj =
     (let (line, is1) = istream_getline is0 in
      case getline_tokens (CHR '','') line of
        [op, pool, ns, oid] \<Rightarrow>
          (is1, snd (parse_mv_op (obj\<lparr>e_op := op, e_pool := pool, e_ns := ns, e_oid := oid\<rparr>)))
      | _ \<Rightarrow> (is1\<lparr>is_fail := True\<rparr>, obj))"

lemma istream_getline_shorter:
  assumes "istream_getline i = (l, j)" and "\<not> is_fail j"
  shows "length (is_text j) < length (is_text i)"
proof -
  have "is_text i \<noteq> []" and "is_text j = snd (getline newline (is_text i))"
    using assms by (auto simp: istream_getline_def Let_def split: if_splits prod.splits)
  then show ?thesis using getline_shorter by simp
qed

lemma entry_read_shorter:
  assumes "(j, e') = entry_read i e" and "\<not> is_fail j"
  shows "length (is_text j) < length (is_text i)"
proof -
  obtain l k where k: "istream_getline i = (l, k)" by fastforce
  then have "j = k"
    using assms by (auto simp: entry_read_def split: list.splits)
  then show ?thesis using istream_getline_shorter [OF k] assms(2) by simp
qed

text \<open>
  The reading loop of \<open>RmbCommands::delete_with_save_log\<close>: it stops at the end of the file or
  at the first invalid line, which is reported by its number.
\<close>

function read_entries :: "nat \<Rightarrow> istream \<Rightarrow> save_log_entry list \<times> nat option" where
  "read_entries line_count is0 =
     (let (is1, entry) = entry_read is0 empty_entry in
      if is_eof is1 then ([], None)
      else if is_fail is1 then ([], Some (line_count + 1))
      else let (es, bad) = read_entries (line_count + 1) is1 in (entry # es, bad))"
  by pat_completeness auto
termination
  by (relation "measure (\<lambda>(_, i). length (is_text i))") (auto dest: entry_read_shorter)

declare read_entries.simps [simp del]

section \<open>The log file\<close>

record save_log =
  sl_logfile :: string
  sl_active :: bool
  sl_open :: bool
  sl_text :: string

definition new_save_log :: "string \<Rightarrow> string \<Rightarrow> save_log" where
  "new_save_log logfile text =
     \<lparr>sl_logfile = logfile, sl_active = (logfile \<noteq> []), sl_open = False, sl_text = text\<rparr>"

definition set_save_log_file :: "string \<Rightarrow> save_log \<Rightarrow> save_log" where
  "set_save_log_file logfile l = l\<lparr>sl_logfile := logfile, sl_active := (logfile \<noteq> [])\<rparr>"

definition save_log_open :: "bool \<Rightarrow> save_log \<Rightarrow> bool \<times> save_log" where
  "save_log_open can_open l =
     (let l' = (if sl_active l \<and> \<not> sl_open l then l\<lparr>sl_open := can_open, sl_active := can_open\<rparr> else l)
      in (sl_active l', l'))"

definition save_log_append :: "save_log_entry \<Rightarrow> save_log \<Rightarrow> save_log" where
  "save_log_append entry l =
     (if sl_active l \<and> sl_open l then l\<lparr>sl_text := sl_text l @ entry_write entry\<rparr> else l)"

definition save_log_close :: "save_log \<Rightarrow> bool \<times> save_log" where
  "save_log_close l = (if sl_active l \<and> sl_open l then (True, l\<lparr>sl_open := False\<rparr>) else (True, l))"


section \<open>Lemmas\<close>

definition csv_ok :: "string \<Rightarrow> bool" where
  "csv_ok s \<longleftrightarrow> CHR '','' \<notin> set s \<and> newline \<notin> set s"

definition entry_ok :: "save_log_entry \<Rightarrow> bool" where
  "entry_ok e \<longleftrightarrow> csv_ok (e_op e) \<and> csv_ok (e_pool e) \<and> csv_ok (e_ns e) \<and> csv_ok (e_oid e) \<and> e_oid e \<noteq> []"

text \<open>What reading back one written entry yields: its four fields, with a move parsed.\<close>

definition reread :: "save_log_entry \<Rightarrow> save_log_entry" where
  "reread e = snd (parse_mv_op (save_log_entry_of (e_oid e) (e_ns e) (e_pool e) (e_op e)))"

lemma entry_read_write:
  assumes "entry_ok e"
  shows "entry_read \<lparr>is_text = entry_write e @ rest, is_eof = False, is_fail = False\<rparr> empty_entry =
         (\<lparr>is_text = rest, is_eof = False, is_fail = False\<rparr>, reread e)"
proof -
  let ?l = "join_sep '','' [e_op e, e_pool e, e_ns e, e_oid e]"
  have w: "entry_write e @ rest = ?l @ newline # rest"
    by (simp add: entry_write_def)
  have nl: "newline \<notin> set ?l"
    using assms by (simp add: entry_ok_def csv_ok_def)
  have tok: "getline_tokens (CHR '','') ?l = [e_op e, e_pool e, e_ns e, e_oid e]"
    using assms by (intro getline_tokens_join) (auto simp: entry_ok_def csv_ok_def)
  have "takeWhile (\<lambda>c. c \<noteq> newline) (?l @ newline # rest) = ?l"
    "dropWhile (\<lambda>c. c \<noteq> newline) (?l @ newline # rest) = newline # rest"
    using nl by (simp_all only: takeWhile_append dropWhile_append) auto
  then have "istream_getline \<lparr>is_text = ?l @ newline # rest, is_eof = False, is_fail = False\<rparr> =
             (?l, \<lparr>is_text = rest, is_eof = False, is_fail = False\<rparr>)"
    by (simp only: istream_getline_def Let_def getline_def) simp
  then show ?thesis
    unfolding w entry_read_def
    by (simp only: Let_def prod.case tok list.case)
       (simp add: reread_def save_log_entry_of_def empty_entry_def)
qed

lemma read_entries_written:
  "\<forall>e \<in> set es. entry_ok e \<Longrightarrow>
   read_entries n \<lparr>is_text = concat (map entry_write es), is_eof = False, is_fail = False\<rparr> =
   (map reread es, None)"
proof (induction es arbitrary: n)
  case Nil
  show ?case
    by (subst read_entries.simps) (simp add: entry_read_def istream_getline_def getline_def)
next
  case (Cons e es)
  then show ?case
    by (subst read_entries.simps) (simp add: entry_read_write)
qed

lemma reread_plain: "CHR '';'' \<notin> set (e_op e) \<Longrightarrow>
   reread e = save_log_entry_of (e_oid e) (e_ns e) (e_pool e) (e_op e)"
  by (simp add: reread_def parse_mv_op_def str_find_char save_log_entry_of_def)

lemma convert_metadata_join: "convert_metadata md sep = join_sep sep (map metadata_to_string md)"
proof (cases md)
  case (Cons m ms)
  have "metadata_to_string m @ convert_metadata_rest ms sep =
        join_sep sep (map metadata_to_string (m # ms))" for m ms
    by (induction ms arbitrary: m) simp_all
  then show ?thesis using Cons by (simp add: convert_metadata_def)
qed (simp add: convert_metadata_def)

text \<open>Metadata that survives the text form: no separators, a value that is not empty and a NUL.\<close>

definition metadata_ok :: "rados_metadata \<Rightarrow> bool" where
  "metadata_ok m \<longleftrightarrow> (\<exists>v. md_bl m = v @ [NUL] \<and> v \<noteq> [] \<and> CHR ''='' \<notin> set v \<and> CHR '':'' \<notin> set v) \<and>
     CHR ''='' \<notin> set (md_key m) \<and> CHR '':'' \<notin> set (md_key m)"

definition metadata_strip :: "rados_metadata \<Rightarrow> rados_metadata" where
  "metadata_strip m = m\<lparr>md_bl := butlast (md_bl m)\<rparr>"

lemma metadata_from_to_string: "metadata_ok m \<Longrightarrow> metadata_from_string (metadata_to_string m) = Some (metadata_strip m)"
  using metadata_string_roundtrip_aux [of "md_key m" "butlast (md_bl m)"]
  by (cases m) (auto simp: metadata_ok_def metadata_strip_def)

lemma metadata_to_string_colon: "metadata_ok m \<Longrightarrow> CHR '':'' \<notin> set (metadata_to_string m) \<and> metadata_to_string m \<noteq> []"
  by (auto simp: metadata_ok_def metadata_to_string_def)

lemma parse_mv_metadata_strings:
  "\<forall>m \<in> set ms. metadata_ok m \<Longrightarrow>
   parse_mv_metadata (map metadata_to_string ms) acc = (True, acc @ map metadata_strip ms)"
  by (induction ms arbitrary: acc) (simp_all add: metadata_from_to_string)


lemma save_log_append_all:
  "sl_active l \<and> sl_open l \<Longrightarrow>
   sl_text (fold save_log_append es l) = sl_text l @ concat (map entry_write es) \<and>
   sl_active (fold save_log_append es l) \<and> sl_open (fold save_log_append es l)"
  by (induction es arbitrary: l) (simp_all add: save_log_append_def)

lemma take_drop_sep:
  "take (length l) (l @ c # r) = l"
  "drop (length l + 1) (l @ c # r) = r"
  by simp_all

section \<open>Properties\<close>

text \<open>
  Property C5: what is appended to the save log between \<open>open\<close> and \<open>close\<close> is read back by the
  tool's loop: every entry whose fields have no comma or line break and whose object id is not
  empty, in order, with no line reported as invalid; a move is read with its source parsed.
\<close>

theorem save_log_session_roundtrip:
  assumes "logfile \<noteq> []" and "\<forall>e \<in> set es. entry_ok e"
    and "save_log_open True (new_save_log logfile []) = (ok, l)"
  shows "ok \<and> read_entries 0 \<lparr>is_text = sl_text (snd (save_log_close (fold save_log_append es l))),
           is_eof = False, is_fail = False\<rparr> = (map reread es, None)"
proof -
  have l: "ok" "sl_active l \<and> sl_open l" "sl_text l = []"
    using assms(1,3) by (auto simp: save_log_open_def new_save_log_def)
  then show ?thesis
    using save_log_append_all [OF l(2), of es] read_entries_written [OF assms(2), of 0]
    by (simp add: save_log_close_def)
qed

theorem save_log_session_roundtrip_witness:
  "read_entries 0 \<lparr>is_text = sl_text (snd (save_log_close (fold save_log_append
       [save_log_entry_of ''o1'' ''ns'' ''pool'' op_save, save_log_entry_of ''o2'' ''ns'' ''pool'' op_cpy]
       (snd (save_log_open True (new_save_log ''log'' [])))))), is_eof = False, is_fail = False\<rparr> =
   ([save_log_entry_of ''o1'' ''ns'' ''pool'' op_save, save_log_entry_of ''o2'' ''ns'' ''pool'' op_cpy], None)"
  using save_log_session_roundtrip [of "''log''"
      "[save_log_entry_of ''o1'' ''ns'' ''pool'' op_save, save_log_entry_of ''o2'' ''ns'' ''pool'' op_cpy]",
      OF _ _ surjective_pairing]
  by (simp add: entry_ok_def csv_ok_def save_log_entry_of_def empty_entry_def reread_plain op_save_def op_cpy_def)

text \<open>
  The text of a move is parsed back into the namespace, object id and user of the
  source and the metadata to restore, each value without its trailing NUL byte, provided
  namespace, id and user contain no colon or semicolon and the user is not empty.
\<close>

theorem mv_op_roundtrip:
  assumes "\<forall>s \<in> {ns, oid, user}. CHR '':'' \<notin> set s \<and> CHR '';'' \<notin> set s" and "user \<noteq> []"
    and "\<forall>m \<in> set md. metadata_ok m" and "e_op e = op_mv ns oid user md"
  shows "parse_mv_op e = (True, e\<lparr>e_src_ns := ns, e_src_oid := oid, e_src_user := user,
           e_metadata := e_metadata e @ map metadata_strip md\<rparr>)"
proof -
  let ?left = "join_sep '':'' [''mv'', ns, oid, user]" and ?right = "convert_metadata md '':''"
  have op: "e_op e = ?left @ CHR '';'' # ?right" using assms(4) by (simp add: op_mv_def)
  have semi: "CHR '';'' \<notin> set ?left" using assms(1) by simp
  then have "takeWhile (\<lambda>x. x \<noteq> CHR '';'') (?left @ CHR '';'' # ?right) = ?left"
    by (subst takeWhile_append) auto
  then have pos: "str_find '';'' (e_op e) = Some (length ?left)"
    unfolding op str_find_char by (simp only: set_append set_simps Un_iff insert_iff) simp
  have lt: "getline_tokens (CHR '':'') ?left = [''mv'', ns, oid, user]"
    using assms(1,2) by (intro getline_tokens_join) auto
  have rt: "getline_tokens (CHR '':'') ?right = map metadata_to_string md"
    unfolding convert_metadata_join using assms(3) metadata_to_string_colon
    by (intro getline_tokens_join) (auto simp: last_map)
  have tk: "take (length ?left) (e_op e) = ?left" "drop (length ?left + 1) (e_op e) = ?right"
    unfolding op by (rule take_drop_sep)+
  show ?thesis
    unfolding parse_mv_op_def pos option.case tk Let_def lt rt
    by (simp add: parse_mv_metadata_strings [OF assms(3)])
qed

theorem mv_op_roundtrip_witness:
  "parse_mv_op (save_log_entry_of ''o2'' ''ns2'' ''pool''
      (op_mv ''ns1'' ''o1'' ''user'' [convert_str RBOX_METADATA_ORIG_MAILBOX ''INBOX''])) =
   (True, (save_log_entry_of ''o2'' ''ns2'' ''pool''
      (op_mv ''ns1'' ''o1'' ''user'' [convert_str RBOX_METADATA_ORIG_MAILBOX ''INBOX'']))
     \<lparr>e_src_ns := ''ns1'', e_src_oid := ''o1'', e_src_user := ''user'',
      e_metadata := [\<lparr>md_key = ''B'', md_bl = ''INBOX''\<rparr>]\<rparr>)"
  by (subst mv_op_roundtrip [of "''ns1''" "''o1''" "''user''"
        "[convert_str RBOX_METADATA_ORIG_MAILBOX ''INBOX'']"])
     (simp_all add: metadata_ok_def metadata_strip_def convert_str_def save_log_entry_of_def empty_entry_def)

text \<open>
  The text form of a metadata entry loses information. The value comes back without
  its NUL byte, and an entry with an empty value, or with an equals sign in its value, is rejected
  by \<open>from_string\<close>.
\<close>

theorem metadata_string_limits:
  "(CHR ''='' \<notin> set k \<and> CHR ''='' \<notin> set v \<and> v \<noteq> [] \<longrightarrow>
      metadata_from_string (metadata_to_string (metadata_kv k v)) = Some \<lparr>md_key = k, md_bl = v\<rparr>) \<and>
   (CHR ''='' \<notin> set k \<longrightarrow> metadata_from_string (metadata_to_string (metadata_kv k [])) = None) \<and>
   (CHR ''='' \<notin> set k \<and> CHR ''='' \<notin> set v \<and> CHR ''='' \<notin> set x \<and> x \<noteq> [] \<longrightarrow>
      metadata_from_string (metadata_to_string (metadata_kv k (v @ ''='' @ x))) = None)"
proof -
  have "butlast (v @ CHR ''='' # x @ [NUL]) = v @ CHR ''='' # x"
    by (simp add: butlast_append)
  then show ?thesis
    using metadata_string_roundtrip_aux [of k v]
    by (auto simp: metadata_kv_def metadata_to_string_def metadata_from_string_def getline_simps)
qed

theorem metadata_string_limits_witness:
  "metadata_from_string (metadata_to_string (metadata_kv ''U'' ''7'')) = Some \<lparr>md_key = ''U'', md_bl = ''7''\<rparr> \<and>
   metadata_from_string (metadata_to_string (metadata_kv ''B'' [])) = None \<and>
   metadata_from_string (metadata_to_string (metadata_kv ''B'' ''a=b'')) = None"
  using metadata_string_limits [of "''U''" "''7''" "''x''"] metadata_string_limits [of "''B''" "''a''" "''b''"]
  by simp

end
