(* ===== verification/Dovecot_Api.thy ===== *)
theory Dovecot_Api
  imports Alt_Storage Save_Log
begin

text \<open>
  The boundary of the mail storage to dovecot. Dovecot's mail index, its GUIDs and its sync
  machinery are not part of the repository: they are the fields of the record \<open>'w dovecot\<close>, each one
  call the plugin makes. The plugin relies on dovecot keeping its index in files of its own: no call
  changes an object of the cluster (\<open>law_dovecot\<close>). A GUID is its 16 bytes. The calls act on the index
  of the mailbox that is open; \<open>dv_mailbox_open\<close> opens another one of the user and yields its GUID.
  \<open>dv_hdr_flag_fsckd\<close> is \<^const>\<open>None\<close> with a dovecot that does not have this flag.
\<close>

section \<open>The calls\<close>

datatype modify_type = MODIFY_ADD | MODIFY_REMOVE | MODIFY_REPLACE

text \<open>The fields of \<open>struct mail_index_header\<close> and \<open>struct mail_index_sync_rec\<close> that are used.\<close>

record index_header =
  ih_uid_validity :: "32 word"
  ih_next_uid :: "32 word"
  ih_first_recent_uid :: "32 word"

datatype header_field = Header_uid_validity | Header_next_uid | Header_first_recent_uid | Header_highest_modseq

datatype sync_type = SYNC_EXPUNGE | SYNC_FLAGS | SYNC_KEYWORD_ADD | SYNC_KEYWORD_REMOVE | SYNC_OTHER

record sync_rec =
  sr_type :: sync_type
  sr_uid1 :: "32 word"
  sr_uid2 :: "32 word"
  sr_add_flags :: "8 word"
  sr_remove_flags :: "8 word"
  sr_keyword_idx :: nat

record 'w dovecot =
  dv_guid_generate :: "'w \<Rightarrow> bytes \<times> 'w"
  dv_guid_hash :: "string \<Rightarrow> bytes"
  dv_guid_to_string :: "bytes \<Rightarrow> string"
  dv_guid_to_uuid_string :: "bytes \<Rightarrow> string"
  dv_guid_from_string :: "string \<Rightarrow> bytes option"
  dv_guid_from_uuid_string :: "string \<Rightarrow> bytes option"
  dv_append :: "32 word \<Rightarrow> 'w \<Rightarrow> 32 word \<times> 'w"
  dv_update_flags :: "32 word \<Rightarrow> modify_type \<Rightarrow> 8 word \<Rightarrow> 'w \<Rightarrow> 'w"
  dv_update_keywords :: "32 word \<Rightarrow> string list \<Rightarrow> 'w \<Rightarrow> 'w"
  dv_update_modseq :: "32 word \<Rightarrow> 64 word \<Rightarrow> 'w \<Rightarrow> 'w"
  dv_update_ext :: "32 word \<Rightarrow> bytes \<Rightarrow> bytes \<Rightarrow> 'w \<Rightarrow> 'w"
  dv_expunge :: "32 word \<Rightarrow> 'w \<Rightarrow> 'w"
  dv_is_expunged :: "32 word \<Rightarrow> 'w \<Rightarrow> bool"
  dv_lookup :: "32 word \<Rightarrow> 'w \<Rightarrow> 8 word option"
  dv_lookup_uid :: "32 word \<Rightarrow> 'w \<Rightarrow> 32 word"
  dv_lookup_ext :: "32 word \<Rightarrow> 'w \<Rightarrow> (bytes \<times> bytes) option"
  dv_lookup_seq_range :: "32 word \<Rightarrow> 32 word \<Rightarrow> 'w \<Rightarrow> (32 word \<times> 32 word) option"
  dv_keywords :: "'w \<Rightarrow> string list option"
  dv_header :: "'w \<Rightarrow> index_header option"
  dv_hdr_flag_fsckd :: "'w \<Rightarrow> bool option"
  dv_header_ext :: "'w \<Rightarrow> bytes option"
  dv_update_header_ext :: "nat \<Rightarrow> bytes \<Rightarrow> 'w \<Rightarrow> 'w"
  dv_resize_hdr :: "nat \<Rightarrow> 'w \<Rightarrow> 'w"
  dv_set_ext_init_data :: "bytes \<Rightarrow> 'w \<Rightarrow> 'w"
  dv_sync_begin :: "bool \<Rightarrow> bool \<Rightarrow> 'w \<Rightarrow> int \<times> 'w"
  dv_sync_recs :: "'w \<Rightarrow> sync_rec list"
  dv_sync_commit :: "'w \<Rightarrow> int \<times> 'w"
  dv_sync_rollback :: "'w \<Rightarrow> 'w"
  dv_reset_fscked :: "'w \<Rightarrow> bool \<times> 'w"
  dv_index_refresh :: "'w \<Rightarrow> 'w"
  dv_finish_uids :: "32 word \<Rightarrow> 'w \<Rightarrow> 32 word list \<times> 'w"
  dv_cache_reset :: "'w \<Rightarrow> 'w"
  dv_rebuild_metadata :: "32 word \<Rightarrow> 32 word \<Rightarrow> 'w \<Rightarrow> 'w"
  dv_rebuild_init :: "'w \<Rightarrow> 'w"
  dv_rebuild_deinit :: "'w \<Rightarrow> 'w"
  dv_set_deleted :: "'w \<Rightarrow> 'w"
  dv_recent_flags_reset :: "'w \<Rightarrow> 'w"
  dv_recent_flags_set :: "32 word \<Rightarrow> 32 word \<Rightarrow> 'w \<Rightarrow> 'w"
  dv_trans_commit :: "'w \<Rightarrow> int \<times> 'w"
  dv_trans_rollback :: "'w \<Rightarrow> 'w"
  dv_update_header :: "header_field \<Rightarrow> 64 word \<Rightarrow> 'w \<Rightarrow> 'w"
  dv_highest_modseq :: "'w \<Rightarrow> 64 word"
  dv_pop3_max_uid :: "32 word \<Rightarrow> 'w \<Rightarrow> 'w"
  dv_uidvalidity_next :: "'w \<Rightarrow> 32 word \<times> 'w"
  dv_mailbox_open :: "string \<Rightarrow> 'w \<Rightarrow> int \<times> bytes \<times> 'w"

text \<open>No call changes an object of the cluster.\<close>

definition law_dovecot :: "'w dovecot \<Rightarrow> ('w \<Rightarrow> obj_key \<rightharpoonup> robj) \<Rightarrow> bool" where
  "law_dovecot D V \<longleftrightarrow> (\<forall>w.
     V (snd (dv_guid_generate D w)) = V w \<and> V (dv_cache_reset D w) = V w \<and> V (dv_sync_rollback D w) = V w \<and>
     V (dv_trans_rollback D w) = V w \<and> V (dv_index_refresh D w) = V w \<and> V (snd (dv_sync_commit D w)) = V w \<and>
     V (snd (dv_trans_commit D w)) = V w \<and> V (snd (dv_reset_fscked D w)) = V w \<and>
     V (snd (dv_uidvalidity_next D w)) = V w \<and>
     V (dv_rebuild_init D w) = V w \<and> V (dv_rebuild_deinit D w) = V w \<and> V (dv_set_deleted D w) = V w \<and>
     V (dv_recent_flags_reset D w) = V w \<and> (\<forall>a b. V (dv_recent_flags_set D a b w) = V w) \<and>
     (\<forall>u. V (snd (dv_append D u w)) = V w) \<and> (\<forall>s m f. V (dv_update_flags D s m f w) = V w) \<and>
     (\<forall>s k. V (dv_update_keywords D s k w) = V w) \<and> (\<forall>s q. V (dv_update_modseq D s q w) = V w) \<and>
     (\<forall>s g oi. V (dv_update_ext D s g oi w) = V w) \<and> (\<forall>s. V (dv_expunge D s w) = V w) \<and>
     (\<forall>n b. V (dv_update_header_ext D n b w) = V w) \<and> (\<forall>n. V (dv_resize_hdr D n w) = V w) \<and>
     (\<forall>b. V (dv_set_ext_init_data D b w) = V w) \<and> (\<forall>x y. V (snd (dv_sync_begin D x y w)) = V w) \<and>
     (\<forall>u. V (snd (dv_finish_uids D u w)) = V w) \<and> (\<forall>s u. V (dv_rebuild_metadata D s u w) = V w) \<and>
     (\<forall>f u. V (dv_update_header D f u w) = V w) \<and> (\<forall>u. V (dv_pop3_max_uid D u w) = V w) \<and> (\<forall>n. V (snd (snd (dv_mailbox_open D n w))) = V w))"

lemma law_dovecotD:
  assumes "law_dovecot D V"
  shows "V (snd (dv_guid_generate D w)) = V w" "V (dv_cache_reset D w) = V w" "V (dv_sync_rollback D w) = V w"
    "V (dv_rebuild_init D w) = V w" "V (dv_rebuild_deinit D w) = V w" "V (dv_set_deleted D w) = V w"
    "V (dv_recent_flags_reset D w) = V w" "V (dv_recent_flags_set D u1 u2 w) = V w"
    "V (dv_trans_rollback D w) = V w" "V (dv_index_refresh D w) = V w" "V (snd (dv_sync_commit D w)) = V w"
    "V (snd (dv_trans_commit D w)) = V w" "V (snd (dv_reset_fscked D w)) = V w"
    "V (snd (dv_uidvalidity_next D w)) = V w" "V (dv_pop3_max_uid D u w) = V w"
    "V (snd (dv_append D u w)) = V w" "V (dv_update_flags D s m f w) = V w" "V (dv_update_keywords D s k w) = V w"
    "V (dv_update_modseq D s q w) = V w" "V (dv_update_ext D s g oi w) = V w" "V (dv_expunge D s w) = V w"
    "V (dv_update_header_ext D n b w) = V w" "V (dv_resize_hdr D n w) = V w" "V (dv_set_ext_init_data D b w) = V w"
    "V (snd (dv_sync_begin D x y w)) = V w" "V (snd (dv_finish_uids D u w)) = V w"
    "V (dv_rebuild_metadata D s u w) = V w" "V (dv_update_header D hf v w) = V w"
    "V (snd (snd (dv_mailbox_open D nm w))) = V w"
  using assms unfolding law_dovecot_def by simp_all

text \<open>
  The index of a mailbox: the uid of every record and the GUID and object id its extension holds. Appending adds a record,
  whose sequence number is its position; the extension of a record can be set; changing its flags or restoring its flags
  and keywords from an older index keeps both.
\<close>

type_synonym index_view = "(32 word \<times> (bytes \<times> bytes) option) list"

definition law_index :: "'w dovecot \<Rightarrow> ('w \<Rightarrow> index_view) \<Rightarrow> bool" where
  "law_index D I \<longleftrightarrow> (\<forall>w.
     (\<forall>u seq w'. dv_append D u w = (seq, w') \<longrightarrow> I w' = I w @ [(u, None)] \<and> seq = of_nat (length (I w'))) \<and>
     (\<forall>s g oid. 0 < unat s \<and> unat s \<le> length (I w) \<longrightarrow>
        I (dv_update_ext D s g oid w) = (I w)[unat s - 1 := (fst (I w ! (unat s - 1)), Some (g, oid))]) \<and>
     (\<forall>s m f. I (dv_update_flags D s m f w) = I w) \<and> (\<forall>s u. I (dv_rebuild_metadata D s u w) = I w))"

section \<open>A dovecot without an index\<close>

text \<open>
  Fixed answers, for evaluation: the GUIDs are their own text, appending yields sequence number 1,
  every record has the given extension data.
\<close>

definition fixed_dovecot :: "bytes \<Rightarrow> (bytes \<times> bytes) option \<Rightarrow> sync_rec list \<Rightarrow> 'w dovecot" where
  "fixed_dovecot guid ext recs =
     \<lparr>dv_guid_generate = Pair guid, dv_guid_hash = id, dv_guid_to_string = id, dv_guid_to_uuid_string = id,
      dv_guid_from_string = Some, dv_guid_from_uuid_string = Some, dv_append = (\<lambda>_. Pair 1),
      dv_update_flags = (\<lambda>_ _ _. id), dv_update_keywords = (\<lambda>_ _. id), dv_update_modseq = (\<lambda>_ _. id),
      dv_update_ext = (\<lambda>_ _ _. id), dv_expunge = (\<lambda>_. id), dv_is_expunged = (\<lambda>_ _. False),
      dv_lookup = (\<lambda>_ _. Some 0), dv_lookup_uid = (\<lambda>s _. s), dv_lookup_ext = (\<lambda>_ _. ext),
      dv_lookup_seq_range = (\<lambda>a b _. Some (a, b)), dv_keywords = (\<lambda>_. Some []),
      dv_header = (\<lambda>_. Some \<lparr>ih_uid_validity = 1, ih_next_uid = 1, ih_first_recent_uid = 0\<rparr>),
      dv_hdr_flag_fsckd = (\<lambda>_. None), dv_header_ext = (\<lambda>_. None), dv_update_header_ext = (\<lambda>_ _. id), dv_resize_hdr = (\<lambda>_. id),
      dv_set_ext_init_data = (\<lambda>_. id), dv_sync_begin = (\<lambda>_ _. Pair 1), dv_sync_recs = (\<lambda>_. recs),
      dv_sync_commit = Pair 0, dv_sync_rollback = id, dv_reset_fscked = Pair False, dv_index_refresh = id,
      dv_finish_uids = (\<lambda>u. Pair [u]), dv_cache_reset = id, dv_rebuild_metadata = (\<lambda>_ _. id),
      dv_rebuild_init = id, dv_rebuild_deinit = id, dv_set_deleted = id, dv_recent_flags_reset = id,
      dv_recent_flags_set = (\<lambda>_ _. id), dv_trans_commit = Pair 0, dv_trans_rollback = id, dv_update_header = (\<lambda>_ _. id), dv_highest_modseq = (\<lambda>_. 0), dv_pop3_max_uid = (\<lambda>_. id),
      dv_uidvalidity_next = Pair 1, dv_mailbox_open = (\<lambda>_ w. (0, guid, w))\<rparr>"

lemma fixed_dovecot_law: "law_dovecot (fixed_dovecot g e rs) V"
  by (simp add: law_dovecot_def fixed_dovecot_def)

end
