(* ===== verification/Rbox_Storage.thy ===== *)
theory Rbox_Storage
  imports Dovecot_Api
begin

text \<open>
  The mail storage of \<open>src/src/storage-rbox/rbox-storage.cpp\<close>: its configuration, the connection
  of a mailbox to the cluster, the header of a mailbox index, and the removal of a mailbox. The
  configuration, the namespace manager and the metadata module point to the io context of the
  primary storage; the model reads and writes it there (\<open>config_view\<close>, \<open>config_store\<close>).
\<close>

section \<open>State\<close>

text \<open>The libraries the storage calls, whether a log file can be opened, and the memory behind a buffer.\<close>

record 'w env =
  en_json :: json_lib
  en_client :: "'w client"
  en_rados :: "'w rados"
  en_dovecot :: "'w dovecot"
  en_can_open :: "string \<Rightarrow> bool"
  en_behind :: bytes

text \<open>\<open>struct rbox_mailbox\<close> with the fields of dovecot's mailbox that are used.\<close>

record rbox_mailbox =
  bx_name :: string
  bx_guid :: bytes
  bx_owner :: "string option"
  bx_alt_dir :: "string option"
  bx_creating :: bool
  bx_inbox_user :: bool
  bx_getenv :: "string \<Rightarrow> bytes option"
  bx_plugin_envs :: "(string \<times> string) list option"
  bx_disable_reflink :: bool

text \<open>\<open>rs_ms_alt\<close>: the metadata module points to the io context of the alternative storage.\<close>

record rbox_storage =
  rs_s :: storage
  rs_alt :: storage
  rs_config :: dovecot_ceph_cfg
  rs_ns_cache :: "string smap"
  rs_ms :: "metadata_module_kind option"
  rs_ms_alt :: bool
  rs_save_log :: save_log
  rs_rebuild_count :: "32 word"
  rs_corrupted :: bool

definition rbox_storage_alloc :: rbox_storage where
  "rbox_storage_alloc =
     \<lparr>rs_s = new_storage, rs_alt = new_storage,
      rs_config = \<lparr>dc_dovecot = new_rados_config, dc_rados = \<lparr>cf_config = new_json_config, cf_io_ctx = Some null_ctx\<rparr>\<rparr>,
      rs_ns_cache = [], rs_ms = None, rs_ms_alt = False, rs_save_log = new_save_log [] [],
      rs_rebuild_count = 0, rs_corrupted = False\<rparr>"

record 'w rbox_state =
  x_cl :: cluster
  x_rs :: rbox_storage
  x_w :: 'w

definition config_view :: "rbox_storage \<Rightarrow> dovecot_ceph_cfg" where
  "config_view rs = (rs_config rs)\<lparr>dc_rados := (dc_rados (rs_config rs))\<lparr>cf_io_ctx := Some (st_io_ctx (rs_s rs))\<rparr>\<rparr>"

definition config_store :: "dovecot_ceph_cfg \<Rightarrow> rbox_storage \<Rightarrow> rbox_storage" where
  "config_store cfg rs = rs\<lparr>rs_config := cfg, rs_s := (case cf_io_ctx (dc_rados cfg) of
       None \<Rightarrow> rs_s rs | Some io \<Rightarrow> (rs_s rs)\<lparr>st_io_ctx := io\<rparr>)\<rparr>"

text \<open>The configuration the metadata module and the attribute checks read.\<close>

definition rs_json :: "rbox_storage \<Rightarrow> json_config" where
  "rs_json rs = cf_config (dc_rados (rs_config rs))"

definition rs_ms_io :: "rbox_storage \<Rightarrow> io_ctx" where
  "rs_ms_io rs = st_io_ctx (if rs_ms_alt rs then rs_alt rs else rs_s rs)"

section \<open>Configuration\<close>

definition cfg_true :: "rbox_storage \<Rightarrow> string \<Rightarrow> bool" where
  "cfg_true rs key \<longleftrightarrow> rc_get (dc_dovecot (rs_config rs)) key = ''true''"

definition read_plugin_configuration :: "'w env \<Rightarrow> rbox_mailbox \<Rightarrow> rbox_storage \<Rightarrow> rbox_storage" where
  "read_plugin_configuration E box rs =
     (if dc_is_config_valid (rs_config rs) then rs
      else
        let cfg = rs_config rs;
            d1 = fold (\<lambda>setting d. rc_update_metadata setting (bx_getenv box setting) d)
                   (map fst (rc_config (dc_dovecot cfg))) (dc_dovecot cfg);
            cfg1 = dc_set_config_valid True (cfg\<lparr>dc_dovecot := d1\<rparr>);
            log_file = rc_get d1 ''rados_save_log'';
            (_, log1) = save_log_open (en_can_open E log_file) (set_save_log_file log_file (rs_save_log rs))
        in rs\<lparr>rs_config := cfg1, rs_save_log := log1\<rparr>)"

definition read_plugin_ceph_client_settings :: "rbox_mailbox \<Rightarrow> string \<Rightarrow> cluster \<Rightarrow> cluster" where
  "read_plugin_ceph_client_settings box prefix cl =
     (case bx_plugin_envs box of None \<Rightarrow> cl
      | Some envs \<Rightarrow> fold (\<lambda>(k, v) cl. if length prefix < length k \<and> starts_with prefix k
                              then set_config_option (drop (length prefix + 1) k) v cl else cl) envs cl)"

text \<open>The flag \<open>MAIL_INDEX_MAIL_FLAG_BACKEND\<close> of dovecot marks mails of the alternative storage.\<close>

definition RBOX_INDEX_FLAG_ALT :: "8 word" where "RBOX_INDEX_FLAG_ALT = 0x40"

definition is_alternate_storage_set :: "8 word \<Rightarrow> bool" where
  "is_alternate_storage_set flags \<longleftrightarrow> and flags RBOX_INDEX_FLAG_ALT \<noteq> 0"

definition is_alternate_pool_valid :: "rbox_mailbox \<Rightarrow> bool" where
  "is_alternate_pool_valid box \<longleftrightarrow> (case bx_alt_dir box of None \<Rightarrow> False | Some d \<Rightarrow> d \<noteq> [])"

section \<open>Opening the connection of a mailbox\<close>

definition wait_method :: "rbox_storage \<Rightarrow> aio_wait_method" where
  "wait_method rs = (if cfg_true rs ''rbox_ceph_aio_wait_for_safe_and_cb''
                     then WAIT_FOR_SAFE_AND_CB else WAIT_FOR_COMPLETE_AND_CB)"

text \<open>
  Both connections. The result of the alternative storage replaces the one of the primary. An
  exception, also the one for an alternative pool that is a null pointer, ends with the result -1.
\<close>

fun caught :: "cpp_exn + int \<Rightarrow> int" where
  "caught (Inl _) = -1"
| "caught (Inr r) = r"

definition open_connections :: "'w env \<Rightarrow> rbox_mailbox \<Rightarrow> bool \<Rightarrow> 'w rbox_state \<Rightarrow> (int \<times> 'w rbox_state) option" where
  "open_connections E box alt_storage x =
     (let rs = x_rs x; d = dc_dovecot (rs_config rs);
          ipool = rc_get d ''rbox_index_pool_name''; cname = rc_get d ''rbox_cluster_name'';
          user = rc_get d ''rados_user_name'';
          s0 = (rs_s rs)\<lparr>st_wait_method := wait_method rs\<rparr> in
      case open_connection_user (en_client E) (rc_get d ''rbox_pool_name'') ipool cname user (x_cl x) s0 (x_w x) of
        None \<Rightarrow> None
      | Some (ret, cl1, s1, w1) \<Rightarrow>
          let x1 = \<lparr>x_cl = cl1, x_rs = rs\<lparr>rs_s := s1\<rparr>, x_w = w1\<rparr> in
          if \<not> alt_storage \<or> isl ret then Some (caught ret, x1)
          else case bx_alt_dir box of None \<Rightarrow> Some (-1, x1)
          | Some dir \<Rightarrow>
            (case open_connection_user (en_client E) dir ipool cname user cl1 (rs_alt rs) w1 of
               None \<Rightarrow> None
             | Some (ret2, cl2, a2, w2) \<Rightarrow>
                 let a3 = (if isl ret2 then a2 else a2\<lparr>st_wait_method := wait_method rs\<rparr>) in
                 Some (caught ret2, \<lparr>x_cl = cl2, x_rs = rs\<lparr>rs_s := s1, rs_alt := a3\<rparr>, x_w = w2\<rparr>)))"

definition mailbox_uid :: "rbox_mailbox \<Rightarrow> rbox_storage \<Rightarrow> string" where
  "mailbox_uid box rs = (case bx_owner box of
       Some u \<Rightarrow> u @ jc_user_suffix (rs_json rs) | None \<Rightarrow> jc_public_namespace (rs_json rs))"

text \<open>Lookup of the namespace of the user, with a new entry when there is none.\<close>

definition lookup_or_add :: "'w env \<Rightarrow> string \<Rightarrow> rbox_storage \<Rightarrow> 'w \<Rightarrow> int \<times> string \<times> rbox_storage \<times> 'w" where
  "lookup_or_add E uid rs w =
     (case lookup_key (en_rados E) uid [] \<lparr>nm_config = Some (config_view rs), nm_cache = rs_ns_cache rs\<rparr> w of
        (found, ns, m1, w1) \<Rightarrow>
          (case (if found then (0, ns, m1, w1)
                 else case dv_guid_generate (en_dovecot E) w1 of (g, w2) \<Rightarrow>
                   (case add_namespace_entry (en_rados E) uid ns (Some (dv_guid_to_string (en_dovecot E) g)) m1 w2 of
                      (added, ns2, m2, w3) \<Rightarrow> (if added then 0 else -1, ns2, m2, w3))) of
             (ret, ns2, m2, w2) \<Rightarrow>
               (ret, ns2,
                (case nm_config m2 of None \<Rightarrow> rs | Some c \<Rightarrow> config_store c rs)\<lparr>rs_ns_cache := nm_cache m2\<rparr>, w2)))"

text \<open>The configuration object; one that cannot be read fails an assertion: \<^const>\<open>None\<close>.\<close>

definition load_config :: "'w env \<Rightarrow> 'w rbox_state \<Rightarrow> (int \<times> 'w rbox_state) option" where
  "load_config E x =
     (case load_rados_config (en_json E) (en_rados E) (config_view (x_rs x)) (x_w x) of
        None \<Rightarrow> None
      | Some (r, cfg1, w1) \<Rightarrow>
          (case (if r = - ENOENT then save_default_rados_config (en_json E) (en_rados E) cfg1 w1 else (r, cfg1, w1)) of
             (ret, cfg2, w2) \<Rightarrow>
               if ret < 0 then None else Some (ret, x\<lparr>x_rs := config_store cfg2 (x_rs x), x_w := w2\<rparr>)))"

text \<open>The metadata module, and the namespace of the user in both storages.\<close>

definition open_namespace :: "'w env \<Rightarrow> rbox_mailbox \<Rightarrow> bool \<Rightarrow> int \<Rightarrow> 'w rbox_state \<Rightarrow> int \<times> 'w rbox_state" where
  "open_namespace E box alt_storage ret x =
     (let rs = (x_rs x)\<lparr>rs_ms := Some (create_metadata_storage (rs_json (x_rs x)) (rs_ms (x_rs x)))\<rparr> in
      case lookup_or_add E (mailbox_uid box rs) rs (x_w x) of (found, ns, rs1, w1) \<Rightarrow>
        let ret1 = (if found < 0 then found else ret);
            rs2 = (if 0 \<le> ret1 then
                     rs1\<lparr>rs_s := st_set_namespace ns (rs_s rs1),
                         rs_alt := (if alt_storage then st_set_namespace ns (rs_alt rs1) else rs_alt rs1)\<rparr>
                   else rs1)
        in (ret1, x\<lparr>x_rs := rs2, x_w := w1\<rparr>))"

definition rbox_open_rados_connection :: "'w env \<Rightarrow> rbox_mailbox \<Rightarrow> bool \<Rightarrow> 'w rbox_state \<Rightarrow> (int \<times> 'w rbox_state) option" where
  "rbox_open_rados_connection E box alt_storage x =
     (case open_connections E box alt_storage
             (if dc_is_config_valid (rs_config (x_rs x)) then x
              else x\<lparr>x_rs := read_plugin_configuration E box (x_rs x),
                     x_cl := read_plugin_ceph_client_settings box ''rbox_ceph_client'' (x_cl x)\<rparr>) of
        None \<Rightarrow> None
      | Some (ret, x1) \<Rightarrow>
          if ret = 1 then Some (0, x1)
          else if ret < 0 then Some (ret, x1)
          else case load_config E x1 of None \<Rightarrow> None
          | Some (ret2, x2) \<Rightarrow> Some (open_namespace E box alt_storage ret2 x2))"

text \<open>Destroying the storage closes both storages and then gives up the cluster once more.\<close>

definition rbox_storage_destroy :: "'w env \<Rightarrow> 'w rbox_state \<Rightarrow> 'w rbox_state option" where
  "rbox_storage_destroy E x =
     (case close_connection (en_client E) (x_cl x) (rs_s (x_rs x)) (x_w x) of None \<Rightarrow> None
      | Some (cl1, w1) \<Rightarrow>
        (case close_connection (en_client E) cl1 (rs_alt (x_rs x)) w1 of None \<Rightarrow> None
         | Some (cl2, w2) \<Rightarrow>
           (case deinit (en_client E) cl2 w2 of None \<Rightarrow> None
            | Some (cl3, w3) \<Rightarrow>
                Some (x\<lparr>x_cl := cl3, x_w := w3,
                        x_rs := (x_rs x)\<lparr>rs_save_log := snd (save_log_close (rs_save_log (x_rs x)))\<rparr>\<rparr>))))"

section \<open>The header of the mailbox index\<close>

record rbox_index_header =
  rh_rebuild_count :: "32 word"
  rh_mailbox_guid :: bytes
  rh_flags :: "8 word"
  rh_unused :: bytes

definition zero_guid :: bytes where "zero_guid = replicate 16 NUL"

definition zero_header :: rbox_index_header where
  "zero_header = \<lparr>rh_rebuild_count = 0, rh_mailbox_guid = zero_guid, rh_flags = 0, rh_unused = replicate 3 NUL\<rparr>"

definition header_size :: nat where "header_size = 24"

text \<open>The bytes of the structure, and the structure filled from the bytes that are there.\<close>

definition header_bytes :: "rbox_index_header \<Rightarrow> bytes" where
  "header_bytes h = encode_le32 (rh_rebuild_count h) @ rh_mailbox_guid h @ [char_of (unat (rh_flags h))] @ rh_unused h"

definition header_of_bytes :: "bytes \<Rightarrow> rbox_index_header" where
  "header_of_bytes b = (let p = take header_size b @ replicate (header_size - length b) NUL in
     \<lparr>rh_rebuild_count = word_of_nat (le_val (take 4 p)), rh_mailbox_guid = take 16 (drop 4 p),
      rh_flags = word_of_nat (of_char (p ! 20)), rh_unused = drop 21 p\<rparr>)"

text \<open>The result, the header when it was filled, and whether it has to grow.\<close>

definition rbox_read_header :: "'w dovecot \<Rightarrow> rbox_mailbox \<Rightarrow> 'w \<Rightarrow> int \<times> rbox_index_header option \<times> bool \<times> 'w" where
  "rbox_read_header D box w =
     (let data = (case dv_header_ext D w of None \<Rightarrow> [] | Some b \<Rightarrow> b); n = length data in
      if n < 4 \<and> (\<not> bx_creating box \<or> n \<noteq> 0) then (-1, None, n < header_size, w)
      else let h = header_of_bytes data in
        if rh_mailbox_guid h = zero_guid then (-1, Some h, n < header_size, w)
        else (0, Some h, n < header_size, dv_set_ext_init_data D (header_bytes h) w))"

definition rbox_header_have_flag :: "'w dovecot \<Rightarrow> nat \<Rightarrow> 8 word \<Rightarrow> 'w \<Rightarrow> bool" where
  "rbox_header_have_flag D flags_offset flag w =
     (let data = (case dv_header_ext D w of None \<Rightarrow> [] | Some b \<Rightarrow> b);
          flags = (if flags_offset < length data then word_of_nat (of_char (data ! flags_offset)) else 0 :: 8 word)
      in and flags flag \<noteq> 0)"

record mailbox_update =
  mu_guid :: bytes
  mu_uid_validity :: "32 word"
  mu_min_next_uid :: "32 word"
  mu_min_first_recent_uid :: "32 word"
  mu_min_highest_modseq :: "64 word"

text \<open>The new GUID is also the GUID of the mailbox from then on.\<close>

definition rbox_update_header :: "'w dovecot \<Rightarrow> rbox_mailbox \<Rightarrow> mailbox_update option \<Rightarrow> 'w \<Rightarrow> rbox_mailbox \<times> 'w" where
  "rbox_update_header D box upd w =
     (case rbox_read_header D box w of (ret, h, need, w1) \<Rightarrow>
        let (hdr, need_resize) = (if ret < 0 then (zero_header, True)
                                  else (case h of None \<Rightarrow> zero_header | Some h \<Rightarrow> h, need));
            given = (case upd of Some u \<Rightarrow> mu_guid u | None \<Rightarrow> zero_guid);
            (guid, w2) = (if given \<noteq> zero_guid then (given, w1)
                          else if rh_mailbox_guid hdr = zero_guid then dv_guid_generate D w1
                          else (rh_mailbox_guid hdr, w1));
            new_hdr = hdr\<lparr>rh_mailbox_guid := guid\<rparr>;
            w3 = (if need_resize then dv_resize_hdr D header_size w2 else w2);
            w4 = (if header_bytes hdr \<noteq> header_bytes new_hdr then dv_update_header_ext D 0 (header_bytes new_hdr) w3 else w3)
        in (box\<lparr>bx_guid := guid\<rparr>, w4))"

definition rbox_mailbox_create_indexes :: "'w dovecot \<Rightarrow> rbox_mailbox \<Rightarrow> mailbox_update option \<Rightarrow> bool \<Rightarrow> 'w \<Rightarrow>
    (int \<times> rbox_mailbox \<times> 'w) option" where
  "rbox_mailbox_create_indexes D box upd new_trans w =
     (case dv_header D w of None \<Rightarrow> None
      | Some hdr \<Rightarrow>
        let (uid_validity, w1) =
              (if upd \<noteq> None \<and> mu_uid_validity (the upd) \<noteq> 0 then (mu_uid_validity (the upd), w)
               else if ih_uid_validity hdr \<noteq> 0 then (ih_uid_validity hdr, w)
               else dv_uidvalidity_next D w);
            w2 = (if ih_uid_validity hdr \<noteq> uid_validity
                  then dv_update_header D Header_uid_validity (ucast uid_validity) w1 else w1);
            w3 = (case upd of None \<Rightarrow> w2 | Some u \<Rightarrow>
                    if ih_next_uid hdr < mu_min_next_uid u
                    then dv_update_header D Header_next_uid (ucast (mu_min_next_uid u)) w2 else w2);
            w4 = (case upd of None \<Rightarrow> w3 | Some u \<Rightarrow>
                    if mu_min_first_recent_uid u \<noteq> 0 \<and> ih_first_recent_uid hdr < mu_min_first_recent_uid u
                    then dv_update_header D Header_first_recent_uid (ucast (mu_min_first_recent_uid u)) w3 else w3);
            w5 = (case upd of None \<Rightarrow> w4 | Some u \<Rightarrow>
                    if mu_min_highest_modseq u \<noteq> 0 \<and> dv_highest_modseq D w4 < mu_min_highest_modseq u
                    then dv_update_header D Header_highest_modseq (mu_min_highest_modseq u) w4 else w4);
            w6 = (if bx_inbox_user box \<and> bx_creating box then dv_pop3_max_uid D 0 w5 else w5);
            (box1, w7) = rbox_update_header D box upd w6
        in if new_trans then
             (case dv_trans_commit D w7 of (r, w8) \<Rightarrow> Some (if r < 0 then -1 else 0, box1, w8))
           else Some (0, box1, w7))"

definition rbox_set_mailbox_corrupted :: "'w dovecot \<Rightarrow> rbox_mailbox \<Rightarrow> 'w rbox_state \<Rightarrow> 'w rbox_state" where
  "rbox_set_mailbox_corrupted D box x =
     (case rbox_read_header D box (x_w x) of (ret, h, _, w1) \<Rightarrow>
        let n = (case h of None \<Rightarrow> 0 | Some h \<Rightarrow> rh_rebuild_count h) in
        x\<lparr>x_w := w1, x_rs := (x_rs x)\<lparr>rs_rebuild_count := (if ret < 0 \<or> n = 0 then 1 else n), rs_corrupted := True\<rparr>\<rparr>)"

section \<open>Removing a mailbox\<close>

text \<open>
  One namespace of the user: its owner and the mailboxes that can be selected, each with its number
  of messages, \<^const>\<open>None\<close> when its status cannot be read; and whether the listing ended well.
\<close>

record user_namespace =
  un_owner :: string
  un_mailboxes :: "32 word option list"
  un_list_ok :: bool

fun total_mails :: "32 word option list \<Rightarrow> 32 word" where
  "total_mails [] = 0"
| "total_mails (None # ms) = 1 + total_mails ms"
| "total_mails (Some n # ms) = n + total_mails ms"

fun check_users_mailbox_delete_ns_object :: "'w env \<Rightarrow> user_namespace list \<Rightarrow> int \<Rightarrow> 'w rbox_state \<Rightarrow> int \<times> 'w rbox_state" where
  "check_users_mailbox_delete_ns_object E [] ret x = (ret, x)"
| "check_users_mailbox_delete_ns_object E (u # us) ret x =
     (let ret1 = (if un_list_ok u then ret else -1) in
      if total_mails (un_mailboxes u) = 0 then
        let rs = x_rs x; uid = un_owner u @ jc_user_suffix (rs_json rs);
            (_, _, m1, w1) = lookup_key (en_rados E) uid []
                \<lparr>nm_config = Some (config_view rs), nm_cache = rs_ns_cache rs\<rparr> (x_w x);
            rs1 = (case nm_config m1 of None \<Rightarrow> rs | Some c \<Rightarrow> config_store c rs)\<lparr>rs_ns_cache := nm_cache m1\<rparr>;
            rs2 = rs1\<lparr>rs_s := st_set_namespace (jc_user_ns (rs_json rs1)) (rs_s rs1)\<rparr>;
            (ret2, w2) = delete_mail (en_rados E) (x_cl x) (rs_s rs2) uid w1
        in check_users_mailbox_delete_ns_object E us ret2 (x\<lparr>x_rs := rs2, x_w := w2\<rparr>)
      else check_users_mailbox_delete_ns_object E us ret1 x)"

text \<open>\<open>deleted\<close> is the result of dovecot's own removal of the mailbox.\<close>

definition rbox_storage_mailbox_delete :: "'w env \<Rightarrow> rbox_mailbox \<Rightarrow> user_namespace list \<Rightarrow> int \<Rightarrow> 'w rbox_state \<Rightarrow>
    (int \<times> 'w rbox_state) option" where
  "rbox_storage_mailbox_delete E box namespaces deleted x =
     (if deleted < 0 then Some (deleted, x)
      else
        let x0 = x\<lparr>x_rs := read_plugin_configuration E box (x_rs x)\<rparr> in
        case rbox_open_rados_connection E box False x0 of None \<Rightarrow> None
        | Some (ret, x1) \<Rightarrow>
            if ret < 0 then Some (ret, x1)
            else case get_object_search_method (rs_config (x_rs x1)) of
              Inl _ \<Rightarrow> None
            | Inr search \<Rightarrow>
                let x2 = (if search = 2 \<and> bx_name box = ''INBOX''
                          then x1\<lparr>x_w := snd (ceph_index_delete (en_rados E) (rs_s (x_rs x1)) (x_w x1))\<rparr> else x1) in
                if \<not> cfg_true (x_rs x2) ''rados_check_empty_mailboxes'' then Some (ret, x2)
                else if is_user_mapping (dc_rados (rs_config (x_rs x2)))
                then Some (check_users_mailbox_delete_ns_object E namespaces 0 x2)
                else Some (ret, x2))"

section \<open>Lemmas\<close>

lemma header_roundtrip:
  assumes "length (rh_mailbox_guid h) = 16" and "length (rh_unused h) = 3"
  shows "header_of_bytes (header_bytes h) = h"
proof -
  let ?b = "header_bytes h"
  have n: "length ?b = header_size" using assms by (simp add: header_bytes_def header_size_def encode_le32_def)
  have l: "length (encode_le32 (rh_rebuild_count h)) = 4" by (simp add: encode_le32_def)
  have "take 4 ?b = encode_le32 (rh_rebuild_count h)" "take 16 (drop 4 ?b) = rh_mailbox_guid h" "drop 21 ?b = rh_unused h"
    using l assms by (simp_all add: header_bytes_def)
  moreover have "?b ! 20 = char_of (unat (rh_flags h))"
    using l assms by (simp add: header_bytes_def nth_append)
  moreover have "unat (rh_flags h) < 256" using unsigned_less [where 'a = nat, of "rh_flags h"] by simp
  ultimately show ?thesis
    using n by (simp add: header_of_bytes_def encode_le32_def le_val_le_bytes unat_bound_bytes of_char_of)
qed

lemma cfg_set_namespace_json [simp]: "cf_config (dc_rados (cfg_set_namespace ns c)) = cf_config (dc_rados c)"
  by (simp add: cfg_set_namespace_def set_io_ctx_namespace_def)

lemma lookup_key_result:
  assumes "lookup_key R uid v m w = (found, ns, m1, w1)" and "nm_config m = Some cfg"
  shows "\<exists>cfg'. nm_config m1 = Some cfg' \<and> cf_config (dc_rados cfg') = cf_config (dc_rados cfg) \<and>
    dc_is_config_valid cfg' = dc_is_config_valid cfg \<and>
    (found \<longrightarrow> (if uid = [] \<or> \<not> is_user_mapping (dc_rados cfg) then ns = uid else smap_get uid (nm_cache m1) = Some ns)) \<and>
    (\<not> found \<longrightarrow> uid \<noteq> [] \<and> (dc_is_config_valid cfg \<longrightarrow> is_user_mapping (dc_rados cfg)))"
  using assms by (auto simp: lookup_key_def Let_def split: if_splits option.splits prod.splits)

lemma add_namespace_entry_result:
  assumes "add_namespace_entry R uid v g m w = (added, ns, m1, w1)" and "nm_config m = Some cfg"
  shows "\<exists>cfg'. nm_config m1 = Some cfg' \<and> cf_config (dc_rados cfg') = cf_config (dc_rados cfg) \<and>
    (added \<longrightarrow> dc_is_config_valid cfg \<and> smap_get uid (nm_cache m1) = Some ns)"
  using assms by (auto simp: add_namespace_entry_def Let_def split: if_splits option.splits prod.splits)

lemma config_store_sel [simp]:
  "rs_ms (config_store c rs) = rs_ms rs" "rs_alt (config_store c rs) = rs_alt rs"
  "st_io_ctx_created (rs_s (config_store c rs)) = st_io_ctx_created (rs_s rs)"
  "rs_json (config_store c rs) = cf_config (dc_rados c)"
  "rs_json (rs\<lparr>rs_ns_cache := k\<rparr>) = rs_json rs" "rs_json (rs\<lparr>rs_ms := ms\<rparr>) = rs_json rs"
  "rs_json (rs\<lparr>rs_s := s\<rparr>) = rs_json rs"
  by (simp_all add: config_store_def rs_json_def split: option.split)

text \<open>The namespace a user id stands for.\<close>

definition namespace_of :: "rbox_storage \<Rightarrow> string \<Rightarrow> string option" where
  "namespace_of rs uid = (if uid = [] \<or> jc_user_mapping (rs_json rs) \<noteq> ''true'' then Some uid
     else smap_get uid (rs_ns_cache rs))"

lemma namespace_of_s [simp]:
  "namespace_of (rs\<lparr>rs_s := s\<rparr>) = namespace_of rs" "mailbox_uid box (rs\<lparr>rs_s := s\<rparr>) = mailbox_uid box rs"
  by (simp_all add: fun_eq_iff namespace_of_def mailbox_uid_def split: option.split)

lemma lookup_or_add_result:
  assumes "lookup_or_add E uid rs w = (r, ns, rs', w')" and "0 \<le> r"
  shows "rs_json rs' = rs_json rs \<and> rs_ms rs' = rs_ms rs \<and> rs_alt rs' = rs_alt rs \<and>
    st_io_ctx_created (rs_s rs') = st_io_ctx_created (rs_s rs) \<and> namespace_of rs' uid = Some ns"
proof -
  have v: "cf_config (dc_rados (config_view rs)) = rs_json rs"
    by (simp add: config_view_def rs_json_def)
  obtain found ns1 m1 w1 where l: "lookup_key (en_rados E) uid []
      \<lparr>nm_config = Some (config_view rs), nm_cache = rs_ns_cache rs\<rparr> w = (found, ns1, m1, w1)" by (metis prod_cases4)
  obtain cfg1 where 1: "nm_config m1 = Some cfg1" "cf_config (dc_rados cfg1) = rs_json rs"
    "dc_is_config_valid cfg1 = dc_is_config_valid (config_view rs)"
    "found \<Longrightarrow> if uid = [] \<or> \<not> is_user_mapping (dc_rados (config_view rs)) then ns1 = uid
       else smap_get uid (nm_cache m1) = Some ns1"
    "\<not> found \<Longrightarrow> uid \<noteq> [] \<and> (dc_is_config_valid (config_view rs) \<longrightarrow> is_user_mapping (dc_rados (config_view rs)))"
    using lookup_key_result [OF l] v by auto
  show ?thesis
  proof (cases found)
    case True
    then show ?thesis
      using assms l 1(1,2) 1(4) [OF True] v by (auto simp: lookup_or_add_def namespace_of_def is_user_mapping_def)
  next
    case False
    obtain g w2 where g: "dv_guid_generate (en_dovecot E) w1 = (g, w2)" by fastforce
    obtain added ns2 m2 w3 where a: "add_namespace_entry (en_rados E) uid ns1
        (Some (dv_guid_to_string (en_dovecot E) g)) m1 w2 = (added, ns2, m2, w3)" by (metis prod_cases4)
    from add_namespace_entry_result [OF a 1(1)] show ?thesis
      using assms l g a 1(2,3) 1(5) [OF False] False v
      by (auto simp: lookup_or_add_def namespace_of_def is_user_mapping_def split: if_splits)
  qed
qed

lemma open_user_ready:
  assumes "\<And>k w. fst (cc_conf_get C k w) \<le> 0" and "open_connection_user C p ip cn un cl st w = Some (r, cl', st', w')"
    and "conn_ok r"
  shows "storage_ready cl' st'"
proof (cases "storage_ready cl st")
  case False
  then obtain cl1 w1 where "create_connection C p ip cl1 st w1 = Some (r, cl', st', w')"
    using assms(2,3) by (auto simp: open_connection_user_def split: if_splits prod.splits)
  then show ?thesis
    using create_connection_ready [of C p ip cl1 st w1 cl' st' w'] create_connection_nonneg assms(1,3)
    by (cases r) (fastforce simp: storage_ready_def)+
qed (use assms(2) in \<open>auto simp: open_connection_user_def\<close>)

lemma client_settings_connected: "c_connected (read_plugin_ceph_client_settings box p cl) = c_connected cl"
proof -
  have "c_connected (fold (\<lambda>(k, v) cl. if length p < length k \<and> starts_with p k
          then set_config_option (drop (length p + 1) k) v cl else cl) envs cl) = c_connected cl" for envs
    by (induction envs arbitrary: cl) (simp_all add: case_prod_beta set_config_option_def)
  then show ?thesis by (simp add: read_plugin_ceph_client_settings_def split: option.split)
qed

lemma read_plugin_s [simp]: "rs_s (read_plugin_configuration E box rs) = rs_s rs"
  "rs_ms (read_plugin_configuration E box rs) = rs_ms rs"
  by (simp_all add: read_plugin_configuration_def case_prod_beta Let_def)

text \<open>Opening the connections of a storage that was not ready never answers that it was.\<close>

lemma open_connections_primary:
  assumes "open_connections E box False x = Some (r, x1)" and "\<not> storage_ready (x_cl x) (rs_s (x_rs x))"
    and "\<And>k w. fst (cc_conf_get (en_client E) k w) \<le> 0"
  shows "r \<le> 0 \<and> (0 \<le> r \<longrightarrow> storage_ready (x_cl x1) (rs_s (x_rs x1)))"
proof -
  let ?s0 = "(rs_s (x_rs x))\<lparr>st_wait_method := wait_method (x_rs x)\<rparr>"
  obtain ret p ip cn un cl1 s1 w1 where o: "open_connection_user (en_client E) p ip cn un (x_cl x) ?s0 (x_w x) = Some (ret, cl1, s1, w1)"
    and x1: "r = caught ret" "x_cl x1 = cl1" "rs_s (x_rs x1) = s1"
    using assms(1) by (auto simp: open_connections_def Let_def split: option.splits prod.splits)
  have "\<not> storage_ready (x_cl x) ?s0" using assms(2) by (simp add: storage_ready_def)
  then have "ret = Inr n \<Longrightarrow> n \<le> 0" for n
    using o create_connection_nonneg by (fastforce simp: open_connection_user_def split: if_splits prod.splits)
  then show ?thesis using open_user_ready [OF assms(3) o] x1 by (cases ret) auto
qed

text \<open>
  Property C17: opening the connection of a mailbox. When a storage that was not connected is opened
  with success, it is ready, a metadata module is chosen, and both the storage and its io context
  are in the namespace of the mailbox: the one stored for the user when users are mapped, the user
  name with its suffix (or the public namespace) otherwise.
\<close>

theorem open_selects_namespace:
  assumes "\<And>k w. fst (cc_conf_get (en_client E) k w) \<le> 0"
    and "rbox_open_rados_connection E box False x = Some (r, x')" and "0 \<le> r"
    and "\<not> storage_ready (x_cl x) (rs_s (x_rs x))"
  shows "storage_ready (x_cl x') (rs_s (x_rs x')) \<and> rs_ms (x_rs x') \<noteq> None \<and>
    ctx_ns (st_io_ctx (rs_s (x_rs x'))) = st_nspace (rs_s (x_rs x')) \<and>
    namespace_of (x_rs x') (mailbox_uid box (x_rs x')) = Some (st_nspace (rs_s (x_rs x')))"
proof -
  define x0 where "x0 = (if dc_is_config_valid (rs_config (x_rs x)) then x
               else x\<lparr>x_rs := read_plugin_configuration E box (x_rs x),
                       x_cl := read_plugin_ceph_client_settings box ''rbox_ceph_client'' (x_cl x)\<rparr>)"
  have nr: "\<not> storage_ready (x_cl x0) (rs_s (x_rs x0))"
    using assms(4) by (simp add: x0_def storage_ready_def client_settings_connected)
  obtain r1 x1 where o: "open_connections E box False x0 = Some (r1, x1)"
    using assms(2) by (auto simp: rbox_open_rados_connection_def x0_def [symmetric] split: option.splits)
  then have "r1 \<le> 0" and ready: "0 \<le> r1 \<Longrightarrow> storage_ready (x_cl x1) (rs_s (x_rs x1))"
    using open_connections_primary [OF o nr assms(1)] by auto
  then have r1: "r1 = 0"
    using assms(2,3) o by (auto simp: rbox_open_rados_connection_def x0_def [symmetric] Let_def split: if_splits)
  obtain r2 x2 where l: "load_config E x1 = Some (r2, x2)"
    and n: "open_namespace E box False r2 x2 = (r, x')"
    using assms(2) o r1 by (auto simp: rbox_open_rados_connection_def x0_def [symmetric] split: option.splits)
  have l2: "x_cl x2 = x_cl x1" "st_io_ctx_created (rs_s (x_rs x2)) = st_io_ctx_created (rs_s (x_rs x1))"
    using l by (auto simp: load_config_def split: option.splits prod.splits if_splits)
  let ?rs = "(x_rs x2)\<lparr>rs_ms := Some (create_metadata_storage (rs_json (x_rs x2)) (rs_ms (x_rs x2)))\<rparr>"
  obtain fd ns rs4 w3 where la: "lookup_or_add E (mailbox_uid box ?rs) ?rs (x_w x2) = (fd, ns, rs4, w3)" by (metis prod_cases4)
  have res: "0 \<le> fd" "x' = x2\<lparr>x_rs := rs4\<lparr>rs_s := st_set_namespace ns (rs_s rs4)\<rparr>, x_w := w3\<rparr>"
    using n la assms(3) by (auto simp: open_namespace_def Let_def split: if_splits)
  note f = lookup_or_add_result [OF la res(1)]
  have "mailbox_uid box ?rs = mailbox_uid box rs4"
    using f by (simp add: mailbox_uid_def split: option.split)
  moreover have "storage_ready (x_cl x1) (rs_s (x_rs x1))" using ready r1 by simp
  ultimately show ?thesis
    using f l2 by (simp add: res(2) storage_ready_def st_set_namespace_def set_namespace_def)
qed

text \<open>The libraries of the witnesses: a cluster with one pool, and a mailbox of the user \<open>u\<close>.\<close>

definition sample_client :: "'w client" where
  "sample_client = fixed_client [(''rados_osd_op_timeout'', ''30''), (''osd_max_write_size'', ''90''),
     (''osd_max_object_size'', ''100'')] [''mail_storage'', ''object_recovery'', ''alt'']"

definition sample_env :: "mem env" where
  "sample_env = \<lparr>en_json = flat_json, en_client = sample_client, en_rados = mem_rados,
     en_dovecot = fixed_dovecot ''guid'' (Some (''g'', ''oid'')) [], en_can_open = (\<lambda>_. True), en_behind = []\<rparr>"

definition sample_box :: rbox_mailbox where
  "sample_box = \<lparr>bx_name = ''INBOX'', bx_guid = ''box'', bx_owner = Some ''u'', bx_alt_dir = Some ''alt'',
     bx_creating = False, bx_inbox_user = True, bx_getenv = (\<lambda>_. None), bx_plugin_envs = None, bx_disable_reflink = False\<rparr>"

definition sample_start :: "mem rbox_state" where
  "sample_start = \<lparr>x_cl = initial_cluster [], x_rs = rbox_storage_alloc, x_w = []\<rparr>"

text \<open>The same with the settings of dovecot.\<close>

definition sample_configured :: "mem rbox_state" where
  "sample_configured = sample_start\<lparr>x_rs := rbox_storage_alloc\<lparr>
     rs_config := dc_set_config_valid True (rs_config rbox_storage_alloc)\<rparr>\<rparr>"

lemma sample_configuration:
  "read_plugin_configuration sample_env sample_box (x_rs sample_start) = x_rs sample_configured"
  "read_plugin_ceph_client_settings sample_box p (x_cl sample_start) = x_cl sample_configured"
  "\<not> dc_is_config_valid (rs_config (x_rs sample_start))"
    apply code_simp
   apply (simp add: read_plugin_ceph_client_settings_def sample_box_def sample_configured_def)
  apply code_simp
  done

text \<open>The same with the primary pool open.\<close>

definition sample_opened :: "mem rbox_state" where
  "sample_opened = \<lparr>x_cl = sample_cluster, x_rs = (x_rs sample_configured)\<lparr>rs_s := new_storage
    \<lparr>st_max_write_size := 90, st_max_object_size := 100,
     st_io_ctx := \<lparr>ctx_pool = ''mail_storage'', ctx_ns = []\<rparr>,
     st_recovery_ctx := \<lparr>ctx_pool = ''object_recovery'', ctx_ns = []\<rparr>,
     st_io_ctx_created := True, st_pool_name := ''mail_storage''\<rparr>\<rparr>, x_w = []\<rparr>"

lemma sample_open_connections: "open_connections sample_env sample_box False sample_configured = Some (0, sample_opened)"
  by code_simp

lemma sample_load_config:
  "\<exists>x. load_config sample_env sample_opened = Some (0, x) \<and> dc_is_config_valid (config_view (x_rs x)) \<and>
     \<not> is_user_mapping (dc_rados (config_view (x_rs x)))"
proof -
  let ?cfg = "config_view (x_rs sample_opened)"
  have "load_rados_config flat_json mem_rados ?cfg [] = Some (- ENOENT, ?cfg, [])" by code_simp
  moreover have s: "fst (save_default_rados_config flat_json mem_rados ?cfg []) = 0" by code_simp
  then have "fst (snd (save_default_rados_config flat_json mem_rados ?cfg [])) =
      ?cfg\<lparr>dc_rados := (dc_rados ?cfg)\<lparr>cf_config := (cf_config (dc_rados ?cfg))\<lparr>jc_valid := True\<rparr>\<rparr>\<rparr>"
    by (auto simp: save_default_rados_config_def Let_def split: prod.splits if_splits)
  moreover have "x_w sample_opened = []" "en_json sample_env = flat_json" "en_rados sample_env = mem_rados"
    by (simp_all add: sample_opened_def sample_env_def)
  moreover have "rc_valid (dc_dovecot ?cfg)" "\<not> is_user_mapping (dc_rados ?cfg)" by code_simp+
  ultimately show ?thesis
    using s by (simp add: load_config_def case_prod_beta config_view_def config_store_def dc_is_config_valid_def is_user_mapping_def)
qed

lemma sample_client_conf: "fst (cc_conf_get sample_client k w) \<le> 0"
  by (simp add: sample_client_def fixed_client_def split: option.splits)

lemma sample_opens: "\<exists>x. rbox_open_rados_connection sample_env sample_box False sample_start = Some (0, x)"
proof -
  obtain x where "load_config sample_env sample_opened = Some (0, x)" "dc_is_config_valid (config_view (x_rs x))"
    "\<not> is_user_mapping (dc_rados (config_view (x_rs x)))" using sample_load_config by blast
  moreover have "config_view (rs\<lparr>rs_ms := m\<rparr>) = config_view rs" for rs m by (simp add: config_view_def)
  moreover have "sample_start\<lparr>x_rs := x_rs sample_configured, x_cl := x_cl sample_configured\<rparr> = sample_configured"
    by (simp add: sample_configured_def)
  ultimately show ?thesis using sample_open_connections
    by (simp add: rbox_open_rados_connection_def sample_configuration open_namespace_def lookup_or_add_def lookup_key_def Let_def)
qed

theorem open_selects_namespace_witness:
  "\<exists>x. rbox_open_rados_connection sample_env sample_box False sample_start = Some (0, x) \<and>
     storage_ready (x_cl x) (rs_s (x_rs x)) \<and>
     namespace_of (x_rs x) (mailbox_uid sample_box (x_rs x)) = Some (st_nspace (rs_s (x_rs x)))"
proof -
  obtain x where o: "rbox_open_rados_connection sample_env sample_box False sample_start = Some (0, x)"
    using sample_opens by blast
  have "\<not> storage_ready (x_cl sample_start) (rs_s (x_rs sample_start))" by code_simp
  moreover have c: "fst (cc_conf_get (en_client sample_env) k w) \<le> 0" for k w
    using sample_client_conf by (simp add: sample_env_def)
  ultimately show ?thesis using open_selects_namespace [OF c o] o by simp
qed

text \<open>
  Destroying a storage gives up one reference more than it holds. A storage with an
  open primary pool holds one of the \<open>n\<close> references; after its destruction \<open>n - 2\<close> are left. So with
  two storages in use, destroying the first disconnects the process under the second.
\<close>

theorem destroy_takes_two_references:
  assumes "2 \<le> c_ref_count (x_cl x)" and "c_connected (x_cl x)" and "c_cluster (x_cl x)"
    and "st_io_ctx_created (rs_s (x_rs x))" and "\<not> st_io_ctx_created (rs_alt (x_rs x))"
  shows "\<exists>x'. rbox_storage_destroy E x = Some x' \<and> c_ref_count (x_cl x') = c_ref_count (x_cl x) - 2 \<and>
    (c_connected (x_cl x') \<longleftrightarrow> 2 < c_ref_count (x_cl x))"
  using assms by (auto simp: rbox_storage_destroy_def close_connection_def deinit_def Let_def)

theorem destroy_takes_two_references_witness:
  "\<exists>x'. rbox_storage_destroy sample_env (sample_start\<lparr>x_cl := sample_cluster\<lparr>c_ref_count := 2\<rparr>,
       x_rs := rbox_storage_alloc\<lparr>rs_s := sample_storage\<rparr>\<rparr>) = Some x' \<and> \<not> c_connected (x_cl x')"
  using destroy_takes_two_references [of "sample_start\<lparr>x_cl := sample_cluster\<lparr>c_ref_count := 2\<rparr>,
       x_rs := rbox_storage_alloc\<lparr>rs_s := sample_storage\<rparr>\<rparr>" sample_env]
  by (auto simp: sample_cluster_def sample_storage_def rbox_storage_alloc_def new_storage_def)

end
