(* ===== verification/Rbox_Rebuild.thy ===== *)
theory Rbox_Rebuild
  imports Rbox_Storage
begin

text \<open>
  Rebuilding the indexes of a user from the objects in the cluster
  (\<open>src/src/storage-rbox/rbox-sync-rebuild.cpp\<close>). All mails of the namespace are loaded once and
  grouped by the GUID of their mailbox; every mailbox then gets its mails appended to a new index,
  with new uids that are also written to the objects. Mails whose mailbox does not exist any more
  are given to the INBOX and picked up by a second pass.
\<close>

section \<open>Adding one mail\<close>

definition INT32_MAX :: "32 word" where "INT32_MAX = 0x7fffffff"

text \<open>
  The new record of the index. \<^const>\<open>None\<close>: the uid of the mail is missing or no number that
  \<open>std::stoi\<close> can hold, or the GUID is missing.
\<close>

definition add_index_record :: "'w dovecot \<Rightarrow> string \<Rightarrow> rados_mail \<Rightarrow> bool \<Rightarrow> 32 word \<Rightarrow> 'w \<Rightarrow> (int \<times> 'w) option" where
  "add_index_record D oi mail_obj alt_storage next_uid w =
     (let attrs = m_attrset mail_obj; (seq, w1) = dv_append D next_uid w in
      case get_metadata RBOX_METADATA_MAIL_UID attrs of None \<Rightarrow> None
      | Some xattr_mail_uid \<Rightarrow>
        (case stoi (c_str xattr_mail_uid) of Inl _ \<Rightarrow> None
         | Inr n \<Rightarrow>
           let uid = word_of_int n :: 32 word;
               w2 = (if uid \<noteq> INT32_MAX \<and> \<not> m_lost_object mail_obj then dv_rebuild_metadata D seq uid w1 else w1) in
           case dv_guid_from_string D oi of None \<Rightarrow> Some (-1, w2)
           | Some oid \<Rightarrow>
             (case get_metadata RBOX_METADATA_GUID attrs of None \<Rightarrow> None
              | Some xattr_guid \<Rightarrow>
                (case dv_guid_from_uuid_string D (c_str xattr_guid) of None \<Rightarrow> Some (-1, w2)
                 | Some guid \<Rightarrow>
                   let w3 = dv_update_ext D seq guid oid w2 in
                   Some (0, if alt_storage then dv_update_flags D seq MODIFY_ADD RBOX_INDEX_FLAG_ALT w3 else w3)))))"

definition rbox_sync_add_object :: "'w env \<Rightarrow> rbox_storage \<Rightarrow> string \<Rightarrow> rados_mail \<Rightarrow> bool \<Rightarrow> 32 word \<Rightarrow> 'w \<Rightarrow>
    (int \<times> 'w) option" where
  "rbox_sync_add_object E rs oi mail_obj alt_storage next_uid w =
     (case add_index_record (en_dovecot E) oi mail_obj alt_storage next_uid w of None \<Rightarrow> None
      | Some (ret, w1) \<Rightarrow>
          if ret < 0 then Some (ret, w1)
          else case rs_ms rs of None \<Rightarrow> None
          | Some kind \<Rightarrow>
            (case module_update (en_json E) (en_rados E) (rs_json rs) kind (rs_ms_io rs) (m_oid mail_obj)
                    [convert_uint RBOX_METADATA_MAIL_UID next_uid] w1 of
               None \<Rightarrow> None | Some (_, w2) \<Rightarrow> Some (0, w2)))"

section \<open>Loading the mails\<close>

text \<open>Objects whose metadata cannot be loaded or are not valid are skipped.\<close>

fun load_mails :: "'w env \<Rightarrow> rbox_storage \<Rightarrow> string list \<Rightarrow> rados_mail list smap \<Rightarrow> 'w \<Rightarrow>
    (rados_mail list smap \<times> 'w) option" where
  "load_mails E rs [] rados_mails w = Some (rados_mails, w)"
| "load_mails E rs (oid # oids) rados_mails w =
     (case rs_ms rs of None \<Rightarrow> None
      | Some kind \<Rightarrow>
        (case module_load (en_json E) (en_rados E) (rs_json rs) kind (rs_ms_io rs) (new_rados_mail\<lparr>m_oid := oid\<rparr>) w of
           None \<Rightarrow> None
         | Some (ret, mail, w1) \<Rightarrow>
             if ret < 0 \<or> \<not> validate_metadata (m_attrset mail) then load_mails E rs oids rados_mails w1
             else case get_metadata RBOX_METADATA_MAILBOX_GUID (m_attrset mail) of None \<Rightarrow> None
             | Some g \<Rightarrow>
                 load_mails E rs oids
                   (smap_put (c_str g)
                      ((case smap_get (c_str g) rados_mails of None \<Rightarrow> [] | Some ms \<Rightarrow> ms) @ [mail]) rados_mails) w1))"

definition load_rados_mail_metadata :: "'w env \<Rightarrow> bool \<Rightarrow> string set \<Rightarrow> rbox_storage \<Rightarrow> 'w \<Rightarrow>
    (rados_mail list smap \<times> rbox_storage \<times> 'w) option" where
  "load_rados_mail_metadata E alt_storage mail_list rs w =
     (let rs1 = (if alt_storage \<and> mail_list \<noteq> {} then rs\<lparr>rs_ms_alt := True\<rparr> else rs) in
      map_option (\<lambda>(ms, w1). (ms, rs1, w1)) (load_mails E rs1 (sorted_list_of_set mail_list) [] w))"

section \<open>Rebuilding one mailbox\<close>

record rebuild_ctx =
  rb_alt_storage :: bool
  rb_next_uid :: "32 word"

text \<open>The mails of one mailbox; the loop ends at the first mail that cannot be added.\<close>

fun rebuild_mails :: "'w env \<Rightarrow> rbox_storage \<Rightarrow> rados_mail list \<Rightarrow> rebuild_ctx \<Rightarrow> 'w \<Rightarrow>
    (int \<times> rados_mail list \<times> rebuild_ctx \<times> 'w) option" where
  "rebuild_mails E rs [] ctx w = Some (0, [], ctx, w)"
| "rebuild_mails E rs (m # ms) ctx w =
     (if m_restored m then
        map_option (\<lambda>(r, ms', ctx', w'). (r, m # ms', ctx', w')) (rebuild_mails E rs ms ctx w)
      else case rbox_sync_add_object E rs (m_oid m) m (rb_alt_storage ctx) (rb_next_uid ctx) w of None \<Rightarrow> None
      | Some (ret, w1) \<Rightarrow>
          if ret < 0 then Some (ret, m # ms, ctx, w1)
          else map_option (\<lambda>(r, ms', ctx', w'). (r, m\<lparr>m_restored := True, m_index_ref := True\<rparr> # ms', ctx', w'))
                 (rebuild_mails E rs ms (ctx\<lparr>rb_next_uid := rb_next_uid ctx + 1\<rparr>) w1))"

definition rbox_sync_rebuild_entry :: "'w env \<Rightarrow> rbox_mailbox \<Rightarrow> rbox_storage \<Rightarrow> rados_mail list smap \<Rightarrow> rebuild_ctx \<Rightarrow> 'w \<Rightarrow>
    (int \<times> rados_mail list smap \<times> rebuild_ctx \<times> 'w) option" where
  "rbox_sync_rebuild_entry E box rs rados_mails ctx w =
     (case dv_header (en_dovecot E) w of None \<Rightarrow> None
      | Some hdr \<Rightarrow>
        let ctx1 = (if rb_next_uid ctx = INT32_MAX
                    then ctx\<lparr>rb_next_uid := (if ih_next_uid hdr \<noteq> 0 then ih_next_uid hdr else 1)\<rparr> else ctx);
            mailbox_guid = dv_guid_to_string (en_dovecot E) (bx_guid box) in
        case smap_get mailbox_guid rados_mails of None \<Rightarrow> Some (0, rados_mails, ctx1, w)
        | Some ms \<Rightarrow>
          (case rebuild_mails E rs ms ctx1 w of None \<Rightarrow> None
           | Some (ret, ms1, ctx2, w1) \<Rightarrow>
               let mails1 = smap_put mailbox_guid ms1 rados_mails in
               if ret < 0 then Some (-1, mails1, ctx2, dv_set_deleted (en_dovecot E) w1)
               else Some (ret, mails1, ctx2, w1)))"

definition rbox_sync_set_uidvalidity :: "'w dovecot \<Rightarrow> 'w \<Rightarrow> 'w option" where
  "rbox_sync_set_uidvalidity D w =
     (case dv_header D w of None \<Rightarrow> None
      | Some hdr \<Rightarrow>
        let (uid_validity, w1) = (if ih_uid_validity hdr = 0 then dv_uidvalidity_next D w else (ih_uid_validity hdr, w))
        in Some (dv_update_header D Header_uid_validity (ucast uid_validity) w1))"

definition rbox_sync_update_header :: "'w dovecot \<Rightarrow> rbox_mailbox \<Rightarrow> 'w \<Rightarrow> 'w" where
  "rbox_sync_update_header D box w =
     (case rbox_read_header D box w of (ret, h, _, w1) \<Rightarrow>
        let hdr = (if ret < 0 then zero_header else case h of None \<Rightarrow> zero_header | Some h \<Rightarrow> h);
            (guid, w2) = (if rh_mailbox_guid hdr = zero_guid then dv_guid_generate D w1 else (rh_mailbox_guid hdr, w1));
            n = rh_rebuild_count hdr + 1
        in dv_set_ext_init_data D (header_bytes (hdr\<lparr>rh_mailbox_guid := guid, rh_rebuild_count := (if n = 0 then 1 else n)\<rparr>)) w2)"

definition rbox_sync_index_rebuild_objects :: "'w env \<Rightarrow> rbox_mailbox \<Rightarrow> rbox_storage \<Rightarrow> rados_mail list smap \<Rightarrow> 'w \<Rightarrow>
    (int \<times> rados_mail list smap \<times> 'w) option" where
  "rbox_sync_index_rebuild_objects E box rs rados_mails w =
     (case rbox_sync_set_uidvalidity (en_dovecot E) w of None \<Rightarrow> None
      | Some w1 \<Rightarrow>
        (case rbox_sync_rebuild_entry E box rs rados_mails \<lparr>rb_alt_storage = False, rb_next_uid = INT32_MAX\<rparr> w1 of
           None \<Rightarrow> None
         | Some (ret, mails1, _, w2) \<Rightarrow> Some (ret, mails1, rbox_sync_update_header (en_dovecot E) box w2)))"

text \<open>Without \<open>force\<close>, a mailbox that another process has rebuilt meanwhile is left alone.\<close>

definition rbox_sync_index_rebuild :: "'w env \<Rightarrow> rbox_mailbox \<Rightarrow> bool \<Rightarrow> rados_mail list smap \<Rightarrow> 'w rbox_state \<Rightarrow>
    (int \<times> rados_mail list smap \<times> 'w rbox_state) option" where
  "rbox_sync_index_rebuild E box force rados_mails x =
     (let D = en_dovecot E; (ret, h, _, w1) = (if force then (-1, None, False, x_w x) else rbox_read_header D box (x_w x));
          count = (case h of None \<Rightarrow> 0 | Some h \<Rightarrow> rh_rebuild_count h);
          rs1 = (x_rs x)\<lparr>rs_rebuild_count := 0\<rparr> in
      if ret = 0 \<and> count \<noteq> rs_rebuild_count (x_rs x) \<and> count \<noteq> 0
      then Some (0, rados_mails, x\<lparr>x_rs := rs1, x_w := w1\<rparr>)
      else case rbox_sync_index_rebuild_objects E box (x_rs x) rados_mails (dv_rebuild_init D w1) of None \<Rightarrow> None
      | Some (ret, mails1, w2) \<Rightarrow>
          let w3 = dv_rebuild_deinit D w2;
              (ret1, w4) = (if ret < 0 then (ret, dv_trans_rollback D w3) else dv_trans_commit D w3)
          in Some (ret1, mails1, x\<lparr>x_rs := rs1, x_w := w4\<rparr>))"

section \<open>All mailboxes\<close>

text \<open>
  A namespace of the user as dovecot lists it: its mailboxes, and whether the listing ended well.
  \<open>ni_box\<close> holds the settings its mailboxes share.
\<close>

record mailbox_info =
  mi_vname :: string
  mi_selectable :: bool
  mi_own_storage :: bool
  mi_virtual :: bool

record namespace_info =
  ni_mailboxes :: "mailbox_info list"
  ni_list_ok :: bool
  ni_box :: rbox_mailbox

text \<open>
  The objects of the namespace by the configured method: 1 searches in parallel, 2 reads the ceph
  index, anything else lists the pool. \<open>garbage\<close> is what uninitialised variables hold.
\<close>

definition search_mails :: "'w env \<Rightarrow> 32 word \<Rightarrow> 'w rbox_state \<Rightarrow> (string set \<times> 'w rbox_state) option" where
  "search_mails E garbage x =
     (let rs = x_rs x; R = en_rados E in
      case get_object_search_method (rs_config rs) of Inl _ \<Rightarrow> None
      | Inr search \<Rightarrow>
          if search = 1 then
            case get_object_search_threads (rs_config rs) of Inl _ \<Rightarrow> None
            | Inr threads \<Rightarrow>
              (case find_mails_async (en_client E) R garbage (Some (convert_str RBOX_METADATA_ORIG_MAILBOX ''INBOX''))
                      (st_pool_name (rs_s rs)) threads (x_cl x) (rs_s rs) (x_w x) of None \<Rightarrow> None
               | Some (oids, cl1, w1) \<Rightarrow> Some (oids, x\<lparr>x_cl := cl1, x_w := w1\<rparr>))
          else if search = 2 then
            (case ceph_index_read R (rs_s rs) (uint garbage) (en_behind E) (x_w x) of (oids, w1) \<Rightarrow> Some (oids, x\<lparr>x_w := w1\<rparr>))
          else Some (set (find_mails R (x_cl x) (rs_s rs) None (x_w x)), x))"

text \<open>The oids of the mails that were loaded; with the ceph index they become its new content.\<close>

definition loaded_oids :: "rados_mail list smap \<Rightarrow> string set" where
  "loaded_oids rados_mails = set (map m_oid (concat (map snd rados_mails)))"

definition load_all_mails :: "'w env \<Rightarrow> 32 word \<Rightarrow> 'w rbox_state \<Rightarrow> (rados_mail list smap \<times> 'w rbox_state) option" where
  "load_all_mails E garbage x =
     (case search_mails E garbage x of None \<Rightarrow> None
      | Some (mail_list, x1) \<Rightarrow>
        (case load_rados_mail_metadata E False mail_list (x_rs x1) (x_w x1) of None \<Rightarrow> None
         | Some (mails, rs2, w2) \<Rightarrow>
             let w3 = (if get_object_search_method (rs_config rs2) = Inr 2
                       then snd (ceph_index_overwrite (en_rados E) (rs_s rs2) (loaded_oids mails) w2) else w2)
             in Some (mails, x1\<lparr>x_rs := rs2, x_w := w3\<rparr>)))"

fun repair_mailboxes :: "'w env \<Rightarrow> 32 word \<Rightarrow> namespace_info \<Rightarrow> mailbox_info list \<Rightarrow> bool \<Rightarrow> int \<Rightarrow> rados_mail list smap \<Rightarrow>
    'w rbox_state \<Rightarrow> (int \<times> rados_mail list smap \<times> 'w rbox_state) option" where
  "repair_mailboxes E garbage ns [] force ret rados_mails x =
     Some (if ni_list_ok ns then ret else -1, rados_mails, x)"
| "repair_mailboxes E garbage ns (info # infos) force ret rados_mails x =
     (if \<not> mi_selectable info then repair_mailboxes E garbage ns infos force ret rados_mails x
      else if \<not> mi_own_storage info \<or> mi_virtual info then Some (0, rados_mails, x)
      else
        let x0 = x\<lparr>x_rs := read_plugin_configuration E (ni_box ns) (x_rs x)\<rparr> in
        case dv_mailbox_open (en_dovecot E) (mi_vname info) (x_w x0) of (opened, guid, w1) \<Rightarrow>
          let x1 = x0\<lparr>x_w := w1\<rparr>; box = (ni_box ns)\<lparr>bx_name := mi_vname info, bx_guid := guid\<rparr> in
          if opened < 0 then Some (-1, rados_mails, x1)
          else
            case (if rados_mails \<noteq> [] then Some (Inr (rados_mails, x1))
                  else case rbox_open_rados_connection E box False x1 of None \<Rightarrow> None
                    | Some (r, x2) \<Rightarrow> if r < 0 then Some (Inl x2) else map_option Inr (load_all_mails E garbage x2)) of
              None \<Rightarrow> None
            | Some (Inl x2) \<Rightarrow> Some (-1, rados_mails, x2)
            | Some (Inr (mails, x2)) \<Rightarrow>
                (case rbox_sync_index_rebuild E box force mails x2 of None \<Rightarrow> None
                 | Some (ret1, mails1, x3) \<Rightarrow> repair_mailboxes E garbage ns infos force ret1 mails1 x3))"

definition repair_namespace :: "'w env \<Rightarrow> 32 word \<Rightarrow> namespace_info \<Rightarrow> bool \<Rightarrow> rados_mail list smap \<Rightarrow>
    'w rbox_state \<Rightarrow> (int \<times> rados_mail list smap \<times> 'w rbox_state) option" where
  "repair_namespace E garbage ns force rados_mails x =
     repair_mailboxes E garbage ns (ni_mailboxes ns) force 0 rados_mails x"

fun repair_all :: "'w env \<Rightarrow> 32 word \<Rightarrow> namespace_info list \<Rightarrow> bool \<Rightarrow> rados_mail list smap \<Rightarrow> 'w rbox_state \<Rightarrow>
    (rados_mail list smap \<times> 'w rbox_state) option" where
  "repair_all E garbage [] force rados_mails x = Some (rados_mails, x)"
| "repair_all E garbage (ns # nss) force rados_mails x =
     (case repair_namespace E garbage ns force rados_mails x of None \<Rightarrow> None
      | Some (_, mails1, x1) \<Rightarrow> repair_all E garbage nss force mails1 x1)"

section \<open>Mails without a mailbox\<close>

fun find_inbox_loop :: "'w dovecot \<Rightarrow> namespace_info \<Rightarrow> mailbox_info list \<Rightarrow> int \<Rightarrow> string \<Rightarrow> 'w \<Rightarrow> int \<times> string \<times> 'w" where
  "find_inbox_loop D ns [] ret mailbox_guid w = (if ni_list_ok ns then ret else -1, mailbox_guid, w)"
| "find_inbox_loop D ns (info # infos) ret mailbox_guid w =
     (if \<not> mi_selectable info then find_inbox_loop D ns infos ret mailbox_guid w
      else if mi_virtual info then (-1, mailbox_guid, w)
      else case dv_mailbox_open D (mi_vname info) w of (opened, guid, w1) \<Rightarrow>
        if opened < 0 then (-1, mailbox_guid, w1)
        else if mi_vname info = ''INBOX'' then find_inbox_loop D ns infos 0 (dv_guid_to_string D guid) w1
        else find_inbox_loop D ns infos ret mailbox_guid w1)"

definition find_inbox_mailbox_guid :: "'w dovecot \<Rightarrow> namespace_info \<Rightarrow> string \<Rightarrow> 'w \<Rightarrow> int \<times> string \<times> 'w" where
  "find_inbox_mailbox_guid D ns mailbox_guid w = find_inbox_loop D ns (ni_mailboxes ns) (-1) mailbox_guid w"

fun find_default_mailbox_guid :: "'w dovecot \<Rightarrow> namespace_info list \<Rightarrow> string \<Rightarrow> 'w \<Rightarrow> int \<times> string \<times> 'w" where
  "find_default_mailbox_guid D [] mailbox_guid w = (-1, mailbox_guid, w)"
| "find_default_mailbox_guid D (ns # nss) mailbox_guid w =
     (case find_inbox_mailbox_guid D ns mailbox_guid w of (r, g, w1) \<Rightarrow>
        if r = 0 then (0, g, w1) else find_default_mailbox_guid D nss g w1)"

text \<open>The mails that no mailbox took are written over to the INBOX; a failed write is only logged.\<close>

definition reassign_op :: "string \<Rightarrow> write_op" where
  "reassign_op guid = metadata_ops [convert_int RBOX_METADATA_MAIL_UID INT32_MAX, convert_str RBOX_METADATA_MAILBOX_GUID guid]"

definition unassigned :: "rados_mail list smap \<Rightarrow> rados_mail list" where
  "unassigned rados_mails = filter (\<lambda>m. \<not> m_restored m) (concat (map snd rados_mails))"

definition reassign :: "'w rados \<Rightarrow> io_ctx \<Rightarrow> string \<Rightarrow> rados_mail list \<Rightarrow> 'w \<Rightarrow> 'w" where
  "reassign R io guid ms w = fold (\<lambda>m w. snd (rd_operate R io (m_oid m) (reassign_op guid) w)) ms w"

function rbox_storage_rebuild_in_context :: "'w env \<Rightarrow> 32 word \<Rightarrow> namespace_info list \<Rightarrow> bool \<Rightarrow> bool \<Rightarrow> 'w rbox_state \<Rightarrow>
    (int \<times> 'w rbox_state) option" where
  "rbox_storage_rebuild_in_context E garbage nss force firstTry x =
     (case repair_all E garbage nss force [] x of None \<Rightarrow> None
      | Some (mails, x1) \<Rightarrow>
          if unassigned mails = [] then Some (0, x1)
          else case find_default_mailbox_guid (en_dovecot E) nss [] (x_w x1) of (r, guid, w2) \<Rightarrow>
            if r < 0 then Some (0, x1\<lparr>x_w := w2\<rparr>)
            else
              let x2 = x1\<lparr>x_w := reassign (en_rados E) (st_io_ctx (rs_s (x_rs x1))) guid (unassigned mails) w2\<rparr> in
              if firstTry then rbox_storage_rebuild_in_context E garbage nss force False x2
              else Some (-1, x2))"
  by pat_completeness auto
termination
  by (relation "measure (\<lambda>(_, _, _, _, firstTry, _). if firstTry then 1 else 0)") auto

section \<open>Lemmas\<close>

text \<open>The object of a mail after its new uid was written.\<close>

definition with_uid :: "32 word \<Rightarrow> robj \<Rightarrow> robj" where
  "with_uid uid ob = ob\<lparr>o_xattrs := smap_put ''U'' (md_bl (convert_uint RBOX_METADATA_MAIL_UID uid)) (o_xattrs ob)\<rparr>"

lemma add_index_record_view:
  assumes "law_dovecot D V" and "add_index_record D oi m alt uid w = Some (r, w')"
  shows "V w' = V w"
proof -
  obtain seq w1 where a: "dv_append D uid w = (seq, w1)" by fastforce
  then have "V w1 = V w" using law_dovecotD [OF assms(1)] by (metis snd_conv)
  then show ?thesis
    using assms(2) a law_dovecotD [OF assms(1)]
    by (auto simp: add_index_record_def Let_def split: option.splits sum.splits)
qed

lemma add_object_writes_uid:
  assumes "law_dovecot (en_dovecot E) V" and "law_aio_operate (en_rados E) V" and "aio_succeeds (en_rados E)"
    and "rs_ms rs = Some Module_Default"
    and "rbox_sync_add_object E rs oi m alt uid w = Some (r, w')" and "0 \<le> r"
  shows "\<exists>t. V w' = (V w)(okey (rs_ms_io rs) (m_oid m) \<mapsto> with_uid uid (touched t (V w) (okey (rs_ms_io rs) (m_oid m))))"
proof -
  let ?op = "metadata_ops [convert_uint RBOX_METADATA_MAIL_UID uid]"
  obtain r0 w1 r1 cr where i: "add_index_record (en_dovecot E) oi m alt uid w = Some (r0, w1)"
    and o: "rd_aio_operate (en_rados E) (rs_ms_io rs) (m_oid m) ?op w1 = (r1, cr, w')"
    using assms(4-6)
    by (auto simp: rbox_sync_add_object_def module_update_def default_update_metadata_def not_less
        split: option.splits prod.splits if_splits)
  then have v1: "V w1 = V w" using add_index_record_view [OF assms(1)] by blast
  have "r1 = 0" "cr = 0" using assms(3) o unfolding aio_succeeds_def by blast+
  then obtain t where "V w' = (V w1)(okey (rs_ms_io rs) (m_oid m) \<mapsto>
      apply_op (V w1) ?op (touched t (V w1) (okey (rs_ms_io rs) (m_oid m))))"
    using assms(2) o unfolding law_aio_operate_def by fastforce
  then show ?thesis using v1
    by (auto simp: metadata_ops_def with_uid_def convert_uint_def Let_def)
qed

definition restored :: "rados_mail \<Rightarrow> rados_mail" where
  "restored m = m\<lparr>m_restored := True, m_index_ref := True\<rparr>"

text \<open>A sequence of uids written to objects, and what distinct objects hold afterwards.\<close>

fun uid_writes :: "io_ctx \<Rightarrow> (string \<times> 32 word) list \<Rightarrow> (obj_key \<rightharpoonup> robj) \<Rightarrow> (obj_key \<rightharpoonup> robj) \<Rightarrow> bool" where
  "uid_writes io [] v v' \<longleftrightarrow> v' = v"
| "uid_writes io ((oid, uid) # l) v v' \<longleftrightarrow>
     (\<exists>t. uid_writes io l (v(okey io oid \<mapsto> with_uid uid (touched t v (okey io oid)))) v')"

lemma uid_writes_result:
  assumes "uid_writes io l v v'" and "distinct (map fst l)"
  shows "(\<forall>i < length l. \<exists>t. v' (okey io (fst (l ! i))) = Some (with_uid (snd (l ! i)) (touched t v (okey io (fst (l ! i)))))) \<and>
    (\<forall>k. k \<notin> okey io ` fst ` set l \<longrightarrow> v' k = v k)"
  using assms
proof (induction l arbitrary: v)
  case (Cons p l)
  obtain oid uid where p: "p = (oid, uid)" by fastforce
  let ?k = "okey io oid"
  obtain t where w: "uid_writes io l (v(?k \<mapsto> with_uid uid (touched t v ?k))) v'" using Cons.prems(1) p by auto
  have "distinct (map fst l)" using Cons.prems(2) by simp
  note ih = Cons.IH [OF w this]
  have other: "okey io (fst q) \<noteq> ?k" if "q \<in> set l" for q
    using Cons.prems(2) that p by (auto simp: okey_def)
  have "\<exists>t. v' (okey io (fst ((p # l) ! i))) = Some (with_uid (snd ((p # l) ! i)) (touched t v (okey io (fst ((p # l) ! i)))))"
    if i: "i < length (p # l)" for i
  proof (cases i)
    case 0
    have "?k \<notin> okey io ` fst ` set l" using other by fastforce
    then have "v' ?k = Some (with_uid uid (touched t v ?k))" using ih [THEN conjunct2, rule_format, of ?k] by simp
    then show ?thesis using 0 p by auto
  next
    case (Suc j)
    then have "l ! j \<in> set l" using i by simp
    then have "touched t' (v(?k \<mapsto> ob)) (okey io (fst (l ! j))) = touched t' v (okey io (fst (l ! j)))" for t' ob
      using other by (simp add: touched_def obj_or_new_def)
    then show ?thesis using ih [THEN conjunct1, rule_format, of j] Suc i by simp
  qed
  then show ?case using ih p by auto
qed simp

definition uids_from :: "32 word \<Rightarrow> nat \<Rightarrow> 32 word list" where
  "uids_from uid n = map (\<lambda>i. uid + of_nat i) [0 ..< n]"

lemma uids_from_Suc: "uids_from uid (Suc n) = uid # uids_from (uid + 1) n"
  by (simp add: uids_from_def upt_conv_Cons map_Suc_upt [symmetric] add.assoc o_def del: upt_Suc)

lemma rebuild_mails_result:
  assumes "law_dovecot (en_dovecot E) V" and "law_aio_operate (en_rados E) V" and "aio_succeeds (en_rados E)"
    and "rs_ms rs = Some Module_Default"
    and "rebuild_mails E rs ms ctx w = Some (r, ms', ctx', w')" and "0 \<le> r" and "\<forall>m \<in> set ms. \<not> m_restored m"
  shows "ms' = map restored ms \<and> rb_next_uid ctx' = rb_next_uid ctx + of_nat (length ms) \<and>
    uid_writes (rs_ms_io rs) (zip (map m_oid ms) (uids_from (rb_next_uid ctx) (length ms))) (V w) (V w')"
  using assms(5-7)
proof (induction ms arbitrary: ctx w ms')
  case Nil
  then show ?case by simp
next
  case (Cons m ms)
  let ?io = "rs_ms_io rs" and ?ctx = "ctx\<lparr>rb_next_uid := rb_next_uid ctx + 1\<rparr>"
  obtain r1 w1 ms1 where add: "rbox_sync_add_object E rs (m_oid m) m (rb_alt_storage ctx) (rb_next_uid ctx) w = Some (r1, w1)"
      "0 \<le> r1" and rest: "rebuild_mails E rs ms ?ctx w1 = Some (r, ms1, ctx', w')" "ms' = restored m # ms1"
    using Cons.prems by (auto simp: restored_def split: option.splits if_splits)
  obtain t where v1: "V w1 = (V w)(okey ?io (m_oid m) \<mapsto> with_uid (rb_next_uid ctx) (touched t (V w) (okey ?io (m_oid m))))"
    using add_object_writes_uid [OF assms(1-4) add] by blast
  have "ms1 = map restored ms \<and> rb_next_uid ctx' = rb_next_uid ctx + 1 + of_nat (length ms) \<and>
      uid_writes ?io (zip (map m_oid ms) (uids_from (rb_next_uid ctx + 1) (length ms))) (V w1) (V w')"
    using Cons.IH [OF rest(1) Cons.prems(2)] Cons.prems(3) by simp
  then show ?case using v1 rest(2) by (auto simp: uids_from_Suc add.assoc)
qed

text \<open>What the extension of the record of a mail holds, and the records of rebuilt mails.\<close>

definition record_ext :: "'w dovecot \<Rightarrow> rados_mail \<Rightarrow> (bytes \<times> bytes) option" where
  "record_ext D m = (case (get_metadata RBOX_METADATA_GUID (m_attrset m), dv_guid_from_string D (m_oid m)) of
     (Some g, Some oid) \<Rightarrow> map_option (\<lambda>guid. (guid, oid)) (dv_guid_from_uuid_string D (c_str g))
   | _ \<Rightarrow> None)"

lemma add_index_record_index:
  assumes "law_index D I" and "add_index_record D (m_oid m) m alt uid w = Some (r, w')" and "0 \<le> r"
    and "length (I w) + 1 < 2 ^ 32"
  shows "I w' = I w @ [(uid, record_ext D m)] \<and> record_ext D m \<noteq> None"
proof -
  obtain seq w1 where a: "dv_append D uid w = (seq, w1)" by fastforce
  then have "I w1 = I w @ [(uid, None)]" "seq = of_nat (Suc (length (I w)))"
    using assms(1) unfolding law_index_def by fastforce+
  moreover from this have "unat seq = Suc (length (I w))"
    using assms(4) unat_word_of_nat_less [where 'a = 32, of "Suc (length (I w))"] by simp
  ultimately have u: "I (dv_update_ext D seq g oid w2) = I w @ [(uid, Some (g, oid))]" if "I w2 = I w1" for g oid w2
    using assms(1) that unfolding law_index_def by simp
  have keep: "I (dv_update_flags D s m f w2) = I w2" "I (dv_rebuild_metadata D s v w2) = I w2" for s m f v w2
    using assms(1) unfolding law_index_def by simp_all
  show ?thesis
    using assms(2,3) a u keep
    by (auto simp: add_index_record_def record_ext_def Let_def split: option.splits sum.splits if_splits)
qed

lemma rebuild_mails_index:
  assumes "law_index (en_dovecot E) I" and "rs_ms rs = Some Module_Default"
    and "\<And>c oid op w. I (snd (snd (rd_aio_operate (en_rados E) c oid op w))) = I w"
    and "rebuild_mails E rs ms ctx w = Some (r, ms', ctx', w')" and "0 \<le> r" and "\<forall>m \<in> set ms. \<not> m_restored m"
    and "length (I w) + length ms < 2 ^ 32"
  shows "ms' = map restored ms \<and> rb_next_uid ctx' = rb_next_uid ctx + of_nat (length ms) \<and>
    (\<forall>m \<in> set ms. record_ext (en_dovecot E) m \<noteq> None) \<and>
    I w' = I w @ zip (uids_from (rb_next_uid ctx) (length ms)) (map (record_ext (en_dovecot E)) ms)"
  using assms(4-7)
proof (induction ms arbitrary: ctx w ms')
  case (Cons m ms)
  let ?ctx = "ctx\<lparr>rb_next_uid := rb_next_uid ctx + 1\<rparr>"
  obtain r1 w1 ms1 where add: "rbox_sync_add_object E rs (m_oid m) m (rb_alt_storage ctx) (rb_next_uid ctx) w = Some (r1, w1)" "0 \<le> r1"
      and rest: "rebuild_mails E rs ms ?ctx w1 = Some (r, ms1, ctx', w')" "ms' = restored m # ms1"
    using Cons.prems by (auto simp: restored_def split: option.splits if_splits)
  then obtain r0 w0 where "add_index_record (en_dovecot E) (m_oid m) m (rb_alt_storage ctx) (rb_next_uid ctx) w = Some (r0, w0)" "0 \<le> r0"
      and "I w1 = I w0"
    using assms(2,3)
    by (auto simp: rbox_sync_add_object_def module_update_def default_update_metadata_def split_beta not_less
        split: option.splits if_splits)
  then have i: "I w1 = I w @ [(rb_next_uid ctx, record_ext (en_dovecot E) m)]" "record_ext (en_dovecot E) m \<noteq> None"
    using add_index_record_index [OF assms(1)] Cons.prems(4) by fastforce+
  have "ms1 = map restored ms \<and> rb_next_uid ctx' = rb_next_uid ctx + 1 + of_nat (length ms) \<and>
      (\<forall>m \<in> set ms. record_ext (en_dovecot E) m \<noteq> None) \<and>
      I w' = I w1 @ zip (uids_from (rb_next_uid ctx + 1) (length ms)) (map (record_ext (en_dovecot E)) ms)"
    using Cons.IH [OF rest(1) Cons.prems(2)] Cons.prems(3,4) i(1) by simp
  then show ?case using i rest(2) by (auto simp: uids_from_Suc add.assoc)
qed (simp add: uids_from_def)

section \<open>Properties\<close>

text \<open>
  Property C12: rebuilding a mailbox gives its mails consecutive uids. When it succeeds, the new index has one more record for
  every mail, in order, with the uids \<open>first\<close>, \<open>first + 1\<close> and so on and with the GUID and object id of the mail in its
  extension; every mail is marked as restored and the next free uid follows the last one. With the default metadata module, and
  when the cluster executes the updates, the object of the i-th mail carries the uid \<open>first + i\<close> as well and is
  otherwise as before, and no other object has changed. A failed update of an object is not noticed: the index is rebuilt as above.
\<close>

theorem rebuild_assigns_uids:
  assumes "law_dovecot (en_dovecot E) V" and "law_aio_operate (en_rados E) V"
    and "law_index (en_dovecot E) I" and "\<And>c oid op w. I (snd (snd (rd_aio_operate (en_rados E) c oid op w))) = I w"
    and "rs_ms rs = Some Module_Default" and "dv_header (en_dovecot E) w = Some hdr" and "ih_next_uid hdr \<noteq> 0"
    and "smap_get (dv_guid_to_string (en_dovecot E) (bx_guid box)) mails = Some ms"
    and "distinct (map m_oid ms)" and "\<forall>m \<in> set ms. \<not> m_restored m" and "length (I w) + length ms < 2 ^ 32"
    and "rbox_sync_rebuild_entry E box rs mails \<lparr>rb_alt_storage = alt, rb_next_uid = INT32_MAX\<rparr> w = Some (0, mails', ctx', w')"
  shows "smap_get (dv_guid_to_string (en_dovecot E) (bx_guid box)) mails' = Some (map restored ms) \<and>
    rb_next_uid ctx' = ih_next_uid hdr + of_nat (length ms) \<and>
    length (I w') = length (I w) + length ms \<and> take (length (I w)) (I w') = I w \<and>
    (\<forall>i < length ms. \<exists>ext. record_ext (en_dovecot E) (ms ! i) = Some ext \<and>
       I w' ! (length (I w) + i) = (ih_next_uid hdr + of_nat i, Some ext)) \<and>
    (aio_succeeds (en_rados E) \<longrightarrow>
      (\<forall>i < length ms. \<exists>t. V w' (okey (rs_ms_io rs) (m_oid (ms ! i))) =
         Some (with_uid (ih_next_uid hdr + of_nat i) (touched t (V w) (okey (rs_ms_io rs) (m_oid (ms ! i)))))) \<and>
      (\<forall>k. k \<notin> okey (rs_ms_io rs) ` m_oid ` set ms \<longrightarrow> V w' k = V w k))"
proof -
  obtain ms' where m: "rebuild_mails E rs ms \<lparr>rb_alt_storage = alt, rb_next_uid = ih_next_uid hdr\<rparr> w = Some (0, ms', ctx', w')"
    "mails' = smap_put (dv_guid_to_string (en_dovecot E) (bx_guid box)) ms' mails"
    using assms(6-8,12) by (auto simp: rbox_sync_rebuild_entry_def Let_def split: option.splits prod.splits if_splits)
  let ?l = "zip (map m_oid ms) (uids_from (ih_next_uid hdr) (length ms))"
  have l: "length (uids_from (ih_next_uid hdr) (length ms)) = length ms" by (simp add: uids_from_def)
  have i: "ms' = map restored ms" "rb_next_uid ctx' = ih_next_uid hdr + of_nat (length ms)"
      "\<forall>m \<in> set ms. record_ext (en_dovecot E) m \<noteq> None"
      "I w' = I w @ zip (uids_from (ih_next_uid hdr) (length ms)) (map (record_ext (en_dovecot E)) ms)"
    using rebuild_mails_index [OF assms(3,5,4) m(1) _ assms(10,11)] by simp_all
  have "\<exists>ext. record_ext (en_dovecot E) (ms ! i) = Some ext \<and> I w' ! (length (I w) + i) = (ih_next_uid hdr + of_nat i, Some ext)"
    if "i < length ms" for i
    using that i(3,4) l by (auto simp: nth_append uids_from_def)
  moreover have "fst ` set ?l = m_oid ` set ms" using l by (metis image_set map_fst_zip length_map)
  then have "(\<forall>i < length ms. \<exists>t. V w' (okey (rs_ms_io rs) (m_oid (ms ! i))) =
         Some (with_uid (ih_next_uid hdr + of_nat i) (touched t (V w) (okey (rs_ms_io rs) (m_oid (ms ! i)))))) \<and>
      (\<forall>k. k \<notin> okey (rs_ms_io rs) ` m_oid ` set ms \<longrightarrow> V w' k = V w k)" if "aio_succeeds (en_rados E)"
    using rebuild_mails_result [OF assms(1,2) that assms(5) m(1) _ assms(10)] uid_writes_result [of "rs_ms_io rs" ?l "V w" "V w'"]
      assms(9) l by (simp add: uids_from_def image_image)
  ultimately show ?thesis using i m(2) l by simp
qed

text \<open>A mailbox with two mails in the cluster.\<close>

definition sample_attrs :: "bytes smap" where
  "sample_attrs = map (\<lambda>(k, v). (k, v @ [NUL]))
     [(''G'', ''g''), (''M'', ''box''), (''R'', ''1''), (''U'', ''7''), (''V'', ''2''), (''Z'', ''2'')]"

definition sample_mails :: "rados_mail list" where
  "sample_mails = [new_rados_mail\<lparr>m_oid := ''o1'', m_attrset := sample_attrs\<rparr>,
     new_rados_mail\<lparr>m_oid := ''o2'', m_attrset := sample_attrs\<rparr>]"

definition sample_rs :: rbox_storage where
  "sample_rs = rbox_storage_alloc\<lparr>rs_ms := Some Module_Default\<rparr>"

text \<open>A world of objects and the index of one mailbox.\<close>

type_synonym mem_index = "mem \<times> index_view"

definition index_dovecot :: "mem_index dovecot" where
  "index_dovecot = (fixed_dovecot ''guid'' (Some (''g'', ''oid'')) [])
     \<lparr>dv_append := (\<lambda>u (w, i). (of_nat (Suc (length i)), (w, i @ [(u, None)]))),
      dv_update_ext := (\<lambda>s g oid (w, i). (w, i[unat s - 1 := (fst (i ! (unat s - 1)), Some (g, oid))]))\<rparr>"

definition lift1 :: "('w \<Rightarrow> 'a \<times> 'w) \<Rightarrow> 'w \<times> 'i \<Rightarrow> 'a \<times> 'w \<times> 'i" where
  "lift1 f = (\<lambda>(w, i). case f w of (a, w') \<Rightarrow> (a, w', i))"

definition lift2 :: "('w \<Rightarrow> 'a \<times> 'b \<times> 'w) \<Rightarrow> 'w \<times> 'i \<Rightarrow> 'a \<times> 'b \<times> 'w \<times> 'i" where
  "lift2 f = (\<lambda>(w, i). case f w of (a, b, w') \<Rightarrow> (a, b, w', i))"

definition lift3 :: "('w \<Rightarrow> 'a \<times> 'b \<times> 'c \<times> 'w) \<Rightarrow> 'w \<times> 'i \<Rightarrow> 'a \<times> 'b \<times> 'c \<times> 'w \<times> 'i" where
  "lift3 f = (\<lambda>(w, i). case f w of (a, b, c, w') \<Rightarrow> (a, b, c, w', i))"

definition lift4 :: "('w \<Rightarrow> 'a \<times> 'b \<times> 'c \<times> 'd \<times> 'w) \<Rightarrow> 'w \<times> 'i \<Rightarrow> 'a \<times> 'b \<times> 'c \<times> 'd \<times> 'w \<times> 'i" where
  "lift4 f = (\<lambda>(w, i). case f w of (a, b, c, d, w') \<Rightarrow> (a, b, c, d, w', i))"

definition lift_rados :: "'w rados \<Rightarrow> ('w \<times> 'i) rados" where
  "lift_rados R = \<lparr>rd_operate = (\<lambda>c oid op. lift1 (rd_operate R c oid op)), rd_aio_operate = (\<lambda>c oid op. lift2 (rd_aio_operate R c oid op)),
     rd_write_full = (\<lambda>c oid d. lift1 (rd_write_full R c oid d)), rd_append = (\<lambda>c oid d. lift1 (rd_append R c oid d)),
     rd_read = (\<lambda>c oid. lift2 (rd_read R c oid)), rd_stat = (\<lambda>c oid. lift3 (rd_stat R c oid)),
     rd_remove = (\<lambda>c oid. lift1 (rd_remove R c oid)), rd_getxattrs = (\<lambda>c oid. lift2 (rd_getxattrs R c oid)),
     rd_setxattr = (\<lambda>c oid k v. lift1 (rd_setxattr R c oid k v)), rd_omap_set = (\<lambda>c oid m. lift1 (rd_omap_set R c oid m)),
     rd_omap_rm_keys = (\<lambda>c oid ks. lift1 (rd_omap_rm_keys R c oid ks)), rd_omap_get_keys = (\<lambda>c oid. lift2 (rd_omap_get_keys R c oid)),
     rd_omap_get_vals_by_keys = (\<lambda>c oid ks. lift2 (rd_omap_get_vals_by_keys R c oid ks)),
     rd_exec = (\<lambda>c oid cls m b. lift1 (rd_exec R c oid cls m b)), rd_objects = (\<lambda>c (w, _). rd_objects R c w),
     rd_objects_from = (\<lambda>c n (w, _). rd_objects_from R c n w), rd_objects_filter = (\<lambda>c f (w, _). rd_objects_filter R c f w),
     rd_read_stat = (\<lambda>c oid. lift4 (rd_read_stat R c oid)), rd_aio_read = (\<lambda>c oid op. lift3 (rd_aio_read R c oid op))\<rparr>"

definition index_env :: "mem_index env" where
  "index_env = \<lparr>en_json = flat_json, en_client = sample_client, en_rados = lift_rados mem_rados, en_dovecot = index_dovecot,
     en_can_open = (\<lambda>_. True), en_behind = []\<rparr>"

lemma index_dovecot_laws: "law_dovecot index_dovecot (map_of \<circ> fst)" "law_index index_dovecot snd"
  using fixed_dovecot_law [of "''guid''" "Some (''g'', ''oid'')" "[]" "map_of \<circ> fst"]
  by (auto simp: law_dovecot_def law_index_def index_dovecot_def) (auto simp: fixed_dovecot_def)

lemma index_header: "dv_header index_dovecot w = Some \<lparr>ih_uid_validity = 1, ih_next_uid = 1, ih_first_recent_uid = 0\<rparr>"
  by (simp add: index_dovecot_def) (simp add: fixed_dovecot_def)

lemma lift_rados_aio:
  "law_aio_operate (lift_rados mem_rados) (map_of \<circ> fst)" "aio_succeeds (lift_rados mem_rados)"
  "snd (snd (snd (rd_aio_operate (lift_rados R) c oid op w))) = snd w"
proof -
  show "law_aio_operate (lift_rados mem_rados) (map_of \<circ> fst)" "aio_succeeds (lift_rados mem_rados)"
    using mem_rados_laws(2) mem_aio_succeeds unfolding law_aio_operate_def aio_succeeds_def
    by (fastforce simp: lift_rados_def lift2_def split: prod.splits)+
  show "snd (snd (snd (rd_aio_operate (lift_rados R) c oid op w))) = snd w"
    by (simp add: lift_rados_def lift2_def split_beta)
qed

theorem rebuild_assigns_uids_witness:
  "case rbox_sync_rebuild_entry index_env sample_box sample_rs [(''box'', sample_mails)]
       \<lparr>rb_alt_storage = False, rb_next_uid = INT32_MAX\<rparr> ([], []) of None \<Rightarrow> False
   | Some (r, mails, ctx, w) \<Rightarrow> r = 0 \<and> rb_next_uid ctx = 3 \<and> length (snd w) = 2 \<and>
       snd w ! 1 = (2, Some (''g'', ''o2'')) \<and> smap_get ''box'' mails = Some (map restored sample_mails) \<and>
       (\<exists>t. map_of (fst w) ([], [], ''o2'') = Some (with_uid 2 (touched t Map.empty ([], [], ''o2''))))"
proof -
  let ?D = "en_dovecot index_env" and ?R = "en_rados index_env"
  let ?r = "rbox_sync_rebuild_entry index_env sample_box sample_rs [(''box'', sample_mails)]
       \<lparr>rb_alt_storage = False, rb_next_uid = INT32_MAX\<rparr> ([], [])"
  have "case ?r of None \<Rightarrow> False | Some (r, _) \<Rightarrow> r = 0" by code_simp
  then obtain mails ctx w where e: "?r = Some (0, mails, ctx, w)" by (auto split: option.splits)
  have d: "law_dovecot ?D (map_of \<circ> fst)" "law_aio_operate ?R (map_of \<circ> fst)" "law_index ?D snd"
    "snd (snd (snd (rd_aio_operate ?R c oid op w))) = snd w" "aio_succeeds ?R" "rs_ms sample_rs = Some Module_Default"
    "dv_header ?D ([], []) = Some \<lparr>ih_uid_validity = 1, ih_next_uid = 1, ih_first_recent_uid = 0\<rparr>" for c oid op w
    using index_dovecot_laws lift_rados_aio
    by (simp_all add: index_env_def sample_rs_def index_header)
  have io: "rs_ms_io sample_rs = null_ctx" "okey null_ctx ''o2'' = ([], [], ''o2'')"
    by (simp_all add: sample_rs_def rs_ms_io_def rbox_storage_alloc_def new_storage_def okey_def null_ctx_def)
  have g: "dv_guid_to_string ?D (bx_guid sample_box) = ''box''"
    by (simp add: index_env_def index_dovecot_def sample_box_def fixed_dovecot_def)
  have m: "smap_get (dv_guid_to_string ?D (bx_guid sample_box)) [(''box'', sample_mails)] = Some sample_mails"
    "distinct (map m_oid sample_mails)" "\<forall>m \<in> set sample_mails. \<not> m_restored m"
    "length (snd (([], []) :: mem_index)) + length sample_mails < 2 ^ 32"
    by (simp_all add: g smap_get_def sample_mails_def new_rados_mail_def)
  have m2: "length sample_mails = 2" "m_oid (sample_mails ! 1) = ''o2''"
    by (simp_all add: sample_mails_def)
  have x: "record_ext ?D (sample_mails ! 1) = Some (''g'', ''o2'')" by code_simp
  note rebuild_assigns_uids [OF d(1,2,3,4,6,7) _ m(1-4) e]
  then show ?thesis
    using m2 d(5) io g x by (auto simp: e dest!: spec [where x = 1])
qed

text \<open>
  A mail whose uid does not fit an \<open>int\<close> ends the rebuild with an exception. Uids are
  32 bit unsigned and the validation of the metadata accepts every number, but \<open>std::stoi\<close> throws above
  \<open>INT_MAX\<close>, and no code catches it.
\<close>

theorem rebuild_throws_on_large_uid:
  assumes "get_metadata RBOX_METADATA_MAIL_UID (m_attrset m) = Some u" and "c_str u = int_to_string n" and "INT_MAX < n"
  shows "is_numeric (Some u) \<and> rbox_sync_add_object E rs oi m alt uid w = None"
proof -
  have "is_numeric (Some u)"
    using assms(2,3) nat_to_string_digits by (auto simp: is_numeric_iff int_to_string_def)
  moreover have "stoi (c_str u) = Inl Out_of_range"
    using assms(2,3) by (simp add: stoi_def parse_int_to_string)
  ultimately show ?thesis
    using assms(1) by (simp add: rbox_sync_add_object_def add_index_record_def case_prod_beta Let_def)
qed

theorem rebuild_throws_on_large_uid_witness:
  "rbox_sync_add_object sample_env sample_rs ''o''
     (new_rados_mail\<lparr>m_attrset := [(''U'', int_to_string 2147483648 @ [NUL])]\<rparr>) False 1 [] = None"
proof -
  let ?u = "int_to_string 2147483648 @ [NUL]"
  have "get_metadata RBOX_METADATA_MAIL_UID (m_attrset (new_rados_mail\<lparr>m_attrset := [(''U'', ?u)]\<rparr>)) = Some ?u"
    by (simp add: get_metadata_def get_metadata_str_def smap_get_def)
  then show ?thesis
    using rebuild_throws_on_large_uid [OF _ c_str_terminated [OF int_to_string_no_nul]] by fastforce
qed

end
