(* ===== verification/Rbox_Sync.thy ===== *)
theory Rbox_Sync
  imports Rbox_Rebuild
begin

text \<open>
  Synchronising a mailbox (\<open>src/src/storage-rbox/rbox-sync.cpp\<close>): the changes dovecot has queued in
  its index are applied to the objects. Expunged mails are collected while the index transaction is
  built and their objects are removed after it was committed; flags and keywords are written to the
  metadata of the objects; mails move between the primary and the alternative pool. A damaged index
  is rebuilt first.
\<close>

section \<open>State\<close>

record expunged_item =
  ei_uid :: "32 word"
  ei_oid :: bytes
  ei_alt_storage :: bool

text \<open>\<open>sc_open\<close>: the pointer to dovecot's sync context is set; a commit or rollback resets it.\<close>

record sync_ctx =
  sc_open :: bool
  sc_expunged_items :: "expunged_item list"

definition rbox_get_oid_from_index :: "'w dovecot \<Rightarrow> 32 word \<Rightarrow> 'w \<Rightarrow> bytes option" where
  "rbox_get_oid_from_index D seq w = map_option snd (dv_lookup_ext D seq w)"

text \<open>
  The sequence numbers \<open>seq1\<close> to \<open>seq2\<close>. The loops of the code count in 32 bits; dovecot's numbers
  stay below the largest one.
\<close>

definition seqs :: "32 word \<Rightarrow> 32 word \<Rightarrow> 32 word list" where
  "seqs seq1 seq2 = map word_of_nat [unat seq1 ..< Suc (unat seq2)]"

section \<open>Expunging\<close>

definition rec_alt :: "rbox_mailbox \<Rightarrow> 8 word \<Rightarrow> bool" where
  "rec_alt box flags \<longleftrightarrow> is_alternate_storage_set flags \<and> is_alternate_pool_valid box"

fun rbox_sync_expunge :: "'w dovecot \<Rightarrow> rbox_mailbox \<Rightarrow> 32 word list \<Rightarrow> expunged_item list \<Rightarrow> 'w \<Rightarrow>
    expunged_item list \<times> 'w" where
  "rbox_sync_expunge D box [] items w = (items, w)"
| "rbox_sync_expunge D box (seq # ss) items w =
     (case dv_lookup D seq w of None \<Rightarrow> rbox_sync_expunge D box ss items w
      | Some flags \<Rightarrow>
          if dv_is_expunged D seq w then rbox_sync_expunge D box ss items w
          else
            let w1 = dv_expunge D seq w in
            (case rbox_get_oid_from_index D seq w1 of None \<Rightarrow> rbox_sync_expunge D box ss items w1
             | Some oid \<Rightarrow>
                 rbox_sync_expunge D box ss
                   (items @ [\<lparr>ei_uid = dv_lookup_uid D seq w, ei_oid = oid, ei_alt_storage = rec_alt box flags\<rparr>]) w1))"

text \<open>
  Removing the object of an expunged mail: a timeout is followed by up to ten more attempts, which
  go on after every failure.
\<close>

abbreviation ETIMEDOUT :: int where "ETIMEDOUT \<equiv> 110"

fun remove_retry :: "'w rados \<Rightarrow> io_ctx \<Rightarrow> string \<Rightarrow> nat \<Rightarrow> int \<Rightarrow> 'w \<Rightarrow> int \<times> 'w" where
  "remove_retry R io oid 0 ret w = (ret, w)"
| "remove_retry R io oid (Suc n) ret w =
     (case rd_remove R io oid w of (r, w1) \<Rightarrow> if 0 \<le> r then (r, w1) else remove_retry R io oid n r w1)"

definition rbox_sync_object_expunge :: "'w env \<Rightarrow> rbox_mailbox \<Rightarrow> expunged_item \<Rightarrow> 'w rbox_state \<Rightarrow>
    (int \<times> 'w rbox_state) option" where
  "rbox_sync_object_expunge E box item x =
     (let oid = dv_guid_to_string (en_dovecot E) (ei_oid item) in
      case rbox_open_rados_connection E box (ei_alt_storage item) x of None \<Rightarrow> None
      | Some (ret, x1) \<Rightarrow>
          if ret < 0 then Some (ret, x1)
          else
            let io = st_io_ctx (if ei_alt_storage item then rs_alt (x_rs x1) else rs_s (x_rs x1));
                (r, w1) = rd_remove (en_rados E) io oid (x_w x1);
                (r1, w2) = (if r = - ETIMEDOUT then remove_retry (en_rados E) io oid 10 r w1 else (r, w1))
            in Some (r1, x1\<lparr>x_w := w2\<rparr>))"

fun rbox_sync_expunge_rbox_objects :: "'w env \<Rightarrow> rbox_mailbox \<Rightarrow> expunged_item list \<Rightarrow> 'w rbox_state \<Rightarrow>
    'w rbox_state option" where
  "rbox_sync_expunge_rbox_objects E box [] x = Some x"
| "rbox_sync_expunge_rbox_objects E box (item # items) x =
     (case rbox_sync_object_expunge E box item x of None \<Rightarrow> None
      | Some (_, x1) \<Rightarrow> rbox_sync_expunge_rbox_objects E box items x1)"

section \<open>Flags, keywords and the alternative storage\<close>

text \<open>
  \<open>update_extended_metadata\<close> writes or removes one keyword of the mails. A failed connection returns
  at once; the metadata module then keeps pointing to the storage of the last mail.
\<close>

fun keyword_loop :: "'w env \<Rightarrow> rbox_mailbox \<Rightarrow> nat \<Rightarrow> bool \<Rightarrow> 32 word list \<Rightarrow> int \<Rightarrow> 'w rbox_state \<Rightarrow>
    (bool \<times> int \<times> 'w rbox_state) option" where
  "keyword_loop E box idx rm [] ret x = Some (True, ret, x)"
| "keyword_loop E box idx rm (seq # ss) ret x =
     (case dv_lookup (en_dovecot E) seq (x_w x) of None \<Rightarrow> keyword_loop E box idx rm ss ret x
      | Some flags \<Rightarrow>
        (case rbox_open_rados_connection E box (rec_alt box flags) x of None \<Rightarrow> None
         | Some (r, x1) \<Rightarrow>
             if r < 0 then Some (False, -1, x1)
             else
               let x2 = x1\<lparr>x_rs := (x_rs x1)\<lparr>rs_ms_alt := rec_alt box flags\<rparr>\<rparr>; rs = x_rs x2; D = en_dovecot E;
                   ext_key = int_to_string (int idx) in
               case (rs_ms rs, rbox_get_oid_from_index D seq (x_w x2)) of
                 (None, _) \<Rightarrow> None
               | (Some _, None) \<Rightarrow> keyword_loop E box idx rm ss ret x2
               | (Some kind, Some index_oid) \<Rightarrow>
                   let oid = dv_guid_to_string D index_oid in
                   if rm then
                     (case module_remove_keyword (en_rados E) kind (rs_ms_io rs) oid ext_key (x_w x2) of (r1, w1) \<Rightarrow>
                        if r1 < 0 then Some (True, r1, x2\<lparr>x_w := w1\<rparr>)
                        else keyword_loop E box idx rm ss r1 (x2\<lparr>x_w := w1\<rparr>))
                   else
                     (case dv_keywords D (x_w x2) of None \<Rightarrow> keyword_loop E box idx rm ss ret x2
                      | Some keywords \<Rightarrow>
                          if length keywords \<le> idx then None
                          else
                            (case module_update_keyword (en_rados E) (rs_json rs) kind (rs_ms_io rs) oid
                                    (Some (metadata_kv ext_key (keywords ! idx))) (x_w x2) of (r1, w1) \<Rightarrow>
                               if r1 < 0 then Some (True, r1, x2\<lparr>x_w := w1\<rparr>)
                               else keyword_loop E box idx rm ss r1 (x2\<lparr>x_w := w1\<rparr>)))))"

definition reset_ms :: "'w rbox_state \<Rightarrow> 'w rbox_state option" where
  "reset_ms x = (case rs_ms (x_rs x) of None \<Rightarrow> None | Some _ \<Rightarrow> Some (x\<lparr>x_rs := (x_rs x)\<lparr>rs_ms_alt := False\<rparr>\<rparr>))"

definition update_extended_metadata :: "'w env \<Rightarrow> rbox_mailbox \<Rightarrow> 32 word list \<Rightarrow> nat \<Rightarrow> bool \<Rightarrow> 'w rbox_state \<Rightarrow>
    (int \<times> 'w rbox_state) option" where
  "update_extended_metadata E box ss idx rm x =
     (case keyword_loop E box idx rm ss 0 x of None \<Rightarrow> None
      | Some (ended, ret, x1) \<Rightarrow> if ended then map_option (Pair ret) (reset_ms x1) else Some (ret, x1))"

text \<open>
  \<open>move_to_alt\<close> of this file. The pointer the metadata module is left with is read off the io context
  it names.
\<close>

fun move_loop :: "'w env \<Rightarrow> bool \<Rightarrow> 32 word list \<Rightarrow> int \<Rightarrow> 'w rbox_state \<Rightarrow> (int \<times> 'w rbox_state) option" where
  "move_loop E inv_dir [] ret x = Some (ret, x)"
| "move_loop E inv_dir (seq # ss) ret x =
     (let D = en_dovecot E; rs = x_rs x in
      case (rbox_get_oid_from_index D seq (x_w x), rs_ms rs) of
        (None, _) \<Rightarrow> move_loop E inv_dir ss ret x
      | (Some _, None) \<Rightarrow> None
      | (Some index_oid, Some kind) \<Rightarrow>
          (case move_to_alt (en_json E) (en_rados E) (rs_json rs) (x_cl x) (dv_guid_to_string D index_oid)
                  (Some (rs_s rs)) (Some (rs_alt rs)) \<lparr>ms_kind = kind, ms_io = rs_ms_io rs\<rparr> inv_dir (x_w x) of
             None \<Rightarrow> None
           | Some (ret1, ms, w1) \<Rightarrow>
               let rs1 = rs\<lparr>rs_ms_alt := (ms_io ms \<noteq> st_io_ctx (rs_s rs))\<rparr>;
                   w2 = (if 0 \<le> ret1
                         then dv_update_flags D seq (if inv_dir then MODIFY_REMOVE else MODIFY_ADD) RBOX_INDEX_FLAG_ALT w1
                         else w1)
               in move_loop E inv_dir ss ret1 (x\<lparr>x_rs := rs1, x_w := w2\<rparr>)))"

definition sync_move_to_alt :: "'w env \<Rightarrow> rbox_mailbox \<Rightarrow> 32 word list \<Rightarrow> bool \<Rightarrow> 'w rbox_state \<Rightarrow>
    (int \<times> 'w rbox_state) option" where
  "sync_move_to_alt E box ss inv_dir x =
     (case rbox_open_rados_connection E box True x of None \<Rightarrow> None
      | Some (r, x1) \<Rightarrow> if r < 0 then Some (-1, x1) else move_loop E inv_dir ss (-1) x1)"

definition changed_flags :: "8 word \<Rightarrow> 8 word \<Rightarrow> 8 word \<Rightarrow> 8 word" where
  "changed_flags add_flags remove_flags flags =
     (let f1 = (if add_flags \<noteq> 0 then or flags add_flags else flags)
      in if remove_flags \<noteq> 0 then and f1 (not remove_flags) else f1)"

text \<open>A mail without flags in its metadata ends in an exception: a string made of a null pointer.\<close>

fun flags_loop :: "'w env \<Rightarrow> rbox_mailbox \<Rightarrow> 8 word \<Rightarrow> 8 word \<Rightarrow> 32 word list \<Rightarrow> int \<Rightarrow> 'w rbox_state \<Rightarrow>
    (bool \<times> int \<times> 'w rbox_state) option" where
  "flags_loop E box add rem [] ret x = Some (True, ret, x)"
| "flags_loop E box add rem (seq # ss) ret x =
     (case dv_lookup (en_dovecot E) seq (x_w x) of None \<Rightarrow> flags_loop E box add rem ss ret x
      | Some flags \<Rightarrow>
        (case rbox_open_rados_connection E box (rec_alt box flags) x of None \<Rightarrow> None
         | Some (r, x1) \<Rightarrow>
             if r < 0 then Some (False, -1, x1)
             else
               let x2 = x1\<lparr>x_rs := (x_rs x1)\<lparr>rs_ms_alt := rec_alt box flags\<rparr>\<rparr>; rs = x_rs x2; D = en_dovecot E in
               case (rs_ms rs, rbox_get_oid_from_index D seq (x_w x2)) of
                 (None, _) \<Rightarrow> None
               | (Some _, None) \<Rightarrow> flags_loop E box add rem ss ret x2
               | (Some kind, Some index_oid) \<Rightarrow>
                   (case module_load (en_json E) (en_rados E) (rs_json rs) kind (rs_ms_io rs)
                           (new_rados_mail\<lparr>m_oid := dv_guid_to_string D index_oid\<rparr>) (x_w x2) of
                      None \<Rightarrow> None
                    | Some (loaded, mail, w1) \<Rightarrow>
                        if loaded < 0 then flags_loop E box add rem ss ret (x2\<lparr>x_w := w1\<rparr>)
                        else case get_metadata RBOX_METADATA_OLDV1_FLAGS (m_attrset mail) of None \<Rightarrow> None
                        | Some b \<Rightarrow>
                          (case string_to_flags (c_str b) of None \<Rightarrow> flags_loop E box add rem ss ret (x2\<lparr>x_w := w1\<rparr>)
                           | Some fl \<Rightarrow>
                             (case module_set (en_json E) (en_rados E) (rs_json rs) kind (rs_ms_io rs) mail
                                     (convert_str RBOX_METADATA_OLDV1_FLAGS
                                        (snd (flags_to_string (changed_flags add rem fl) []))) w1 of
                                (r2, _, w2) \<Rightarrow> flags_loop E box add rem ss r2 (x2\<lparr>x_w := w2\<rparr>))))))"

definition update_flags :: "'w env \<Rightarrow> rbox_mailbox \<Rightarrow> 32 word list \<Rightarrow> 8 word \<Rightarrow> 8 word \<Rightarrow> 'w rbox_state \<Rightarrow>
    (int \<times> 'w rbox_state) option" where
  "update_flags E box ss add_flags remove_flags x =
     (case flags_loop E box add_flags remove_flags ss 0 x of None \<Rightarrow> None
      | Some (ended, ret, x1) \<Rightarrow> if ended then map_option (Pair ret) (reset_ms x1) else Some (ret, x1))"

section \<open>Applying the changes of the index\<close>

definition attribute_updates :: "rbox_storage \<Rightarrow> rbox_metadata_key \<Rightarrow> bool" where
  "attribute_updates rs key \<longleftrightarrow> is_mail_attribute (rs_json rs) key \<and> is_update_attributes (rs_json rs) \<and>
     is_updateable_attribute (rs_json rs) key"

text \<open>One record; \<^const>\<open>Inl\<close> ends the loop with that result.\<close>

definition sync_record :: "'w env \<Rightarrow> rbox_mailbox \<Rightarrow> sync_rec \<Rightarrow> expunged_item list \<Rightarrow> 'w rbox_state \<Rightarrow>
    ((int + expunged_item list) \<times> 'w rbox_state) option" where
  "sync_record E box sr items x =
     (let D = en_dovecot E in
      case dv_lookup_seq_range D (sr_uid1 sr) (sr_uid2 sr) (x_w x) of None \<Rightarrow> Some (Inr items, x)
      | Some (seq1, seq2) \<Rightarrow>
        let ss = seqs seq1 seq2;
            keyword = (\<lambda>rm. if attribute_updates (x_rs x) RBOX_METADATA_OLDV1_KEYWORDS
                       then map_option (\<lambda>(r, x1). (if r < 0 then Inl (-1) else Inr items, x1))
                              (update_extended_metadata E box ss (sr_keyword_idx sr) rm x)
                       else Some (Inr items, x)) in
        (case sr_type sr of
           SYNC_EXPUNGE \<Rightarrow>
             (case rbox_sync_expunge D box ss items (x_w x) of (items1, w1) \<Rightarrow> Some (Inr items1, x\<lparr>x_w := w1\<rparr>))
         | SYNC_FLAGS \<Rightarrow>
             map_option (\<lambda>x1. (Inr items, x1))
               (if rec_alt box (sr_add_flags sr) then map_option snd (sync_move_to_alt E box ss False x)
                else if rec_alt box (sr_remove_flags sr) then map_option snd (sync_move_to_alt E box ss True x)
                else if attribute_updates (x_rs x) RBOX_METADATA_OLDV1_FLAGS
                then map_option snd (update_flags E box ss (sr_add_flags sr) (sr_remove_flags sr) x)
                else Some x)
         | SYNC_KEYWORD_ADD \<Rightarrow> keyword False
         | SYNC_KEYWORD_REMOVE \<Rightarrow> keyword True
         | SYNC_OTHER \<Rightarrow> Some (Inr items, x)))"

fun sync_records :: "'w env \<Rightarrow> rbox_mailbox \<Rightarrow> sync_rec list \<Rightarrow> expunged_item list \<Rightarrow> 'w rbox_state \<Rightarrow>
    (int \<times> expunged_item list \<times> 'w rbox_state) option" where
  "sync_records E box [] items x = Some (1, items, x)"
| "sync_records E box (sr # srs) items x =
     (case sync_record E box sr items x of None \<Rightarrow> None
      | Some (Inl r, x1) \<Rightarrow> Some (r, items, x1)
      | Some (Inr items1, x1) \<Rightarrow> sync_records E box srs items1 x1)"

definition rbox_sync_index :: "'w env \<Rightarrow> rbox_mailbox \<Rightarrow> 'w rbox_state \<Rightarrow>
    (int \<times> rbox_mailbox \<times> expunged_item list \<times> 'w rbox_state) option" where
  "rbox_sync_index E box x =
     (let D = en_dovecot E in
      case dv_header D (x_w x) of None \<Rightarrow> Some (-1, box, [], x)
      | Some hdr \<Rightarrow>
          if ih_uid_validity hdr = 0 then
            if ih_next_uid hdr = 1 then
              map_option (\<lambda>(r, box1, w1). (if r < 0 then -1 else 1, box1, [], x\<lparr>x_w := w1\<rparr>))
                (rbox_mailbox_create_indexes D box None False (x_w x))
            else Some (0, box, [], rbox_set_mailbox_corrupted D box x)
          else
            let w1 = (case dv_lookup_seq_range D (ih_first_recent_uid hdr) (ih_next_uid hdr) (x_w x) of
                        None \<Rightarrow> x_w x | Some (seq1, seq2) \<Rightarrow> dv_recent_flags_set D seq1 seq2 (x_w x))
            in map_option (\<lambda>(r, items, x1). (r, box, items, x1)) (sync_records E box (dv_sync_recs D w1) [] (x\<lparr>x_w := w1\<rparr>)))"

section \<open>Begin, finish and the whole synchronisation\<close>

definition rbox_refresh_header :: "'w dovecot \<Rightarrow> rbox_mailbox \<Rightarrow> bool \<Rightarrow> 'w \<Rightarrow> int \<times> 'w" where
  "rbox_refresh_header D box retry w =
     (case rbox_read_header D box w of (ret, _, _, w1) \<Rightarrow>
        if ret < 0 \<and> retry
        then (case rbox_read_header D box (dv_index_refresh D w1) of (ret1, _, _, w2) \<Rightarrow> (ret1, w2))
        else (ret, w1))"

record sync_flags =
  sf_force :: bool
  sf_fsync :: bool
  sf_force_rebuild :: bool

text \<open>Up to three rebuilds.\<close>

fun rebuild_loop :: "'w env \<Rightarrow> 32 word \<Rightarrow> namespace_info list \<Rightarrow> bool \<Rightarrow> nat \<Rightarrow> 'w rbox_state \<Rightarrow>
    (int \<times> 'w rbox_state) option" where
  "rebuild_loop E garbage nss force 0 x = Some (-1, x)"
| "rebuild_loop E garbage nss force (Suc n) x =
     (case rbox_storage_rebuild_in_context E garbage nss force True x of None \<Rightarrow> None
      | Some (ret, x1) \<Rightarrow>
          if 0 \<le> ret then Some (ret, x1\<lparr>x_w := dv_recent_flags_reset (en_dovecot E) (x_w x1)\<rparr>)
          else rebuild_loop E garbage nss force n x1)"

text \<open>
  Whether a rebuild is wanted. With a dovecot that knows the \<open>FSCKD\<close> flag of the index header, the
  flag replaces everything decided before.
\<close>

definition want_rebuild :: "'w dovecot \<Rightarrow> rbox_mailbox \<Rightarrow> sync_flags \<Rightarrow> 32 word \<Rightarrow> 'w \<Rightarrow> bool \<times> 'w" where
  "want_rebuild D box flags count w =
     (let (rebuild, w1) = (if sf_force_rebuild flags \<or> count \<noteq> 0 then (True, w)
                           else case rbox_refresh_header D box True w of (r, w1) \<Rightarrow> (r < 0, w1))
      in case dv_hdr_flag_fsckd D w1 of None \<Rightarrow> (rebuild, w1) | Some fsckd \<Rightarrow> (fsckd, w1))"

text \<open>The result with the context, when one is handed to the caller.\<close>

definition rbox_sync_begin :: "'w env \<Rightarrow> 32 word \<Rightarrow> namespace_info list \<Rightarrow> rbox_mailbox \<Rightarrow> sync_flags \<Rightarrow> 'w rbox_state \<Rightarrow>
    (int \<times> sync_ctx option \<times> rbox_mailbox \<times> 'w rbox_state) option" where
  "rbox_sync_begin E garbage nss box flags x =
     (let D = en_dovecot E; (rebuild, w1) = want_rebuild D box flags (rs_rebuild_count (x_rs x)) (x_w x) in
      case (if rebuild then rebuild_loop E garbage nss (sf_force_rebuild flags) 3 (x\<lparr>x_w := w1\<rparr>)
            else Some (0, x\<lparr>x_w := w1\<rparr>)) of None \<Rightarrow> None
      | Some (ret, x1) \<Rightarrow>
          if ret < 0 then Some (-1, None, box, x1)
          else
            let (r, w2) = dv_sync_begin D (\<not> rebuild \<and> \<not> sf_force flags) (sf_fsync flags) (x_w x1);
                (fscked, w3) = dv_reset_fscked D w2;
                x2 = (if fscked then rbox_set_mailbox_corrupted D box (x1\<lparr>x_w := w3\<rparr>) else x1\<lparr>x_w := w3\<rparr>) in
            if r \<le> 0 then Some (r, None, box, x2)
            else
              case (if rebuild then Some (r, box, [], x2) else rbox_sync_index E box x2) of None \<Rightarrow> None
              | Some (r1, box1, items, x3) \<Rightarrow>
                  if r1 \<le> 0 then
                    let x4 = x3\<lparr>x_w := dv_sync_rollback D (x_w x3)\<rparr> in
                    if r1 < 0 then Some (-1, None, box1, x4)
                    else Some (0, Some \<lparr>sc_open = False, sc_expunged_items = items\<rparr>, box1, x4)
                  else Some (0, Some \<lparr>sc_open = True, sc_expunged_items = items\<rparr>, box1, x3))"

text \<open>
  Finishing: the commit follows the pointer to dovecot's sync context, which a rollback in
  \<open>rbox_sync_begin\<close> has set to null.
\<close>

definition rbox_sync_finish :: "'w env \<Rightarrow> rbox_mailbox \<Rightarrow> bool \<Rightarrow> sync_ctx \<Rightarrow> 'w rbox_state \<Rightarrow>
    (int \<times> 'w rbox_state) option" where
  "rbox_sync_finish E box success ctx x =
     (if \<not> sc_open ctx then None
      else if success then
        case dv_sync_commit (en_dovecot E) (x_w x) of (r, w1) \<Rightarrow>
          if r < 0 then Some (-1, x\<lparr>x_w := w1\<rparr>)
          else map_option (Pair 0) (rbox_sync_expunge_rbox_objects E box (sc_expunged_items ctx) (x\<lparr>x_w := w1\<rparr>))
      else Some (-1, x\<lparr>x_w := dv_sync_rollback (en_dovecot E) (x_w x)\<rparr>))"

definition rbox_sync :: "'w env \<Rightarrow> 32 word \<Rightarrow> namespace_info list \<Rightarrow> rbox_mailbox \<Rightarrow> sync_flags \<Rightarrow> 'w rbox_state \<Rightarrow>
    (int \<times> rbox_mailbox \<times> 'w rbox_state) option" where
  "rbox_sync E garbage nss box flags x =
     (case rbox_sync_begin E garbage nss box flags x of None \<Rightarrow> None
      | Some (ret, ctx, box1, x1) \<Rightarrow>
          if ret < 0 then Some (-1, box1, x1)
          else case ctx of None \<Rightarrow> Some (0, box1, x1)
          | Some c \<Rightarrow> map_option (\<lambda>(r, x2). (r, box1, x2)) (rbox_sync_finish E box1 True c x1))"

text \<open>
  The entry point of dovecot: \<open>opened\<close> tells whether the mailbox is open, \<open>full\<close> whether dovecot wants
  a full synchronisation, \<open>resync\<close> whether it is forced. The result is handed back to dovecot.
\<close>

definition rbox_storage_sync_init :: "'w env \<Rightarrow> 32 word \<Rightarrow> namespace_info list \<Rightarrow> rbox_mailbox \<Rightarrow> bool \<Rightarrow> bool \<Rightarrow> bool \<Rightarrow>
    'w rbox_state \<Rightarrow> (int \<times> rbox_mailbox \<times> 'w rbox_state) option" where
  "rbox_storage_sync_init E garbage nss box opened full resync x =
     (let D = en_dovecot E;
          (ret, box1, w1) = (if opened then (0, box, x_w x)
             else case dv_mailbox_open D (bx_name box) (x_w x) of (r, guid, w1) \<Rightarrow>
               (if r < 0 then -1 else 0, if r < 0 then box else box\<lparr>bx_guid := guid\<rparr>, w1));
          (fscked, w2) = dv_reset_fscked D w1;
          x1 = (if fscked then rbox_set_mailbox_corrupted D box1 (x\<lparr>x_w := w2\<rparr>) else x\<lparr>x_w := w2\<rparr>) in
      if ret = 0 \<and> (full \<or> rs_rebuild_count (x_rs x1) \<noteq> 0)
      then rbox_sync E garbage nss box1 \<lparr>sf_force = False, sf_fsync = False, sf_force_rebuild = resync\<rparr> x1
      else Some (ret, box1, x1))"

section \<open>Lemmas\<close>

text \<open>The storages a mail needs are connected, and the configuration was read.\<close>

definition state_ready :: "rbox_mailbox \<Rightarrow> bool \<Rightarrow> 'w rbox_state \<Rightarrow> bool" where
  "state_ready box alt x \<longleftrightarrow> dc_is_config_valid (rs_config (x_rs x)) \<and> storage_ready (x_cl x) (rs_s (x_rs x)) \<and>
     (alt \<longrightarrow> storage_ready (x_cl x) (rs_alt (x_rs x)) \<and> bx_alt_dir box \<noteq> None)"

text \<open>Opening a connection that is open changes nothing but the way to wait for completions.\<close>

definition same_storages :: "'w rbox_state \<Rightarrow> 'w rbox_state \<Rightarrow> bool" where
  "same_storages x y \<longleftrightarrow> x_cl y = x_cl x \<and> rs_config (x_rs y) = rs_config (x_rs x) \<and>
     st_io_ctx (rs_s (x_rs y)) = st_io_ctx (rs_s (x_rs x)) \<and> st_io_ctx (rs_alt (x_rs y)) = st_io_ctx (rs_alt (x_rs x)) \<and>
     st_io_ctx_created (rs_s (x_rs y)) = st_io_ctx_created (rs_s (x_rs x)) \<and>
     st_io_ctx_created (rs_alt (x_rs y)) = st_io_ctx_created (rs_alt (x_rs x))"

lemma same_storages_ready: "same_storages x y \<Longrightarrow> state_ready box alt y = state_ready box alt x"
  by (auto simp: same_storages_def state_ready_def storage_ready_def)

lemma open_when_ready:
  assumes "state_ready box alt x"
  shows "\<exists>y. rbox_open_rados_connection E box alt x = Some (0, y) \<and> same_storages x y \<and> x_w y = x_w x"
proof -
  have "open_connection_user (en_client E) p ip cn un (x_cl x) ((rs_s (x_rs x))\<lparr>st_wait_method := m\<rparr>) (x_w x) =
      Some (Inr 1, x_cl x, (rs_s (x_rs x))\<lparr>st_wait_method := m\<rparr>, x_w x)" for p ip cn un m
    using assms by (simp add: open_connection_user_def state_ready_def storage_ready_def)
  moreover have "alt \<Longrightarrow> open_connection_user (en_client E) p ip cn un (x_cl x) (rs_alt (x_rs x)) (x_w x) =
      Some (Inr 1, x_cl x, rs_alt (x_rs x), x_w x)" for p ip cn un
    using assms by (simp add: open_connection_user_def state_ready_def)
  ultimately show ?thesis
    using assms by (auto simp: rbox_open_rados_connection_def open_connections_def Let_def state_ready_def same_storages_def)
qed

text \<open>
  A removal that fails may still have happened, and touches no other object; \<open>-ENOENT\<close> means that
  the object is not there.
\<close>

definition law_remove_fail :: "'w rados \<Rightarrow> ('w \<Rightarrow> obj_key \<rightharpoonup> robj) \<Rightarrow> bool" where
  "law_remove_fail R V \<longleftrightarrow> (\<forall>c oid w r w'. rd_remove R c oid w = (r, w') \<longrightarrow> r < 0 \<longrightarrow>
     (V w' = V w \<or> V w' = (V w)(okey c oid := None)) \<and> (r = - ENOENT \<longrightarrow> V w' (okey c oid) = None))"

text \<open>The cluster answers a removal after at most \<open>n\<close> timeouts.\<close>

fun answers :: "'w rados \<Rightarrow> io_ctx \<Rightarrow> string \<Rightarrow> nat \<Rightarrow> 'w \<Rightarrow> bool" where
  "answers R c oid 0 w \<longleftrightarrow> (case rd_remove R c oid w of (r, _) \<Rightarrow> 0 \<le> r \<or> r = - ENOENT)"
| "answers R c oid (Suc n) w \<longleftrightarrow>
     (case rd_remove R c oid w of (r, w1) \<Rightarrow> 0 \<le> r \<or> r = - ENOENT \<or> r = - ETIMEDOUT \<and> answers R c oid n w1)"

lemma remove_effect:
  assumes "law_remove R V" and "law_remove_fail R V" and "rd_remove R c oid w = (r, w1)"
  shows "V w1 = V w \<or> V w1 = (V w)(okey c oid := None)"
    and "0 \<le> r \<or> r = - ENOENT \<Longrightarrow> V w1 = (V w)(okey c oid := None)"
proof -
  have ok: "0 \<le> r \<Longrightarrow> V w1 = (V w)(okey c oid := None)"
    using assms(1,3) unfolding law_remove_def by blast
  have bad: "r < 0 \<Longrightarrow> V w1 = V w \<or> V w1 = (V w)(okey c oid := None)"
    using assms(2,3) unfolding law_remove_fail_def by blast
  have gone: "r = - ENOENT \<Longrightarrow> V w1 (okey c oid) = None"
    using assms(2,3) unfolding law_remove_fail_def by fastforce
  show "V w1 = V w \<or> V w1 = (V w)(okey c oid := None)" using ok bad by linarith
  show "V w1 = (V w)(okey c oid := None)" if "0 \<le> r \<or> r = - ENOENT"
    using that ok bad gone by (cases "0 \<le> r") (auto simp: fun_upd_idem)
qed

text \<open>The further attempts remove at most the object, and keep it removed.\<close>

lemma remove_retry_effect:
  assumes "law_remove R V" and "law_remove_fail R V" and "remove_retry R c oid n r w = (r1, w1)"
  shows "V w1 = V w \<or> V w1 = (V w)(okey c oid := None)"
  using assms(3)
proof (induction n arbitrary: r w)
  case (Suc n)
  obtain r2 w2 where rm: "rd_remove R c oid w = (r2, w2)" by fastforce
  have "V w1 = V w2 \<or> V w1 = (V w2)(okey c oid := None)"
  proof (cases "0 \<le> r2")
    case False
    then have "remove_retry R c oid n r2 w2 = (r1, w1)" using Suc.prems rm by simp
    then show ?thesis by (rule Suc.IH)
  qed (use Suc.prems rm in simp)
  then show ?case using remove_effect(1) [OF assms(1,2) rm] by auto
qed simp

lemma remove_retry_removes:
  assumes "law_remove R V" and "law_remove_fail R V" and "remove_retry R c oid (Suc n) r w = (r1, w1)"
    and "answers R c oid n w"
  shows "V w1 = (V w)(okey c oid := None)"
  using assms(3,4)
proof (induction n arbitrary: r w)
  case 0
  then show ?case
    using remove_effect(2) [OF assms(1,2)] by (auto split: prod.splits if_splits)
next
  case (Suc n)
  obtain r2 w2 where rm: "rd_remove R c oid w = (r2, w2)" by fastforce
  note eff = remove_effect [OF assms(1,2) rm]
  show ?case
  proof (cases "0 \<le> r2")
    case True
    then show ?thesis using Suc.prems(1) rm eff(2) by simp
  next
    case False
    then have rest: "remove_retry R c oid (Suc n) r2 w2 = (r1, w1)" using Suc.prems(1) rm by simp
    show ?thesis
    proof (cases "r2 = - ENOENT")
      case True
      then show ?thesis using remove_retry_effect [OF assms(1,2) rest] eff(2) by auto
    next
      case False
      then have "answers R c oid n w2" using Suc.prems(2) rm \<open>\<not> 0 \<le> r2\<close> by simp
      then show ?thesis using Suc.IH [OF rest] eff(1) by auto
    qed
  qed
qed

text \<open>The key of the object of an expunged mail.\<close>

definition item_key :: "'w env \<Rightarrow> 'w rbox_state \<Rightarrow> expunged_item \<Rightarrow> obj_key" where
  "item_key E x item = okey (st_io_ctx (if ei_alt_storage item then rs_alt (x_rs x) else rs_s (x_rs x)))
     (dv_guid_to_string (en_dovecot E) (ei_oid item))"

lemma item_key_same: "same_storages x y \<Longrightarrow> item_key E y item = item_key E x item"
  by (simp add: item_key_def same_storages_def)

lemma object_expunge_removes:
  assumes "law_remove (en_rados E) V" and "law_remove_fail (en_rados E) V"
    and "\<And>c oid w. answers (en_rados E) c oid 10 w" and "state_ready box (ei_alt_storage item) x"
  shows "\<exists>r y. rbox_sync_object_expunge E box item x = Some (r, y) \<and> same_storages x y \<and>
    V (x_w y) = (V (x_w x))(item_key E x item := None)"
proof -
  obtain x1 where o: "rbox_open_rados_connection E box (ei_alt_storage item) x = Some (0, x1)" "same_storages x x1" "x_w x1 = x_w x"
    using open_when_ready [OF assms(4)] by blast
  define io oid where io: "io = st_io_ctx (if ei_alt_storage item then rs_alt (x_rs x1) else rs_s (x_rs x1))"
    and oid: "oid = dv_guid_to_string (en_dovecot E) (ei_oid item)"
  have k: "okey io oid = item_key E x item" using o(2) by (simp add: io oid item_key_def same_storages_def)
  obtain r w1 where rm: "rd_remove (en_rados E) io oid (x_w x1) = (r, w1)" by fastforce
  obtain r1 w2 where re: "(if r = - ETIMEDOUT then remove_retry (en_rados E) io oid 10 r w1 else (r, w1)) = (r1, w2)"
    by fastforce
  note eff = remove_effect [OF assms(1,2) rm]
  have ten: "(10 :: nat) = Suc 9" by simp
  have a: "0 \<le> r \<or> r = - ENOENT \<or> r = - ETIMEDOUT \<and> answers (en_rados E) io oid 9 w1"
    using assms(3) [of io oid "x_w x1"] unfolding ten answers.simps(2) rm prod.case .
  have "V w2 = (V (x_w x1))(okey io oid := None)"
  proof (cases "r = - ETIMEDOUT")
    case True
    then have "remove_retry (en_rados E) io oid (Suc 9) r w1 = (r1, w2)" using re by (simp del: remove_retry.simps)
    then have "V w2 = (V w1)(okey io oid := None)"
      by (rule remove_retry_removes [OF assms(1,2)]) (use a True in simp)
    then show ?thesis using eff(1) by auto
  next
    case False
    then show ?thesis using re eff(2) a by auto
  qed
  then show ?thesis
    using o rm re k by (auto simp: rbox_sync_object_expunge_def Let_def same_storages_def io [symmetric] oid [symmetric])
qed

lemma expunge_objects_removes:
  assumes "law_remove (en_rados E) V" and "law_remove_fail (en_rados E) V"
    and "\<And>c oid w. answers (en_rados E) c oid 10 w" and "\<And>item. item \<in> set items \<Longrightarrow> state_ready box (ei_alt_storage item) x"
  shows "\<exists>y. rbox_sync_expunge_rbox_objects E box items x = Some y \<and>
    V (x_w y) = (\<lambda>k. if k \<in> item_key E x ` set items then None else V (x_w x) k)"
  using assms(4)
proof (induction items arbitrary: x)
  case (Cons item items)
  obtain r x1 where o: "rbox_sync_object_expunge E box item x = Some (r, x1)" "same_storages x x1"
      "V (x_w x1) = (V (x_w x))(item_key E x item := None)"
    using object_expunge_removes [OF assms(1-3), of box item x] Cons.prems by auto
  then obtain y where y: "rbox_sync_expunge_rbox_objects E box items x1 = Some y"
      "V (x_w y) = (\<lambda>k. if k \<in> item_key E x1 ` set items then None else V (x_w x1) k)"
    using Cons.IH [of x1] Cons.prems same_storages_ready [OF o(2)] by auto
  have "V (x_w y) k = (if k \<in> item_key E x ` set (item # items) then None else V (x_w x) k)" for k
    using y(2) o(3) item_key_same [OF o(2), of E] by (cases "k = item_key E x item") simp_all
  then show ?case using o(1) y(1) by auto
qed auto

section \<open>Properties\<close>

text \<open>
  Property C11: finishing a synchronisation. The objects of expunged mails are removed only when the
  index was committed, then all of them are, each within eleven attempts when the cluster answers
  after at most ten timeouts; no other object changes. After a failed commit or a rollback nothing
  has changed.
\<close>

theorem sync_finish_removes_expunged:
  assumes "law_dovecot (en_dovecot E) V" and "law_remove (en_rados E) V" and "law_remove_fail (en_rados E) V"
    and "\<And>c oid w. answers (en_rados E) c oid 10 w" and "sc_open ctx"
    and "\<And>item. item \<in> set (sc_expunged_items ctx) \<Longrightarrow> state_ready box (ei_alt_storage item) x"
  shows "\<exists>ret y. rbox_sync_finish E box success ctx x = Some (ret, y) \<and>
    (ret = 0 \<longleftrightarrow> success \<and> 0 \<le> fst (dv_sync_commit (en_dovecot E) (x_w x))) \<and>
    V (x_w y) = (if ret = 0 then (\<lambda>k. if k \<in> item_key E x ` set (sc_expunged_items ctx) then None else V (x_w x) k)
                 else V (x_w x))"
proof (cases success)
  case True
  obtain r w1 where c: "dv_sync_commit (en_dovecot E) (x_w x) = (r, w1)" by fastforce
  then have v: "V w1 = V (x_w x)" using law_dovecotD [OF assms(1)] by (metis snd_conv)
  let ?x = "x\<lparr>x_w := w1\<rparr>"
  have "same_storages x ?x" by (simp add: same_storages_def)
  note same = same_storages_ready [OF this] item_key_same [OF this]
  obtain y where "rbox_sync_expunge_rbox_objects E box (sc_expunged_items ctx) ?x = Some y"
      "V (x_w y) = (\<lambda>k. if k \<in> item_key E ?x ` set (sc_expunged_items ctx) then None else V (x_w ?x) k)"
    using expunge_objects_removes [OF assms(2-4), of "sc_expunged_items ctx" box ?x] assms(6) same(1) by auto
  then show ?thesis
    using True assms(5) c v same(2) by (cases "r < 0") (simp_all add: rbox_sync_finish_def cong: if_cong)
next
  case False
  then show ?thesis using assms(5) law_dovecotD [OF assms(1)] by (simp add: rbox_sync_finish_def)
qed

text \<open>
  An index that has lost its uid validity ends the synchronisation in a null pointer.
  The index synchronisation reports 0 and is rolled back, but the context is handed on and then
  committed.
\<close>

theorem broken_index_crashes_sync:
  assumes "want_rebuild (en_dovecot E) box flags (rs_rebuild_count (x_rs x)) (x_w x) = (False, w1)"
    and "dv_sync_begin (en_dovecot E) (\<not> sf_force flags) (sf_fsync flags) w1 = (r, w2)" and "0 < r"
    and "dv_reset_fscked (en_dovecot E) w2 = (False, w3)"
    and "dv_header (en_dovecot E) w3 = Some hdr" and "ih_uid_validity hdr = 0" and "ih_next_uid hdr \<noteq> 1"
  shows "rbox_sync E garbage nss box flags x = None"
  using assms
  by (simp add: rbox_sync_def rbox_sync_begin_def rbox_sync_index_def rbox_sync_finish_def Let_def)

definition sample_state :: "'w \<Rightarrow> 'w rbox_state" where
  "sample_state w = \<lparr>x_cl = sample_cluster,
     x_rs = rbox_storage_alloc\<lparr>rs_s := sample_storage, rs_ms := Some Module_Default,
       rs_config := \<lparr>dc_dovecot = new_rados_config\<lparr>rc_valid := True\<rparr>,
         dc_rados = \<lparr>cf_config = new_json_config\<lparr>jc_valid := True\<rparr>, cf_io_ctx = Some null_ctx\<rparr>\<rparr>\<rparr>, x_w = w\<rparr>"

lemma sample_state_w [simp]: "x_w (sample_state w) = w"
  by (simp add: sample_state_def)

lemma sample_state_ready: "state_ready box False (sample_state w)"
  by (simp add: state_ready_def sample_state_def dc_is_config_valid_def storage_ready_def sample_cluster_def sample_storage_def)

lemma mem_remove: "law_remove_fail mem_rados map_of" "answers mem_rados c oid n w"
  by (auto simp: law_remove_fail_def mem_rados_def split: if_splits) (cases n; auto simp: mem_rados_def)

theorem sync_finish_removes_expunged_witness:
  "\<exists>ret y. rbox_sync_finish sample_env sample_box True
     \<lparr>sc_open = True, sc_expunged_items = [\<lparr>ei_uid = 1, ei_oid = ''o1'', ei_alt_storage = False\<rparr>]\<rparr>
     (sample_state [(([], [], ''o1''), empty_robj), (([], [], ''o2''), empty_robj)]) = Some (ret, y) \<and> ret = 0 \<and>
     map_of (x_w y) ([], [], ''o1'') = None \<and> map_of (x_w y) ([], [], ''o2'') = Some empty_robj"
proof -
  let ?item = "\<lparr>ei_uid = 1, ei_oid = ''o1'', ei_alt_storage = False\<rparr>"
  let ?x = "sample_state [(([], [], ''o1''), empty_robj), (([], [], ''o2''), empty_robj)]"
  have e: "en_rados sample_env = mem_rados" "en_dovecot sample_env = fixed_dovecot ''guid'' (Some (''g'', ''oid'')) []"
    by (simp_all add: sample_env_def)
  have laws: "law_dovecot (en_dovecot sample_env) map_of" "law_remove (en_rados sample_env) map_of"
      "law_remove_fail (en_rados sample_env) map_of" "answers (en_rados sample_env) c oid 10 w" for c oid w
    unfolding e by (rule fixed_dovecot_law mem_rados_laws(13) mem_remove)+
  have k: "item_key sample_env ?x ?item = ([], [], ''o1'')"
    by (simp add: item_key_def sample_state_def sample_storage_def new_storage_def null_ctx_def okey_def e fixed_dovecot_def)
  have c: "fst (dv_sync_commit (en_dovecot sample_env) w) = 0" for w by (simp add: e fixed_dovecot_def)
  obtain ret y where f: "rbox_sync_finish sample_env sample_box True \<lparr>sc_open = True, sc_expunged_items = [?item]\<rparr> ?x = Some (ret, y)"
      "ret = 0" "map_of (x_w y) = (\<lambda>k. if k = ([], [], ''o1'') then None else map_of (x_w ?x) k)"
    using sync_finish_removes_expunged [of sample_env map_of "\<lparr>sc_open = True, sc_expunged_items = [?item]\<rparr>"
        sample_box ?x True, OF laws] by (auto simp: k c sample_state_ready)
  then have "map_of (x_w y) ([], [], ''o1'') = None" "map_of (x_w y) ([], [], ''o2'') = Some empty_robj"
    by (simp_all add: f(3))
  then show ?thesis using f(1,2) by blast
qed

theorem broken_index_crashes_sync_witness:
  "rbox_sync (sample_env\<lparr>en_dovecot := (en_dovecot sample_env)\<lparr>dv_hdr_flag_fsckd := \<lambda>_. Some False,
       dv_header := \<lambda>_. Some \<lparr>ih_uid_validity = 0, ih_next_uid = 5, ih_first_recent_uid = 0\<rparr>\<rparr>\<rparr>) 0 [] sample_box
     \<lparr>sf_force = True, sf_fsync = False, sf_force_rebuild = True\<rparr> (sample_state []) = None"
  by (rule broken_index_crashes_sync [where r = 1 and ?w1.0 = "[]" and ?w2.0 = "[]" and ?w3.0 = "[]" and
        hdr = "\<lparr>ih_uid_validity = 0, ih_next_uid = 5, ih_first_recent_uid = 0\<rparr>"])
     (simp_all add: want_rebuild_def sample_env_def fixed_dovecot_def sample_state_def)

end
