(* ===== verification/Dovecot_Mail.thy ===== *)
theory Dovecot_Mail
  imports Rbox_Sync
begin

text \<open>
  The second part of the boundary to dovecot: the calls about single mails, which saving, copying
  and reading mails make. Like the calls of \<open>'w dovecot\<close> they act on dovecot's own files and
  change no object of the cluster (\<open>law_dovecot_mail\<close>). A mail is named by its sequence number;
  \<^const>\<open>None\<close> as an answer is a negative result of the call.
\<close>

datatype cache_field = CACHE_GUID | CACHE_POP3_UIDL | CACHE_POP3_ORDER

datatype fetch_field = FETCH_GUID | FETCH_UIDL_BACKEND | FETCH_POP3_ORDER | FETCH_FROM_ENVELOPE | FETCH_OTHER nat

text \<open>\<open>struct mail_save_data\<close>, without the stream.\<close>

record save_data =
  sd_uid :: "32 word"
  sd_guid :: "string option"
  sd_flags :: "8 word"
  sd_pvt_flags :: "8 word"
  sd_keywords :: "string list option"
  sd_min_modseq :: "64 word"
  sd_received_date :: int
  sd_save_date :: int
  sd_pop3_uidl :: "string option"
  sd_pop3_order :: "32 word"
  sd_from_envelope :: "string option"

definition no_save_data :: save_data where
  "no_save_data = \<lparr>sd_uid = 0, sd_guid = None, sd_flags = 0, sd_pvt_flags = 0, sd_keywords = None, sd_min_modseq = 0,
     sd_received_date = 0, sd_save_date = 0, sd_pop3_uidl = None, sd_pop3_order = 0, sd_from_envelope = None\<rparr>"

record 'w dovecot_mail =
  dm_save_context_free :: "save_data \<Rightarrow> save_data"
  dm_set_seq_saving :: "32 word \<Rightarrow> 'w \<Rightarrow> 'w"
  dm_virtual_size :: "'w \<Rightarrow> 64 word option \<times> 'w"
  dm_keyword_indexes :: "'w \<Rightarrow> 32 word list"
  dm_keywords :: "'w \<Rightarrow> string list"
  dm_cache_save_date :: "32 word \<Rightarrow> 'w \<Rightarrow> 'w"
  dm_cache_parse_deinit :: "int \<Rightarrow> 'w \<Rightarrow> 'w"
  dm_sync_set_result :: "'w \<Rightarrow> 'w"
  dm_copy_cache_fields :: "32 word \<Rightarrow> 'w \<Rightarrow> 'w"
  dm_flags :: "32 word \<Rightarrow> 'w \<Rightarrow> 8 word"
  dm_set_expunged :: "32 word \<Rightarrow> 'w \<Rightarrow> 'w"
  dm_index_received_date :: "32 word \<Rightarrow> 'w \<Rightarrow> int option"
  dm_index_save_date :: "32 word \<Rightarrow> 'w \<Rightarrow> int option"
  dm_index_virtual_size :: "32 word \<Rightarrow> 'w \<Rightarrow> 64 word option"
  dm_cached_virtual_size :: "32 word \<Rightarrow> 'w \<Rightarrow> 64 word option"
  dm_index_physical_size :: "32 word \<Rightarrow> 'w \<Rightarrow> 64 word option"
  dm_cache_lookup :: "cache_field \<Rightarrow> 32 word \<Rightarrow> 'w \<Rightarrow> bytes option"
  dm_cache_add :: "cache_field \<Rightarrow> 32 word \<Rightarrow> bytes \<Rightarrow> 'w \<Rightarrow> 'w"
  dm_pop3_uidl_can_exist :: "32 word \<Rightarrow> 'w \<Rightarrow> bool"
  dm_pop3_uidl_update_exists :: "32 word \<Rightarrow> bool \<Rightarrow> 'w \<Rightarrow> 'w"
  dm_str_to_uint :: "string \<Rightarrow> 32 word option"
  dm_guid_to_compact :: "bytes \<Rightarrow> string"
  dm_index_special :: "fetch_field \<Rightarrow> 32 word \<Rightarrow> 'w \<Rightarrow> int \<times> string option \<times> 'w"
  dm_istream_opened :: "(bytes \<Rightarrow> 'w \<Rightarrow> int \<times> 'w) option"
  dm_init_stream :: "32 word \<Rightarrow> bytes \<Rightarrow> 'w \<Rightarrow> int \<times> 'w"

definition law_dovecot_mail :: "'w dovecot_mail \<Rightarrow> ('w \<Rightarrow> obj_key \<rightharpoonup> robj) \<Rightarrow> bool" where
  "law_dovecot_mail M V \<longleftrightarrow> (\<forall>w s. V (dm_set_seq_saving M s w) = V w \<and> V (snd (dm_virtual_size M w)) = V w \<and>
     V (dm_cache_save_date M s w) = V w \<and> (\<forall>t. V (dm_cache_parse_deinit M t w) = V w) \<and>
     V (dm_sync_set_result M w) = V w \<and> V (dm_copy_cache_fields M s w) = V w \<and> V (dm_set_expunged M s w) = V w \<and>
     (\<forall>f b. V (dm_cache_add M f s b w) = V w) \<and> (\<forall>b. V (dm_pop3_uidl_update_exists M s b w) = V w) \<and>
     (\<forall>n. V (snd (snd (dm_index_special M n s w))) = V w) \<and> (\<forall>b. V (snd (dm_init_stream M s b w)) = V w) \<and>
     (\<forall>f b. dm_istream_opened M = Some f \<longrightarrow> V (snd (f b w)) = V w))"

lemma law_dovecot_mailD:
  assumes "law_dovecot_mail M V"
  shows "V (dm_set_seq_saving M s w) = V w" "V (snd (dm_virtual_size M w)) = V w"
    "V (dm_cache_save_date M s w) = V w" "V (dm_cache_parse_deinit M t w) = V w"
    "V (dm_sync_set_result M w) = V w" "V (dm_copy_cache_fields M s w) = V w" "V (dm_set_expunged M s w) = V w"
    "V (dm_cache_add M f s b w) = V w" "V (dm_pop3_uidl_update_exists M s p w) = V w"
    "V (snd (snd (dm_index_special M n s w))) = V w" "V (snd (dm_init_stream M s b w)) = V w"
    "dm_istream_opened M = Some g \<Longrightarrow> V (snd (g b w)) = V w"
  using assms unfolding law_dovecot_mail_def by simp_all

text \<open>Fixed answers, for evaluation: nothing is in the index or in the cache.\<close>

definition fixed_mail :: "8 word \<Rightarrow> 64 word \<Rightarrow> (32 word \<times> string) list \<Rightarrow> 'w dovecot_mail" where
  "fixed_mail flags vsize keywords =
     \<lparr>dm_save_context_free = (\<lambda>_. no_save_data), dm_set_seq_saving = (\<lambda>_. id), dm_virtual_size = Pair (Some vsize), dm_keyword_indexes = (\<lambda>_. map fst keywords),
      dm_keywords = (\<lambda>_. map snd keywords), dm_cache_save_date = (\<lambda>_. id), dm_cache_parse_deinit = (\<lambda>_. id),
      dm_sync_set_result = id, dm_copy_cache_fields = (\<lambda>_. id), dm_flags = (\<lambda>_ _. flags), dm_set_expunged = (\<lambda>_. id),
      dm_index_received_date = (\<lambda>_ _. None), dm_index_save_date = (\<lambda>_ _. None), dm_index_virtual_size = (\<lambda>_ _. None),
      dm_cached_virtual_size = (\<lambda>_ _. None), dm_index_physical_size = (\<lambda>_ _. None), dm_cache_lookup = (\<lambda>_ _ _. None),
      dm_cache_add = (\<lambda>_ _ _. id), dm_pop3_uidl_can_exist = (\<lambda>_ _. True), dm_pop3_uidl_update_exists = (\<lambda>_ _. id),
      dm_str_to_uint = (\<lambda>s. case stol s of Inl _ \<Rightarrow> None | Inr i \<Rightarrow> Some (word_of_int i)), dm_guid_to_compact = id,
      dm_index_special = (\<lambda>_ _. \<lambda>w. (-1, None, w)), dm_istream_opened = None, dm_init_stream = (\<lambda>_ _. Pair 0)\<rparr>"

lemma fixed_mail_law: "law_dovecot_mail (fixed_mail f v k) V"
  by (simp add: law_dovecot_mail_def fixed_mail_def)

end
