(* ===== verification/Rbox_Write.thy ===== *)
theory Rbox_Write
  imports Dovecot_Mail
begin

text \<open>
  Writing the data of a mail that is being saved: the stream that collects it
  (\<open>src/src/storage-rbox/ostream-bufferlist.cpp\<close>) and \<open>save_mail_write_append\<close> of \<open>rbox-save.cpp\<close>,
  which writes the metadata and then appends the buffer in pieces.
\<close>

section \<open>The output stream\<close>

text \<open>The stream shares the buffer of its mail, so the mail is an argument of its operations.\<close>

record ostream =
  os_offset :: "64 word"
  os_seeked :: bool
  os_execute_write_ops :: bool

definition o_stream_create_bufferlist :: "bool \<Rightarrow> rados_mail \<Rightarrow> ostream \<times> rados_mail" where
  "o_stream_create_bufferlist execute_write_ops m =
     (\<lparr>os_offset = 0, os_seeked = False, os_execute_write_ops = execute_write_ops\<rparr>,
      if execute_write_ops then m\<lparr>m_completion := Some 0, m_active_op := 1\<rparr> else m)"

definition o_stream_buffer_seek :: "64 word \<Rightarrow> ostream \<Rightarrow> int \<times> ostream" where
  "o_stream_buffer_seek offset s = (1, s\<lparr>os_seeked := True, os_offset := offset\<rparr>)"

definition o_stream_buffer_write_at :: "bytes \<Rightarrow> 64 word \<Rightarrow> ostream \<Rightarrow> int \<times> ostream" where
  "o_stream_buffer_write_at data offset s = (-1, s)"

text \<open>
  \<open>sendv\<close>: with the setting for chunks the buffer is emptied first, and what was sent is written to
  the object at the offset of the stream; the result of that write is not looked at.
\<close>

definition o_stream_buffer_sendv :: "'w rados \<Rightarrow> cluster \<Rightarrow> storage \<Rightarrow> bytes list \<Rightarrow> ostream \<Rightarrow> rados_mail \<Rightarrow> 'w \<Rightarrow>
    int \<times> ostream \<times> rados_mail \<times> 'w" where
  "o_stream_buffer_sendv R cl st iov s m w =
     (let data = concat iov; exec = os_execute_write_ops s;
          m1 = m\<lparr>m_buffer := (if exec then data else m_buffer m @ data)\<rparr>;
          s1 = s\<lparr>os_offset := os_offset s + word_of_nat (length data)\<rparr> in
      if exec then
        case aio_operate R cl st (Some (st_io_ctx st)) (m_oid m) [WWrite (unat (os_offset s)) (m_buffer m1)] w of
          (r, cr, w1) \<Rightarrow> (int (length data), s1, m1\<lparr>m_completion := Some cr\<rparr>, w1)
      else (int (length data), s1, m1, w))"

text \<open>The calls of \<open>sendv\<close> that dovecot makes while it copies its input to the stream.\<close>

fun sends :: "'w rados \<Rightarrow> cluster \<Rightarrow> storage \<Rightarrow> bytes list list \<Rightarrow> ostream \<Rightarrow> rados_mail \<Rightarrow> 'w \<Rightarrow>
    ostream \<times> rados_mail \<times> 'w" where
  "sends R cl st [] s m w = (s, m, w)"
| "sends R cl st (iov # iovs) s m w =
     (case o_stream_buffer_sendv R cl st iov s m w of (_, s1, m1, w1) \<Rightarrow> sends R cl st iovs s1 m1 w1)"

section \<open>Appending the pieces\<close>

text \<open>
  One piece: \<^const>\<open>None\<close> is the exception of \<open>substr_of\<close>, \<^const>\<open>Inl\<close> the early return, \<^const>\<open>Inr\<close> the buffer
  and the length to append. The sum of the signed offset and the length is a 64 bit number.
\<close>

definition append_piece :: "bytes \<Rightarrow> nat \<Rightarrow> nat \<Rightarrow> nat \<Rightarrow> (unit + bytes \<times> nat) option" where
  "append_piece buf sz max_write i =
     (let offset = to_int32 (int (i * max_write));
          rest = sz mod max_write;
          len = (if sz < to_uint64 (int ((i + 1) * max_write)) then rest else max_write);
          to = to_uint64 (offset + int len);
          sub = (if length buf < to then to_uint32 (int (length buf) - offset) else to_uint32 (int len))
      in if sz < to then Some (Inl ())
         else if to_uint32 offset + sub \<le> length buf
         then Some (Inr (take sub (drop (to_uint32 offset) buf), len))
         else None)"

function append_loop :: "'w rados \<Rightarrow> cluster \<Rightarrow> storage \<Rightarrow> string \<Rightarrow> bytes \<Rightarrow> nat \<Rightarrow> nat \<Rightarrow> int \<Rightarrow> nat \<Rightarrow> int \<Rightarrow> 'w \<Rightarrow>
    (bool \<times> int \<times> 'w) option" where
  "append_loop R cl st oid buf sz max_write dv i ret_val w =
     (if int i < dv then
        case (if dv = 1 then Some (Inr (execute_operation R cl st oid [WWrite 0 buf] w))
              else case append_piece buf sz max_write i of None \<Rightarrow> None
              | Some (Inl _) \<Rightarrow> Some (Inl ())
              | Some (Inr (tmp, len)) \<Rightarrow> Some (Inr (append_to_object R cl st oid tmp len w))) of
          None \<Rightarrow> None
        | Some (Inl _) \<Rightarrow> Some (True, -1, w)
        | Some (Inr (ok, w1)) \<Rightarrow>
            if ok then append_loop R cl st oid buf sz max_write dv (i + 1) 0 w1 else Some (False, -1, w1)
      else Some (False, ret_val, w))"
  by pat_completeness auto
termination
  by (relation "measure (\<lambda>(R, cl, st, oid, buf, sz, max_write, dv, i, ret_val, w). nat (dv - int i))") auto

declare append_loop.simps [simp del]

text \<open>
  The result of writing the metadata is a truth value, so the check for a negative number never
  fails. An early return leaves the mail as it is; otherwise its buffer is deleted.
\<close>

definition save_mail_write_append :: "'w rados \<Rightarrow> cluster \<Rightarrow> storage \<Rightarrow> rados_mail \<Rightarrow> write_op \<Rightarrow> nat \<Rightarrow> 'w \<Rightarrow>
    (int \<times> rados_mail \<times> 'w) option" where
  "save_mail_write_append R cl st m write_op_xattr max_write w =
     (let sz = to_uint64 (m_object_size m) in
      if max_write = 0 then None
      else if sz = 0 then Some (-1, m, w)
      else case execute_operation R cl st (m_oid m) write_op_xattr w of (b, w1) \<Rightarrow>
        let ret_val = (if b then 1 else 0 :: int); rest = sz mod max_write;
            dv = to_int32 (int (sz div max_write + (if rest > 0 then 1 else 0)))
        in if ret_val < 0 then Some (-1, m, w1)
           else case append_loop R cl st (m_oid m) (m_buffer m) sz max_write dv 0 ret_val w1 of None \<Rightarrow> None
           | Some (early, ret, w2) \<Rightarrow>
               Some (ret, if early then m else m\<lparr>m_completion := None, m_active_op := 0, m_buffer := []\<rparr>, w2))"

section \<open>Lemmas\<close>

lemma sends_collect:
  assumes "\<not> os_execute_write_ops s"
  shows "sends R cl st iovs s m w = (s\<lparr>os_offset := os_offset s + word_of_nat (length (concat (concat iovs)))\<rparr>,
    m\<lparr>m_buffer := m_buffer m @ concat (concat iovs)\<rparr>, w)"
  using assms by (induction iovs arbitrary: s m) (simp_all add: o_stream_buffer_sendv_def Let_def add.assoc)

lemma append_piece_eq:
  assumes "0 < mx" and "int mx \<le> INT_MAX" and "int (length buf) \<le> INT_MAX" and "i < pieces (length buf) mx"
  shows "\<exists>len. append_piece buf (length buf) mx i = Some (Inr (take mx (drop (i * mx) buf), len)) \<and>
    take len (take mx (drop (i * mx) buf)) = take mx (drop (i * mx) buf)"
proof -
  let ?sz = "length buf" and ?len = "min mx (length buf - i * mx)"
  have i: "i * mx < ?sz" by (rule pieces_less [OF assms(1,4)])
  have "int ((i + 1) * mx) \<le> LONG_MAX"
    using i assms(2,3) unfolding add_mult_distrib by linarith
  then have "to_uint64 (int ((i + 1) * mx)) = (i + 1) * mx"
    by (metis nat_int of_nat_0_le_iff to_uint64_id)
  then have len: "(if ?sz < to_uint64 (int ((i + 1) * mx)) then ?sz mod mx else mx) = ?len"
    using i last_piece [OF assms(1) i] by (auto simp: min_def)
  have off: "to_int32 (int (i * mx)) = int (i * mx)" "to_uint32 (int (i * mx)) = i * mx"
    using i assms(3) by (simp_all only: to_int32_id to_uint32_id nat_int of_nat_0_le_iff)
  have m: "to_uint32 (int ?len) = ?len"
    using assms(2) by (subst to_uint32_id) (simp_all add: min_def)
  have e: "i * mx + ?len \<le> ?sz" using i by simp
  have "int (i * mx) + int ?len \<le> LONG_MAX" using e assms(3) by linarith
  then have to: "to_uint64 (int (i * mx) + int ?len) = i * mx + ?len"
    by (metis nat_int of_nat_0_le_iff of_nat_add to_uint64_id)
  have t: "take ?len (drop (i * mx) buf) = take mx (drop (i * mx) buf)"
    by (metis length_drop take_all_iff take_take nle_le min.commute length_take order_refl)
  have "append_piece buf ?sz mx i = Some (Inr (take ?len (drop (i * mx) buf), ?len))"
    using e unfolding append_piece_def Let_def len off to m by simp
  then show ?thesis using t by (metis min.idem take_take)
qed

lemma append_loop_stores:
  assumes "law_append R V" and "storage_ready cl st" and "0 < mx" and "int mx \<le> INT_MAX" and "int (length buf) \<le> INT_MAX"
    and "pieces (length buf) mx \<noteq> 1"
  shows "\<lbrakk>i \<le> pieces (length buf) mx; o_data (obj_or_new (V w) k) = take (i * mx) buf; k = okey (st_io_ctx st) oid;
     append_loop R cl st oid buf (length buf) mx (int (pieces (length buf) mx)) i r0 w = Some (e, r, w'); 0 \<le> r\<rbrakk> \<Longrightarrow>
     \<not> e \<and> (\<forall>k'. k' \<noteq> k \<longrightarrow> V w' k' = V w k') \<and> o_data (obj_or_new (V w') k) = buf \<and>
     o_xattrs (obj_or_new (V w') k) = o_xattrs (obj_or_new (V w) k) \<and>
     o_omap (obj_or_new (V w') k) = o_omap (obj_or_new (V w) k)"
proof (induction "pieces (length buf) mx - i" arbitrary: i w r0)
  case 0
  then have i: "i = pieces (length buf) mx" and "length buf \<le> i * mx"
    using pieces_last [OF assms(3), of "length buf" i] by simp_all
  then show ?case using 0 by (simp add: append_loop.simps)
next
  case (Suc n)
  have i: "i < pieces (length buf) mx" using Suc.hyps(2) by simp
  then obtain len where p: "append_piece buf (length buf) mx i = Some (Inr (take mx (drop (i * mx) buf), len))"
      and t: "take len (take mx (drop (i * mx) buf)) = take mx (drop (i * mx) buf)"
    using append_piece_eq [OF assms(3-5)] by blast
  obtain r1 w1 where a: "rd_append R (st_io_ctx st) oid (take mx (drop (i * mx) buf)) w = (r1, w1)" by fastforce
  have step: "0 \<le> r1" "append_loop R cl st oid buf (length buf) mx (int (pieces (length buf) mx)) (i + 1) 0 w1 = Some (e, r, w')"
    using Suc.prems(4,5) i p a t assms(2,6)
    by (subst (asm) append_loop.simps; simp add: append_to_object_def split: if_splits)+
  obtain tm where v: "V w1 = (V w)(k \<mapsto>
      (touched tm (V w) k)\<lparr>o_data := o_data (obj_or_new (V w) k) @ take mx (drop (i * mx) buf)\<rparr>)"
    using assms(1) a step(1) Suc.prems(3) unfolding law_append_def by (fastforce simp: Let_def)
  have d: "o_data (obj_or_new (V w1) k) = take ((i + 1) * mx) buf"
    using v Suc.prems(2) take_add [of "i * mx" mx buf] by (simp add: add.commute)
  show ?case
    using Suc.hyps(1) [of "i + 1" w1 0] Suc.hyps(2) i step(2) Suc.prems(3,5) d v by auto
qed

lemma append_loop_returns:
  assumes "0 < mx" and "int mx \<le> INT_MAX" and "int (length buf) \<le> INT_MAX"
  shows "append_loop R cl st oid buf (length buf) mx (int (pieces (length buf) mx)) i r0 w \<noteq> None"
proof (induction "pieces (length buf) mx - i" arbitrary: i r0 w)
  case 0
  then show ?case by (simp add: append_loop.simps)
next
  case (Suc n)
  then have i: "i < pieces (length buf) mx" by simp
  have "append_loop R cl st oid buf (length buf) mx (int (pieces (length buf) mx)) (i + 1) r1 w1 \<noteq> None" for r1 w1
    using Suc.hyps(1) [of "i + 1"] Suc.hyps(2) by simp
  then show ?case
    using append_piece_eq [OF assms i]
    by (subst append_loop.simps) (auto split: prod.splits)
qed

lemma pieces_pos: "0 < sz \<Longrightarrow> 0 < mx \<Longrightarrow> 0 < pieces sz mx"
  using pieces_last [of mx sz 0] by (cases "pieces sz mx") auto

lemma write_append_eq:
  assumes "m_object_size m = int (length (m_buffer m))" and "int (length (m_buffer m)) \<le> INT_MAX"
    and "m_buffer m \<noteq> []" and "0 < mx"
  shows "save_mail_write_append R cl st m op mx w =
    (case execute_operation R cl st (m_oid m) op w of (b, w1) \<Rightarrow>
       case append_loop R cl st (m_oid m) (m_buffer m) (length (m_buffer m)) mx
              (int (pieces (length (m_buffer m)) mx)) 0 (if b then 1 else 0) w1 of
         None \<Rightarrow> None
       | Some (early, ret, w2) \<Rightarrow> Some (ret, if early then m else m\<lparr>m_completion := None, m_active_op := 0, m_buffer := []\<rparr>, w2))"
proof -
  let ?sz = "length (m_buffer m)"
  have sz: "to_uint64 (m_object_size m) = ?sz"
    using assms(1,2) by (simp add: to_uint64_id)
  have "to_int32 (int (pieces ?sz mx)) = int (pieces ?sz mx)"
    using pieces_le [OF assms(4), of ?sz] assms(2) by (intro to_int32_id) simp_all
  then have dv: "to_int32 (int (?sz div mx + (if 0 < ?sz mod mx then 1 else 0))) = int (pieces ?sz mx)"
    by (simp only: pieces_def)
  show ?thesis
    using assms(3,4) unfolding save_mail_write_append_def sz Let_def dv by (simp cong: if_cong split: prod.split)
qed

lemma append_loop_zero: "append_loop R cl st oid buf sz mx dv i 0 w = Some (e, r, w') \<Longrightarrow> 0 \<le> r \<Longrightarrow> r = 0"
proof (induction "nat (dv - int i)" arbitrary: i w)
  case 0
  then show ?case by (simp add: append_loop.simps)
next
  case (Suc n)
  show ?case
    using Suc.prems(1) [unfolded append_loop.simps [of _ _ _ _ _ _ _ dv i 0 w]] Suc.prems(2) Suc.hyps(1) [of "i + 1"] Suc.hyps(2)
    by (auto split: if_splits option.splits sum.splits prod.splits)
qed

text \<open>The loop from the start, for a mail of one piece or of several.\<close>

lemma append_loop_all:
  assumes "law_operate R V" and "law_append R V" and "storage_ready cl st" and "0 < mx" and "int mx \<le> INT_MAX"
    and "int (length buf) \<le> INT_MAX" and "buf \<noteq> []" and "k = okey (st_io_ctx st) oid"
    and "o_data (obj_or_new (V w) k) = []"
    and "append_loop R cl st oid buf (length buf) mx (int (pieces (length buf) mx)) 0 r0 w = Some (e, r, w')" and "0 \<le> r"
  shows "\<not> e \<and> r = 0 \<and> (\<exists>ob. V w' = (V w)(k \<mapsto> ob) \<and> o_data ob = buf \<and>
     o_xattrs ob = o_xattrs (obj_or_new (V w) k) \<and> o_omap ob = o_omap (obj_or_new (V w) k))"
proof -
  have p: "0 < pieces (length buf) mx" using assms(4,7) by (simp add: pieces_pos)
  have r0: "r = 0"
    using assms(11) p append_loop_zero [OF _ assms(11)]
      assms(10) [unfolded append_loop.simps [of _ _ _ _ _ _ _ "int (pieces (length buf) mx)" 0 r0 w]]
    by (auto split: if_splits option.splits sum.splits prod.splits)
  have "\<not> e \<and> (\<forall>k'. k' \<noteq> k \<longrightarrow> V w' k' = V w k') \<and> o_data (obj_or_new (V w') k) = buf \<and>
     o_xattrs (obj_or_new (V w') k) = o_xattrs (obj_or_new (V w) k) \<and>
     o_omap (obj_or_new (V w') k) = o_omap (obj_or_new (V w) k)"
  proof (cases "pieces (length buf) mx = 1")
    case True
    obtain r1 w1 where o: "rd_operate R (st_io_ctx st) oid [WWrite 0 buf] w = (r1, w1)" by fastforce
    have "0 \<le> r1" "\<not> e" "w' = w1"
      using assms(3,10,11) True o
      by (subst (asm) append_loop.simps; simp add: execute_operation_def append_loop.simps [of _ _ _ _ _ _ _ 1 "Suc 0"] split: if_splits)+
    moreover obtain t where "V w1 = (V w)(k \<mapsto> apply_op (V w) [WWrite 0 buf] (touched t (V w) k))"
      using assms(1,8) o \<open>0 \<le> r1\<close> unfolding law_operate_def by blast
    ultimately show ?thesis using assms(9) by simp
  next
    case False
    show ?thesis
      using append_loop_stores [OF assms(2-6) False, of 0 w k oid r0 e r w'] assms(8-11) by simp
  qed
  moreover from this obtain ob where "V w' k = Some ob" using assms(7) by (cases "V w' k") (auto simp: obj_or_new_def empty_robj_def)
  ultimately show ?thesis using r0 by (intro conjI exI [of _ ob]) (auto simp: fun_eq_iff)
qed

text \<open>
  What a successful call has done after the metadata operation, whether that one was applied or not.
\<close>

lemma write_append_result:
  assumes "law_operate R V" and "law_append R V" and "storage_ready cl st" and "0 < mx" and "int mx \<le> INT_MAX"
    and "m_buffer m \<noteq> []" and "m_object_size m = int (length (m_buffer m))" and "int (length (m_buffer m)) \<le> INT_MAX"
    and "rd_operate R (st_io_ctx st) (m_oid m) op w = (r1, w1)" and "k = okey (st_io_ctx st) (m_oid m)"
    and "o_data (obj_or_new (V w1) k) = []"
    and "save_mail_write_append R cl st m op mx w = Some (ret, m1, w')" and "0 \<le> ret"
  shows "ret = 0 \<and> m1 = m\<lparr>m_completion := None, m_active_op := 0, m_buffer := []\<rparr> \<and>
    (\<exists>ob. V w' = (V w1)(k \<mapsto> ob) \<and> o_data ob = m_buffer m \<and>
       o_xattrs ob = o_xattrs (obj_or_new (V w1) k) \<and> o_omap ob = o_omap (obj_or_new (V w1) k))"
proof -
  obtain e where l: "append_loop R cl st (m_oid m) (m_buffer m) (length (m_buffer m)) mx
       (int (pieces (length (m_buffer m)) mx)) 0 (if 0 \<le> r1 then 1 else 0) w1 = Some (e, ret, w')"
      and m1: "m1 = (if e then m else m\<lparr>m_completion := None, m_active_op := 0, m_buffer := []\<rparr>)"
    using assms(3,9,12) write_append_eq [OF assms(7,8,6,4), of R cl st op w]
    by (auto simp: execute_operation_def split: option.splits)
  show ?thesis
    using append_loop_all [OF assms(1-5,8,6,10,11) l assms(13)] m1 by simp
qed

text \<open>
  Writing a new mail in appended pieces never throws, and when it reports success and the
  metadata were accepted, the object holds the whole buffer and exactly the given metadata. No
  other object changes.
\<close>

lemma write_append_stores:
  assumes "law_operate R V" and "law_append R V" and "storage_ready cl st" and "0 < mx" and "int mx \<le> INT_MAX"
    and "m_buffer m \<noteq> []" and "m_object_size m = int (length (m_buffer m))" and "int (length (m_buffer m)) \<le> INT_MAX"
    and "list_all metadata_item md" and "V w (okey (st_io_ctx st) (m_oid m)) = None"
  shows "save_mail_write_append R cl st m (md @ [WMtime d]) mx w \<noteq> None \<and>
    (\<forall>ret m1 w'. save_mail_write_append R cl st m (md @ [WMtime d]) mx w = Some (ret, m1, w') \<longrightarrow> 0 \<le> ret \<longrightarrow>
       0 \<le> fst (rd_operate R (st_io_ctx st) (m_oid m) (md @ [WMtime d]) w) \<longrightarrow>
       ret = 0 \<and> (\<exists>ob. V w' = (V w)(okey (st_io_ctx st) (m_oid m) \<mapsto> ob) \<and>
          o_data ob = m_buffer m \<and> holds_metadata md ob))"
proof -
  let ?c = "st_io_ctx st" and ?k = "okey (st_io_ctx st) (m_oid m)" and ?op = "md @ [WMtime d]"
  obtain r1 w1 where o: "rd_operate R ?c (m_oid m) ?op w = (r1, w1)" by fastforce
  have loop: "append_loop R cl st (m_oid m) (m_buffer m) (length (m_buffer m)) mx
      (int (pieces (length (m_buffer m)) mx)) 0 r w2 \<noteq> None" for r w2
    using append_loop_returns [OF assms(4,5,8)] .
  have "save_mail_write_append R cl st m ?op mx w \<noteq> None"
    unfolding write_append_eq [OF assms(7,8,6,4)] using loop
    by (auto split: prod.splits option.splits simp del: not_None_eq)
  moreover have "ret = 0 \<and> (\<exists>ob. V w' = (V w)(?k \<mapsto> ob) \<and> o_data ob = m_buffer m \<and> holds_metadata md ob)"
    if s: "save_mail_write_append R cl st m ?op mx w = Some (ret, m1, w')" "0 \<le> ret" and r1: "0 \<le> r1" for ret m1 w'
  proof -
    obtain t where v1: "V w1 = (V w)(?k \<mapsto> apply_op (V w) ?op (touched t (V w) ?k))"
      using assms(1) o r1 unfolding law_operate_def by blast
    have md: "holds_metadata md (apply_op (V w) md (touched t (V w) ?k))" "o_data (apply_op (V w) md (touched t (V w) ?k)) = []"
      using apply_metadata_only [OF assms(9), of "touched t (V w) ?k" empty_robj "V w" Map.empty] assms(10)
      by (simp_all add: holds_metadata_def obj_or_new_def empty_robj_def)
    then have "o_data (obj_or_new (V w1) ?k) = []" using v1 by (simp add: apply_op_append)
    from write_append_result [OF assms(1-8) o refl this s] obtain ob where ob: "ret = 0" "V w' = (V w1)(?k \<mapsto> ob)"
        "o_data ob = m_buffer m" "o_xattrs ob = o_xattrs (obj_or_new (V w1) ?k)" "o_omap ob = o_omap (obj_or_new (V w1) ?k)"
      by blast
    have "V w' = (V w)(?k \<mapsto> ob)" "holds_metadata md ob"
      using ob v1 md(1) by (simp_all add: apply_op_append holds_metadata_def)
    then show ?thesis using ob(1,3) by blast
  qed
  ultimately show ?thesis using o by auto
qed

text \<open>A cluster that accepts every write.\<close>

definition writes_succeed :: "'w rados \<Rightarrow> bool" where
  "writes_succeed R \<longleftrightarrow> (\<forall>c oid op w. 0 \<le> fst (rd_operate R c oid op w)) \<and> (\<forall>c oid d w. 0 \<le> fst (rd_append R c oid d w))"

lemma mem_writes_succeed: "writes_succeed mem_rados"
  by (simp add: writes_succeed_def mem_rados_def mem_set_def)

lemma append_loop_succeeds:
  assumes "writes_succeed R" and "storage_ready cl st" and "0 < mx" and "int mx \<le> INT_MAX" and "int (length buf) \<le> INT_MAX"
  shows "0 \<le> r0 \<Longrightarrow> \<exists>r w'. append_loop R cl st oid buf (length buf) mx (int (pieces (length buf) mx)) i r0 w = Some (False, r, w') \<and> 0 \<le> r"
proof (induction "pieces (length buf) mx - i" arbitrary: i r0 w)
  case 0
  then show ?case by (simp add: append_loop.simps)
next
  case (Suc n)
  then have i: "i < pieces (length buf) mx" by simp
  have ok: "fst (execute_operation R cl st oid op w)" "fst (append_to_object R cl st oid b len w)" for op b len w
    using assms(1,2) by (simp_all add: writes_succeed_def execute_operation_def append_to_object_def case_prod_beta)
  have IH: "\<exists>r w'. append_loop R cl st oid buf (length buf) mx (int (pieces (length buf) mx)) (i + 1) 0 w1 = Some (False, r, w') \<and> 0 \<le> r" for w1
    using Suc.hyps by simp
  obtain len where p: "append_piece buf (length buf) mx i = Some (Inr (take mx (drop (i * mx) buf), len))"
    using append_piece_eq [OF assms(3-5) i] by blast
  show ?case
    using i p IH ok(1) [of "[WWrite 0 buf]" w] ok(2) [of "take mx (drop (i * mx) buf)" len w]
    by (subst append_loop.simps) (auto split: prod.split)
qed

lemma write_append_succeeds:
  assumes "writes_succeed R" and "law_operate R V" and "law_append R V" and "storage_ready cl st" and "0 < mx" and "int mx \<le> INT_MAX"
    and "m_buffer m \<noteq> []" and "m_object_size m = int (length (m_buffer m))" and "int (length (m_buffer m)) \<le> INT_MAX"
    and "list_all metadata_item md" and "V w (okey (st_io_ctx st) (m_oid m)) = None"
  shows "\<exists>m1 w' ob. save_mail_write_append R cl st m (md @ [WMtime d]) mx w = Some (0, m1, w') \<and> m_oid m1 = m_oid m \<and>
    V w' = (V w)(okey (st_io_ctx st) (m_oid m) \<mapsto> ob) \<and> o_data ob = m_buffer m \<and> holds_metadata md ob"
proof -
  obtain r1 w1 where o: "rd_operate R (st_io_ctx st) (m_oid m) (md @ [WMtime d]) w = (r1, w1)" by fastforce
  then have r1: "0 \<le> r1" using assms(1) by (metis fst_conv writes_succeed_def)
  obtain r w' where "append_loop R cl st (m_oid m) (m_buffer m) (length (m_buffer m)) mx
      (int (pieces (length (m_buffer m)) mx)) 0 1 w1 = Some (False, r, w')" and r: "0 \<le> r"
    using append_loop_succeeds [OF assms(1,4,5,6,9), of 1] by fastforce
  then have s: "save_mail_write_append R cl st m (md @ [WMtime d]) mx w =
      Some (r, m\<lparr>m_completion := None, m_active_op := 0, m_buffer := []\<rparr>, w')"
    using o r1 assms(4) by (simp add: write_append_eq [OF assms(8,9,7,5)] execute_operation_def)
  have "r = 0 \<and> (\<exists>ob. V w' = (V w)(okey (st_io_ctx st) (m_oid m) \<mapsto> ob) \<and> o_data ob = m_buffer m \<and> holds_metadata md ob)"
    using write_append_stores [OF assms(2-11)] s r r1 o by auto
  then show ?thesis using s by auto
qed

section \<open>Properties\<close>


definition pieces_mail :: rados_mail where
  "pieces_mail = new_rados_mail\<lparr>m_oid := ''oid'', m_buffer := ''hello world'', m_object_size := 11\<rparr>"

text \<open>A cluster that refuses every operation but plain writes of data.\<close>

definition refusing_rados :: "mem rados" where
  "refusing_rados = mem_rados\<lparr>rd_operate := \<lambda>c oid op w.
     if list_all (\<lambda>i. case i of WWrite _ _ \<Rightarrow> True | _ \<Rightarrow> False) op then rd_operate mem_rados c oid op w else (-1, w)\<rparr>"

lemma refusing_laws: "law_operate refusing_rados map_of" "law_append refusing_rados map_of"
  using mem_rados_laws(1,4) unfolding law_operate_def law_append_def refusing_rados_def
  by (simp_all split: if_splits)


text \<open>
  With the setting that writes chunks while the data come in, the buffer holds only the last chunk when
  the mail is finished, and writing the mail puts that chunk over its start.
\<close>

lemma chunks_overwrite_start:
  "case sends mem_rados sample_cluster sample_storage [[''hello ''], [''world'']]
       \<lparr>os_offset = 0, os_seeked = False, os_execute_write_ops = True\<rparr> (new_rados_mail\<lparr>m_oid := ''oid''\<rparr>) [] of
     (s, m, w) \<Rightarrow>
       (case save_mail_write_append mem_rados sample_cluster sample_storage (m\<lparr>m_object_size := 11\<rparr>) [] 10240 w of
          None \<Rightarrow> False
        | Some (ret, _, w1) \<Rightarrow> ret = 0 \<and> os_offset s = 11 \<and>
            map_option o_data (map_of w1 ([], [], ''oid'')) = Some ''world world'')"
  by code_simp

end
