(* ===== verification/Rbox_Save.thy ===== *)
theory Rbox_Save
  imports Rbox_Write
begin

text \<open>
  Saving mails (\<open>src/src/storage-rbox/rbox-save.cpp\<close>): a save context collects the mails of one
  transaction; each one is begun, continued with data and finished, which writes its object. When the
  transaction is committed the mails get their uids; a rollback removes what was written. The code
  of dovecot 2.3 is modelled.
\<close>

section \<open>The save context\<close>

text \<open>What \<open>data.output\<close> points to: nothing, the stream of the context, or one a plugin put before it.\<close>

datatype save_output = Output_null | Output_own | Output_wrapped

text \<open>
  \<open>class rbox_save_context\<close>. Mails are shared by pointers, so \<open>sv_mails\<close> holds the mails that were
  allocated and a pointer is a position in it. The stream comes with the mail whose buffer it shares.
  Of the input the number of bytes read is kept, \<^const>\<open>None\<close> is a null pointer.
\<close>

record save_ctx =
  sv_data :: save_data
  sv_output :: save_output
  sv_dest_mail :: bool
  sv_transaction :: bool
  sv_moving :: bool
  sv_saving :: bool
  sv_unfinished :: bool
  sv_mbox :: rbox_mailbox
  sv_mail_count :: "32 word"
  sv_mail_guid :: bytes
  sv_mail_oid :: bytes
  sv_sync_ctx :: "sync_ctx option"
  sv_seq :: "32 word"
  sv_input :: "64 word option"
  sv_output_stream :: "(ostream \<times> nat) option"
  sv_mails :: "rados_mail list"
  sv_rados_mails :: "nat option list"
  sv_rados_mail :: "nat option"
  sv_highest_pop3_uidl_seq :: "1 word"
  sv_have_pop3_uidls :: bool
  sv_have_pop3_orders :: bool
  sv_failed :: bool
  sv_finished :: bool
  sv_copying :: bool
  sv_dest_mail_allocated :: bool

definition new_save_ctx :: "rbox_mailbox \<Rightarrow> save_ctx" where
  "new_save_ctx box =
     \<lparr>sv_data = no_save_data, sv_output = Output_null, sv_dest_mail = False, sv_transaction = True, sv_moving = False,
      sv_saving = False, sv_unfinished = False, sv_mbox = box, sv_mail_count = 0, sv_mail_guid = zero_guid, sv_mail_oid = zero_guid,
      sv_sync_ctx = None, sv_seq = 0, sv_input = None, sv_output_stream = None, sv_mails = [], sv_rados_mails = [],
      sv_rados_mail = None, sv_highest_pop3_uidl_seq = 0, sv_have_pop3_uidls = False, sv_have_pop3_orders = False,
      sv_failed = True, sv_finished = True, sv_copying = False, sv_dest_mail_allocated = False\<rparr>"

definition rbox_save_alloc :: "bool \<Rightarrow> rbox_mailbox \<Rightarrow> save_ctx option \<Rightarrow> save_ctx option" where
  "rbox_save_alloc external box ctx =
     (if \<not> external then None
      else Some ((case ctx of None \<Rightarrow> new_save_ctx box
                  | Some c \<Rightarrow> c\<lparr>sv_failed := False, sv_finished := False, sv_output_stream := None\<rparr>)\<lparr>sv_rados_mail := None\<rparr>))"

text \<open>Allocating a mail, and a change of the mail a pointer refers to.\<close>

definition alloc_mail :: "rados_mail \<Rightarrow> save_ctx \<Rightarrow> save_ctx" where
  "alloc_mail m c = c\<lparr>sv_rados_mail := Some (length (sv_mails c)), sv_mails := sv_mails c @ [m]\<rparr>"

definition put_mail :: "nat \<Rightarrow> rados_mail \<Rightarrow> save_ctx \<Rightarrow> save_ctx" where
  "put_mail i m c = c\<lparr>sv_mails := (sv_mails c)[i := m]\<rparr>"

section \<open>Mail objects and index records\<close>

text \<open>
  The GUID of the mail: the one that was given, with its hyphens removed and hashed, or a new one.
  A given GUID with hyphens marks the mail.
\<close>

definition save_guid :: "'w dovecot \<Rightarrow> string option \<Rightarrow> 'w \<Rightarrow> (bool \<times> bytes \<times> 'w) option" where
  "save_guid D guid w =
     (case guid of
        Some str \<Rightarrow> map_option (\<lambda>s. (CHR ''-'' \<in> set str, dv_guid_hash D (c_str s), w)) (find_and_replace str ''-'' [])
      | None \<Rightarrow> (case dv_guid_generate D w of (g, w1) \<Rightarrow> Some (False, g, w1)))"

definition setup_mail_object :: "'w dovecot \<Rightarrow> save_ctx \<Rightarrow> 'w \<Rightarrow> (save_ctx \<times> 'w) option" where
  "setup_mail_object D c w =
     (case dv_guid_generate D w of (oid, w1) \<Rightarrow>
        (case save_guid D (sd_guid (sv_data c)) w1 of None \<Rightarrow> None
         | Some (deprecated, guid, w2) \<Rightarrow>
             Some ((alloc_mail (new_rados_mail\<lparr>m_oid := dv_guid_to_string D oid, m_deprecated_uid := deprecated\<rparr>) c)
                     \<lparr>sv_mail_oid := oid, sv_mail_guid := guid\<rparr>, w2)))"

definition MAIL_RECENT :: "8 word" where "MAIL_RECENT = 0x20"

definition rbox_index_append :: "'w dovecot \<Rightarrow> save_ctx \<Rightarrow> 'w \<Rightarrow> save_ctx \<times> 'w" where
  "rbox_index_append D c w =
     (case dv_append D (sd_uid (sv_data c)) w of (seq, w1) \<Rightarrow>
        let w2 = dv_update_flags D seq MODIFY_REPLACE (and (sd_flags (sv_data c)) (not MAIL_RECENT)) w1;
            w3 = (case sd_keywords (sv_data c) of None \<Rightarrow> w2 | Some ks \<Rightarrow> dv_update_keywords D seq ks w2);
            w4 = (if sd_min_modseq (sv_data c) \<noteq> 0 then dv_update_modseq D seq (sd_min_modseq (sv_data c)) w3 else w3)
        in (c\<lparr>sv_seq := seq\<rparr>, w4))"

definition rbox_add_to_index :: "'w dovecot \<Rightarrow> save_ctx \<Rightarrow> 'w \<Rightarrow> save_ctx \<times> 'w" where
  "rbox_add_to_index D c w =
     (case rbox_index_append D c w of (c1, w1) \<Rightarrow>
        (c1\<lparr>sv_rados_mails := sv_rados_mails c1 @ [sv_rados_mail c1]\<rparr>,
         dv_update_ext D (sv_seq c1) (sv_mail_guid c1) (sv_mail_oid c1) w1))"

text \<open>\<open>src_oid\<close> is the object id of the mail that is moved; a text that is no GUID leaves the id as it was.\<close>

definition rbox_move_index :: "'w dovecot \<Rightarrow> 'w dovecot_mail \<Rightarrow> string \<Rightarrow> save_ctx \<Rightarrow> 'w \<Rightarrow> (save_ctx \<times> 'w) option" where
  "rbox_move_index D M src_oid c w =
     (case rbox_index_append D c w of (c1, w1) \<Rightarrow>
        let oid = (case dv_guid_from_string D (c_str src_oid) of None \<Rightarrow> sv_mail_oid c1 | Some b \<Rightarrow> b) in
        (case save_guid D (sd_guid (sv_data c1)) w1 of None \<Rightarrow> None
         | Some (deprecated, guid, w2) \<Rightarrow>
             let c2 = (alloc_mail (new_rados_mail\<lparr>m_oid := dv_guid_to_string D oid, m_deprecated_uid := deprecated\<rparr>) c1)
                        \<lparr>sv_mail_oid := oid, sv_mail_guid := guid\<rparr>;
                 w3 = dv_update_ext D (sv_seq c2) guid oid w2
             in Some (c2\<lparr>sv_rados_mails := sv_rados_mails c2 @ [sv_rados_mail c2]\<rparr>,
                      if sv_dest_mail c2 then dm_set_seq_saving M (sv_seq c2) w3 else w3)))"

section \<open>Begin and continue\<close>

definition init_output_stream :: "bool \<Rightarrow> save_ctx \<Rightarrow> save_ctx option" where
  "init_output_stream write_chunks c =
     (case sv_rados_mail c of None \<Rightarrow> None
      | Some i \<Rightarrow>
          (case o_stream_create_bufferlist write_chunks ((sv_mails c ! i)\<lparr>m_buffer := []\<rparr>) of (s, m) \<Rightarrow>
             Some ((put_mail i m c)\<lparr>sv_output_stream := Some (s, i), sv_output := Output_own\<rparr>)))"

text \<open>\<open>now\<close> is the time of dovecot's event loop.\<close>

definition rbox_save_begin :: "'w env \<Rightarrow> 'w dovecot_mail \<Rightarrow> int \<Rightarrow> save_ctx \<Rightarrow> 'w rbox_state \<Rightarrow>
    (int \<times> save_ctx \<times> 'w rbox_state) option" where
  "rbox_save_begin E M now c x =
     (let D = en_dovecot E;
          c1 = c\<lparr>sv_failed := False, sv_dest_mail := True, sv_dest_mail_allocated := sv_dest_mail_allocated c \<or> \<not> sv_dest_mail c\<rparr> in
      case setup_mail_object D c1 (x_w x) of None \<Rightarrow> None
      | Some (c2, w1) \<Rightarrow>
        (case init_output_stream (cfg_true (x_rs x) ''rbox_ceph_write_chunks'') c2 of None \<Rightarrow> None
         | Some c3 \<Rightarrow>
           (case rbox_open_rados_connection E (sv_mbox c3) False (x\<lparr>x_w := w1\<rparr>) of None \<Rightarrow> None
            | Some (r, x1) \<Rightarrow>
                if r < 0 then Some (0, c3\<lparr>sv_failed := True\<rparr>, x1)
                else case rbox_add_to_index D c3 (x_w x1) of (c4, w2) \<Rightarrow>
                  let d = sv_data c4;
                      c5 = c4\<lparr>sv_input := Some 0, sv_data := (if sd_received_date d = -1 then d\<lparr>sd_received_date := now\<rparr> else d)\<rparr>
                  in Some (0, c5, x1\<lparr>x_w := dm_set_seq_saving M (sv_seq c5) w2\<rparr>))))"

text \<open>
  Dovecot copies its input to \<open>data.output\<close>: \<open>iovs\<close> is what reaches the stream of the context,
  \<open>consumed\<close> the number of bytes read from the input so far and \<open>ret\<close> dovecot's result.
\<close>

definition stream_data :: "'w env \<Rightarrow> bytes list list \<Rightarrow> save_ctx \<Rightarrow> 'w rbox_state \<Rightarrow> save_ctx \<times> 'w rbox_state" where
  "stream_data E iovs c x =
     (case sv_output_stream c of None \<Rightarrow> (c, x)
      | Some (s, i) \<Rightarrow>
          (case sends (en_rados E) (x_cl x) (rs_s (x_rs x)) iovs s (sv_mails c ! i) (x_w x) of (s1, m1, w1) \<Rightarrow>
             ((put_mail i m1 c)\<lparr>sv_output_stream := Some (s1, i)\<rparr>, x\<lparr>x_w := w1\<rparr>)))"

definition rbox_save_continue :: "'w env \<Rightarrow> int \<Rightarrow> bytes list list \<Rightarrow> 64 word \<Rightarrow> save_ctx \<Rightarrow> 'w rbox_state \<Rightarrow>
    (int \<times> save_ctx \<times> 'w rbox_state) option" where
  "rbox_save_continue E ret iovs consumed c x =
     (if sv_failed c then Some (-1, c, x)
      else case sv_input c of None \<Rightarrow> None
      | Some _ \<Rightarrow>
          (case stream_data E iovs (c\<lparr>sv_input := Some consumed\<rparr>) x of (c1, x1) \<Rightarrow>
             if ret < 0 then Some (-1, c1\<lparr>sv_failed := True\<rparr>, x1) else Some (0, c1, x1)))"

section \<open>The metadata of a saved mail\<close>

definition X_ATTR_VERSION_VALUE :: string where "X_ATTR_VERSION_VALUE = ''0.1''"

definition add_attribute :: "json_config \<Rightarrow> rbox_metadata_key \<Rightarrow> rados_metadata option \<Rightarrow> rados_mail \<Rightarrow> rados_mail" where
  "add_attribute cfg key md m =
     (if is_mail_attribute cfg key then case md of None \<Rightarrow> m | Some d \<Rightarrow> add_metadata d m else m)"

definition flags_metadata :: "rbox_metadata_key \<Rightarrow> 8 word \<Rightarrow> rados_metadata option" where
  "flags_metadata key flags =
     (if flags \<noteq> 0 then (case flags_to_string flags [] of (ok, s) \<Rightarrow> if ok then Some (convert_str key s) else None) else None)"

text \<open>The keywords of the mail, with their numbers as keys; dovecot's two arrays are read in step.\<close>

fun add_keywords :: "32 word list \<Rightarrow> string list \<Rightarrow> rados_mail \<Rightarrow> rados_mail option" where
  "add_keywords [] ks m = Some m"
| "add_keywords (i # ids) [] m = None"
| "add_keywords (i # ids) (k # ks) m =
     add_keywords ids ks (add_extended_metadata (metadata_kv (int_to_string (uint i)) (c_str k)) m)"

text \<open>The number of the highest mail with a UIDL goes into a field of one bit.\<close>

definition note_highest :: "save_ctx \<Rightarrow> save_ctx" where
  "note_highest c = c\<lparr>sv_highest_pop3_uidl_seq := ucast (max (ucast (sv_highest_pop3_uidl_seq c)) (sv_seq c))\<rparr>"

definition note_pop3 :: "bool \<Rightarrow> bool \<Rightarrow> save_ctx \<Rightarrow> save_ctx" where
  "note_pop3 uidl order c =
     (let c1 = (if uidl then note_highest (c\<lparr>sv_have_pop3_uidls := True\<rparr>) else c)
      in if order then note_highest (c1\<lparr>sv_have_pop3_orders := True\<rparr>) else c1)"

text \<open>The size attributes; the number of bytes read stands in for a virtual size dovecot does not know.\<close>

definition size_attributes :: "'w dovecot_mail \<Rightarrow> json_config \<Rightarrow> 64 word option \<Rightarrow> rados_mail \<Rightarrow> 'w \<Rightarrow> (rados_mail \<times> 'w) option" where
  "size_attributes M cfg input m w =
     (case (if is_mail_attribute cfg RBOX_METADATA_VIRTUAL_SIZE then
              (case dm_virtual_size M w of
                 (Some v, w1) \<Rightarrow> Some (add_metadata (convert_size RBOX_METADATA_VIRTUAL_SIZE v) m, w1)
               | (None, w1) \<Rightarrow> map_option (\<lambda>n. (add_metadata (convert_size RBOX_METADATA_VIRTUAL_SIZE n) m, w1)) input)
            else Some (m, w)) of
        None \<Rightarrow> None
      | Some (m1, w1) \<Rightarrow>
          if is_mail_attribute cfg RBOX_METADATA_PHYSICAL_SIZE
          then map_option (\<lambda>n. (add_metadata (convert_size RBOX_METADATA_PHYSICAL_SIZE n) m1, w1)) input
          else Some (m1, w1))"

text \<open>The attributes before and after the sizes.\<close>

definition identity_attributes :: "'w dovecot \<Rightarrow> json_config \<Rightarrow> save_ctx \<Rightarrow> rados_mail \<Rightarrow> rados_mail" where
  "identity_attributes D cfg c m =
     (let d = sv_data c; add = add_attribute cfg;
          m1 = add RBOX_METADATA_VERSION (Some (convert_cstr RBOX_METADATA_VERSION X_ATTR_VERSION_VALUE)) m;
          m2 = add RBOX_METADATA_MAILBOX_GUID
                 (Some (convert_cstr RBOX_METADATA_MAILBOX_GUID (dv_guid_to_string D (bx_guid (sv_mbox c))))) m1;
          guid = (if m_deprecated_uid m2 then dv_guid_to_uuid_string D (sv_mail_guid c) else dv_guid_to_string D (sv_mail_guid c));
          m3 = add RBOX_METADATA_GUID (Some (convert_cstr RBOX_METADATA_GUID guid)) m2;
          m4 = add RBOX_METADATA_RECEIVED_TIME (Some (convert_time RBOX_METADATA_RECEIVED_TIME (sd_received_date d))) m3;
          m5 = add RBOX_METADATA_POP3_UIDL (map_option (convert_cstr RBOX_METADATA_POP3_UIDL) (sd_pop3_uidl d)) m4;
          m6 = add RBOX_METADATA_POP3_ORDER
                 (if sd_pop3_order d \<noteq> 0 then Some (convert_uint RBOX_METADATA_POP3_ORDER (sd_pop3_order d)) else None) m5
      in add RBOX_METADATA_FROM_ENVELOPE (map_option (convert_cstr RBOX_METADATA_FROM_ENVELOPE) (sd_from_envelope d)) m6)"

definition flag_attributes :: "json_config \<Rightarrow> save_ctx \<Rightarrow> rados_mail \<Rightarrow> rados_mail" where
  "flag_attributes cfg c m =
     (let d = sv_data c;
          m1 = add_attribute cfg RBOX_METADATA_OLDV1_FLAGS (flags_metadata RBOX_METADATA_OLDV1_FLAGS (sd_flags d)) m;
          m2 = add_attribute cfg RBOX_METADATA_PVT_FLAGS (flags_metadata RBOX_METADATA_PVT_FLAGS (sd_pvt_flags d)) m1
      in add_attribute cfg RBOX_METADATA_ORIG_MAILBOX (Some (convert_cstr RBOX_METADATA_ORIG_MAILBOX (bx_name (sv_mbox c)))) m2)"

definition rbox_save_mail_set_metadata :: "'w env \<Rightarrow> 'w dovecot_mail \<Rightarrow> rbox_storage \<Rightarrow> save_ctx \<Rightarrow> rados_mail \<Rightarrow> 'w \<Rightarrow>
    (save_ctx \<times> rados_mail \<times> 'w) option" where
  "rbox_save_mail_set_metadata E M rs c m w =
     (let cfg = rs_json rs; d = sv_data c;
          c1 = note_pop3 (is_mail_attribute cfg RBOX_METADATA_POP3_UIDL \<and> sd_pop3_uidl d \<noteq> None)
                 (is_mail_attribute cfg RBOX_METADATA_POP3_ORDER \<and> sd_pop3_order d \<noteq> 0) c in
      case size_attributes M cfg (sv_input c) (identity_attributes (en_dovecot E) cfg c m) w of None \<Rightarrow> None
      | Some (m1, w1) \<Rightarrow>
          let m2 = flag_attributes cfg c m1 in
          map_option (\<lambda>m3. (c1, m3\<lparr>m_save_date := sd_save_date d\<rparr>, w1))
            (if is_mail_attribute cfg RBOX_METADATA_OLDV1_KEYWORDS
             then add_keywords (dm_keyword_indexes M w1) (dm_keywords M w1) m2 else Some m2))"

section \<open>Finish and cancel\<close>

definition clean_up_write_finish :: "'w dovecot_mail \<Rightarrow> save_ctx \<Rightarrow> save_ctx" where
  "clean_up_write_finish M c =
     c\<lparr>sv_finished := True, sv_input := None, sv_output := Output_null, sv_data := dm_save_context_free M (sv_data c)\<rparr>"

text \<open>
  Closing the stream: \<open>fin\<close> is dovecot's result and what a stream of a plugin still sends. The output
  pointer is compared with the stream of the context; a null pointer that differs from it is followed.
\<close>

definition finish_stream :: "'w env \<Rightarrow> int \<times> bytes list list \<Rightarrow> save_ctx \<Rightarrow> 'w rbox_state \<Rightarrow> (save_ctx \<times> 'w rbox_state) option" where
  "finish_stream E fin c x =
     (case sv_output c of
        Output_wrapped \<Rightarrow>
          (case stream_data E (snd fin) c x of (c1, x1) \<Rightarrow> Some (c1\<lparr>sv_failed := sv_failed c1 \<or> fst fin < 0\<rparr>, x1))
      | Output_own \<Rightarrow> Some (c\<lparr>sv_failed := sv_failed c \<or> fst fin < 0\<rparr>, x)
      | Output_null \<Rightarrow> if sv_output_stream c \<noteq> None then None else Some (c, x))"

definition write_chunk_size :: "rbox_storage \<Rightarrow> cpp_exn + nat" where
  "write_chunk_size rs =
     (case get_chunk_size (rs_config rs) of Inl e \<Rightarrow> Inl e
      | Inr n \<Rightarrow> Inr (if to_uint32 (get_max_write_size_bytes (rs_s rs)) < to_uint32 n
                      then to_uint32 (get_max_write_size_bytes (rs_s rs)) else to_uint32 n))"

text \<open>
  Adding a written mail to the ceph index; the size of the index is read for a warning only.
\<close>

definition index_saved :: "'w env \<Rightarrow> nat \<Rightarrow> string \<Rightarrow> rbox_storage \<Rightarrow> 'w \<Rightarrow> 'w option" where
  "index_saved E garbage oid rs w =
     (case get_object_search_method (rs_config rs) of Inl _ \<Rightarrow> None
      | Inr search \<Rightarrow>
          if search = 2
          then Some (snd (ceph_index_size (en_rados E) (rs_s rs) garbage (snd (ceph_index_append (en_rados E) (rs_s rs) oid w))))
          else Some w)"

definition log_saved :: "string \<Rightarrow> rbox_storage \<Rightarrow> rbox_storage" where
  "log_saved oid rs =
     (if sl_open (rs_save_log rs)
      then rs\<lparr>rs_save_log := save_log_append (save_log_entry_of oid (st_nspace (rs_s rs)) (st_pool_name (rs_s rs)) op_save)
                              (rs_save_log rs)\<rparr>
      else rs)"

text \<open>Writing the mail of a finished stream: its metadata, its object, the index and the save log.\<close>

definition write_mail :: "'w env \<Rightarrow> 'w dovecot_mail \<Rightarrow> nat \<Rightarrow> 64 word \<Rightarrow> nat \<Rightarrow> save_ctx \<Rightarrow> 'w rbox_state \<Rightarrow>
    (save_ctx \<times> 'w rbox_state) option" where
  "write_mail E M garbage offset i c x =
     (let rs = x_rs x in
      case (rbox_save_mail_set_metadata E M rs c ((sv_mails c ! i)\<lparr>m_object_size := to_int32 (uint offset)\<rparr>) (x_w x), rs_ms rs) of
        (Some (c1, m1, w1), Some kind) \<Rightarrow>
          (case (if st_max_object_size (rs_s rs) < m_object_size m1 then Some (True, m1, w1)
                 else case write_chunk_size rs of Inl _ \<Rightarrow> None
                 | Inr chunk \<Rightarrow>
                     map_option (\<lambda>(ret, m2, w2). (ret < 0, m2, w2))
                       (save_mail_write_append (en_rados E) (x_cl x) (rs_s rs) m1
                          (module_save (en_json E) (rs_json rs) kind m1 @ [WMtime (m_save_date m1)]) chunk w1)) of
             None \<Rightarrow> None
           | Some (failed, m2, w2) \<Rightarrow>
               map_option (\<lambda>w3. ((put_mail i m2 c1)\<lparr>sv_failed := failed\<rparr>, x\<lparr>x_rs := log_saved (m_oid m2) rs, x_w := w3\<rparr>))
                 (if failed then Some w2 else index_saved E garbage (m_oid m2) rs w2))
      | _ \<Rightarrow> None)"

definition rbox_save_finish :: "'w env \<Rightarrow> 'w dovecot_mail \<Rightarrow> nat \<Rightarrow> int \<times> bytes list list \<Rightarrow> save_ctx \<Rightarrow> 'w rbox_state \<Rightarrow>
    (int \<times> save_ctx \<times> 'w rbox_state) option" where
  "rbox_save_finish E M garbage fin c x =
     (case finish_stream E fin c x of None \<Rightarrow> None
      | Some (c1, x1) \<Rightarrow>
          map_option (\<lambda>(c2, x2). (if sv_failed c2 then -1 else 0, clean_up_write_finish M c2, x2))
            (if sv_failed c1 then Some (c1, x1)
             else
               let d = sv_data c1;
                   w1 = (if sd_save_date d \<noteq> -1 then dm_cache_save_date M (word_of_int (sd_save_date d)) (x_w x1) else x_w x1);
                   x2 = x1\<lparr>x_w := dm_cache_parse_deinit M (sd_received_date d) w1\<rparr>;
                   c2 = (if sv_output c1 = Output_wrapped then c1\<lparr>sv_output := Output_own\<rparr> else c1) in
               case (sv_output_stream c2, sv_rados_mail c2) of
                 (Some (s, _), Some i) \<Rightarrow>
                   if os_offset s = 0 then Some (c2\<lparr>sv_failed := True\<rparr>, x2) else write_mail E M garbage (os_offset s) i c2 x2
               | (Some (s, _), None) \<Rightarrow> if os_offset s = 0 then Some (c2\<lparr>sv_failed := True\<rparr>, x2) else None
               | (None, _) \<Rightarrow> None))"

definition rbox_save_cancel :: "'w env \<Rightarrow> 'w dovecot_mail \<Rightarrow> nat \<Rightarrow> int \<times> bytes list list \<Rightarrow> save_ctx \<Rightarrow> 'w rbox_state \<Rightarrow>
    (save_ctx \<times> 'w rbox_state) option" where
  "rbox_save_cancel E M garbage fin c x =
     map_option snd (rbox_save_finish E M garbage fin (c\<lparr>sv_failed := True\<rparr>) x)"

section \<open>Rollback\<close>

definition clean_up_mail_object_list :: "save_ctx \<Rightarrow> save_ctx" where
  "clean_up_mail_object_list c = c\<lparr>sv_rados_mails := []\<rparr>"

definition mail_at :: "save_ctx \<Rightarrow> nat option \<Rightarrow> rados_mail option" where
  "mail_at c p = map_option (\<lambda>i. sv_mails c ! i) p"

text \<open>The objects of all mails of the context are removed; of the index only the last record.\<close>

fun delete_mails :: "'w rados \<Rightarrow> cluster \<Rightarrow> storage \<Rightarrow> rados_mail option list \<Rightarrow> 'w \<Rightarrow> 'w" where
  "delete_mails R cl st [] w = w"
| "delete_mails R cl st (m # ms) w = delete_mails R cl st ms (snd (delete_mail_ptr R cl st m w))"

definition clean_up_failed :: "'w env \<Rightarrow> save_ctx \<Rightarrow> 'w rbox_state \<Rightarrow> save_ctx \<times> 'w rbox_state" where
  "clean_up_failed E c x =
     (let D = en_dovecot E;
          w1 = delete_mails (en_rados E) (x_cl x) (rs_s (x_rs x)) (map (mail_at c) (sv_rados_mails c)) (x_w x);
          w2 = (if sv_seq c > 0 then dv_expunge D (sv_seq c) w1 else w1);
          w3 = (if sv_transaction c then dv_cache_reset D w2 else w2)
      in ((clean_up_mail_object_list c)\<lparr>sv_mail_count := sv_mail_count c - 1\<rparr>, x\<lparr>x_w := w3\<rparr>))"

text \<open>The context is deleted at the end.\<close>

definition rbox_transaction_save_rollback :: "'w env \<Rightarrow> 'w dovecot_mail \<Rightarrow> nat \<Rightarrow> int \<times> bytes list list \<Rightarrow> save_ctx \<Rightarrow>
    'w rbox_state \<Rightarrow> 'w rbox_state option" where
  "rbox_transaction_save_rollback E M garbage fin c x =
     (case (if sv_finished c then Some (c, x)
            else map_option (\<lambda>(c1, x1). (clean_up_write_finish M c1, x1)) (rbox_save_cancel E M garbage fin c x)) of
        None \<Rightarrow> None
      | Some (c1, x1) \<Rightarrow>
          (case (case sv_sync_ctx c1 of None \<Rightarrow> Some x1
                 | Some sync \<Rightarrow> map_option snd (rbox_sync_finish E (sv_mbox c1) False sync x1)) of
             None \<Rightarrow> None
           | Some x2 \<Rightarrow>
               Some (if sv_failed c1 \<and> (\<not> sv_copying c1 \<or> \<not> sv_moving c1) then snd (clean_up_failed E c1 x2) else x2)))"

section \<open>Commit\<close>

text \<open>
  One uid per mail, in order; a mail without a uid or a uid without a mail fails an assertion.
  \<open>n\<close> counts the mails seen.
\<close>

fun assign_uids :: "'w env \<Rightarrow> rbox_storage \<Rightarrow> nat option list \<Rightarrow> 32 word \<Rightarrow> 32 word list \<Rightarrow> save_ctx \<Rightarrow> 'w \<Rightarrow>
    (int \<times> save_ctx \<times> 'w) option" where
  "assign_uids E rs [] n [] c w = Some (0, c, w)"
| "assign_uids E rs [] n (u # us) c w = None"
| "assign_uids E rs (p # ps) n [] c w = None"
| "assign_uids E rs (p # ps) n (uid # us) c w =
     (let c1 = c\<lparr>sv_rados_mail := p\<rparr>; md = convert_uint RBOX_METADATA_MAIL_UID uid in
      case (if is_mail_attribute (rs_json rs) RBOX_METADATA_MAIL_UID then
              (case (p, rs_ms rs) of
                 (Some i, Some kind) \<Rightarrow>
                   (case module_set_op (en_json E) (en_rados E) (rs_json rs) kind (rs_ms_io rs) (sv_mails c1 ! i) md
                           [WSetXattr (md_key md) (md_bl md)] w of
                      (r, m1, w1) \<Rightarrow> Some (r, put_mail i m1 c1, w1))
               | _ \<Rightarrow> None)
            else Some (0, c1, w)) of
        None \<Rightarrow> None
      | Some (r, c2, w1) \<Rightarrow>
          if r < 0 then Some (-1, c2, w1)
          else
            let n1 = n + 1;
                w2 = (if ucast (sv_highest_pop3_uidl_seq c2) = n1 + 1 then dv_pop3_max_uid (en_dovecot E) uid w1 else w1)
            in assign_uids E rs ps n1 us c2 w2)"

definition rbox_save_assign_uids :: "'w env \<Rightarrow> 32 word list \<Rightarrow> save_ctx \<Rightarrow> 'w rbox_state \<Rightarrow>
    (int \<times> save_ctx \<times> 'w rbox_state) option" where
  "rbox_save_assign_uids E uids c x =
     (if sv_rados_mails c = [] then Some (0, c, x)
      else map_option (\<lambda>(r, c1, w1). (r, c1, x\<lparr>x_w := w1\<rparr>)) (assign_uids E (x_rs x) (sv_rados_mails c) 0 uids c (x_w x)))"

definition HAVE_POP3_UIDLS :: "8 word" where "HAVE_POP3_UIDLS = 0x01"
definition HAVE_POP3_ORDERS :: "8 word" where "HAVE_POP3_ORDERS = 0x02"

definition rbox_save_update_header_flags :: "'w dovecot \<Rightarrow> nat \<Rightarrow> save_ctx \<Rightarrow> 'w \<Rightarrow> 'w" where
  "rbox_save_update_header_flags D flags_offset c w =
     (case dv_header_ext D w of None \<Rightarrow> w
      | Some data \<Rightarrow>
          let (old_flags, w1) = (if flags_offset < length data then (word_of_nat (of_char (data ! flags_offset)), w)
                                 else (0, dv_resize_hdr D (flags_offset + 1) w));
              f1 = (if sv_have_pop3_uidls c then or old_flags HAVE_POP3_UIDLS else old_flags);
              f2 = (if sv_have_pop3_orders c then or f1 HAVE_POP3_ORDERS else f1)
          in if f2 \<noteq> old_flags then dv_update_header_ext D flags_offset [char_of (unat f2)] w1 else w1)"

definition flags_offset :: nat where "flags_offset = 20"

text \<open>
  The result, the context while it exists, and the uids for dovecot. A synchronisation that begins
  without a context leaves a null pointer, which is followed.
\<close>

definition rbox_transaction_save_commit_pre :: "'w env \<Rightarrow> 'w dovecot_mail \<Rightarrow> 32 word \<Rightarrow> nat \<Rightarrow> namespace_info list \<Rightarrow>
    int \<times> bytes list list \<Rightarrow> save_ctx \<Rightarrow> 'w rbox_state \<Rightarrow> (int \<times> save_ctx option \<times> 32 word list \<times> 'w rbox_state) option" where
  "rbox_transaction_save_commit_pre E M garbage32 garbage nss fin c x =
     (if \<not> sv_finished c then None
      else case rbox_sync_begin E garbage32 nss (sv_mbox c) \<lparr>sf_force = True, sf_fsync = True, sf_force_rebuild = False\<rparr> x of
        None \<Rightarrow> None
      | Some (r, sync, box1, x1) \<Rightarrow>
          let c1 = c\<lparr>sv_mbox := box1, sv_sync_ctx := sync\<rparr> in
          if r < 0 then map_option (\<lambda>x2. (-1, None, [], x2)) (rbox_transaction_save_rollback E M garbage fin (c1\<lparr>sv_failed := True\<rparr>) x1)
          else case sync of None \<Rightarrow> None
          | Some _ \<Rightarrow>
            let D = en_dovecot E; w1 = rbox_save_update_header_flags D flags_offset c1 (x_w x1) in
            (case dv_header D w1 of None \<Rightarrow> Some (-1, Some c1, [], x1\<lparr>x_w := w1\<rparr>)
             | Some hdr \<Rightarrow>
               (case dv_finish_uids D (ih_next_uid hdr) w1 of (uids, w2) \<Rightarrow>
                  (case rbox_save_assign_uids E uids c1 (x1\<lparr>x_w := w2\<rparr>) of None \<Rightarrow> None
                   | Some (r2, c2, x2) \<Rightarrow>
                       if r2 < 0 then map_option (\<lambda>x3. (-1, None, uids, x3)) (rbox_transaction_save_rollback E M garbage fin c2 x2)
                       else Some (0, Some (if sv_dest_mail c2 then c2\<lparr>sv_dest_mail := False, sv_dest_mail_allocated := False\<rparr> else c2),
                                  uids, x2)))))"

definition rbox_transaction_save_commit_post :: "'w env \<Rightarrow> 'w dovecot_mail \<Rightarrow> nat \<Rightarrow> int \<times> bytes list list \<Rightarrow> save_ctx \<Rightarrow>
    'w rbox_state \<Rightarrow> 'w rbox_state option" where
  "rbox_transaction_save_commit_post E M garbage fin c x =
     (case sv_sync_ctx c of None \<Rightarrow> None
      | Some sync \<Rightarrow>
          (case rbox_sync_finish E (sv_mbox c) True sync (x\<lparr>x_w := dm_sync_set_result M (x_w x)\<rparr>) of None \<Rightarrow> None
           | Some (r, x1) \<Rightarrow>
               rbox_transaction_save_rollback E M garbage fin
                 (c\<lparr>sv_transaction := False, sv_sync_ctx := None, sv_failed := sv_failed c \<or> r < 0\<rparr>) x1))"

section \<open>Lemmas\<close>

text \<open>Two mails that agree on everything but their metadata and the time of saving.\<close>

definition same_mail :: "rados_mail \<Rightarrow> rados_mail \<Rightarrow> bool" where
  "same_mail m n \<longleftrightarrow> m_oid n = m_oid m \<and> m_buffer n = m_buffer m \<and> m_object_size n = m_object_size m \<and>
     m_deprecated_uid n = m_deprecated_uid m"

lemma same_mail_refl: "same_mail m m"
  by (simp add: same_mail_def)

lemma add_attribute_sel [simp]:
  "m_oid (add_attribute cfg k md m) = m_oid m" "m_buffer (add_attribute cfg k md m) = m_buffer m"
  "m_object_size (add_attribute cfg k md m) = m_object_size m" "m_deprecated_uid (add_attribute cfg k md m) = m_deprecated_uid m"
  by (simp_all add: add_attribute_def add_metadata_def split: option.split)

lemma add_attribute_get:
  "smap_get k (m_attrset (add_attribute cfg key md m)) =
     (case md of Some d \<Rightarrow> if is_mail_attribute cfg key \<and> k = md_key d then Some (md_bl d) else smap_get k (m_attrset m)
      | None \<Rightarrow> smap_get k (m_attrset m))"
  by (simp add: add_attribute_def add_metadata_def split: option.split)

lemma md_key_convert [simp]:
  "md_key (convert_str k s) = rbox_metadata_key_to_char k" "md_key (convert_cstr k s) = rbox_metadata_key_to_char k"
  "md_key (convert_time k t) = rbox_metadata_key_to_char k" "md_key (convert_uint k u) = rbox_metadata_key_to_char k"
  "md_key (convert_size k v) = rbox_metadata_key_to_char k"
  by (simp_all add: convert_str_def convert_cstr_def convert_time_def convert_uint_def convert_size_def Let_def)

lemma add_keywords_ok:
  assumes "length ids \<le> length ks"
  shows "\<exists>m1. add_keywords ids ks m = Some m1 \<and> same_mail m m1 \<and> m_attrset m1 = m_attrset m"
  using assms
proof (induction ids ks m rule: add_keywords.induct)
  case (3 i ids k ks m)
  then obtain m1 where "add_keywords ids ks (add_extended_metadata (metadata_kv (int_to_string (uint i)) (c_str k)) m) = Some m1"
      "same_mail (add_extended_metadata (metadata_kv (int_to_string (uint i)) (c_str k)) m) m1"
      "m_attrset m1 = m_attrset (add_extended_metadata (metadata_kv (int_to_string (uint i)) (c_str k)) m)"
    by auto
  then show ?case by (auto simp: same_mail_def add_extended_metadata_def)
qed (simp_all add: same_mail_refl)

lemma size_attributes_ok:
  assumes "law_dovecot_mail M V" and "input \<noteq> None"
  shows "\<exists>m1 w1. size_attributes M cfg input m w = Some (m1, w1) \<and> V w1 = V w \<and> same_mail m m1 \<and>
    (\<forall>k. k \<noteq> rbox_metadata_key_to_char RBOX_METADATA_VIRTUAL_SIZE \<and> k \<noteq> rbox_metadata_key_to_char RBOX_METADATA_PHYSICAL_SIZE
       \<longrightarrow> smap_get k (m_attrset m1) = smap_get k (m_attrset m))"
proof -
  obtain n where n: "input = Some n" using assms(2) by blast
  obtain v w1 where v: "dm_virtual_size M w = (v, w1)" by fastforce
  have "V w1 = V w" using law_dovecot_mailD(2) [OF assms(1), of w] v by simp
  then show ?thesis
    using n v by (cases v) (auto simp: size_attributes_def same_mail_def add_metadata_def)
qed

lemma identity_attributes_ok:
  "same_mail m (identity_attributes D cfg c m)"
  "is_mail_attribute cfg RBOX_METADATA_MAILBOX_GUID \<Longrightarrow>
     smap_get ''M'' (m_attrset (identity_attributes D cfg c m)) = Some (c_str (dv_guid_to_string D (bx_guid (sv_mbox c))) @ [NUL])"
proof -
  show "same_mail m (identity_attributes D cfg c m)"
    by (simp add: identity_attributes_def Let_def same_mail_def)
  show "smap_get ''M'' (m_attrset (identity_attributes D cfg c m)) = Some (c_str (dv_guid_to_string D (bx_guid (sv_mbox c))) @ [NUL])"
    if "is_mail_attribute cfg RBOX_METADATA_MAILBOX_GUID"
    using that by (simp add: identity_attributes_def Let_def add_attribute_get convert_cstr_def convert_time_def convert_uint_def split: option.split)
qed

lemma flags_metadata_key: "flags_metadata key flags = Some d \<Longrightarrow> md_key d = rbox_metadata_key_to_char key"
  by (auto simp: flags_metadata_def split: if_splits prod.splits)

lemma flag_attributes_ok:
  "same_mail m (flag_attributes cfg c m)"
  "smap_get ''M'' (m_attrset (flag_attributes cfg c m)) = smap_get ''M'' (m_attrset m)"
proof -
  show "same_mail m (flag_attributes cfg c m)"
    by (simp add: flag_attributes_def Let_def same_mail_def)
  show "smap_get ''M'' (m_attrset (flag_attributes cfg c m)) = smap_get ''M'' (m_attrset m)"
    by (auto simp: flag_attributes_def Let_def add_attribute_get dest!: flags_metadata_key split: option.split)
qed

text \<open>The part of a context that setting the metadata does not touch.\<close>

lemma note_pop3_sel [simp]:
  "sv_data (note_pop3 a b c) = sv_data c" "sv_mails (note_pop3 a b c) = sv_mails c" "sv_seq (note_pop3 a b c) = sv_seq c"
  "sv_rados_mails (note_pop3 a b c) = sv_rados_mails c" "sv_mbox (note_pop3 a b c) = sv_mbox c"
  by (simp_all add: note_pop3_def note_highest_def Let_def)

lemma set_metadata_ok:
  assumes "law_dovecot_mail M V" and "sv_input c \<noteq> None" and "\<And>w. length (dm_keyword_indexes M w) \<le> length (dm_keywords M w)"
  shows "\<exists>a b m1 w1. rbox_save_mail_set_metadata E M rs c m w = Some (note_pop3 a b c, m1, w1) \<and> V w1 = V w \<and> same_mail m m1 \<and>
    (is_mail_attribute (rs_json rs) RBOX_METADATA_MAILBOX_GUID \<longrightarrow>
       smap_get ''M'' (m_attrset m1) = Some (c_str (dv_guid_to_string (en_dovecot E) (bx_guid (sv_mbox c))) @ [NUL]))"
proof -
  define m1 where m1: "m1 = identity_attributes (en_dovecot E) (rs_json rs) c m"
  obtain m2 w1 where s: "size_attributes M (rs_json rs) (sv_input c) m1 w = Some (m2, w1)" "V w1 = V w" "same_mail m1 m2"
      "smap_get ''M'' (m_attrset m2) = smap_get ''M'' (m_attrset m1)"
    using size_attributes_ok [OF assms(1,2), of "rs_json rs" m1 w] by auto
  define m3 where m3: "m3 = flag_attributes (rs_json rs) c m2"
  obtain m4 where k: "(if is_mail_attribute (rs_json rs) RBOX_METADATA_OLDV1_KEYWORDS
        then add_keywords (dm_keyword_indexes M w1) (dm_keywords M w1) m3 else Some m3) = Some m4"
      "same_mail m3 m4" "m_attrset m4 = m_attrset m3"
    using add_keywords_ok [OF assms(3), of w1 m3] same_mail_refl [of m3]
    by (cases "is_mail_attribute (rs_json rs) RBOX_METADATA_OLDV1_KEYWORDS") auto
  let ?m = "m4\<lparr>m_save_date := sd_save_date (sv_data c)\<rparr>"
  have "same_mail m ?m"
    using identity_attributes_ok(1) [of m] flag_attributes_ok(1) [of m2] s(3) k(2) unfolding m1 m3 same_mail_def by simp
  moreover have "smap_get ''M'' (m_attrset ?m) = Some (c_str (dv_guid_to_string (en_dovecot E) (bx_guid (sv_mbox c))) @ [NUL])"
    if "is_mail_attribute (rs_json rs) RBOX_METADATA_MAILBOX_GUID"
    using identity_attributes_ok(2) [OF that] flag_attributes_ok(2) s(4) k(3) by (simp add: m1 m3)
  moreover have "rbox_save_mail_set_metadata E M rs c m w = Some (note_pop3
      (is_mail_attribute (rs_json rs) RBOX_METADATA_POP3_UIDL \<and> sd_pop3_uidl (sv_data c) \<noteq> None)
      (is_mail_attribute (rs_json rs) RBOX_METADATA_POP3_ORDER \<and> sd_pop3_order (sv_data c) \<noteq> 0) c, ?m, w1)"
    using s(1) k(1) unfolding rbox_save_mail_set_metadata_def Let_def m1 [symmetric] by (simp only: option.case prod.case m3 [symmetric] option.map)
  ultimately show ?thesis using s(2) by blast
qed

text \<open>Opening the connection of a storage that is connected.\<close>

definition waiting :: "rbox_storage \<Rightarrow> rbox_storage" where
  "waiting rs = rs\<lparr>rs_s := (rs_s rs)\<lparr>st_wait_method := wait_method rs\<rparr>\<rparr>"

lemma waiting_sel [simp]:
  "rs_config (waiting rs) = rs_config rs" "rs_ms (waiting rs) = rs_ms rs" "rs_ms_alt (waiting rs) = rs_ms_alt rs"
  "rs_alt (waiting rs) = rs_alt rs" "st_io_ctx (rs_s (waiting rs)) = st_io_ctx (rs_s rs)" "rs_json (waiting rs) = rs_json rs"
  "storage_ready cl (rs_s (waiting rs)) = storage_ready cl (rs_s rs)" "rs_save_log (waiting rs) = rs_save_log rs"
  "st_max_object_size (rs_s (waiting rs)) = st_max_object_size (rs_s rs)"
  "get_max_write_size_bytes (rs_s (waiting rs)) = get_max_write_size_bytes (rs_s rs)"
  "write_chunk_size (waiting rs) = write_chunk_size rs"
  by (simp_all add: waiting_def rs_json_def storage_ready_def get_max_write_size_bytes_def write_chunk_size_def cong: sum.case_cong if_cong)

lemma open_ready:
  assumes "state_ready box False x"
  shows "rbox_open_rados_connection E box False x = Some (0, x\<lparr>x_rs := waiting (x_rs x)\<rparr>)"
  using assms
  by (simp add: rbox_open_rados_connection_def open_connections_def open_connection_user_def Let_def state_ready_def
      storage_ready_def waiting_def)

lemma state_ready_w [simp]: "state_ready box alt (x\<lparr>x_w := w\<rparr>) = state_ready box alt x"
  by (simp add: state_ready_def)

lemma same_storages_waiting [simp]: "same_storages (x\<lparr>x_rs := waiting (x_rs x), x_w := w\<rparr>) y = same_storages x y"
  by (simp add: same_storages_def waiting_def)

lemma setup_mail_object_ok:
  assumes "law_dovecot D V"
  shows "\<exists>dep guid w1. setup_mail_object D c w =
    Some ((alloc_mail (new_rados_mail\<lparr>m_oid := dv_guid_to_string D (fst (dv_guid_generate D w)), m_deprecated_uid := dep\<rparr>) c)
            \<lparr>sv_mail_oid := fst (dv_guid_generate D w), sv_mail_guid := guid\<rparr>, w1) \<and> V w1 = V w"
proof -
  obtain oid w1 where o: "dv_guid_generate D w = (oid, w1)" by fastforce
  obtain g w2 where g: "dv_guid_generate D w1 = (g, w2)" by fastforce
  have v: "V w1 = V w" "V w2 = V w"
    using law_dovecotD(1) [OF assms, of w] law_dovecotD(1) [OF assms, of w1] o g by simp_all
  show ?thesis
  proof (cases "sd_guid (sv_data c)")
    case None
    then show ?thesis using o g v by (auto simp: setup_mail_object_def save_guid_def)
  next
    case (Some str)
    obtain t where "find_and_replace str ''-'' [] = Some t"
      using find_and_replace_loop_returns [of "''-''" "[]" str 0] by (auto simp: find_and_replace_def)
    then show ?thesis using Some o v by (auto simp: setup_mail_object_def save_guid_def)
  qed
qed

lemma index_append_ok:
  assumes "law_dovecot D V"
  shows "\<exists>seq. fst (rbox_index_append D c w) = c\<lparr>sv_seq := seq\<rparr>" and "V (snd (rbox_index_append D c w)) = V w"
proof -
  obtain seq w1 where a: "dv_append D (sd_uid (sv_data c)) w = (seq, w1)" by fastforce
  then have "V w1 = V w" using law_dovecotD(16) [OF assms] by (metis snd_conv)
  then show "\<exists>seq. fst (rbox_index_append D c w) = c\<lparr>sv_seq := seq\<rparr>" and "V (snd (rbox_index_append D c w)) = V w"
    using a law_dovecotD [OF assms] by (auto simp: rbox_index_append_def Let_def split: option.split)
qed

lemma add_to_index_ok:
  assumes "law_dovecot D V"
  shows "\<exists>seq. fst (rbox_add_to_index D c w) = c\<lparr>sv_seq := seq, sv_rados_mails := sv_rados_mails c @ [sv_rados_mail c]\<rparr>"
    and "V (snd (rbox_add_to_index D c w)) = V w"
  using index_append_ok [OF assms, of c w] law_dovecotD [OF assms]
  by (auto simp: rbox_add_to_index_def split: prod.split)

text \<open>
  The state of a context while a mail is saved: the mail is the last one allocated, and the stream of
  the context collects its data.
\<close>

definition collecting :: "save_ctx \<Rightarrow> bytes \<Rightarrow> rados_mail \<Rightarrow> save_ctx \<Rightarrow> bool" where
  "collecting c0 data m c \<longleftrightarrow> (let i = length (sv_mails c0) in
     \<not> sv_failed c \<and> sv_input c \<noteq> None \<and> sv_output c = Output_own \<and> sv_rados_mail c = Some i \<and> sv_mails c = sv_mails c0 @ [m] \<and>
     sv_output_stream c = Some (\<lparr>os_offset = word_of_nat (length data), os_seeked = False, os_execute_write_ops = False\<rparr>, i) \<and>
     sv_rados_mails c = sv_rados_mails c0 @ [Some i] \<and> sv_mbox c = sv_mbox c0 \<and> sv_sync_ctx c = sv_sync_ctx c0 \<and> m_buffer m = data)"

lemma save_begin_ok:
  assumes "law_dovecot (en_dovecot E) V" and "law_dovecot_mail M V" and "state_ready (sv_mbox c) False x"
    and "\<not> cfg_true (x_rs x) ''rbox_ceph_write_chunks''"
  shows "\<exists>c1 w1 m. rbox_save_begin E M now c x = Some (0, c1, x\<lparr>x_rs := waiting (x_rs x), x_w := w1\<rparr>) \<and> V w1 = V (x_w x) \<and>
    collecting c [] m c1 \<and> m_oid m = dv_guid_to_string (en_dovecot E) (fst (dv_guid_generate (en_dovecot E) (x_w x)))"
proof -
  let ?D = "en_dovecot E" and ?i = "length (sv_mails c)"
  let ?c = "c\<lparr>sv_failed := False, sv_dest_mail := True, sv_dest_mail_allocated := sv_dest_mail_allocated c \<or> \<not> sv_dest_mail c\<rparr>"
  obtain dep guid w1 where s: "setup_mail_object ?D ?c (x_w x) =
      Some ((alloc_mail (new_rados_mail\<lparr>m_oid := dv_guid_to_string ?D (fst (dv_guid_generate ?D (x_w x))), m_deprecated_uid := dep\<rparr>) ?c)
            \<lparr>sv_mail_oid := fst (dv_guid_generate ?D (x_w x)), sv_mail_guid := guid\<rparr>, w1)" "V w1 = V (x_w x)"
    using setup_mail_object_ok [OF assms(1)] by blast
  define m where m: "m = new_rados_mail\<lparr>m_oid := dv_guid_to_string ?D (fst (dv_guid_generate ?D (x_w x))), m_deprecated_uid := dep\<rparr>"
  define c2 where c2: "c2 = (alloc_mail m ?c)\<lparr>sv_mail_oid := fst (dv_guid_generate ?D (x_w x)), sv_mail_guid := guid\<rparr>"
  define c3 where c3: "c3 = c2\<lparr>sv_output_stream := Some (\<lparr>os_offset = 0, os_seeked = False, os_execute_write_ops = False\<rparr>, ?i),
      sv_output := Output_own\<rparr>"
  have mb: "m\<lparr>m_buffer := []\<rparr> = m" by (simp add: m new_rados_mail_def)
  have i3: "init_output_stream False c2 = Some c3"
    by (simp add: init_output_stream_def c2 c3 alloc_mail_def o_stream_create_bufferlist_def put_mail_def mb)
  obtain c4 w2 where a: "rbox_add_to_index ?D c3 w1 = (c4, w2)" by fastforce
  obtain seq where c4: "c4 = c3\<lparr>sv_seq := seq, sv_rados_mails := sv_rados_mails c3 @ [sv_rados_mail c3]\<rparr>" and v2: "V w2 = V w1"
    using add_to_index_ok [OF assms(1), of c3 w1] a by auto
  have "sv_mbox c3 = sv_mbox c" by (simp add: c3 c2 alloc_mail_def)
  then have o: "rbox_open_rados_connection E (sv_mbox c3) False (x\<lparr>x_w := w1\<rparr>) = Some (0, x\<lparr>x_w := w1, x_rs := waiting (x_rs x)\<rparr>)"
    using open_ready [of "sv_mbox c3" "x\<lparr>x_w := w1\<rparr>" E] assms(3) by simp
  let ?d = "sv_data c4"
  let ?c5 = "c4\<lparr>sv_input := Some 0, sv_data := (if sd_received_date ?d = -1 then ?d\<lparr>sd_received_date := now\<rparr> else ?d)\<rparr>"
  let ?w = "dm_set_seq_saving M seq w2"
  have "rbox_save_begin E M now c x = Some (0, ?c5, x\<lparr>x_rs := waiting (x_rs x), x_w := ?w\<rparr>)"
    using s(1) assms(4) i3 o a c4 unfolding rbox_save_begin_def Let_def m [symmetric] c2 [symmetric] by simp
  moreover have "V ?w = V (x_w x)" using law_dovecot_mailD(1) [OF assms(2)] v2 s(2) by simp
  moreover have "collecting c [] m ?c5"
    by (simp add: collecting_def Let_def c4 c3 c2 alloc_mail_def m new_rados_mail_def)
  moreover have "m_oid m = dv_guid_to_string ?D (fst (dv_guid_generate ?D (x_w x)))" by (simp add: m)
  ultimately show ?thesis by blast
qed

lemma save_continue_ok:
  assumes "collecting c0 data m c" and "0 \<le> ret"
  shows "\<exists>c1. rbox_save_continue E ret iovs consumed c x = Some (0, c1, x) \<and>
    collecting c0 (data @ concat (concat iovs)) (m\<lparr>m_buffer := data @ concat (concat iovs)\<rparr>) c1"
  using assms
  by (auto simp: rbox_save_continue_def stream_data_def collecting_def Let_def sends_collect put_mail_def)

lemma module_save_metadata: "list_all metadata_item (module_save J cfg kind m)"
  by (cases kind) (simp_all add: default_module.save_only ima_module.save_only)

text \<open>Writing the mail that was collected.\<close>

lemma write_mail_ok:
  assumes "law_operate (en_rados E) V" and "law_append (en_rados E) V" and "writes_succeed (en_rados E)"
    and "law_dovecot_mail M V" and "\<And>w. length (dm_keyword_indexes M w) \<le> length (dm_keywords M w)"
    and "rs_ms (x_rs x) = Some kind" and "storage_ready (x_cl x) (rs_s (x_rs x))"
    and "write_chunk_size (x_rs x) = Inr chunk" and "0 < chunk" and "int chunk \<le> INT_MAX"
    and "get_object_search_method (rs_config (x_rs x)) = Inr search" and "search \<noteq> 2"
    and "data \<noteq> []" and "int (length data) \<le> INT_MAX" and "int (length data) \<le> st_max_object_size (rs_s (x_rs x))"
    and "sv_input c \<noteq> None" and "i < length (sv_mails c)" and "m_buffer (sv_mails c ! i) = data"
    and "V (x_w x) (okey (st_io_ctx (rs_s (x_rs x))) (m_oid (sv_mails c ! i))) = None"
  shows "\<exists>c1 x1 m1 ob. write_mail E M garbage (word_of_nat (length data)) i c x = Some (c1, x1) \<and> \<not> sv_failed c1 \<and> same_storages x x1 \<and>
    sv_rados_mails c1 = sv_rados_mails c \<and> m_oid (sv_mails c1 ! i) = m_oid (sv_mails c ! i) \<and>
    V (x_w x1) = (V (x_w x))(okey (st_io_ctx (rs_s (x_rs x))) (m_oid (sv_mails c ! i)) \<mapsto> ob) \<and> o_data ob = data \<and>
    holds_metadata (module_save (en_json E) (rs_json (x_rs x)) kind m1) ob \<and>
    (is_mail_attribute (rs_json (x_rs x)) RBOX_METADATA_MAILBOX_GUID \<longrightarrow>
       smap_get ''M'' (m_attrset m1) = Some (c_str (dv_guid_to_string (en_dovecot E) (bx_guid (sv_mbox c))) @ [NUL]))"
proof -
  let ?rs = "x_rs x"
  let ?m = "(sv_mails c ! i)\<lparr>m_object_size := int (length data)\<rparr>"
  have u: "uint (word_of_nat (length data) :: 64 word) = int (length data)"
    using assms(14) unfolding unsigned_of_nat by (simp add: take_bit_nat_eq_self)
  have sz: "to_int32 (uint (word_of_nat (length data) :: 64 word)) = int (length data)"
    unfolding u using assms(14) by (simp add: to_int32_id)
  obtain a b m1 w1 where s: "rbox_save_mail_set_metadata E M ?rs c ?m (x_w x) = Some (note_pop3 a b c, m1, w1)" "V w1 = V (x_w x)"
      "same_mail ?m m1" "is_mail_attribute (rs_json ?rs) RBOX_METADATA_MAILBOX_GUID \<longrightarrow>
       smap_get ''M'' (m_attrset m1) = Some (c_str (dv_guid_to_string (en_dovecot E) (bx_guid (sv_mbox c))) @ [NUL])"
    using set_metadata_ok [OF assms(4,16,5)] by blast
  have m1: "m_buffer m1 = data" "m_object_size m1 = int (length data)" "m_oid m1 = m_oid (sv_mails c ! i)"
    using s(3) assms(18) by (simp_all add: same_mail_def)
  obtain m2 w2 ob where w: "save_mail_write_append (en_rados E) (x_cl x) (rs_s ?rs) m1
        (module_save (en_json E) (rs_json ?rs) kind m1 @ [WMtime (m_save_date m1)]) chunk w1 = Some (0, m2, w2)" "m_oid m2 = m_oid m1"
      "V w2 = (V w1)(okey (st_io_ctx (rs_s ?rs)) (m_oid m1) \<mapsto> ob)" "o_data ob = data"
      "holds_metadata (module_save (en_json E) (rs_json ?rs) kind m1) ob"
    using write_append_succeeds [OF assms(3,1,2,7,9,10) _ _ _ module_save_metadata, of m1 w1 "en_json E" "rs_json ?rs" kind m1 "m_save_date m1"]
      assms(13,14,19) m1 s(2) by auto
  have "write_mail E M garbage (word_of_nat (length data)) i c x =
      Some ((put_mail i m2 (note_pop3 a b c))\<lparr>sv_failed := False\<rparr>, x\<lparr>x_rs := log_saved (m_oid m2) ?rs, x_w := w2\<rparr>)"
    using s(1) w(1) assms(6,8,11,12,15) m1(2) unfolding write_mail_def Let_def sz by (simp add: index_saved_def)
  then show ?thesis
    using w(2-5) s(2,4) m1(3) assms(17) by (auto simp: put_mail_def same_storages_def log_saved_def)
qed

text \<open>
  The storage is connected and configured to write mails of \<open>n\<close> bytes as a whole, without the index
  of objects.
\<close>

definition can_save :: "rbox_mailbox \<Rightarrow> nat \<Rightarrow> 'w rbox_state \<Rightarrow> bool" where
  "can_save box n x \<longleftrightarrow> (let rs = x_rs x in
     state_ready box False x \<and> rs_ms rs \<noteq> None \<and> \<not> cfg_true rs ''rbox_ceph_write_chunks'' \<and>
     (case write_chunk_size rs of Inl _ \<Rightarrow> False | Inr chunk \<Rightarrow> 0 < chunk \<and> int chunk \<le> INT_MAX) \<and>
     (case get_object_search_method (rs_config rs) of Inl _ \<Rightarrow> False | Inr search \<Rightarrow> search \<noteq> 2) \<and>
     int n \<le> INT_MAX \<and> int n \<le> st_max_object_size (rs_s rs))"

text \<open>Saving one mail: begin, one round of data, finish.\<close>

definition save_session :: "'w env \<Rightarrow> 'w dovecot_mail \<Rightarrow> nat \<Rightarrow> int \<Rightarrow> bytes list list \<Rightarrow> 64 word \<Rightarrow> int \<times> bytes list list \<Rightarrow>
    save_ctx \<Rightarrow> 'w rbox_state \<Rightarrow> (int \<times> save_ctx \<times> 'w rbox_state) option" where
  "save_session E M garbage now iovs consumed fin c x =
     (case rbox_save_begin E M now c x of None \<Rightarrow> None
      | Some (_, c1, x1) \<Rightarrow>
        (case rbox_save_continue E 0 iovs consumed c1 x1 of None \<Rightarrow> None
         | Some (_, c2, x2) \<Rightarrow> rbox_save_finish E M garbage fin c2 x2))"

lemma save_finish_ok:
  assumes "law_operate (en_rados E) V" and "law_append (en_rados E) V" and "writes_succeed (en_rados E)"
    and "law_dovecot_mail M V" and "\<And>w. length (dm_keyword_indexes M w) \<le> length (dm_keywords M w)"
    and "can_save box (length data) x" and "rs_ms (x_rs x) = Some kind" and "data \<noteq> []"
    and "collecting c0 data m c" and "V (x_w x) (okey (st_io_ctx (rs_s (x_rs x))) (m_oid m)) = None" and "0 \<le> fst fin"
  shows "\<exists>c1 x1 m1 ob. rbox_save_finish E M garbage fin c x = Some (0, c1, x1) \<and> sv_finished c1 \<and> \<not> sv_failed c1 \<and> same_storages x x1 \<and>
    sv_rados_mails c1 = sv_rados_mails c0 @ [Some (length (sv_mails c0))] \<and> m_oid (sv_mails c1 ! length (sv_mails c0)) = m_oid m \<and>
    V (x_w x1) = (V (x_w x))(okey (st_io_ctx (rs_s (x_rs x))) (m_oid m) \<mapsto> ob) \<and> o_data ob = data \<and>
    holds_metadata (module_save (en_json E) (rs_json (x_rs x)) kind m1) ob \<and>
    (is_mail_attribute (rs_json (x_rs x)) RBOX_METADATA_MAILBOX_GUID \<longrightarrow>
       smap_get ''M'' (m_attrset m1) = Some (c_str (dv_guid_to_string (en_dovecot E) (bx_guid (sv_mbox c0))) @ [NUL]))"
proof -
  let ?i = "length (sv_mails c0)" and ?rs = "x_rs x" and ?d = "sv_data c"
  define c1 where c1: "c1 = c\<lparr>sv_failed := sv_failed c \<or> fst fin < 0\<rparr>"
  define x1 where x1: "x1 = x\<lparr>x_w := dm_cache_parse_deinit M (sd_received_date ?d)
      (if sd_save_date ?d \<noteq> -1 then dm_cache_save_date M (word_of_int (sd_save_date ?d)) (x_w x) else x_w x)\<rparr>"
  have v: "V (x_w x1) = V (x_w x)" using law_dovecot_mailD [OF assms(4)] by (simp add: x1)
  obtain chunk search where cfg: "storage_ready (x_cl x) (rs_s ?rs)" "write_chunk_size ?rs = Inr chunk" "0 < chunk"
      "int chunk \<le> INT_MAX" "get_object_search_method (rs_config ?rs) = Inr search" "search \<noteq> 2"
      "int (length data) \<le> INT_MAX" "int (length data) \<le> st_max_object_size (rs_s ?rs)"
    using assms(6) by (auto simp: can_save_def Let_def state_ready_def split: sum.splits)
  have rs1: "x_rs x1 = ?rs" "x_cl x1 = x_cl x" by (simp_all add: x1)
  have col: "sv_output_stream c1 = Some (\<lparr>os_offset = word_of_nat (length data), os_seeked = False, os_execute_write_ops = False\<rparr>, ?i)"
      "sv_rados_mail c1 = Some ?i" "sv_mails c1 = sv_mails c0 @ [m]" "\<not> sv_failed c1" "sv_output c = Output_own"
      "sv_rados_mails c1 = sv_rados_mails c0 @ [Some ?i]" "sv_mbox c1 = sv_mbox c0" "sv_input c1 \<noteq> None" "m_buffer m = data"
    using assms(9,11) by (auto simp: collecting_def Let_def c1)
  have mi: "sv_mails c1 ! ?i = m" "?i < length (sv_mails c1)" using col(3) by simp_all
  have "\<exists>c2 x2 m1 ob. write_mail E M garbage (word_of_nat (length data)) ?i c1 x1 = Some (c2, x2) \<and> \<not> sv_failed c2 \<and> same_storages x1 x2 \<and>
    sv_rados_mails c2 = sv_rados_mails c1 \<and> m_oid (sv_mails c2 ! ?i) = m_oid (sv_mails c1 ! ?i) \<and>
    V (x_w x2) = (V (x_w x1))(okey (st_io_ctx (rs_s (x_rs x1))) (m_oid (sv_mails c1 ! ?i)) \<mapsto> ob) \<and> o_data ob = data \<and>
    holds_metadata (module_save (en_json E) (rs_json (x_rs x1)) kind m1) ob \<and>
    (is_mail_attribute (rs_json (x_rs x1)) RBOX_METADATA_MAILBOX_GUID \<longrightarrow>
       smap_get ''M'' (m_attrset m1) = Some (c_str (dv_guid_to_string (en_dovecot E) (bx_guid (sv_mbox c1))) @ [NUL]))"
    by (rule write_mail_ok [OF assms(1-5) _ _ _ cfg(3,4) _ cfg(6) assms(8) cfg(7)])
       (use assms(7,10) cfg col mi v in \<open>simp_all add: rs1\<close>)
  then obtain c2 x2 m1 ob where wm: "write_mail E M garbage (word_of_nat (length data)) ?i c1 x1 = Some (c2, x2)" "\<not> sv_failed c2" "same_storages x1 x2"
    "sv_rados_mails c2 = sv_rados_mails c1" "m_oid (sv_mails c2 ! ?i) = m_oid m"
    "V (x_w x2) = (V (x_w x))(okey (st_io_ctx (rs_s ?rs)) (m_oid m) \<mapsto> ob)" "o_data ob = data"
    "holds_metadata (module_save (en_json E) (rs_json ?rs) kind m1) ob"
    "is_mail_attribute (rs_json ?rs) RBOX_METADATA_MAILBOX_GUID \<longrightarrow>
       smap_get ''M'' (m_attrset m1) = Some (c_str (dv_guid_to_string (en_dovecot E) (bx_guid (sv_mbox c0))) @ [NUL])"
    unfolding v mi rs1 col(7) by blast
  have "(word_of_nat (length data) :: 64 word) \<noteq> 0"
    using assms(8) cfg(7) unat_word_of_nat_less [where 'a = 64, of "length data"] by auto
  moreover have "finish_stream E fin c x = Some (c1, x)" "sv_data c1 = ?d" "sv_output c1 = Output_own"
    using col(5) by (simp_all add: finish_stream_def c1)
  note fs = this
  have "rbox_save_finish E M garbage fin c x = Some (0, clean_up_write_finish M c2, x2)"
    using calculation col(1,2,4) wm(1,2)
    unfolding rbox_save_finish_def fs option.case prod.case Let_def x1 [symmetric] by simp
  then show ?thesis
    using wm(2-9) col(6) by (auto simp: clean_up_write_finish_def same_storages_def rs1)
qed

text \<open>The pointers of a list are valid, and the keys of the objects they lead to.\<close>

definition ptr_oid :: "save_ctx \<Rightarrow> nat option \<Rightarrow> string" where
  "ptr_oid c p = m_oid (sv_mails c ! the p)"

definition valid_ptrs :: "save_ctx \<Rightarrow> nat option list \<Rightarrow> bool" where
  "valid_ptrs c ps \<longleftrightarrow> list_all (\<lambda>p. ptr_oid c p \<noteq> [] \<and> (case p of None \<Rightarrow> False | Some i \<Rightarrow> i < length (sv_mails c))) ps"

text \<open>A cluster that answers every removal.\<close>

definition removals_succeed :: "'w rados \<Rightarrow> bool" where
  "removals_succeed R \<longleftrightarrow> (\<forall>c oid w. 0 \<le> fst (rd_remove R c oid w) \<or> fst (rd_remove R c oid w) = - ENOENT)"

lemma mem_removals_succeed: "removals_succeed mem_rados"
  by (simp add: removals_succeed_def mem_rados_def)

lemma delete_mails_removes:
  assumes "law_remove R V" and "law_remove_fail R V" and "removals_succeed R" and "storage_ready cl st" and "valid_ptrs c ps"
  shows "V (delete_mails R cl st (map (mail_at c) ps) w) =
    (\<lambda>k. if k \<in> okey (st_io_ctx st) ` ptr_oid c ` set ps then None else V w k)"
  using assms(5)
proof (induction ps arbitrary: w)
  case (Cons p ps)
  obtain i where p: "p = Some i" "m_oid (sv_mails c ! i) \<noteq> []" and ps: "valid_ptrs c ps"
    using Cons.prems by (auto simp: valid_ptrs_def ptr_oid_def split: option.splits)
  obtain r w1 where r: "rd_remove R (st_io_ctx st) (ptr_oid c p) w = (r, w1)" by fastforce
  then have "0 \<le> r \<or> r = - ENOENT" using assms(3) by (metis fst_conv removals_succeed_def)
  then have v: "V w1 = (V w)(okey (st_io_ctx st) (ptr_oid c p) := None)" using remove_effect(2) [OF assms(1,2) r] by blast
  have "delete_mail_ptr R cl st (mail_at c p) w = (r, w1)"
    using r p assms(4) by (simp add: delete_mail_ptr_def delete_mail_def mail_at_def ptr_oid_def storage_ready_def)
  then have "V (delete_mails R cl st (map (mail_at c) (p # ps)) w) k =
      (if k \<in> okey (st_io_ctx st) ` ptr_oid c ` set (p # ps) then None else V w k)" for k
    using Cons.IH [OF ps, of w1] v by (cases "k = okey (st_io_ctx st) (ptr_oid c p)") simp_all
  then show ?case by blast
qed simp

lemma clean_up_failed_removes:
  assumes "law_dovecot (en_dovecot E) V" and "law_remove (en_rados E) V" and "law_remove_fail (en_rados E) V"
    and "removals_succeed (en_rados E)" and "storage_ready (x_cl x) (rs_s (x_rs x))" and "valid_ptrs c (sv_rados_mails c)"
  shows "V (x_w (snd (clean_up_failed E c x))) =
    (\<lambda>k. if k \<in> okey (st_io_ctx (rs_s (x_rs x))) ` ptr_oid c ` set (sv_rados_mails c) then None else V (x_w x) k)"
  using delete_mails_removes [OF assms(2-6), of "x_w x"] law_dovecotD [OF assms(1)]
  by (simp add: clean_up_failed_def Let_def)

lemma set_op_default:
  assumes "law_aio_operate R V" and "aio_succeeds R"
  shows "\<exists>m1 w1 t. module_set_op J R cfg Module_Default io m (convert_uint RBOX_METADATA_MAIL_UID uid)
      [WSetXattr (md_key (convert_uint RBOX_METADATA_MAIL_UID uid)) (md_bl (convert_uint RBOX_METADATA_MAIL_UID uid))] w = (0, m1, w1) \<and>
    m_oid m1 = m_oid m \<and> V w1 = (V w)(okey io (m_oid m) \<mapsto> with_uid uid (touched t (V w) (okey io (m_oid m))))"
proof -
  let ?op = "[WSetXattr (md_key (convert_uint RBOX_METADATA_MAIL_UID uid)) (md_bl (convert_uint RBOX_METADATA_MAIL_UID uid))]"
  obtain r cr w1 where o: "rd_aio_operate R io (m_oid m) ?op w = (r, cr, w1)" using prod_cases3 by blast
  then have r: "r = 0" "cr = 0" using assms(2) unfolding aio_succeeds_def by blast+
  then obtain t where "V w1 = (V w)(okey io (m_oid m) \<mapsto> apply_op (V w) ?op (touched t (V w) (okey io (m_oid m))))"
    using assms(1) o unfolding law_aio_operate_def by fastforce
  then show ?thesis
    using o r by (auto simp: module_set_op_def default_set_metadata_op_def Let_def add_metadata_def with_uid_def)
qed

lemma assign_uids_writes:
  assumes "law_dovecot (en_dovecot E) V" and "law_aio_operate (en_rados E) V" and "aio_succeeds (en_rados E)"
    and "rs_ms rs = Some Module_Default" and "is_mail_attribute (rs_json rs) RBOX_METADATA_MAIL_UID"
    and "length us = length ps" and "valid_ptrs c ps"
  shows "\<exists>c1 w1. assign_uids E rs ps n us c w = Some (0, c1, w1) \<and>
    uid_writes (rs_ms_io rs) (zip (map (ptr_oid c) ps) us) (V w) (V w1)"
  using assms(6,7)
proof (induction ps arbitrary: n us c w)
  case (Cons p ps)
  obtain i where p: "p = Some i" and i: "i < length (sv_mails c)" and ps: "valid_ptrs c ps"
    using Cons.prems(2) by (auto simp: valid_ptrs_def split: option.splits)
  obtain u us' where us: "us = u # us'" "length us' = length ps" using Cons.prems(1) by (cases us) auto
  obtain m1 w1 t where s: "module_set_op (en_json E) (en_rados E) (rs_json rs) Module_Default (rs_ms_io rs) (sv_mails c ! i)
        (convert_uint RBOX_METADATA_MAIL_UID u) [WSetXattr (md_key (convert_uint RBOX_METADATA_MAIL_UID u))
           (md_bl (convert_uint RBOX_METADATA_MAIL_UID u))] w = (0, m1, w1)" "m_oid m1 = m_oid (sv_mails c ! i)"
      "V w1 = (V w)(okey (rs_ms_io rs) (ptr_oid c p) \<mapsto> with_uid u (touched t (V w) (okey (rs_ms_io rs) (ptr_oid c p))))"
    using set_op_default [OF assms(2,3)] p unfolding ptr_oid_def by fastforce
  define c1 where c1: "c1 = put_mail i m1 (c\<lparr>sv_rados_mail := p\<rparr>)"
  define w2 where w2: "w2 = (if ucast (sv_highest_pop3_uidl_seq c1) = n + 1 + 1 then dv_pop3_max_uid (en_dovecot E) u w1 else w1)"
  have "sv_mails c1 ! j = (if j = i then m1 else sv_mails c ! j)" for j
    using i by (simp add: c1 put_mail_def nth_list_update)
  then have same: "ptr_oid c1 = ptr_oid c" "length (sv_mails c1) = length (sv_mails c)"
    using s(2) by (simp_all add: fun_eq_iff ptr_oid_def c1 put_mail_def)
  have v1: "valid_ptrs c1 ps" using ps unfolding valid_ptrs_def same .
  have v2: "V w2 = V w1" using law_dovecotD [OF assms(1)] by (simp add: w2)
  obtain c2 w3 where a: "assign_uids E rs ps (n + 1) us' c1 w2 = Some (0, c2, w3)"
      "uid_writes (rs_ms_io rs) (zip (map (ptr_oid c) ps) us') (V w1) (V w3)"
    using Cons.IH [OF us(2) v1, of "n + 1" w2] unfolding same v2 by blast
  have "assign_uids E rs (p # ps) n us c w = Some (0, c2, w3)"
    using s(1) p assms(4,5) a(1) by (simp add: us(1) Let_def c1 w2)
  moreover have "uid_writes (rs_ms_io rs) (zip (map (ptr_oid c) (p # ps)) us) (V w) (V w3)"
    using a(2) s(3) us(1) by auto
  ultimately show ?case by blast
qed simp

lemma assign_uids_pop3:
  "unat n + length ps < 2 ^ 32 - 2 \<Longrightarrow>
   assign_uids (E\<lparr>en_dovecot := (en_dovecot E)\<lparr>dv_pop3_max_uid := f\<rparr>\<rparr>) rs ps n us c w = assign_uids E rs ps n us c w"
proof (induction ps arbitrary: n us c w)
  case Nil
  then show ?case by (cases us) simp_all
next
  case (Cons p ps)
  have n: "unat (n + 1) = unat n + 1" "unat (n + 1 + 1) = unat n + 2"
    using Cons.prems by (simp_all add: unat_word_ariths)
  have "(ucast (h :: 1 word) :: 32 word) \<noteq> n + 1 + 1" for h
  proof -
    have "unat h < 2" using unsigned_less [where 'a = nat, of h] by simp
    moreover from this have "unat (ucast h :: 32 word) = unat h" by (simp add: unsigned_ucast_eq take_bit_nat_eq_self)
    ultimately show ?thesis using n by (metis add_lessD1 le_add2 not_le)
  qed
  then show ?case
    using Cons.IH [of "n + 1"] Cons.prems n(1) by (cases us) (simp_all add: Let_def split: option.splits prod.splits)
qed

lemma save_session_ok:
  assumes "law_dovecot (en_dovecot E) V" and "law_dovecot_mail M V" and "law_operate (en_rados E) V" and "law_append (en_rados E) V"
    and "writes_succeed (en_rados E)" and "\<And>w. length (dm_keyword_indexes M w) \<le> length (dm_keywords M w)"
    and "can_save (sv_mbox c) (length (concat (concat iovs))) x" and "rs_ms (x_rs x) = Some kind" and "concat (concat iovs) \<noteq> []"
    and "0 \<le> fst fin" and "oid = dv_guid_to_string (en_dovecot E) (fst (dv_guid_generate (en_dovecot E) (x_w x)))"
    and "V (x_w x) (okey (st_io_ctx (rs_s (x_rs x))) oid) = None"
  shows "\<exists>c1 x1 m ob. save_session E M garbage now iovs consumed fin c x = Some (0, c1, x1) \<and> sv_finished c1 \<and> \<not> sv_failed c1 \<and> same_storages x x1 \<and>
    sv_rados_mails c1 = sv_rados_mails c @ [Some (length (sv_mails c))] \<and> m_oid (sv_mails c1 ! length (sv_mails c)) = oid \<and>
    V (x_w x1) = (V (x_w x))(okey (st_io_ctx (rs_s (x_rs x))) oid \<mapsto> ob) \<and> o_data ob = concat (concat iovs) \<and>
    holds_metadata (module_save (en_json E) (rs_json (x_rs x)) kind m) ob \<and>
    (is_mail_attribute (rs_json (x_rs x)) RBOX_METADATA_MAILBOX_GUID \<longrightarrow>
       smap_get ''M'' (m_attrset m) = Some (c_str (dv_guid_to_string (en_dovecot E) (bx_guid (sv_mbox c))) @ [NUL]))"
proof -
  let ?data = "concat (concat iovs)"
  have ready: "state_ready (sv_mbox c) False x" "\<not> cfg_true (x_rs x) ''rbox_ceph_write_chunks''"
    using assms(7) by (simp_all add: can_save_def Let_def)
  obtain c1 w1 m where b: "rbox_save_begin E M now c x = Some (0, c1, x\<lparr>x_rs := waiting (x_rs x), x_w := w1\<rparr>)" "V w1 = V (x_w x)"
      "collecting c [] m c1" "m_oid m = oid"
    using save_begin_ok [OF assms(1,2) ready] unfolding assms(11) by blast
  let ?x = "x\<lparr>x_rs := waiting (x_rs x), x_w := w1\<rparr>"
  obtain c2 where n: "rbox_save_continue E 0 iovs consumed c1 ?x = Some (0, c2, ?x)"
      "collecting c ?data (m\<lparr>m_buffer := ?data\<rparr>) c2"
    using save_continue_ok [OF b(3), of 0 E iovs consumed ?x] by auto
  have r: "can_save (sv_mbox c) (length ?data) ?x" "rs_ms (x_rs ?x) = Some kind"
      "V (x_w ?x) (okey (st_io_ctx (rs_s (x_rs ?x))) (m_oid (m\<lparr>m_buffer := ?data\<rparr>))) = None"
    using assms(7,8,12) b(2,4) by (simp_all add: can_save_def Let_def state_ready_def cfg_true_def)
  show ?thesis
    using save_finish_ok [OF assms(3-5,2,6) r(1,2) assms(9) n(2) r(3) assms(10), of garbage] b n
    by (simp add: save_session_def)
qed

section \<open>Properties\<close>

text \<open>
  Property C6: saving a mail. On a connected storage whose cluster accepts the writes, a mail that is
  begun, continued and finished is stored as a new object named by the generated GUID: it holds
  exactly the data dovecot sent, in the order they came, and metadata written by the
  configured module that name the mailbox. The mail joins the mails of the transaction; no other object changes.
\<close>

theorem save_session_stores:
  assumes "law_dovecot (en_dovecot E) V" and "law_dovecot_mail M V" and "law_operate (en_rados E) V" and "law_append (en_rados E) V"
    and "writes_succeed (en_rados E)" and "\<And>w. length (dm_keyword_indexes M w) \<le> length (dm_keywords M w)"
    and "can_save (sv_mbox c) (length (concat (concat iovs))) x" and "rs_ms (x_rs x) = Some kind" and "concat (concat iovs) \<noteq> []"
    and "0 \<le> fst fin" and "oid = dv_guid_to_string (en_dovecot E) (fst (dv_guid_generate (en_dovecot E) (x_w x)))"
    and "V (x_w x) (okey (st_io_ctx (rs_s (x_rs x))) oid) = None"
  shows "\<exists>c1 x1 m ob. save_session E M garbage now iovs consumed fin c x = Some (0, c1, x1) \<and> sv_finished c1 \<and> \<not> sv_failed c1 \<and>
    sv_rados_mails c1 = sv_rados_mails c @ [Some (length (sv_mails c))] \<and> m_oid (sv_mails c1 ! length (sv_mails c)) = oid \<and>
    V (x_w x1) = (V (x_w x))(okey (st_io_ctx (rs_s (x_rs x))) oid \<mapsto> ob) \<and> o_data ob = concat (concat iovs) \<and>
    holds_metadata (module_save (en_json E) (rs_json (x_rs x)) kind m) ob \<and>
    (is_mail_attribute (rs_json (x_rs x)) RBOX_METADATA_MAILBOX_GUID \<longrightarrow>
       smap_get ''M'' (m_attrset m) = Some (c_str (dv_guid_to_string (en_dovecot E) (bx_guid (sv_mbox c))) @ [NUL]))"
  using save_session_ok [OF assms, of garbage now consumed] by blast

text \<open>
  Property C10: the rollback of a transaction. When the last save failed, the objects of all mails of the
  transaction are removed and nothing else; otherwise no object is touched: the
  mails of a transaction that is given up after they were saved stay in the cluster.
\<close>

theorem rollback_removes_iff_failed:
  assumes "law_dovecot (en_dovecot E) V" and "law_remove (en_rados E) V" and "law_remove_fail (en_rados E) V"
    and "removals_succeed (en_rados E)" and "storage_ready (x_cl x) (rs_s (x_rs x))"
    and "sv_finished c" and "valid_ptrs c (sv_rados_mails c)" and "\<And>sync. sv_sync_ctx c = Some sync \<Longrightarrow> sc_open sync"
  shows "\<exists>y. rbox_transaction_save_rollback E M garbage fin c x = Some y \<and>
    V (x_w y) = (if sv_failed c \<and> \<not> (sv_copying c \<and> sv_moving c)
                 then (\<lambda>k. if k \<in> okey (st_io_ctx (rs_s (x_rs x))) ` ptr_oid c ` set (sv_rados_mails c) then None else V (x_w x) k)
                 else V (x_w x))"
proof -
  obtain w1 where s: "(case sv_sync_ctx c of None \<Rightarrow> Some x
      | Some sync \<Rightarrow> map_option snd (rbox_sync_finish E (sv_mbox c) False sync x)) = Some (x\<lparr>x_w := w1\<rparr>)" "V w1 = V (x_w x)"
    using assms(8) law_dovecotD(3) [OF assms(1), of "x_w x"]
    by (cases "sv_sync_ctx c") (force simp: rbox_sync_finish_def)+
  let ?x = "x\<lparr>x_w := w1\<rparr>"
  have "V (x_w (snd (clean_up_failed E c ?x))) =
      (\<lambda>k. if k \<in> okey (st_io_ctx (rs_s (x_rs x))) ` ptr_oid c ` set (sv_rados_mails c) then None else V (x_w x) k)"
    using clean_up_failed_removes [OF assms(1-4) _ assms(7), of ?x] assms(5) s(2) by (simp cong: if_cong)
  then show ?thesis
    using assms(6) s by (auto simp: rbox_transaction_save_rollback_def)
qed

text \<open>
  Property C9: committing a transaction writes to the object of the i-th saved mail the i-th uid dovecot
  assigned, and changes no other object, when every mail got a uid and the default metadata module is used.
\<close>

theorem commit_assigns_uids:
  assumes "law_dovecot (en_dovecot E) V" and "law_aio_operate (en_rados E) V" and "aio_succeeds (en_rados E)"
    and "rs_ms (x_rs x) = Some Module_Default" and "is_mail_attribute (rs_json (x_rs x)) RBOX_METADATA_MAIL_UID"
    and "length uids = length (sv_rados_mails c)" and "valid_ptrs c (sv_rados_mails c)"
    and "distinct (map (ptr_oid c) (sv_rados_mails c))"
  shows "\<exists>c1 y. rbox_save_assign_uids E uids c x = Some (0, c1, y) \<and>
    (\<forall>i < length uids. \<exists>t. V (x_w y) (okey (rs_ms_io (x_rs x)) (ptr_oid c (sv_rados_mails c ! i))) =
       Some (with_uid (uids ! i) (touched t (V (x_w x)) (okey (rs_ms_io (x_rs x)) (ptr_oid c (sv_rados_mails c ! i)))))) \<and>
    (\<forall>k. k \<notin> okey (rs_ms_io (x_rs x)) ` ptr_oid c ` set (sv_rados_mails c) \<longrightarrow> V (x_w y) k = V (x_w x) k)"
proof -
  let ?ps = "sv_rados_mails c" and ?io = "rs_ms_io (x_rs x)" and ?l = "zip (map (ptr_oid c) (sv_rados_mails c)) uids"
  obtain c1 w1 where a: "assign_uids E (x_rs x) ?ps 0 uids c (x_w x) = Some (0, c1, w1)" "uid_writes ?io ?l (V (x_w x)) (V w1)"
    using assign_uids_writes [OF assms(1-7), of 0 "x_w x"] by blast
  have "rbox_save_assign_uids E uids c x = Some (0, c1, x\<lparr>x_w := w1\<rparr>) \<or> ?ps = [] \<and> rbox_save_assign_uids E uids c x = Some (0, c, x)"
    using a(1) by (simp add: rbox_save_assign_uids_def)
  moreover have "fst ` set ?l = ptr_oid c ` set ?ps" using assms(6) by (metis image_set map_fst_zip length_map)
  moreover have "map fst ?l = map (ptr_oid c) ?ps" using assms(6) by simp
  ultimately show ?thesis
    using uid_writes_result [OF a(2)] assms(6,8) by (cases "?ps = []") (auto simp: image_image)
qed

text \<open>
  The highest mail with a POP3 UIDL is never reported. The field that holds its number has
  one bit, while it is compared with numbers from 2 on: whatever dovecot's call for it did, committing
  would be the same.
\<close>

theorem pop3_max_uid_never_set:
  assumes "length (sv_rados_mails c) < 2 ^ 32 - 2"
  shows "rbox_save_assign_uids (E\<lparr>en_dovecot := (en_dovecot E)\<lparr>dv_pop3_max_uid := f\<rparr>\<rparr>) uids c x = rbox_save_assign_uids E uids c x"
  using assms by (simp add: rbox_save_assign_uids_def assign_uids_pop3)

subsection \<open>Witnesses\<close>

definition sample_mail_calls :: "mem dovecot_mail" where
  "sample_mail_calls = fixed_mail 0 5 [(1, ''kw'')]"

lemma sample_env_sel [simp]:
  "en_rados sample_env = mem_rados" "en_dovecot sample_env = fixed_dovecot ''guid'' (Some (''g'', ''oid'')) []"
  by (simp_all add: sample_env_def)

lemma sample_settings:
  "rc_get (new_rados_config\<lparr>rc_valid := True\<rparr>) ''rbox_chunk_size'' = ''10240''"
  "rc_get (new_rados_config\<lparr>rc_valid := True\<rparr>) ''rbox_object_search_method'' = ''0''"
  "rc_get (new_rados_config\<lparr>rc_valid := True\<rparr>) ''rbox_ceph_write_chunks'' = ''false''"
  by code_simp+

lemma sample_numbers: "stoi ''10240'' = Inr 10240" "stoi ''0'' = Inr 0"
  by code_simp+

lemma sample_can_save: "can_save sample_box 5 (sample_state w)"
proof -
  let ?rs = "x_rs (sample_state w)"
  have "dc_dovecot (rs_config ?rs) = new_rados_config\<lparr>rc_valid := True\<rparr>" by (simp add: sample_state_def)
  then have "get_chunk_size (rs_config ?rs) = Inr 10240" "get_object_search_method (rs_config ?rs) = Inr 0"
      "\<not> cfg_true ?rs ''rbox_ceph_write_chunks''"
    by (simp_all add: get_chunk_size_def get_object_search_method_def cfg_true_def sample_settings sample_numbers)
  moreover have "st_max_write_size (rs_s ?rs) = 10" "st_max_object_size (rs_s ?rs) = 134217728" "rs_ms ?rs = Some Module_Default"
    by (simp_all add: sample_state_def sample_storage_def new_storage_def)
  ultimately show ?thesis
    by (simp add: can_save_def Let_def sample_state_ready write_chunk_size_def get_max_write_size_bytes_def to_int32_def to_uint32_def)
qed

lemma sample_okey: "okey (st_io_ctx (rs_s (x_rs (sample_state w)))) oid = ([], [], oid)"
  by (simp add: sample_state_def sample_storage_def new_storage_def null_ctx_def okey_def)

theorem save_session_stores_witness:
  "\<exists>c1 x1 ob. save_session sample_env sample_mail_calls 0 100 [[''he''], [''l'', ''lo'']] 5 (0, []) (new_save_ctx sample_box) (sample_state []) =
       Some (0, c1, x1) \<and> map_of (x_w x1) ([], [], ''guid'') = Some ob \<and> o_data ob = ''hello''"
proof -
  let ?x = "sample_state [] :: mem rbox_state" and ?c = "new_save_ctx sample_box" and ?iovs = "[[''he''], [''l'', ''lo'']]"
  have laws: "law_dovecot (en_dovecot sample_env) map_of" "law_dovecot_mail sample_mail_calls map_of"
      "law_operate (en_rados sample_env) map_of" "law_append (en_rados sample_env) map_of" "writes_succeed (en_rados sample_env)"
    by (simp_all add: fixed_dovecot_law sample_mail_calls_def fixed_mail_law mem_rados_laws mem_writes_succeed)
  have kw: "length (dm_keyword_indexes sample_mail_calls w) \<le> length (dm_keywords sample_mail_calls w)" for w
    by (simp add: sample_mail_calls_def fixed_mail_def)
  have cs: "can_save (sv_mbox ?c) (length (concat (concat ?iovs))) ?x"
    using sample_can_save [of "[] :: mem"] by (simp add: new_save_ctx_def eval_nat_numeral)
  have ms: "rs_ms (x_rs ?x) = Some Module_Default" by (simp add: sample_state_def)
  have d: "concat (concat ?iovs) = ''hello''" by simp
  have "concat (concat ?iovs) \<noteq> []" "0 \<le> fst (0 :: int, [] :: bytes list list)"
      "''guid'' = dv_guid_to_string (en_dovecot sample_env) (fst (dv_guid_generate (en_dovecot sample_env) (x_w ?x)))"
      "map_of (x_w ?x) (okey (st_io_ctx (rs_s (x_rs ?x))) ''guid'') = None"
    by (simp_all add: fixed_dovecot_def)
  from save_session_stores [OF laws kw cs ms this, of 0 100 5] show ?thesis
    unfolding sample_okey d by auto
qed

definition sample_save_ctx :: save_ctx where
  "sample_save_ctx = (new_save_ctx sample_box)\<lparr>sv_mails := [new_rados_mail\<lparr>m_oid := ''o1''\<rparr>, new_rados_mail\<lparr>m_oid := ''o2''\<rparr>],
     sv_rados_mails := [Some 0, Some 1]\<rparr>"

lemma sample_save_ctx_sel:
  "sv_rados_mails sample_save_ctx = [Some 0, Some 1]" "sv_finished sample_save_ctx" "sv_failed sample_save_ctx"
  "\<not> sv_copying sample_save_ctx" "sv_sync_ctx sample_save_ctx = None"
  "ptr_oid sample_save_ctx (Some 0) = ''o1''" "ptr_oid sample_save_ctx (Some (Suc 0)) = ''o2''"
  "valid_ptrs sample_save_ctx [Some 0, Some (Suc 0)]"
  by (simp_all add: sample_save_ctx_def new_save_ctx_def ptr_oid_def valid_ptrs_def)

definition three_objects :: mem where
  "three_objects = [(([], [], ''o1''), empty_robj), (([], [], ''o2''), empty_robj), (([], [], ''o3''), empty_robj)]"

theorem rollback_removes_iff_failed_witness:
  "\<exists>y. rbox_transaction_save_rollback sample_env sample_mail_calls 0 (0, []) sample_save_ctx (sample_state three_objects) = Some y \<and>
     map_of (x_w y) ([], [], ''o1'') = None \<and> map_of (x_w y) ([], [], ''o2'') = None \<and> map_of (x_w y) ([], [], ''o3'') = Some empty_robj"
proof -
  have "law_dovecot (en_dovecot sample_env) map_of" "law_remove (en_rados sample_env) map_of"
      "law_remove_fail (en_rados sample_env) map_of" "removals_succeed (en_rados sample_env)"
    by (simp_all add: fixed_dovecot_law mem_rados_laws mem_remove mem_removals_succeed)
  moreover have "storage_ready (x_cl (sample_state three_objects)) (rs_s (x_rs (sample_state three_objects)))"
    using sample_state_ready [of sample_box three_objects] by (simp add: state_ready_def)
  ultimately obtain y where
    "rbox_transaction_save_rollback sample_env sample_mail_calls 0 (0, []) sample_save_ctx (sample_state three_objects) = Some y"
    "map_of (x_w y) = (\<lambda>k. if k \<in> {([], [], ''o1''), ([], [], ''o2'')} then None else map_of (x_w (sample_state three_objects)) k)"
    using rollback_removes_iff_failed [of sample_env map_of "sample_state three_objects" sample_save_ctx sample_mail_calls 0 "(0, [])"]
    by (auto simp: sample_save_ctx_sel sample_okey)
  then show ?thesis by (auto simp: three_objects_def)
qed

theorem commit_assigns_uids_witness:
  "\<exists>c1 y ob. rbox_save_assign_uids sample_env [7, 8] sample_save_ctx (sample_state three_objects) = Some (0, c1, y) \<and>
     map_of (x_w y) ([], [], ''o2'') = Some ob \<and> smap_get ''U'' (o_xattrs ob) = Some (''8'' @ [NUL])"
proof -
  let ?x = "sample_state three_objects"
  have "law_dovecot (en_dovecot sample_env) map_of" "law_aio_operate (en_rados sample_env) map_of" "aio_succeeds (en_rados sample_env)"
    by (simp_all add: fixed_dovecot_law mem_rados_laws mem_aio_succeeds)
  moreover have "rs_ms (x_rs ?x) = Some Module_Default" by (simp add: sample_state_def)
  moreover have "is_mail_attribute new_json_config RBOX_METADATA_MAIL_UID" by code_simp
  then have "is_mail_attribute (rs_json (x_rs ?x)) RBOX_METADATA_MAIL_UID"
    by (simp add: sample_state_def rs_json_def is_mail_attribute_def)
  moreover have "rs_ms_io (x_rs ?x) = st_io_ctx (rs_s (x_rs ?x))" by (simp add: rs_ms_io_def sample_state_def rbox_storage_alloc_def)
  moreover have "md_bl (convert_uint RBOX_METADATA_MAIL_UID 8) = ''8'' @ [NUL]" by code_simp
  ultimately obtain c1 y where
    "rbox_save_assign_uids sample_env [7, 8] sample_save_ctx ?x = Some (0, c1, y)"
    "\<forall>i < 2. \<exists>t. map_of (x_w y) ([], [], ptr_oid sample_save_ctx ([Some 0, Some 1] ! i)) =
       Some (with_uid ([7, 8] ! i) (touched t (map_of three_objects) ([], [], ptr_oid sample_save_ctx ([Some 0, Some 1] ! i))))"
    using commit_assigns_uids [of sample_env map_of ?x "[7, 8]" sample_save_ctx]
    by (auto simp: sample_save_ctx_sel sample_okey)
  then show ?thesis
    using \<open>md_bl _ = _\<close> by (fastforce dest: spec [of _ 1] simp: sample_save_ctx_sel with_uid_def)
qed

theorem pop3_max_uid_never_set_witness:
  "rbox_save_assign_uids (sample_env\<lparr>en_dovecot := (en_dovecot sample_env)\<lparr>dv_pop3_max_uid := \<lambda>_ _. []\<rparr>\<rparr>) [7, 8] sample_save_ctx
     (sample_state three_objects) = rbox_save_assign_uids sample_env [7, 8] sample_save_ctx (sample_state three_objects)"
  by (rule pop3_max_uid_never_set) (simp add: sample_save_ctx_sel)

end
