(* ===== verification/Rbox_Mail.thy ===== *)
theory Rbox_Mail
  imports Rbox_Save
begin

text \<open>
  Reading mails (\<open>src/src/storage-rbox/rbox-mail.cpp\<close> and \<open>istream-bufferlist.cpp\<close>): dates and sizes,
  which come from dovecot's index, from the metadata of the object or from the object itself; special
  fields with their cache; and the stream of the mail with the repair of truncated gzip trailers.
\<close>

section \<open>State\<close>

text \<open>
  \<open>struct rbox_mail\<close> with the fields of dovecot's mail that are used. The object of the mail is a
  pointer, \<^const>\<open>None\<close> when it is null; \<open>rm_stream\<close> is the content of the stream once it was opened.
\<close>

record rbox_mail =
  rm_seq :: "32 word"
  rm_last_seq :: "32 word"
  rm_index_guid :: bytes
  rm_index_oid :: bytes
  rm_rados_mail :: "rados_mail option"
  rm_received_date :: int
  rm_save_date :: int
  rm_virtual_size :: "64 word"
  rm_physical_size :: "64 word"
  rm_stream :: "bytes option"

definition rbox_mail_alloc :: "32 word \<Rightarrow> rbox_mail" where
  "rbox_mail_alloc seq = \<lparr>rm_seq = seq, rm_last_seq = 0, rm_index_guid = zero_guid, rm_index_oid = zero_guid,
     rm_rados_mail = None, rm_received_date = -1, rm_save_date = -1, rm_virtual_size = -1, rm_physical_size = -1, rm_stream = None\<rparr>"

section \<open>The index record\<close>

definition rbox_mail_set_expunged :: "'w env \<Rightarrow> 'w dovecot_mail \<Rightarrow> rbox_mailbox \<Rightarrow> rbox_mail \<Rightarrow> 'w rbox_state \<Rightarrow> 'w rbox_state" where
  "rbox_mail_set_expunged E M box rm x =
     (let D = en_dovecot E; w1 = dv_index_refresh D (x_w x) in
      if dv_is_expunged D (rm_seq rm) w1 then x\<lparr>x_w := dm_set_expunged M (rm_seq rm) w1\<rparr>
      else rbox_set_mailbox_corrupted D box (x\<lparr>x_w := w1\<rparr>))"

text \<open>The record is read once per sequence number; a null pointer to the object is followed: \<^const>\<open>None\<close>.\<close>

definition rbox_get_index_record :: "'w dovecot \<Rightarrow> rbox_mail \<Rightarrow> 'w \<Rightarrow> (int \<times> rbox_mail) option" where
  "rbox_get_index_record D rm w =
     (if rm_last_seq rm = rm_seq rm then Some (0, rm)
      else case dv_lookup_ext D (rm_seq rm) w of None \<Rightarrow> Some (-1, rm)
      | Some (guid, oid) \<Rightarrow>
          map_option (\<lambda>m. (0, rm\<lparr>rm_index_guid := guid, rm_index_oid := oid,
              rm_rados_mail := Some (m\<lparr>m_oid := dv_guid_to_string D oid\<rparr>), rm_last_seq := rm_seq rm\<rparr>)) (rm_rados_mail rm))"

text \<open>A new object for a mail that has none, so that the record is read again.\<close>

definition with_object :: "rbox_mail \<Rightarrow> rbox_mail" where
  "with_object rm = (if rm_rados_mail rm = None then rm\<lparr>rm_rados_mail := Some new_rados_mail, rm_last_seq := -1\<rparr> else rm)"

definition load_object :: "'w dovecot \<Rightarrow> rbox_mail \<Rightarrow> 'w \<Rightarrow> (int \<times> rbox_mail) option" where
  "load_object D rm w = (if rm_rados_mail rm = None then rbox_get_index_record D (with_object rm) w else Some (0, rm))"

definition rm_oid :: "rbox_mail \<Rightarrow> string" where
  "rm_oid rm = (case rm_rados_mail rm of None \<Rightarrow> [] | Some m \<Rightarrow> m_oid m)"

definition rm_attrs :: "rbox_mail \<Rightarrow> bytes smap" where
  "rm_attrs rm = (case rm_rados_mail rm of None \<Rightarrow> [] | Some m \<Rightarrow> m_attrset m)"

definition mail_alt :: "'w dovecot_mail \<Rightarrow> rbox_mailbox \<Rightarrow> rbox_mail \<Rightarrow> 'w \<Rightarrow> bool" where
  "mail_alt M box rm w \<longleftrightarrow> rec_alt box (dm_flags M (rm_seq rm) w)"

section \<open>Metadata\<close>

text \<open>
  The value of one metadata attribute. The metadata module is left with the storage of this mail. An
  object without an id takes the raw bytes of the id in the index record.
\<close>

definition rbox_mail_metadata_get :: "'w env \<Rightarrow> 'w dovecot_mail \<Rightarrow> rbox_mailbox \<Rightarrow> rbox_metadata_key \<Rightarrow> rbox_mail \<Rightarrow> 'w rbox_state \<Rightarrow>
    (int \<times> string option \<times> rbox_mail \<times> 'w rbox_state) option" where
  "rbox_mail_metadata_get E M box key rm x =
     (let alt = mail_alt M box rm (x_w x) in
      case rbox_open_rados_connection E box alt x of None \<Rightarrow> None
      | Some (r, x1) \<Rightarrow>
          if r < 0 then Some (-1, None, rm, x1)
          else case rs_ms (x_rs x1) of None \<Rightarrow> None
          | Some kind \<Rightarrow>
            let x2 = x1\<lparr>x_rs := (x_rs x1)\<lparr>rs_ms_alt := alt\<rparr>\<rparr>; rm1 = with_object rm; rs = x_rs x2 in
            (case (if rm_oid rm1 = [] then rbox_get_index_record (en_dovecot E) rm1 (x_w x2) else Some (0, rm1)) of
               None \<Rightarrow> None
             | Some (r1, rm2) \<Rightarrow>
                 if r1 < 0 then Some (-1, None, rm2, x2)
                 else case rm_rados_mail rm2 of None \<Rightarrow> None
                 | Some m \<Rightarrow>
                   let m1 = (if m_oid m = [] then m\<lparr>m_oid := c_str (rm_index_oid rm2)\<rparr> else m) in
                   (case module_load (en_json E) (en_rados E) (rs_json rs) kind (rs_ms_io rs) m1 (x_w x2) of None \<Rightarrow> None
                    | Some (ret, m2, w1) \<Rightarrow>
                        let rm3 = rm2\<lparr>rm_rados_mail := Some m2\<rparr>; x3 = x2\<lparr>x_w := w1\<rparr> in
                        if ret < 0 then
                          Some (-1, None, rm3, if ret = - ENOENT then rbox_mail_set_expunged E M box rm3 x3 else x3)
                        else case get_metadata key (m_attrset m2) of None \<Rightarrow> Some (-1, None, rm3, x3)
                        | Some b \<Rightarrow> Some (0, Some (c_str b), rm3, x3))))"

text \<open>The value that is loaded already, or the one of the object. A failure yields no value.\<close>

definition metadata_value :: "'w env \<Rightarrow> 'w dovecot_mail \<Rightarrow> rbox_mailbox \<Rightarrow> rbox_metadata_key \<Rightarrow> rbox_mail \<Rightarrow> 'w rbox_state \<Rightarrow>
    (string option \<times> rbox_mail \<times> 'w rbox_state) option" where
  "metadata_value E M box key rm x =
     (case get_metadata key (rm_attrs rm) of Some b \<Rightarrow> Some (Some (c_str b), rm, x)
      | None \<Rightarrow> map_option (\<lambda>(r, v, rm1, x1). (if r < 0 then None else v, rm1, x1)) (rbox_mail_metadata_get E M box key rm x))"

section \<open>Dates and sizes\<close>

text \<open>
  The result and the value, \<^const>\<open>None\<close> when the variable of the caller is not written. The exceptions of
  \<open>std::stol\<close> are caught.
\<close>

definition rbox_mail_get_received_date :: "'w env \<Rightarrow> 'w dovecot_mail \<Rightarrow> rbox_mailbox \<Rightarrow> rbox_mail \<Rightarrow> 'w rbox_state \<Rightarrow>
    (int \<times> int option \<times> rbox_mail \<times> 'w rbox_state) option" where
  "rbox_mail_get_received_date E M box rm x =
     (case dm_index_received_date M (rm_seq rm) (x_w x) of Some d \<Rightarrow> Some (0, Some d, rm, x)
      | None \<Rightarrow>
        (case load_object (en_dovecot E) rm (x_w x) of None \<Rightarrow> None
         | Some (r, rm1) \<Rightarrow>
             if r < 0 then Some (-1, None, rm1, x)
             else case metadata_value E M box RBOX_METADATA_RECEIVED_TIME rm1 x of None \<Rightarrow> None
             | Some (None, rm2, x1) \<Rightarrow> Some (-1, None, rm2, x1)
             | Some (Some v, rm2, x1) \<Rightarrow>
                 (case stol v of Inl _ \<Rightarrow> Some (-1, None, rm2, x1)
                  | Inr t \<Rightarrow> Some (0, Some t, rm2\<lparr>rm_received_date := t\<rparr>, x1))))"

text \<open>
  Every failure to stat the object other than a missing one marks the mail as expunged.
\<close>

definition rbox_mail_get_save_date :: "'w env \<Rightarrow> 'w dovecot_mail \<Rightarrow> rbox_mailbox \<Rightarrow> rbox_mail \<Rightarrow> 'w rbox_state \<Rightarrow>
    (int \<times> int option \<times> rbox_mail \<times> 'w rbox_state) option" where
  "rbox_mail_get_save_date E M box rm x =
     (let alt = mail_alt M box rm (x_w x) in
      case dm_index_save_date M (rm_seq rm) (x_w x) of Some d \<Rightarrow> Some (0, Some d, rm, x)
      | None \<Rightarrow>
        (case load_object (en_dovecot E) rm (x_w x) of None \<Rightarrow> None
         | Some (r, rm1) \<Rightarrow>
             if r < 0 then Some (-1, None, rm1, x)
             else case rm_rados_mail rm1 of None \<Rightarrow> None
             | Some m \<Rightarrow>
                 if m_save_date m \<noteq> -1 then Some (0, Some (m_save_date m), rm1\<lparr>rm_save_date := m_save_date m\<rparr>, x)
                 else case rbox_open_rados_connection E box alt x of None \<Rightarrow> None
                 | Some (r1, x1) \<Rightarrow>
                     if r1 < 0 then Some (-1, None, rm1, x1)
                     else case stat_mail (en_rados E) (x_cl x1) (if alt then rs_alt (x_rs x1) else rs_s (x_rs x1)) (m_oid m) (x_w x1) of
                       (ret, n, t, w1) \<Rightarrow>
                         if ret < 0 then
                           Some (-1, None, rm1, x1\<lparr>x_w := if ret \<noteq> - ENOENT then dm_set_expunged M (rm_seq rm1) w1 else w1\<rparr>)
                         else Some (0, Some t, rm1\<lparr>rm_save_date := t\<rparr>, x1\<lparr>x_w := w1\<rparr>)))"

definition rbox_mail_get_virtual_size :: "'w env \<Rightarrow> 'w dovecot_mail \<Rightarrow> rbox_mailbox \<Rightarrow> rbox_mail \<Rightarrow> 'w rbox_state \<Rightarrow>
    (int \<times> 64 word \<times> rbox_mail \<times> 'w rbox_state) option" where
  "rbox_mail_get_virtual_size E M box rm x =
     (case dm_index_virtual_size M (rm_seq rm) (x_w x) of Some n \<Rightarrow> Some (0, n, rm, x)
      | None \<Rightarrow>
        let cached = dm_cached_virtual_size M (rm_seq rm) (x_w x) in
        if cached \<noteq> None \<and> 0 < the cached then Some (0, the cached, rm, x)
        else let size = (case cached of None \<Rightarrow> -1 | Some n \<Rightarrow> n) in
          if rm_rados_mail rm = None then Some (-1, size, rm, x)
          else case metadata_value E M box RBOX_METADATA_VIRTUAL_SIZE rm x of None \<Rightarrow> None
          | Some (None, rm1, x1) \<Rightarrow> Some (-1, size, rm1, x1)
          | Some (Some v, rm1, x1) \<Rightarrow>
              let (ret, size1, rm2) = (case stol v of Inl _ \<Rightarrow> (-1, size, rm1)
                     | Inr n \<Rightarrow> (0, word_of_int n, rm1\<lparr>rm_virtual_size := word_of_int n\<rparr>));
                  rm3 = rm2\<lparr>rm_rados_mail := map_option (add_metadata
                          (convert_size RBOX_METADATA_VIRTUAL_SIZE (rm_virtual_size rm2))) (rm_rados_mail rm2)\<rparr>
              in Some (ret, size1, rm3, x1))"

text \<open>The size is \<^const>\<open>None\<close> when the variable of the caller is not written.\<close>

definition rbox_mail_get_physical_size :: "'w env \<Rightarrow> 'w dovecot_mail \<Rightarrow> rbox_mailbox \<Rightarrow> rbox_mail \<Rightarrow> 'w rbox_state \<Rightarrow>
    (int \<times> 64 word option \<times> rbox_mail \<times> 'w rbox_state) option" where
  "rbox_mail_get_physical_size E M box rm x =
     (case dm_index_physical_size M (rm_seq rm) (x_w x) of Some n \<Rightarrow> Some (0, Some n, rm, x)
      | None \<Rightarrow>
          if rm_rados_mail rm = None then Some (-1, None, rm, x)
          else case metadata_value E M box RBOX_METADATA_PHYSICAL_SIZE rm x of None \<Rightarrow> None
          | Some (None, rm1, x1) \<Rightarrow> Some (-1, None, rm1, x1)
          | Some (Some v, rm1, x1) \<Rightarrow>
              (case stol v of Inl _ \<Rightarrow> Some (-1, None, rm1, x1)
               | Inr n \<Rightarrow> Some (0, Some (word_of_int n), rm1\<lparr>rm_physical_size := word_of_int n\<rparr>, x1)))"

section \<open>Gzip headers and trailers\<close>

text \<open>A byte of the buffer; outside of it the code reads foreign memory: \<^const>\<open>None\<close>.\<close>

definition byte_at :: "bytes \<Rightarrow> int \<Rightarrow> nat option" where
  "byte_at b i = (if 0 \<le> i \<and> i < int (length b) then Some (of_char (b ! nat i)) else None)"

definition check_is_zlib :: "bytes \<Rightarrow> bool option" where
  "check_is_zlib b =
     (case (byte_at b 0, byte_at b 1) of (Some m1, Some m2) \<Rightarrow> Some (m1 = 0x1f \<and> m2 = 0x8b) | _ \<Rightarrow> None)"

definition zlib_trailer_msg_length :: "bytes \<Rightarrow> int \<Rightarrow> 32 word option" where
  "zlib_trailer_msg_length b physical_size =
     (case (byte_at b (physical_size - 1), byte_at b (physical_size - 2), byte_at b (physical_size - 3), byte_at b (physical_size - 4)) of
        (Some b0, Some b1, Some b2, Some b3) \<Rightarrow>
          Some (or (push_bit 24 (word_of_nat b0)) (or (push_bit 16 (word_of_nat b1)) (or (push_bit 8 (word_of_nat b2)) (word_of_nat b3))))
      | _ \<Rightarrow> None)"

text \<open>The position of the first zero byte from position 10 on.\<close>

definition header_dynamic_size :: "bytes \<Rightarrow> int option" where
  "header_dynamic_size b =
     (let n = length (takeWhile (\<lambda>c. c \<noteq> NUL) (drop 10 b)) in if 10 + n < length b then Some (10 + int n) else None)"

definition header_extra_size :: "bytes \<Rightarrow> int option" where
  "header_extra_size b =
     (case (byte_at b 10, byte_at b 11) of (Some x, Some y) \<Rightarrow> Some (10 + 2 + int (x + y)) | _ \<Rightarrow> None)"

definition zlib_header_length :: "bytes \<Rightarrow> int option" where
  "zlib_header_length b =
     (case byte_at b 3 of None \<Rightarrow> None
      | Some flg \<Rightarrow>
          if flg = 0x01 then Some 10
          else if flg = 0x02 then Some (10 + 2)
          else if flg = 0x04 then header_extra_size b
          else if flg = 0x08 \<or> flg = 0x10 then header_dynamic_size b
          else Some 11)"

section \<open>The stream of a mail\<close>

text \<open>The input stream over a buffer: everything is there from the start.\<close>

record bufferlist_istream =
  bi_buffer :: bytes
  bi_pos :: nat
  bi_skip :: nat
  bi_eof :: bool
  bi_st_size :: int

definition i_stream_create_from_bufferlist :: "bytes \<Rightarrow> nat \<Rightarrow> bufferlist_istream" where
  "i_stream_create_from_bufferlist data sz =
     \<lparr>bi_buffer = data, bi_pos = sz, bi_skip = 0, bi_eof = False, bi_st_size = int sz - 1\<rparr>"

definition i_stream_data_read :: "bufferlist_istream \<Rightarrow> int \<times> bufferlist_istream" where
  "i_stream_data_read s = (-1, s\<lparr>bi_eof := True\<rparr>)"

definition i_stream_data_seek :: "nat \<Rightarrow> bufferlist_istream \<Rightarrow> bufferlist_istream" where
  "i_stream_data_seek v_offset s = s\<lparr>bi_skip := v_offset\<rparr>"

definition stream_content :: "bufferlist_istream \<Rightarrow> bytes" where
  "stream_content s = drop (bi_skip s) (take (bi_pos s) (bi_buffer s))"

text \<open>A plugin may put its own stream before this one, and fail to.\<close>

definition get_mail_stream :: "'w dovecot_mail \<Rightarrow> bytes \<Rightarrow> nat \<Rightarrow> 'w \<Rightarrow> int \<times> bytes \<times> 'w" where
  "get_mail_stream M buffer physical_size w =
     (let input = i_stream_data_seek 0 (i_stream_create_from_bufferlist buffer physical_size) in
      case dm_istream_opened M of None \<Rightarrow> (0, stream_content input, w)
      | Some f \<Rightarrow> (case f (stream_content input) w of (r, w1) \<Rightarrow> (if r < 0 then -1 else 0, stream_content input, w1)))"

definition read_mail_from_storage :: "'w rados \<Rightarrow> cluster \<Rightarrow> storage \<Rightarrow> string \<Rightarrow> 'w \<Rightarrow> int \<times> bytes \<times> nat \<times> int \<times> 'w" where
  "read_mail_from_storage R cl st oid w = read_operate R cl st oid w"

text \<open>Up to ten more attempts after a timeout.\<close>

fun read_mail_retry :: "'w rados \<Rightarrow> cluster \<Rightarrow> storage \<Rightarrow> string \<Rightarrow> nat \<Rightarrow> int \<Rightarrow> 'w \<Rightarrow> int \<times> bytes \<times> nat \<times> int \<times> 'w" where
  "read_mail_retry R cl st oid 0 ret w = (ret, [], 0, 0, w)"
| "read_mail_retry R cl st oid (Suc n) ret w =
     (case read_mail_from_storage R cl st oid w of (r, b, psize, date, w1) \<Rightarrow>
        if 0 \<le> r then (r, b, psize, date, w1) else read_mail_retry R cl st oid n r w1)"

definition read_with_retry :: "'w rados \<Rightarrow> cluster \<Rightarrow> storage \<Rightarrow> string \<Rightarrow> 'w \<Rightarrow> int \<times> bytes \<times> nat \<times> int \<times> 'w" where
  "read_with_retry R cl st oid w =
     (case read_mail_from_storage R cl st oid w of (r, b, psize, date, w1) \<Rightarrow>
        if r = - ETIMEDOUT then read_mail_retry R cl st oid 10 r w1 else (r, b, psize, date, w1))"

text \<open>
  The repair of a gzip trailer that lost its last byte: when the length in the trailer exceeds the
  physical size of the mail by more than the header, in unsigned arithmetic, a zero byte is added.
  \<open>garbage\<close> is the physical size when it cannot be read.
\<close>

definition trailer_broken :: "bytes \<Rightarrow> int \<Rightarrow> 64 word \<Rightarrow> bool option" where
  "trailer_broken buf psize real_size =
     (case (zlib_trailer_msg_length buf psize, zlib_header_length buf) of
        (Some len, Some hdr) \<Rightarrow> Some (word_of_int hdr < (ucast len - real_size :: 64 word))
      | _ \<Rightarrow> None)"

definition repair_trailer :: "'w env \<Rightarrow> 'w dovecot_mail \<Rightarrow> 64 word \<Rightarrow> rbox_mailbox \<Rightarrow> bytes \<Rightarrow> int \<Rightarrow> rbox_mail \<Rightarrow> 'w rbox_state \<Rightarrow>
    (bytes \<times> int \<times> rbox_mail \<times> 'w rbox_state) option" where
  "repair_trailer E M garbage box buf psize rm x =
     (case check_is_zlib buf of None \<Rightarrow> None
      | Some gzip \<Rightarrow>
          if \<not> gzip then Some (buf, psize, rm, x)
          else case rbox_mail_get_physical_size E M box rm x of None \<Rightarrow> None
          | Some (_, sz, rm1, x1) \<Rightarrow>
              map_option (\<lambda>broken. if broken then (buf @ [NUL], psize + 1, rm1, x1) else (buf, psize, rm1, x1))
                (trailer_broken buf psize (case sz of None \<Rightarrow> garbage | Some n \<Rightarrow> n)))"

definition put_object :: "(rados_mail \<Rightarrow> rados_mail) \<Rightarrow> rbox_mail \<Rightarrow> rbox_mail" where
  "put_object f rm = rm\<lparr>rm_rados_mail := map_option f (rm_rados_mail rm)\<rparr>"

text \<open>Opening the stream from the data that were read.\<close>

definition open_stream :: "'w env \<Rightarrow> 'w dovecot_mail \<Rightarrow> 64 word \<Rightarrow> rbox_mailbox \<Rightarrow> bytes \<Rightarrow> nat \<Rightarrow> int \<Rightarrow> rbox_mail \<Rightarrow> 'w rbox_state \<Rightarrow>
    (int \<times> rbox_mail \<times> 'w rbox_state) option" where
  "open_stream E M garbage box buf psize date rm x =
     (let physical_size = to_int32 (int psize);
          rm1 = put_object (\<lambda>m. m\<lparr>m_buffer := buf, m_object_size := physical_size, m_save_date := date\<rparr>) rm in
      if physical_size = 0 then Some (-1, put_object (\<lambda>m. m\<lparr>m_buffer := []\<rparr>) rm1, rbox_mail_set_expunged E M box rm1 x)
      else if physical_size = INT_MAX then Some (-1, put_object (\<lambda>m. m\<lparr>m_buffer := []\<rparr>) rm1, x)
      else case repair_trailer E M garbage box buf physical_size rm1 x of None \<Rightarrow> None
      | Some (buf1, size1, rm2, x1) \<Rightarrow>
          (case get_mail_stream M buf1 (to_uint64 size1) (x_w x1) of (r, content, w1) \<Rightarrow>
             if r < 0 then Some (-1, put_object (\<lambda>m. m\<lparr>m_buffer := []\<rparr>) rm2, x1\<lparr>x_w := w1\<rparr>)
             else Some (0, rm2\<lparr>rm_stream := Some content\<rparr>, x1\<lparr>x_w := w1\<rparr>)))"

definition rbox_mail_get_stream :: "'w env \<Rightarrow> 'w dovecot_mail \<Rightarrow> 64 word \<Rightarrow> rbox_mailbox \<Rightarrow> rbox_mail \<Rightarrow> 'w rbox_state \<Rightarrow>
    (int \<times> rbox_mail \<times> 'w rbox_state) option" where
  "rbox_mail_get_stream E M garbage box rm x =
     (let alt = mail_alt M box rm (x_w x);
          init = (\<lambda>(r, rm1, x1). if r < 0 then (r, rm1, x1)
                    else case dm_init_stream M (rm_seq rm1) (case rm_stream rm1 of None \<Rightarrow> [] | Some b \<Rightarrow> b) (x_w x1) of
                      (r1, w1) \<Rightarrow> (r1, rm1, x1\<lparr>x_w := w1\<rparr>)) in
      if rm_stream rm \<noteq> None then Some (init (0, rm, x))
      else case rbox_open_rados_connection E box alt x of None \<Rightarrow> None
      | Some (r, x1) \<Rightarrow>
          if r < 0 then Some (-1, rm, x1)
          else
            let rs = x_rs x1;
                x2 = (if alt then x1\<lparr>x_rs := rs\<lparr>rs_alt := st_set_namespace (st_nspace (rs_alt rs)) (rs_alt rs)\<rparr>\<rparr> else x1);
                st = (if alt then rs_alt (x_rs x2) else rs_s (x_rs x2)); rm1 = with_object rm in
            (case (if rm_oid rm1 = [] then rbox_get_index_record (en_dovecot E) rm1 (x_w x2) else Some (0, rm1)) of
               None \<Rightarrow> None
             | Some (r1, rm2) \<Rightarrow>
                 if r1 < 0 then Some (-1, rm2, x2)
                 else
                   (case read_with_retry (en_rados E) (x_cl x2) st (rm_oid rm2) (x_w x2) of (ret, buf, psize, date, w1) \<Rightarrow>
                      let x3 = x2\<lparr>x_w := w1\<rparr>; rm3 = put_object (\<lambda>m. m\<lparr>m_buffer := []\<rparr>) rm2 in
                      if ret < 0 then
                        Some (-1, rm3, if fst (read_mail_from_storage (en_rados E) (x_cl x2) st (rm_oid rm2) (x_w x2)) = - ENOENT
                                       then rbox_mail_set_expunged E M box rm3 x3 else x3)
                      else map_option init (open_stream E M garbage box buf psize date rm3 x3))))"

section \<open>Special fields\<close>

definition rbox_get_guid_metadata :: "'w env \<Rightarrow> 'w dovecot_mail \<Rightarrow> rbox_mailbox \<Rightarrow> rbox_mail \<Rightarrow> 'w rbox_state \<Rightarrow>
    (int \<times> string option \<times> rbox_mail \<times> 'w rbox_state) option" where
  "rbox_get_guid_metadata E M box rm x =
     (if rm_index_guid rm \<noteq> zero_guid then Some (0, Some (dm_guid_to_compact M (rm_index_guid rm)), rm, x)
      else case rbox_mail_metadata_get E M box RBOX_METADATA_GUID rm x of None \<Rightarrow> None
      | Some (r, v, rm1, x1) \<Rightarrow>
          if r < 0 then Some (-1, v, rm1, x1)
          else case v of None \<Rightarrow> None
          | Some t \<Rightarrow>
            (case dv_guid_from_uuid_string (en_dovecot E) t of None \<Rightarrow> Some (-1, v, rm1, x1)
             | Some g \<Rightarrow>
                 let rm2 = rm1\<lparr>rm_index_guid := g\<rparr> in
                 Some (0, v, rm2, x1\<lparr>x_w := dv_update_ext (en_dovecot E) (rm_seq rm2) g (rm_index_oid rm2) (x_w x1)\<rparr>)))"

text \<open>An order of 0 in the cache means that there is none.\<close>

definition cached_text :: "cache_field \<Rightarrow> bytes \<Rightarrow> string option" where
  "cached_text field b =
     (if field = CACHE_POP3_ORDER then
        if length b \<noteq> 4 then None
        else let order = word_of_nat (le_val b) :: 32 word in Some (if order \<noteq> 0 then int_to_string (uint order) else [])
      else Some (c_str b))"

definition rbox_get_cached_metadata :: "'w env \<Rightarrow> 'w dovecot_mail \<Rightarrow> rbox_mailbox \<Rightarrow> rbox_metadata_key \<Rightarrow> cache_field \<Rightarrow> rbox_mail \<Rightarrow>
    'w rbox_state \<Rightarrow> (int \<times> string option \<times> rbox_mail \<times> 'w rbox_state) option" where
  "rbox_get_cached_metadata E M box key field rm x =
     (case dm_cache_lookup M field (rm_seq rm) (x_w x) of
        Some b \<Rightarrow> map_option (\<lambda>t. (0, Some t, rm, x)) (cached_text field b)
      | None \<Rightarrow>
        (case rbox_mail_metadata_get E M box key rm x of None \<Rightarrow> None
         | Some (r, v, rm1, x1) \<Rightarrow>
             if r < 0 then Some (-1, None, rm1, x1)
             else
               let value = (case v of None \<Rightarrow> [] | Some t \<Rightarrow> t);
                   bytes = (if field \<noteq> CACHE_POP3_ORDER then value @ [NUL]
                            else encode_le32 (case dm_str_to_uint M value of None \<Rightarrow> 0 | Some n \<Rightarrow> n))
               in Some (0, Some value, rm1, x1\<lparr>x_w := dm_cache_add M field (rm_seq rm1) bytes (x_w x1)\<rparr>)))"

definition rbox_mail_get_special :: "'w env \<Rightarrow> 'w dovecot_mail \<Rightarrow> rbox_mailbox \<Rightarrow> fetch_field \<Rightarrow> rbox_mail \<Rightarrow> 'w rbox_state \<Rightarrow>
    (int \<times> string option \<times> rbox_mail \<times> 'w rbox_state) option" where
  "rbox_mail_get_special E M box field rm x =
     (let D = en_dovecot E;
          pop3 = (\<lambda>flag. rbox_header_have_flag D flags_offset flag (x_w x) \<and> dm_pop3_uidl_can_exist M (rm_seq rm) (x_w x)) in
      case field of
        FETCH_GUID \<Rightarrow>
          (case rbox_get_cached_metadata E M box RBOX_METADATA_GUID CACHE_GUID rm x of None \<Rightarrow> None
           | Some (r, v, rm1, x1) \<Rightarrow> if r < 0 then rbox_get_guid_metadata E M box rm1 x1 else Some (r, v, rm1, x1))
      | FETCH_UIDL_BACKEND \<Rightarrow>
          if \<not> pop3 HAVE_POP3_UIDLS then Some (0, Some [], rm, x)
          else case rbox_get_cached_metadata E M box RBOX_METADATA_POP3_UIDL CACHE_POP3_UIDL rm x of None \<Rightarrow> None
          | Some (r, v, rm1, x1) \<Rightarrow>
              Some (r, v, rm1, if r = 0
                then x1\<lparr>x_w := dm_pop3_uidl_update_exists M (rm_seq rm1) (v \<noteq> Some []) (x_w x1)\<rparr> else x1)
      | FETCH_POP3_ORDER \<Rightarrow>
          if \<not> pop3 HAVE_POP3_ORDERS then Some (0, Some [], rm, x)
          else rbox_get_cached_metadata E M box RBOX_METADATA_POP3_ORDER CACHE_POP3_ORDER rm x
      | _ \<Rightarrow>
          (case dm_index_special M field (rm_seq rm) (x_w x) of (r, v, w1) \<Rightarrow> Some (r, v, rm, x\<lparr>x_w := w1\<rparr>)))"

definition rbox_mail_close :: "rbox_mail \<Rightarrow> rbox_mail" where
  "rbox_mail_close rm = rm\<lparr>rm_rados_mail := None, rm_stream := None\<rparr>"

text \<open>Dovecot closes the mail before it takes another sequence number.\<close>

definition rbox_index_mail_set_seq :: "'w dovecot \<Rightarrow> 32 word \<Rightarrow> rbox_mail \<Rightarrow> 'w \<Rightarrow> rbox_mail option" where
  "rbox_index_mail_set_seq D seq rm w =
     (let rm1 = (if rm_seq rm = seq then rm else (rbox_mail_close rm)\<lparr>rm_seq := seq\<rparr>) in
      if rm_rados_mail rm1 = None
      then map_option snd (rbox_get_index_record D (rm1\<lparr>rm_rados_mail := Some new_rados_mail\<rparr>) w)
      else Some rm1)"

section \<open>Lemmas\<close>

lemma get_mail_stream_content:
  "fst (snd (get_mail_stream M buf n w)) = take n buf"
  by (simp add: get_mail_stream_def Let_def i_stream_data_seek_def i_stream_create_from_bufferlist_def stream_content_def
      split: option.split prod.split)

lemma index_record_of_new_mail:
  assumes "dv_lookup_ext D seq w = Some (guid, oid)" and "seq \<noteq> -1"
  shows "rbox_get_index_record D (with_object (rbox_mail_alloc seq)) w =
    Some (0, (rbox_mail_alloc seq)\<lparr>rm_index_guid := guid, rm_index_oid := oid,
       rm_rados_mail := Some (new_rados_mail\<lparr>m_oid := dv_guid_to_string D oid\<rparr>), rm_last_seq := seq\<rparr>)"
  using assms by (simp add: rbox_get_index_record_def with_object_def rbox_mail_alloc_def)

text \<open>The stream of a plain mail is its data.\<close>

lemma open_stream_plain:
  assumes "check_is_zlib buf = Some False" and "int (length buf) < INT_MAX" and "dm_istream_opened M = None"
  shows "\<exists>rm1. open_stream E M garbage box buf (length buf) date rm x = Some (0, rm1, x) \<and> rm_stream rm1 = Some buf \<and> rm_seq rm1 = rm_seq rm"
proof -
  have n: "to_int32 (int (length buf)) = int (length buf)" using assms(2) by (simp add: to_int32_id)
  have "buf \<noteq> []" using assms(1) by (auto simp: check_is_zlib_def byte_at_def split: option.splits)
  moreover have "to_uint64 (int (length buf)) = length buf" using assms(2) by (simp add: to_uint64_id)
  ultimately show ?thesis
    using assms unfolding open_stream_def n
    by (simp add: Let_def repair_trailer_def get_mail_stream_def i_stream_data_seek_def i_stream_create_from_bufferlist_def
        stream_content_def put_object_def)
qed

text \<open>
  The stream of a mail that is no gzip file is the data of the object its index record
  names, when the read succeeds; reading changes no object.
\<close>

lemma get_stream_returns_object:
  assumes "law_read_stat (en_rados E) V" and "law_dovecot_mail M V" and "state_ready box False x"
    and "\<not> mail_alt M box (rbox_mail_alloc seq) (x_w x)" and "seq \<noteq> -1" and "dm_istream_opened M = None"
    and "dv_lookup_ext (en_dovecot E) seq (x_w x) = Some (guid, oid)"
    and "V (x_w x) (okey (st_io_ctx (rs_s (x_rs x))) (dv_guid_to_string (en_dovecot E) oid)) = Some ob"
    and "check_is_zlib (o_data ob) = Some False" and "int (length (o_data ob)) < INT_MAX"
    and "0 \<le> fst (rd_read_stat (en_rados E) (st_io_ctx (rs_s (x_rs x))) (dv_guid_to_string (en_dovecot E) oid) (x_w x))"
  shows "\<exists>r rm y. rbox_mail_get_stream E M garbage box (rbox_mail_alloc seq) x = Some (r, rm, y) \<and>
    rm_stream rm = Some (o_data ob) \<and> V (x_w y) = V (x_w x)"
proof -
  let ?D = "en_dovecot E" and ?st = "rs_s (x_rs x)" and ?io = "st_io_ctx (rs_s (x_rs x))"
  let ?oid = "dv_guid_to_string ?D oid" and ?x = "x\<lparr>x_rs := waiting (x_rs x)\<rparr>"
  let ?rm = "(rbox_mail_alloc seq)\<lparr>rm_index_guid := guid, rm_index_oid := oid,
       rm_rados_mail := Some (new_rados_mail\<lparr>m_oid := ?oid\<rparr>), rm_last_seq := seq\<rparr>"
  obtain r b n t w1 where rd: "rd_read_stat (en_rados E) ?io ?oid (x_w x) = (r, b, n, t, w1)" using prod_cases5 by blast
  have r: "0 \<le> r" using assms(11) rd by simp
  have v: "V w1 = V (x_w x)" "b = o_data ob" "n = length (o_data ob)"
    using assms(1,8,10) rd r unfolding law_read_stat_def by (metis less_imp_le option.inject)+
  have ready: "storage_ready (x_cl x) ?st" using assms(3) by (simp add: state_ready_def)
  have rr: "read_with_retry (en_rados E) (x_cl ?x) (rs_s (waiting (x_rs x))) ?oid (x_w ?x) = (r, b, n, t, w1)"
    using rd r ready by (simp add: read_with_retry_def read_mail_from_storage_def read_operate_def)
  let ?rm1 = "put_object (\<lambda>m. m\<lparr>m_buffer := []\<rparr>) ?rm"
  obtain rm2 where os: "open_stream E M garbage box b n t ?rm1 (?x\<lparr>x_w := w1\<rparr>) = Some (0, rm2, ?x\<lparr>x_w := w1\<rparr>)"
      "rm_stream rm2 = Some (o_data ob)"
    using open_stream_plain [OF assms(9,10,6)] v by blast
  obtain r2 w2 where i: "dm_init_stream M (rm_seq rm2) (o_data ob) w1 = (r2, w2)" by fastforce
  then have "V w2 = V w1" using law_dovecot_mailD(11) [OF assms(2)] by (metis snd_conv)
  moreover have "rbox_mail_get_stream E M garbage box (rbox_mail_alloc seq) x = Some (r2, rm2, ?x\<lparr>x_w := w2\<rparr>)"
  proof -
    have "rm_oid (with_object (rbox_mail_alloc seq)) = []" "rm_stream (rbox_mail_alloc seq) = None" "rm_oid ?rm = ?oid"
      by (simp_all add: rm_oid_def with_object_def rbox_mail_alloc_def new_rados_mail_def)
    then show ?thesis
      using assms(4) open_ready [OF assms(3), of E] index_record_of_new_mail [OF assms(7,5)] rr r os i
      unfolding rbox_mail_get_stream_def Let_def by simp
  qed
  ultimately show ?thesis using os(2) v(1) by auto
qed

lemma of_char_bound: "of_char c < (256 :: nat)"
  by (metis mod_less_divisor of_char_mod_256 zero_less_numeral)

lemma byte_at_bound: "byte_at b i = Some x \<Longrightarrow> x < 256"
  using of_char_bound by (auto simp: byte_at_def split: if_splits)

lemma zlib_header_bounds:
  assumes "zlib_header_length b = Some h"
  shows "10 \<le> h \<and> h \<le> 522 + int (length b)"
proof -
  have "12 \<le> h \<and> h \<le> 522" if e: "header_extra_size b = Some h"
  proof -
    obtain x y where "byte_at b 10 = Some x" "byte_at b 11 = Some y" "h = 12 + int (x + y)"
      using e by (auto simp: header_extra_size_def split: option.splits)
    then show ?thesis using byte_at_bound [of b 10 x] byte_at_bound [of b 11 y] by simp
  qed
  moreover have "10 \<le> h \<and> h < int (length b)" if "header_dynamic_size b = Some h"
    using that by (auto simp: header_dynamic_size_def Let_def split: if_splits)
  ultimately show ?thesis
    using assms by (fastforce simp: zlib_header_length_def split: option.splits if_splits)
qed

section \<open>Properties\<close>

text \<open>
  Property C36: the repair of gzip trailers. A mail that is no gzip stream is left alone. Of a gzip mail, whose physical size
  is known and below \<open>2 ^ 62\<close>, one zero byte is added to the buffer and one to the size exactly when the length in the trailer
  is below the physical size of the mail, where the unsigned difference wraps around, or exceeds it by more than the length of the
  header; otherwise buffer and size are unchanged.
\<close>

theorem trailer_repair_range:
  assumes "zlib_trailer_msg_length buf psize = Some len" and "zlib_header_length buf = Some hdr"
    and "int (length buf) \<le> INT_MAX" and "unat real_size < 2 ^ 62" and "check_is_zlib buf = Some gzip"
    and "rbox_mail_get_physical_size E M box rm x = Some (r, Some real_size, rm1, x1)"
  shows "repair_trailer E M garbage box buf psize rm x = Some (
    if \<not> gzip then (buf, psize, rm, x)
    else if unat len < unat real_size \<or> hdr < int (unat len) - int (unat real_size) then (buf @ [NUL], psize + 1, rm1, x1)
    else (buf, psize, rm1, x1))"
proof -
  have h: "10 \<le> hdr" "hdr \<le> 2147484169" using zlib_header_bounds [OF assms(2)] assms(3) by auto
  have l: "unat len < 2 ^ 32" using unsigned_less [where 'a = nat, of len] by simp
  have uh: "unat (word_of_int hdr :: 64 word) = nat hdr"
    using h by (simp add: unsigned_of_int take_bit_int_eq_self)
  have ul: "unat (ucast len :: 64 word) = unat len"
    using l by (simp add: unsigned_ucast_eq take_bit_nat_eq_self)
  have "word_of_int hdr < (ucast len - real_size :: 64 word) \<longleftrightarrow> unat len < unat real_size \<or> hdr < int (unat len) - int (unat real_size)"
  proof (cases "unat len < unat real_size")
    case True
    then have "unat (ucast len - real_size :: 64 word) = 2 ^ 64 + unat len - unat real_size"
      using ul by (simp add: unat_sub_if')
    then show ?thesis using True h assms(4) by (simp add: word_less_nat_alt uh)
  next
    case False
    then have "unat (ucast len - real_size :: 64 word) = unat len - unat real_size"
      using ul by (simp add: unat_sub_if')
    moreover have "nat hdr < unat len - unat real_size \<longleftrightarrow> hdr < int (unat len) - int (unat real_size)"
      using h(1) by (intro iffI; linarith)
    ultimately show ?thesis using False unfolding word_less_nat_alt uh by simp
  qed
  then show ?thesis using assms(1,2,5,6) by (simp add: repair_trailer_def trailer_broken_def)
qed

text \<open>
  Reading the save date of a mail. When the object cannot be read for a reason that may pass,
  such as a timeout, the mail is marked as expunged; when the object is missing, it is not.
\<close>

theorem save_date_error_expunges:
  assumes "state_ready box False x" and "\<not> mail_alt M box rm (x_w x)" and "dm_index_save_date M (rm_seq rm) (x_w x) = None"
    and "rm_rados_mail rm = Some m" and "m_save_date m = -1"
    and "rd_stat (en_rados E) (st_io_ctx (rs_s (x_rs x))) (m_oid m) (x_w x) = (ret, n, t, w1)" and "ret < 0"
  shows "\<exists>y. rbox_mail_get_save_date E M box rm x = Some (-1, None, rm, y) \<and>
    x_w y = (if ret = - ENOENT then w1 else dm_set_expunged M (rm_seq rm) w1)"
  using assms open_ready [OF assms(1), of E]
  by (simp add: rbox_mail_get_save_date_def Let_def load_object_def stat_mail_def state_ready_def)

text \<open>A gzip file whose trailer gives a length of five bytes.\<close>

definition gzip_sample :: bytes where
  "gzip_sample = map char_of [0x1f, 0x8b, 8, 0, 0, 0, 0, 0, 0, 3, 75, 0, 5, 0, 0, 0 :: nat]"

definition sized_mail :: "64 word \<Rightarrow> mem dovecot_mail" where
  "sized_mail n = (fixed_mail 0 5 [])\<lparr>dm_index_physical_size := \<lambda>_ _. Some n\<rparr>"

theorem trailer_repair_range_witness:
  "repair_trailer sample_env (sized_mail 7) 0 sample_box gzip_sample 16 (rbox_mail_alloc 1) (sample_state []) =
     Some (gzip_sample @ [NUL], 17, rbox_mail_alloc 1, sample_state []) \<and>
   repair_trailer sample_env (sized_mail 4) 0 sample_box gzip_sample 16 (rbox_mail_alloc 1) (sample_state []) =
     Some (gzip_sample, 16, rbox_mail_alloc 1, sample_state [])"
proof -
  have "zlib_trailer_msg_length gzip_sample 16 = Some 5" "zlib_header_length gzip_sample = Some 11" "int (length gzip_sample) \<le> INT_MAX"
    and z: "check_is_zlib gzip_sample = Some True"
    by (simp_all add: gzip_sample_def zlib_trailer_msg_length_def zlib_header_length_def byte_at_def of_char_of check_is_zlib_def)
  note f = trailer_repair_range [OF this(1-3) _ z]
  have p: "rbox_mail_get_physical_size E (sized_mail n) box rm x = Some (0, Some n, rm, x)" for E n box rm x
    by (simp add: rbox_mail_get_physical_size_def sized_mail_def)
  show ?thesis using f [OF _ p, of 7] f [OF _ p, of 4] by simp
qed

definition expunging_mail :: "mem dovecot_mail" where
  "expunging_mail = (fixed_mail 0 5 [])\<lparr>dm_set_expunged := \<lambda>_ _. three_objects\<rparr>"

theorem save_date_error_expunges_witness:
  "\<exists>y. rbox_mail_get_save_date (sample_env\<lparr>en_rados := mem_rados\<lparr>rd_stat := \<lambda>_ _ w. (- ETIMEDOUT, 0, 0, w)\<rparr>\<rparr>) expunging_mail sample_box
       ((rbox_mail_alloc 1)\<lparr>rm_rados_mail := Some new_rados_mail\<rparr>) (sample_state []) =
     Some (-1, None, (rbox_mail_alloc 1)\<lparr>rm_rados_mail := Some new_rados_mail\<rparr>, y) \<and> x_w y = three_objects"
proof -
  let ?E = "sample_env\<lparr>en_rados := mem_rados\<lparr>rd_stat := \<lambda>_ _ w. (- ETIMEDOUT, 0, 0, w)\<rparr>\<rparr>"
  have "rd_stat (en_rados ?E) c oid w = (- ETIMEDOUT, 0, 0, w)" for c oid w by simp
  then show ?thesis
    using save_date_error_expunges [of sample_box "sample_state []" expunging_mail
        "(rbox_mail_alloc 1)\<lparr>rm_rados_mail := Some new_rados_mail\<rparr>" new_rados_mail ?E "- ETIMEDOUT" 0 0 "[]"] sample_state_ready [of sample_box "[]"]
    by (simp add: expunging_mail_def fixed_mail_def mail_alt_def rec_alt_def is_alternate_storage_set_def new_rados_mail_def)
qed

end
