(* ===== verification/Rbox_Copy.thy ===== *)
theory Rbox_Copy
  imports Rbox_Mail
begin

text \<open>
  Copying mails (\<open>src/src/storage-rbox/rbox-copy.cpp\<close>): within this driver the object of the mail is
  copied by the cluster and gets the metadata of the destination mailbox; from another driver, or
  while a mail is saved, dovecot's generic copy reads and saves the mail.
\<close>

section \<open>The source of a copy\<close>

definition RBOX_STORAGE_NAME :: string where "RBOX_STORAGE_NAME = ''rbox''"

text \<open>
  The mail to copy: the storage driver and the mailbox it is in, the index of that mailbox, and dovecot's
  generic functions, which copy the flags into the save context and save the mail from its stream.
  A mailbox of this driver belongs to the storage object of the destination mailbox, so errors need
  not be handed from one storage to the other.
\<close>

record 'w copy_src =
  cs_storage_name :: string
  cs_box :: rbox_mailbox
  cs_dovecot :: "'w dovecot"
  cs_calls :: "'w dovecot_mail"
  cs_copy_flags :: "save_data \<Rightarrow> 'w \<Rightarrow> save_data"
  cs_copy :: "save_ctx \<Rightarrow> 'w rbox_state \<Rightarrow> (int \<times> save_ctx \<times> 'w rbox_state) option"

definition src_env :: "'w env \<Rightarrow> 'w copy_src \<Rightarrow> 'w env" where
  "src_env E s = E\<lparr>en_dovecot := cs_dovecot s\<rparr>"

section \<open>The metadata of a copy\<close>

text \<open>What the caller did not give is read from the mail. \<^const>\<open>False\<close>: it could not be read.\<close>

definition copy_received_date :: "'w env \<Rightarrow> 'w copy_src \<Rightarrow> save_ctx \<Rightarrow> rbox_mail \<Rightarrow> 'w rbox_state \<Rightarrow>
    (bool \<times> save_ctx \<times> rbox_mail \<times> 'w rbox_state) option" where
  "copy_received_date E s c rm x =
     (if sd_received_date (sv_data c) \<noteq> -1 then Some (True, c, rm, x)
      else case rbox_mail_get_received_date (src_env E s) (cs_calls s) (cs_box s) rm x of None \<Rightarrow> None
      | Some (r, d, rm1, x1) \<Rightarrow>
          if r < 0 then Some (False, c, rm1, x1)
          else case d of None \<Rightarrow> None
          | Some t \<Rightarrow> Some (True, c\<lparr>sv_data := (sv_data c)\<lparr>sd_received_date := t\<rparr>\<rparr>, rm1, x1))"

definition copy_special :: "'w env \<Rightarrow> 'w copy_src \<Rightarrow> fetch_field \<Rightarrow> (save_data \<Rightarrow> string option) \<Rightarrow> (string \<Rightarrow> save_data \<Rightarrow> save_data) \<Rightarrow>
    save_ctx \<Rightarrow> rbox_mail \<Rightarrow> 'w rbox_state \<Rightarrow> (bool \<times> save_ctx \<times> rbox_mail \<times> 'w rbox_state) option" where
  "copy_special E s field given put c rm x =
     (if given (sv_data c) \<noteq> None then Some (True, c, rm, x)
      else case rbox_mail_get_special (src_env E s) (cs_calls s) (cs_box s) field rm x of None \<Rightarrow> None
      | Some (r, v, rm1, x1) \<Rightarrow>
          if r < 0 then Some (False, c, rm1, x1)
          else case v of None \<Rightarrow> None
          | Some t \<Rightarrow> Some (True, if t \<noteq> [] then c\<lparr>sv_data := put t (sv_data c)\<rparr> else c, rm1, x1))"

definition rbox_mail_save_copy_default_metadata :: "'w env \<Rightarrow> 'w copy_src \<Rightarrow> save_ctx \<Rightarrow> rbox_mail \<Rightarrow> 'w rbox_state \<Rightarrow>
    (int \<times> save_ctx \<times> rbox_mail \<times> 'w rbox_state) option" where
  "rbox_mail_save_copy_default_metadata E s c rm x =
     (case copy_received_date E s c rm x of None \<Rightarrow> None
      | Some (ok, c1, rm1, x1) \<Rightarrow>
        if \<not> ok then Some (-1, c1, rm1, x1)
        else case copy_special E s FETCH_FROM_ENVELOPE sd_from_envelope (\<lambda>t d. d\<lparr>sd_from_envelope := Some t\<rparr>) c1 rm1 x1 of None \<Rightarrow> None
        | Some (ok, c2, rm2, x2) \<Rightarrow>
          if \<not> ok then Some (-1, c2, rm2, x2)
          else map_option (\<lambda>(ok, c3, rm3, x3). (if ok then 0 else -1, c3, rm3, x3))
            (copy_special E s FETCH_GUID sd_guid (\<lambda>t d. d\<lparr>sd_guid := Some t\<rparr>) c2 rm2 x2))"

definition set_mailbox_metadata :: "'w dovecot \<Rightarrow> rbox_storage \<Rightarrow> save_ctx \<Rightarrow> rados_metadata list" where
  "set_mailbox_metadata D rs c =
     [convert_cstr RBOX_METADATA_MAILBOX_GUID (dv_guid_to_string D (bx_guid (sv_mbox c))),
      convert_time RBOX_METADATA_RECEIVED_TIME (sd_received_date (sv_data c))] @
     (if is_update_attributes (rs_json rs) \<and> is_updateable_attribute (rs_json rs) RBOX_METADATA_ORIG_MAILBOX
      then [convert_cstr RBOX_METADATA_ORIG_MAILBOX (bx_name (sv_mbox c))] else [])"

section \<open>Namespaces\<close>

definition lookup_ns :: "'w rados \<Rightarrow> string \<Rightarrow> rbox_storage \<Rightarrow> 'w \<Rightarrow> bool \<times> string \<times> rbox_storage \<times> 'w" where
  "lookup_ns R uid rs w =
     (case lookup_key R uid [] \<lparr>nm_config = Some (config_view rs), nm_cache = rs_ns_cache rs\<rparr> w of
        (found, ns, m1, w1) \<Rightarrow>
          (found, ns, (case nm_config m1 of None \<Rightarrow> rs | Some c \<Rightarrow> config_store c rs)\<lparr>rs_ns_cache := nm_cache m1\<rparr>, w1))"

definition get_src_dest_namespace :: "'w env \<Rightarrow> rbox_mailbox \<Rightarrow> rbox_mailbox \<Rightarrow> 'w rbox_state \<Rightarrow>
    int \<times> string \<times> string \<times> 'w rbox_state" where
  "get_src_dest_namespace E src_box dest_box x =
     (let ns_src_mail1 = mailbox_uid src_box (x_rs x); ns_dest_mail1 = mailbox_uid dest_box (x_rs x) in
      case lookup_ns (en_rados E) ns_src_mail1 (x_rs x) (x_w x) of (found, ns_src, rs1, w1) \<Rightarrow>
        if \<not> found then (-1, ns_src, [], x\<lparr>x_rs := rs1, x_w := w1\<rparr>)
        else case lookup_ns (en_rados E) ns_dest_mail1 rs1 w1 of (found, ns_dest, rs2, w2) \<Rightarrow>
          (if found then 0 else -1, ns_src, ns_dest, x\<lparr>x_rs := rs2, x_w := w2\<rparr>))"

section \<open>Copying the object\<close>

text \<open>A storage of the state, and the state with that storage replaced.\<close>

definition the_storage :: "bool \<Rightarrow> rbox_storage \<Rightarrow> storage" where
  "the_storage alt rs = (if alt then rs_alt rs else rs_s rs)"

definition put_storage :: "bool \<Rightarrow> storage \<Rightarrow> rbox_storage \<Rightarrow> rbox_storage" where
  "put_storage alt st rs = (if alt then rs\<lparr>rs_alt := st\<rparr> else rs\<lparr>rs_s := st\<rparr>)"

definition log_copied :: "string \<Rightarrow> string \<Rightarrow> storage \<Rightarrow> rbox_storage \<Rightarrow> rbox_storage" where
  "log_copied oid ns st rs =
     (if sl_open (rs_save_log rs)
      then rs\<lparr>rs_save_log := save_log_append (save_log_entry_of oid ns (st_pool_name st) op_cpy) (rs_save_log rs)\<rparr>
      else rs)"

text \<open>\<open>now\<close> is the time of the copy. A mail that is gone is marked as expunged.\<close>

definition copy_mail :: "'w env \<Rightarrow> 'w copy_src \<Rightarrow> int \<Rightarrow> bool \<Rightarrow> string \<Rightarrow> string \<Rightarrow> save_ctx \<Rightarrow> rbox_mail \<Rightarrow> 'w rbox_state \<Rightarrow>
    (int \<times> save_ctx \<times> 'w rbox_state) option" where
  "copy_mail E s now alt ns_src ns_dest c rm x =
     (let D = en_dovecot E; src_oid = rm_oid rm in
      case setup_mail_object D c (x_w x) of None \<Rightarrow> None
      | Some (c1, w1) \<Rightarrow>
        (case sv_rados_mail c1 of None \<Rightarrow> None
         | Some i \<Rightarrow>
           let dest_oid = m_oid (sv_mails c1 ! i);
               metadata_update = set_mailbox_metadata D (x_rs x) c1 in
           (case copy (en_rados E) (x_cl x) (the_storage alt (x_rs x)) now src_oid (c_str ns_src) dest_oid (c_str ns_dest)
                   metadata_update w1 of
              (ret, st1, w2) \<Rightarrow>
                let x1 = x\<lparr>x_rs := put_storage alt st1 (x_rs x), x_w := w2\<rparr> in
                if ret < 0 then
                  Some (-1, c1\<lparr>sv_rados_mail := None\<rparr>,
                        if ret = - ENOENT then rbox_mail_set_expunged (src_env E s) (cs_calls s) (cs_box s) rm x1 else x1)
                else case rbox_add_to_index D (c1\<lparr>sv_failed := False\<rparr>) w2 of (c2, w3) \<Rightarrow>
                  Some (0, c2, x1\<lparr>x_rs := log_copied dest_oid ns_dest st1 (x_rs x1), x_w := w3\<rparr>))))"

text \<open>A mail without an object gets one; its record is read only for a new sequence number.\<close>

definition rbox_mail_storage_try_copy :: "'w env \<Rightarrow> 'w dovecot_mail \<Rightarrow> 'w copy_src \<Rightarrow> int \<Rightarrow> bool \<Rightarrow> save_ctx \<Rightarrow> rbox_mail \<Rightarrow>
    'w rbox_state \<Rightarrow> (int \<times> save_ctx \<times> rbox_mail \<times> 'w rbox_state) option" where
  "rbox_mail_storage_try_copy E M s now from_alt_storage c rm x =
     (case get_src_dest_namespace E (cs_box s) (sv_mbox c) x of (r, ns_src, ns_dest, x1) \<Rightarrow>
        if r < 0 then Some (-1, c, rm, x1)
        else
          let rm1 = (if rm_rados_mail rm = None then rm\<lparr>rm_rados_mail := Some new_rados_mail\<rparr> else rm) in
          if \<not> sv_copying c then Some (0, c, rm1, x1)
          else case rbox_get_index_record (cs_dovecot s) rm1 (x_w x1) of None \<Rightarrow> None
          | Some (r, rm2) \<Rightarrow>
            if r < 0 then Some (-1, c, rm2, x1)
            else case rbox_mail_save_copy_default_metadata E s c rm2 x1 of None \<Rightarrow> None
            | Some (r, c1, rm3, x2) \<Rightarrow>
              if r < 0 then Some (-1, c1, rm3, x2)
              else case copy_mail E s now from_alt_storage ns_src ns_dest c1 rm3 x2 of None \<Rightarrow> None
              | Some (r, c2, x3) \<Rightarrow>
                if r < 0 then Some (-1, c2, rm3, x3)
                else
                  let w1 = (if bx_disable_reflink (sv_mbox c2) then x_w x3 else dm_copy_cache_fields M (sv_seq c2) (x_w x3));
                      w2 = (if sv_dest_mail c2 then dm_set_seq_saving M (sv_seq c2) w1 else w1)
                  in Some (0, c2, rm3, x3\<lparr>x_w := w2\<rparr>))"

definition rbox_mail_storage_copy :: "'w env \<Rightarrow> 'w dovecot_mail \<Rightarrow> 'w copy_src \<Rightarrow> int \<Rightarrow> save_ctx \<Rightarrow> rbox_mail \<Rightarrow>
    'w rbox_state \<Rightarrow> (int \<times> save_ctx \<times> rbox_mail \<times> 'w rbox_state) option" where
  "rbox_mail_storage_copy E M s now c rm x =
     (let c1 = c\<lparr>sv_finished := True\<rparr>; alt_storage = mail_alt (cs_calls s) (cs_box s) rm (x_w x) in
      case rbox_open_rados_connection E (sv_mbox c1) alt_storage x of None \<Rightarrow> None
      | Some (r, x1) \<Rightarrow>
        if r < 0 then Some (-1, c1, rm, x1)
        else if sv_saving c1 \<or> \<not> sv_copying c1 \<or> cs_storage_name s \<noteq> ''rbox'' then
          let c2 = c1\<lparr>sv_data := cs_copy_flags s (sv_data c1) (x_w x1)\<rparr> in
          map_option (\<lambda>(r, c3, x2). if r < 0 then (-1, c3, rm, x2) else (0, c3\<lparr>sv_unfinished := False\<rparr>, rm, x2)) (cs_copy s c2 x1)
        else
          map_option (\<lambda>(r, c3, rm1, x2).
              if r < 0 then (-1, c3\<lparr>sv_data := dm_save_context_free M (sv_data c3)\<rparr>, rm1, x2)
              else (0, c3\<lparr>sv_unfinished := False\<rparr>, rm1, x2))
            (rbox_mail_storage_try_copy E M s now alt_storage c1 rm x1))"

definition rbox_mail_copy :: "'w env \<Rightarrow> 'w dovecot_mail \<Rightarrow> 'w copy_src \<Rightarrow> int \<Rightarrow> save_ctx \<Rightarrow> rbox_mail \<Rightarrow>
    'w rbox_state \<Rightarrow> (int \<times> save_ctx \<times> rbox_mail \<times> 'w rbox_state) option" where
  "rbox_mail_copy E M s now c rm x =
     (let c1 = c\<lparr>sv_copying := \<not> sv_saving c \<and> cs_storage_name s = ''rbox'' \<and> cs_storage_name s = RBOX_STORAGE_NAME\<rparr> in
      map_option (\<lambda>(ret, c2, rm1, x1).
          (ret, c2\<lparr>sv_copying := False, sv_data := dm_save_context_free M (sv_data c2)\<rparr>, rm1, x1))
        (rbox_mail_storage_copy E M s now c1 rm x))"

section \<open>Lemmas\<close>

text \<open>The storages of a state after an open that finds its connections open.\<close>

definition reopened :: "bool \<Rightarrow> rbox_storage \<Rightarrow> rbox_storage" where
  "reopened alt rs = (if alt then (waiting rs)\<lparr>rs_alt := (rs_alt rs)\<lparr>st_wait_method := wait_method rs\<rparr>\<rparr> else waiting rs)"

lemma reopened_sel [simp]:
  "rs_config (reopened alt rs) = rs_config rs" "rs_ns_cache (reopened alt rs) = rs_ns_cache rs" "rs_json (reopened alt rs) = rs_json rs"
  "st_io_ctx (the_storage a (reopened alt rs)) = st_io_ctx (the_storage a rs)"
  "storage_ready cl (the_storage a (reopened alt rs)) = storage_ready cl (the_storage a rs)"
  "mailbox_uid box (reopened alt rs) = mailbox_uid box rs" "namespace_of (reopened alt rs) = namespace_of rs"
  by (simp_all add: reopened_def waiting_def the_storage_def storage_ready_def rs_json_def mailbox_uid_def namespace_of_def fun_eq_iff
      split: option.split)

lemma open_ready_any:
  assumes "state_ready box alt x"
  shows "rbox_open_rados_connection E box alt x = Some (0, x\<lparr>x_rs := reopened alt (x_rs x)\<rparr>)"
  using assms
  by (auto simp: rbox_open_rados_connection_def open_connections_def open_connection_user_def Let_def state_ready_def
      storage_ready_def waiting_def reopened_def)

text \<open>A namespace that is known needs no access to the cluster.\<close>

lemma lookup_ns_known:
  assumes "dc_is_config_valid (rs_config rs)" and "namespace_of rs uid = Some ns"
  shows "lookup_ns R uid rs w = (True, ns, rs\<lparr>rs_config := config_view rs\<rparr>, w)"
  using assms
  by (auto simp: lookup_ns_def lookup_key_def namespace_of_def config_view_def config_store_def is_user_mapping_def rs_json_def
      dc_is_config_valid_def split: if_splits)

lemma config_view_idem [simp]:
  "config_view (rs\<lparr>rs_config := config_view rs\<rparr>) = config_view rs"
  "rs_json (rs\<lparr>rs_config := config_view rs\<rparr>) = rs_json rs"
  by (simp_all add: config_view_def rs_json_def)

lemma mailbox_uid_config [simp]: "mailbox_uid box (rs\<lparr>rs_config := config_view rs\<rparr>) = mailbox_uid box rs"
  by (simp add: mailbox_uid_def split: option.split)

lemma namespace_of_config [simp]: "namespace_of (rs\<lparr>rs_config := config_view rs\<rparr>) = namespace_of rs"
  by (simp add: namespace_of_def fun_eq_iff)

lemma namespaces_known:
  assumes "dc_is_config_valid (rs_config (x_rs x))" and "namespace_of (x_rs x) (mailbox_uid src (x_rs x)) = Some ns_src"
    and "namespace_of (x_rs x) (mailbox_uid dest (x_rs x)) = Some ns_dest"
  shows "get_src_dest_namespace E src dest x = (0, ns_src, ns_dest, x\<lparr>x_rs := (x_rs x)\<lparr>rs_config := config_view (x_rs x)\<rparr>\<rparr>)"
proof -
  let ?rs = "(x_rs x)\<lparr>rs_config := config_view (x_rs x)\<rparr>"
  have v: "dc_is_config_valid (rs_config ?rs)" using assms(1) by (simp add: config_view_def dc_is_config_valid_def)
  show ?thesis
    using assms(3) by (simp add: get_src_dest_namespace_def Let_def lookup_ns_known [OF assms(1,2)] lookup_ns_known [OF v])
qed

text \<open>The index of the source answers what the copy asks for.\<close>

definition index_answers :: "'w dovecot_mail \<Rightarrow> 32 word \<Rightarrow> bool" where
  "index_answers M seq \<longleftrightarrow> (\<forall>w. dm_index_received_date M seq w \<noteq> None \<and> 0 \<le> fst (dm_index_special M FETCH_FROM_ENVELOPE seq w) \<and>
     fst (snd (dm_index_special M FETCH_FROM_ENVELOPE seq w)) \<noteq> None \<and> dm_cache_lookup M CACHE_GUID seq w \<noteq> None)"

definition copied_date :: "'w copy_src \<Rightarrow> save_ctx \<Rightarrow> 32 word \<Rightarrow> 'w \<Rightarrow> int" where
  "copied_date s c seq w =
     (if sd_received_date (sv_data c) \<noteq> -1 then sd_received_date (sv_data c) else the (dm_index_received_date (cs_calls s) seq w))"

lemma copy_special_ok:
  assumes "law_dovecot_mail (cs_calls s) V" and "index_answers (cs_calls s) (rm_seq rm)" and "field = FETCH_FROM_ENVELOPE \<or> field = FETCH_GUID"
    and "\<And>t d. sd_received_date (put t d) = sd_received_date d"
  shows "\<exists>d w1. copy_special E s field given put c rm x = Some (True, c\<lparr>sv_data := d\<rparr>, rm, x\<lparr>x_w := w1\<rparr>) \<and> V w1 = V (x_w x) \<and>
    sd_received_date d = sd_received_date (sv_data c)"
proof (cases "given (sv_data c) = None")
  case True
  have "\<exists>r t w1. rbox_mail_get_special (src_env E s) (cs_calls s) (cs_box s) field rm x = Some (r, Some t, rm, x\<lparr>x_w := w1\<rparr>) \<and>
      0 \<le> r \<and> V w1 = V (x_w x)"
    using assms(3)
  proof
    assume f: "field = FETCH_FROM_ENVELOPE"
    obtain r v w1 where a: "dm_index_special (cs_calls s) FETCH_FROM_ENVELOPE (rm_seq rm) (x_w x) = (r, v, w1)" by (metis prod_cases3)
    then have "0 \<le> r" "v \<noteq> None" using assms(2) unfolding index_answers_def by (metis fst_conv snd_conv)+
    moreover have "V w1 = V (x_w x)" using law_dovecot_mailD(10) [OF assms(1)] a by (metis snd_conv)
    ultimately show ?thesis using a by (auto simp: f rbox_mail_get_special_def)
  next
    assume f: "field = FETCH_GUID"
    obtain b where "dm_cache_lookup (cs_calls s) CACHE_GUID (rm_seq rm) (x_w x) = Some b"
      using assms(2) unfolding index_answers_def by blast
    moreover have "x\<lparr>x_w := x_w x\<rparr> = x" by simp
    ultimately show ?thesis by (force simp: f rbox_mail_get_special_def rbox_get_cached_metadata_def cached_text_def)
  qed
  then obtain r t w1 where "rbox_mail_get_special (src_env E s) (cs_calls s) (cs_box s) field rm x = Some (r, Some t, rm, x\<lparr>x_w := w1\<rparr>)"
      "0 \<le> r" "V w1 = V (x_w x)" by blast
  moreover have "c\<lparr>sv_data := sv_data c\<rparr> = c" by simp
  ultimately show ?thesis using True assms(4) by (cases "t = []") (force simp: copy_special_def)+
next
  case False
  moreover have "c\<lparr>sv_data := sv_data c\<rparr> = c" "x\<lparr>x_w := x_w x\<rparr> = x" by simp_all
  ultimately show ?thesis by (force simp: copy_special_def)
qed

lemma date_kept:
  "sd_received_date (d\<lparr>sd_from_envelope := Some t\<rparr>) = sd_received_date d" "sd_received_date (d\<lparr>sd_guid := Some t\<rparr>) = sd_received_date d"
  by simp_all

lemma default_metadata_ok:
  assumes "law_dovecot_mail (cs_calls s) V" and "index_answers (cs_calls s) (rm_seq rm)"
  shows "\<exists>d w1. rbox_mail_save_copy_default_metadata E s c rm x = Some (0, c\<lparr>sv_data := d\<rparr>, rm, x\<lparr>x_w := w1\<rparr>) \<and> V w1 = V (x_w x) \<and>
    sd_received_date d = copied_date s c (rm_seq rm) (x_w x)"
proof -
  obtain d0 where r: "copy_received_date E s c rm x = Some (True, c\<lparr>sv_data := d0\<rparr>, rm, x)"
      "sd_received_date d0 = copied_date s c (rm_seq rm) (x_w x)"
  proof (cases "sd_received_date (sv_data c) = -1")
    case True
    obtain t where "dm_index_received_date (cs_calls s) (rm_seq rm) (x_w x) = Some t"
      using assms(2) unfolding index_answers_def by blast
    then show ?thesis using True that [of "(sv_data c)\<lparr>sd_received_date := t\<rparr>"]
      by (simp add: copy_received_date_def rbox_mail_get_received_date_def copied_date_def)
  next
    case False
    show ?thesis by (rule that [of "sv_data c"]) (use False in \<open>simp_all add: copy_received_date_def copied_date_def\<close>)
  qed
  note special = copy_special_ok [where V = V and s = s and rm = rm, OF assms]
  obtain d1 w1 where e: "copy_special E s FETCH_FROM_ENVELOPE sd_from_envelope (\<lambda>t d. d\<lparr>sd_from_envelope := Some t\<rparr>) (c\<lparr>sv_data := d0\<rparr>) rm x =
      Some (True, c\<lparr>sv_data := d0, sv_data := d1\<rparr>, rm, x\<lparr>x_w := w1\<rparr>)" "V w1 = V (x_w x)"
      "sd_received_date d1 = sd_received_date (sv_data (c\<lparr>sv_data := d0\<rparr>))"
    using special [OF disjI1 [OF refl], where put = "\<lambda>t d. d\<lparr>sd_from_envelope := Some t\<rparr>", OF date_kept(1)] by blast
  obtain d2 w2 where g: "copy_special E s FETCH_GUID sd_guid (\<lambda>t d. d\<lparr>sd_guid := Some t\<rparr>) (c\<lparr>sv_data := d1\<rparr>) rm (x\<lparr>x_w := w1\<rparr>) =
      Some (True, c\<lparr>sv_data := d1, sv_data := d2\<rparr>, rm, x\<lparr>x_w := w1, x_w := w2\<rparr>)" "V w2 = V (x_w (x\<lparr>x_w := w1\<rparr>))"
      "sd_received_date d2 = sd_received_date (sv_data (c\<lparr>sv_data := d1\<rparr>))"
    using special [OF disjI2 [OF refl], where put = "\<lambda>t d. d\<lparr>sd_guid := Some t\<rparr>", OF date_kept(2)] by blast
  have "rbox_mail_save_copy_default_metadata E s c rm x = Some (0, c\<lparr>sv_data := d2\<rparr>, rm, x\<lparr>x_w := w2\<rparr>)"
    using r(1) e(1) g(1) unfolding rbox_mail_save_copy_default_metadata_def by simp
  then show ?thesis using r(2) e(2,3) g(2,3) by (intro exI [of _ d2] exI [of _ w2]) simp
qed

text \<open>The object a copy creates.\<close>

definition copied :: "int \<Rightarrow> rados_metadata list \<Rightarrow> robj \<Rightarrow> robj" where
  "copied now md ob = ob\<lparr>o_mtime := now, o_xattrs := smap_put_all (map (\<lambda>m. (md_key m, md_bl m)) md) (o_xattrs ob)\<rparr>"

lemma copy_mail_ok:
  assumes "law_dovecot (en_dovecot E) V" and "law_aio_operate (en_rados E) V" and "aio_succeeds (en_rados E)"
    and "storage_ready (x_cl x) (the_storage alt (x_rs x))" and "c_str ns_src = ns_src" and "c_str ns_dest = ns_dest"
    and "V (x_w x) (okey (copy_ctx ns_src ns_dest (st_io_ctx (the_storage alt (x_rs x))) ns_src) (rm_oid rm)) = Some ob"
  shows "\<exists>c1 x1 oid. copy_mail E s now alt ns_src ns_dest c rm x = Some (0, c1, x1) \<and>
    oid = dv_guid_to_string (en_dovecot E) (fst (dv_guid_generate (en_dovecot E) (x_w x))) \<and> \<not> sv_failed c1 \<and>
    sv_finished c1 = sv_finished c \<and> sv_rados_mails c1 = sv_rados_mails c @ [Some (length (sv_mails c))] \<and>
    m_oid (sv_mails c1 ! length (sv_mails c)) = oid \<and>
    V (x_w x1) = (V (x_w x))(okey (copy_ctx ns_src ns_dest (st_io_ctx (the_storage alt (x_rs x))) ns_dest) oid \<mapsto>
       copied now (set_mailbox_metadata (en_dovecot E) (x_rs x) c) ob)"
proof -
  let ?D = "en_dovecot E" and ?st = "the_storage alt (x_rs x)" and ?i = "length (sv_mails c)"
  define oid where oid: "oid = dv_guid_to_string ?D (fst (dv_guid_generate ?D (x_w x)))"
  obtain dep guid w1 where s: "setup_mail_object ?D c (x_w x) =
      Some ((alloc_mail (new_rados_mail\<lparr>m_oid := oid, m_deprecated_uid := dep\<rparr>) c)
            \<lparr>sv_mail_oid := fst (dv_guid_generate ?D (x_w x)), sv_mail_guid := guid\<rparr>, w1)" "V w1 = V (x_w x)"
    using setup_mail_object_ok [OF assms(1)] unfolding oid by blast
  define c1 where c1: "c1 = (alloc_mail (new_rados_mail\<lparr>m_oid := oid, m_deprecated_uid := dep\<rparr>) c)
      \<lparr>sv_mail_oid := fst (dv_guid_generate ?D (x_w x)), sv_mail_guid := guid\<rparr>"
  have c1s: "sv_rados_mail c1 = Some ?i" "sv_mails c1 = sv_mails c @ [new_rados_mail\<lparr>m_oid := oid, m_deprecated_uid := dep\<rparr>]"
      "sv_rados_mails c1 = sv_rados_mails c" "sv_finished c1 = sv_finished c"
      "set_mailbox_metadata ?D (x_rs x) c1 = set_mailbox_metadata ?D (x_rs x) c"
    by (simp_all add: c1 alloc_mail_def set_mailbox_metadata_def)
  obtain st1 w2 where cp: "copy (en_rados E) (x_cl x) ?st now (rm_oid rm) ns_src oid ns_dest (set_mailbox_metadata ?D (x_rs x) c) w1 = (0, st1, w2)"
    using copy_succeeds [OF assms(3,4)] by (metis prod.collapse)
  have v: "V w2 = (V (x_w x))(okey (copy_ctx ns_src ns_dest (st_io_ctx ?st) ns_dest) oid \<mapsto>
      copied now (set_mailbox_metadata ?D (x_rs x) c) ob)"
    using copy_effect [OF assms(2,4) cp] assms(7) s(2) by (simp add: copied_def)
  obtain c2 w3 where a: "rbox_add_to_index ?D (c1\<lparr>sv_failed := False\<rparr>) w2 = (c2, w3)" by fastforce
  obtain seq where c2: "c2 = c1\<lparr>sv_failed := False, sv_seq := seq, sv_rados_mails := sv_rados_mails c @ [Some ?i]\<rparr>" and v3: "V w3 = V w2"
    using add_to_index_ok [OF assms(1), of "c1\<lparr>sv_failed := False\<rparr>" w2] a c1s by auto
  have mi: "m_oid (sv_mails c1 ! ?i) = oid" by (simp add: c1s)
  have "copy_mail E s now alt ns_src ns_dest c rm x =
      Some (0, c2, x\<lparr>x_rs := log_copied oid ns_dest st1 (put_storage alt st1 (x_rs x)), x_w := w3\<rparr>)"
    unfolding copy_mail_def Let_def s(1) option.case prod.case c1 [symmetric] c1s(1) c1s(5) mi assms(5,6) cp a
    by (simp add: mi cp a)
  then show ?thesis using c2 v v3 c1s by (auto simp: oid)
qed

lemma try_copy_ok:
  assumes "law_dovecot (en_dovecot E) V" and "law_aio_operate (en_rados E) V" and "aio_succeeds (en_rados E)"
    and "law_dovecot_mail M V" and "law_dovecot_mail (cs_calls s) V" and "index_answers (cs_calls s) seq"
    and "sv_copying c" and "dc_is_config_valid (rs_config (x_rs x))" and "storage_ready (x_cl x) (the_storage alt (x_rs x))"
    and "namespace_of (x_rs x) (mailbox_uid (cs_box s) (x_rs x)) = Some ns_src" and "c_str ns_src = ns_src"
    and "namespace_of (x_rs x) (mailbox_uid (sv_mbox c) (x_rs x)) = Some ns_dest" and "c_str ns_dest = ns_dest"
    and "seq \<noteq> 0" and "dv_lookup_ext (cs_dovecot s) seq (x_w x) = Some (guid, src)"
    and "V (x_w x) (okey (copy_ctx ns_src ns_dest (st_io_ctx (the_storage alt (x_rs x))) ns_src) (dv_guid_to_string (cs_dovecot s) src)) = Some ob"
  shows "\<exists>d w1 c1 rm1 x1 oid. rbox_mail_storage_try_copy E M s now alt c (rbox_mail_alloc seq) x = Some (0, c1, rm1, x1) \<and>
    oid = dv_guid_to_string (en_dovecot E) (fst (dv_guid_generate (en_dovecot E) w1)) \<and> \<not> sv_failed c1 \<and> sv_finished c1 = sv_finished c \<and>
    sv_rados_mails c1 = sv_rados_mails c @ [Some (length (sv_mails c))] \<and> m_oid (sv_mails c1 ! length (sv_mails c)) = oid \<and>
    sd_received_date d = copied_date s c seq (x_w x) \<and> V w1 = V (x_w x) \<and>
    V (x_w x1) = (V (x_w x))(okey (copy_ctx ns_src ns_dest (st_io_ctx (the_storage alt (x_rs x))) ns_dest) oid \<mapsto>
       copied now (set_mailbox_metadata (en_dovecot E) (x_rs x) (c\<lparr>sv_data := d\<rparr>)) ob)"
proof -
  define x1 where x1: "x1 = x\<lparr>x_rs := (x_rs x)\<lparr>rs_config := config_view (x_rs x)\<rparr>\<rparr>"
  have ns: "get_src_dest_namespace E (cs_box s) (sv_mbox c) x = (0, ns_src, ns_dest, x1)"
    unfolding x1 by (rule namespaces_known [OF assms(8,10,12)])
  have x1s: "x_w x1 = x_w x" "x_cl x1 = x_cl x" "the_storage a (x_rs x1) = the_storage a (x_rs x)"
      "set_mailbox_metadata D (x_rs x1) c' = set_mailbox_metadata D (x_rs x) c'" for a D c'
    by (simp_all add: x1 the_storage_def set_mailbox_metadata_def)
  define rm where rm: "rm = (rbox_mail_alloc seq)\<lparr>rm_index_guid := guid, rm_index_oid := src,
      rm_rados_mail := Some (new_rados_mail\<lparr>m_oid := dv_guid_to_string (cs_dovecot s) src\<rparr>), rm_last_seq := seq\<rparr>"
  have r: "rbox_get_index_record (cs_dovecot s) ((rbox_mail_alloc seq)\<lparr>rm_rados_mail := Some new_rados_mail\<rparr>) (x_w x1) = Some (0, rm)"
    using assms(14,15) by (simp add: rbox_get_index_record_def rm rbox_mail_alloc_def x1s)
  have rms: "rm_seq rm = seq" "rm_oid rm = dv_guid_to_string (cs_dovecot s) src" by (simp_all add: rm rbox_mail_alloc_def rm_oid_def)
  obtain d w1 where d: "rbox_mail_save_copy_default_metadata E s c rm x1 = Some (0, c\<lparr>sv_data := d\<rparr>, rm, x1\<lparr>x_w := w1\<rparr>)" "V w1 = V (x_w x)"
      "sd_received_date d = copied_date s c seq (x_w x)"
    using default_metadata_ok [OF assms(5), of rm E c x1] assms(6) unfolding rms x1s by blast
  obtain c1 x2 oid where cm: "copy_mail E s now alt ns_src ns_dest (c\<lparr>sv_data := d\<rparr>) rm (x1\<lparr>x_w := w1\<rparr>) = Some (0, c1, x2)"
      "oid = dv_guid_to_string (en_dovecot E) (fst (dv_guid_generate (en_dovecot E) w1))" "\<not> sv_failed c1" "sv_finished c1 = sv_finished c"
      "sv_rados_mails c1 = sv_rados_mails c @ [Some (length (sv_mails c))]" "m_oid (sv_mails c1 ! length (sv_mails c)) = oid"
      "V (x_w x2) = (V (x_w x))(okey (copy_ctx ns_src ns_dest (st_io_ctx (the_storage alt (x_rs x))) ns_dest) oid \<mapsto>
         copied now (set_mailbox_metadata (en_dovecot E) (x_rs x) (c\<lparr>sv_data := d\<rparr>)) ob)"
    using copy_mail_ok [OF assms(1-3), of "x1\<lparr>x_w := w1\<rparr>" alt ns_src ns_dest rm ob s now "c\<lparr>sv_data := d\<rparr>"] assms(9,11,13,16)
    by (auto simp: x1s rms d(2))
  let ?w = "if bx_disable_reflink (sv_mbox c1) then x_w x2 else dm_copy_cache_fields M (sv_seq c1) (x_w x2)"
  let ?w' = "if sv_dest_mail c1 then dm_set_seq_saving M (sv_seq c1) ?w else ?w"
  have "rm_rados_mail (rbox_mail_alloc seq) = None" by (simp add: rbox_mail_alloc_def)
  then have "rbox_mail_storage_try_copy E M s now alt c (rbox_mail_alloc seq) x = Some (0, c1, rm, x2\<lparr>x_w := ?w'\<rparr>)"
    using assms(7) r d(1) cm(1) unfolding rbox_mail_storage_try_copy_def ns Let_def by simp
  moreover have "V ?w' = V (x_w x2)" using law_dovecot_mailD(1,6) [OF assms(4)] by simp
  ultimately show ?thesis using d(2,3) cm(2-7) by auto
qed

section \<open>Properties\<close>

text \<open>
  Property C8: copying a mail within the driver. When the namespaces of both mailboxes are known, the storage is open for
  the namespace of the destination (which matters only when both are the same, because then no namespace is selected), the
  generated GUIDs name no existing object and the cluster executes the copy, the copy is a new object of the destination's namespace with the
  generated id: nothing was there before, it has the data and the omap of the source, its attributes with the
  GUID of the destination mailbox and the received date, and the time of the copy. The mail joins the transaction, and no other
  object changes, the source included.
\<close>

theorem copied_mail_is_new_object:
  assumes "law_dovecot (en_dovecot E) V" and "law_aio_operate (en_rados E) V" and "aio_succeeds (en_rados E)"
    and "law_dovecot_mail M V" and "law_dovecot_mail (cs_calls s) V" and "index_answers (cs_calls s) seq"
    and "\<not> sv_saving c" and "cs_storage_name s = ''rbox''"
    and "alt \<longleftrightarrow> mail_alt (cs_calls s) (cs_box s) (rbox_mail_alloc seq) (x_w x)" and "state_ready (sv_mbox c) alt x"
    and "namespace_of (x_rs x) (mailbox_uid (cs_box s) (x_rs x)) = Some ns_src" and "c_str ns_src = ns_src"
    and "namespace_of (x_rs x) (mailbox_uid (sv_mbox c) (x_rs x)) = Some ns_dest" and "c_str ns_dest = ns_dest"
    and "seq \<noteq> 0" and "dv_lookup_ext (cs_dovecot s) seq (x_w x) = Some (guid, src)"
    and "io = st_io_ctx (the_storage alt (x_rs x))" and "ns_src \<noteq> ns_dest \<or> ctx_ns io = ns_dest"
    and "V (x_w x) (ctx_pool io, ns_src, dv_guid_to_string (cs_dovecot s) src) = Some ob"
    and "\<And>w. V w = V (x_w x) \<Longrightarrow>
      V w (ctx_pool io, ns_dest, dv_guid_to_string (en_dovecot E) (fst (dv_guid_generate (en_dovecot E) w))) = None"
  shows "\<exists>d w1 c1 rm1 x1 oid. rbox_mail_copy E M s now c (rbox_mail_alloc seq) x = Some (0, c1, rm1, x1) \<and>
    oid = dv_guid_to_string (en_dovecot E) (fst (dv_guid_generate (en_dovecot E) w1)) \<and> sv_finished c1 \<and> \<not> sv_failed c1 \<and>
    sv_rados_mails c1 = sv_rados_mails c @ [Some (length (sv_mails c))] \<and> m_oid (sv_mails c1 ! length (sv_mails c)) = oid \<and>
    sd_received_date d = copied_date s c seq (x_w x) \<and>
    V (x_w x) (ctx_pool io, ns_dest, oid) = None \<and>
    V (x_w x1) = (V (x_w x))((ctx_pool io, ns_dest, oid) \<mapsto>
       copied now (set_mailbox_metadata (en_dovecot E) (x_rs x) (c\<lparr>sv_data := d\<rparr>)) ob) \<and>
    V (x_w x1) (ctx_pool io, ns_src, dv_guid_to_string (cs_dovecot s) src) = Some ob"
proof -
  define c0 where c0: "c0 = c\<lparr>sv_copying := True, sv_finished := True\<rparr>"
  define x0 where x0: "x0 = x\<lparr>x_rs := reopened alt (x_rs x)\<rparr>"
  have meta: "set_mailbox_metadata (en_dovecot E) (x_rs x0) (c0\<lparr>sv_data := d\<rparr>) =
      set_mailbox_metadata (en_dovecot E) (x_rs x) (c\<lparr>sv_data := d\<rparr>)" for d
    by (simp add: set_mailbox_metadata_def c0 x0)
  have c0s: "sv_copying c0" "\<not> sv_saving c0" "sv_mbox c0 = sv_mbox c" "sv_mails c0 = sv_mails c" "sv_rados_mails c0 = sv_rados_mails c"
      "sv_finished c0" "copied_date s c0 = copied_date s c"
    using assms(7) by (simp_all add: c0 copied_date_def fun_eq_iff)
  have ready: "dc_is_config_valid (rs_config (x_rs x))" "storage_ready (x_cl x) (the_storage alt (x_rs x))"
    using assms(10) by (auto simp: state_ready_def the_storage_def)
  have key: "okey (copy_ctx ns_src ns_dest io ns_src) oid = (ctx_pool io, ns_src, oid)"
      "okey (copy_ctx ns_src ns_dest io ns_dest) oid = (ctx_pool io, ns_dest, oid)" for oid
    using assms(18) by (auto simp: copy_ctx_def okey_def set_namespace_def)
  obtain d w1 c1 rm1 x1 oid where t: "rbox_mail_storage_try_copy E M s now alt c0 (rbox_mail_alloc seq) x0 = Some (0, c1, rm1, x1)"
      "oid = dv_guid_to_string (en_dovecot E) (fst (dv_guid_generate (en_dovecot E) w1))" "\<not> sv_failed c1" "sv_finished c1"
      "sv_rados_mails c1 = sv_rados_mails c @ [Some (length (sv_mails c))]" "m_oid (sv_mails c1 ! length (sv_mails c)) = oid"
      "sd_received_date d = copied_date s c seq (x_w x)" "V w1 = V (x_w x)"
      "V (x_w x1) = (V (x_w x))((ctx_pool io, ns_dest, oid) \<mapsto>
         copied now (set_mailbox_metadata (en_dovecot E) (x_rs x) (c\<lparr>sv_data := d\<rparr>)) ob)"
    using try_copy_ok [OF assms(1-6) c0s(1), of x0 alt ns_src ns_dest guid src ob now] assms(11-16,19) ready c0s meta
    by (auto simp: x0 key [unfolded assms(17)] assms(17))
  have new: "V (x_w x) (ctx_pool io, ns_dest, oid) = None" using assms(20) [OF t(8)] t(2,8) by simp
  then have src': "V (x_w x1) (ctx_pool io, ns_src, dv_guid_to_string (cs_dovecot s) src) = Some ob"
    using t(9) assms(19) by auto
  have "rbox_mail_storage_copy E M s now (c\<lparr>sv_copying := True\<rparr>) (rbox_mail_alloc seq) x = Some (0, c1\<lparr>sv_unfinished := False\<rparr>, rm1, x1)"
    using assms(8) t(1) c0s(1-3) open_ready_any [of "sv_mbox c" alt x E] assms(10)
    unfolding rbox_mail_storage_copy_def Let_def assms(9) [symmetric] by (simp add: c0 x0)
  then obtain c2 where "rbox_mail_copy E M s now c (rbox_mail_alloc seq) x = Some (0, c2, rm1, x1)" "sv_finished c2 = sv_finished c1"
      "sv_failed c2 = sv_failed c1" "sv_rados_mails c2 = sv_rados_mails c1" "sv_mails c2 = sv_mails c1"
    using assms(7,8) by (simp add: rbox_mail_copy_def RBOX_STORAGE_NAME_def)
  then show ?thesis
    using t(2-7,9) new src'
    by (intro exI [of _ d] exI [of _ w1] exI [of _ c2] exI [of _ rm1] exI [of _ x1] exI [of _ oid]) simp
qed

definition sample_src :: "mem copy_src" where
  "sample_src = \<lparr>cs_storage_name = ''rbox'', cs_box = sample_box, cs_dovecot = fixed_dovecot [] (Some (''g'', ''o1'')) [],
     cs_calls = (fixed_mail 0 5 [])\<lparr>dm_index_received_date := \<lambda>_ _. Some 77, dm_index_special := \<lambda>_ _ w. (0, Some [], w),
       dm_cache_lookup := \<lambda>_ _ _. Some ''g''\<rparr>,
     cs_copy_flags = (\<lambda>d _. d), cs_copy = (\<lambda>c x. Some (0, c, x))\<rparr>"

lemma sample_src_sel [simp]:
  "cs_storage_name sample_src = ''rbox''" "cs_box sample_src = sample_box" "cs_dovecot sample_src = fixed_dovecot [] (Some (''g'', ''o1'')) []"
  "dm_flags (cs_calls sample_src) seq w = 0" "dm_index_received_date (cs_calls sample_src) seq w = Some 77"
  "law_dovecot_mail (cs_calls sample_src) V" "index_answers (cs_calls sample_src) seq"
  by (simp_all add: sample_src_def fixed_mail_def law_dovecot_mail_def index_answers_def)

text \<open>A state whose storage is open for the namespace of the user of the sample mailbox, with one mail.\<close>

definition user_state :: "'w \<Rightarrow> 'w rbox_state" where
  "user_state w = (sample_state w)\<lparr>x_rs := (x_rs (sample_state w))\<lparr>rs_s := sample_storage\<lparr>st_io_ctx := \<lparr>ctx_pool = ''p'', ctx_ns = ''u_u''\<rparr>\<rparr>\<rparr>\<rparr>"

definition one_mail :: mem where
  "one_mail = [((''p'', ''u_u'', ''o1''), empty_robj\<lparr>o_data := ''hello''\<rparr>)]"

lemma user_state_ready: "state_ready box False (user_state w)"
  using sample_state_ready [of box w]
  by (simp add: state_ready_def user_state_def sample_state_def dc_is_config_valid_def storage_ready_def sample_cluster_def sample_storage_def)

lemma user_state_namespace:
  "namespace_of (x_rs (user_state w)) uid = Some uid" "mailbox_uid sample_box (x_rs (user_state w)) = ''u_u''"
proof -
  have cfg: "jc_user_mapping new_json_config = ''false''" "jc_user_suffix new_json_config = ''_u''" by code_simp+
  show "namespace_of (x_rs (user_state w)) uid = Some uid" "mailbox_uid sample_box (x_rs (user_state w)) = ''u_u''"
    by (simp_all add: namespace_of_def mailbox_uid_def sample_box_def rs_json_def user_state_def sample_state_def cfg)
qed

theorem copied_mail_is_new_object_witness:
  "\<exists>c1 rm1 x1 ob. rbox_mail_copy sample_env sample_mail_calls sample_src 9 (new_save_ctx sample_box) (rbox_mail_alloc 1) (user_state one_mail) =
       Some (0, c1, rm1, x1) \<and> map_of (x_w x1) (''p'', ''u_u'', ''guid'') = Some ob \<and> o_data ob = ''hello'' \<and>
     map_of (x_w x1) (''p'', ''u_u'', ''o1'') = Some (empty_robj\<lparr>o_data := ''hello''\<rparr>)"
proof -
  let ?x = "user_state one_mail" and ?c = "new_save_ctx sample_box"
  have laws: "law_dovecot (en_dovecot sample_env) map_of" "law_aio_operate (en_rados sample_env) map_of" "aio_succeeds (en_rados sample_env)"
      "law_dovecot_mail sample_mail_calls map_of"
    by (simp_all add: fixed_dovecot_law mem_rados_laws mem_aio_succeeds sample_mail_calls_def fixed_mail_law)
  have alt: "\<not> mail_alt (cs_calls sample_src) sample_box (rbox_mail_alloc 1) w" for w
    by (simp add: mail_alt_def rec_alt_def is_alternate_storage_set_def)
  have w: "x_w ?x = one_mail" and io: "st_io_ctx (the_storage False (x_rs ?x)) = \<lparr>ctx_pool = ''p'', ctx_ns = ''u_u''\<rparr>"
    by (simp_all add: user_state_def the_storage_def)
  have oid: "dv_guid_to_string (en_dovecot sample_env) (fst (dv_guid_generate (en_dovecot sample_env) w)) = ''guid''"
      "dv_guid_to_string (cs_dovecot sample_src) g = g" "dv_lookup_ext (cs_dovecot sample_src) 1 w = Some (''g'', ''o1'')" for w g
    by (simp_all add: fixed_dovecot_def)
  have c: "\<not> sv_saving ?c" "sv_mbox ?c = sample_box" by (simp_all add: new_save_ctx_def)
  have box: "cs_box sample_src = sample_box" by simp
  have a: "False \<longleftrightarrow> mail_alt (cs_calls sample_src) (cs_box sample_src) (rbox_mail_alloc 1) (x_w ?x)" using alt by simp
  have r: "state_ready (sv_mbox ?c) False ?x" using user_state_ready c by simp
  have n: "namespace_of (x_rs ?x) (mailbox_uid (cs_box sample_src) (x_rs ?x)) = Some ''u_u''" "c_str ''u_u'' = ''u_u''"
      "namespace_of (x_rs ?x) (mailbox_uid (sv_mbox ?c) (x_rs ?x)) = Some ''u_u''"
    unfolding box c(2) user_state_namespace by (simp_all add: c_str_def)
  have ob: "map_of (x_w ?x) (ctx_pool \<lparr>ctx_pool = ''p'', ctx_ns = ''u_u''\<rparr>, ''u_u'', dv_guid_to_string (cs_dovecot sample_src) ''o1'') =
      Some (empty_robj\<lparr>o_data := ''hello''\<rparr>)"
    unfolding w oid by (simp add: one_mail_def)
  have new: "map_of w' (ctx_pool \<lparr>ctx_pool = ''p'', ctx_ns = ''u_u''\<rparr>, ''u_u'',
      dv_guid_to_string (en_dovecot sample_env) (fst (dv_guid_generate (en_dovecot sample_env) w'))) = None" if "map_of w' = map_of (x_w ?x)" for w'
    unfolding oid that w by (simp add: one_mail_def)
  obtain d c1 rm1 x1 where "rbox_mail_copy sample_env sample_mail_calls sample_src 9 ?c (rbox_mail_alloc 1) ?x = Some (0, c1, rm1, x1)"
      "map_of (x_w x1) = (map_of one_mail)((''p'', ''u_u'', ''guid'') \<mapsto>
         copied 9 (set_mailbox_metadata (en_dovecot sample_env) (x_rs ?x) (?c\<lparr>sv_data := d\<rparr>)) (empty_robj\<lparr>o_data := ''hello''\<rparr>))"
    using copied_mail_is_new_object [OF laws sample_src_sel(6,7) c(1) sample_src_sel(1) a r n(1,2) n(3,2) _ oid(3) io [symmetric] _ ob new, of 9]
    unfolding oid w by auto
  then show ?thesis by (auto simp: one_mail_def copied_def)
qed

end
