(* ===== verification/Rbox_List.thy ===== *)
theory Rbox_List
  imports Rbox_Prelude
begin

text \<open>
  The flags of a mailbox in the directory listing, \<open>src/src/storage-rbox/rbox-mailbox-list-fs.cpp\<close>. The
  plugin installs this function in place of dovecot's own when it runs on a file system without
  usable link counts. The file system is the function \<open>stat\<close> (the error number or what was found);
  the bit masks of dovecot are sets of flags, \<open>|=\<close> is union. Dovecot's tests \<open>ENOTFOUND\<close> and
  \<open>ENOACCESS\<close> on error numbers are fields of the listing.
\<close>

section \<open>Data\<close>

datatype mailbox_info_flag = MAILBOX_NOSELECT | MAILBOX_NONEXISTENT | MAILBOX_CHILDREN | MAILBOX_NOCHILDREN
  | MAILBOX_NOINFERIORS | MAILBOX_MARKED | MAILBOX_UNMARKED | MAILBOX_SELECT

text \<open>\<open>TYPE_INVALID\<close> is any number that is no type of dovecot.\<close>

datatype file_type = TYPE_UNKNOWN | TYPE_FILE | TYPE_DIR | TYPE_SYMLINK | TYPE_OTHER | TYPE_INVALID

record file_stat =
  fs_isdir :: bool
  fs_nlink :: nat
  fs_size :: int
  fs_atime :: int
  fs_mtime :: int

type_synonym stat_fun = "string \<Rightarrow> int + file_stat"

text \<open>
  The fields of \<open>struct mailbox_list\<close> that are used: the settings, the flag \<open>MAILBOX_FILES\<close>, the test
  for internal names when the storage has one and the path of the INBOX when dovecot finds one.
\<close>

record mailbox_list =
  ml_maildir_name :: string
  ml_iter_from_index_dir :: bool
  ml_mailbox_files :: bool
  ml_is_internal_name :: "(string \<Rightarrow> bool) option"
  ml_inbox_path :: "string option"
  ml_enotfound :: "int \<Rightarrow> bool"
  ml_enoaccess :: "int \<Rightarrow> bool"

section \<open>Operations\<close>

definition rbox_list_is_maildir_mailbox :: "stat_fun \<Rightarrow> mailbox_list \<Rightarrow> string \<Rightarrow> string \<Rightarrow> file_type \<Rightarrow>
    mailbox_info_flag set \<Rightarrow> int \<times> mailbox_info_flag set" where
  "rbox_list_is_maildir_mailbox stat ml dir fname type flags =
     (if type \<in> {TYPE_FILE, TYPE_OTHER} then (0, flags \<union> {MAILBOX_NOSELECT, MAILBOX_NOINFERIORS})
      else if type = TYPE_INVALID then (-1, flags)
      else case stat (dir @ ''/'' @ fname) of
        Inl errno \<Rightarrow> if errno = ENOENT then (0, flags \<union> {MAILBOX_NONEXISTENT}) else (1, flags \<union> {MAILBOX_NOSELECT})
      | Inr st \<Rightarrow>
          if \<not> fs_isdir st then
            (0, flags \<union> (if starts_with ''.nfs'' fname then {MAILBOX_NONEXISTENT} else {MAILBOX_NOSELECT, MAILBOX_NOINFERIORS}))
          else if fs_nlink st = 2 \<and> \<not> ml_mailbox_files ml then (1, flags \<union> {MAILBOX_NOSELECT})
          else (1, flags \<union> {MAILBOX_SELECT} \<union>
            (case stat (dir @ ''/'' @ fname @ ''/'' @ ml_maildir_name ml) of
               Inl _ \<Rightarrow> {MAILBOX_NOSELECT, MAILBOX_CHILDREN}
             | Inr st2 \<Rightarrow>
                 if \<not> fs_isdir st2 then
                   (if ml_mailbox_files ml then (if fs_nlink st = 2 then {MAILBOX_NOCHILDREN} else {MAILBOX_CHILDREN})
                    else {MAILBOX_NOSELECT, MAILBOX_CHILDREN})
                 else if fs_nlink st = 3 then {MAILBOX_NOCHILDREN}
                 else if fs_nlink st < 2 then {MAILBOX_NOCHILDREN}
                 else {MAILBOX_CHILDREN})))"

text \<open>Comparison of texts without regard to case, and the file of the INBOX; an INBOX without path aborts.\<close>

definition to_lower_char :: "char \<Rightarrow> char" where
  "to_lower_char c = (let n = of_char c :: nat in if 65 \<le> n \<and> n \<le> 90 then char_of (n + 32) else c)"

definition strcasecmp_eq :: "string \<Rightarrow> string \<Rightarrow> bool" where
  "strcasecmp_eq a b \<longleftrightarrow> map to_lower_char a = map to_lower_char b"

definition rbox_is_inbox_file :: "mailbox_list \<Rightarrow> string \<Rightarrow> string \<Rightarrow> bool option" where
  "rbox_is_inbox_file ml path fname =
     (if \<not> strcasecmp_eq fname ''INBOX'' then Some False else map_option (\<lambda>p. p = path) (ml_inbox_path ml))"

definition STAT_GET_MARKED_FILE :: "file_stat \<Rightarrow> mailbox_info_flag" where
  "STAT_GET_MARKED_FILE st = (if fs_size st = 0 then MAILBOX_UNMARKED
     else if fs_atime st < fs_mtime st then MAILBOX_MARKED else MAILBOX_UNMARKED)"

text \<open>A mailbox without the setting for the mail directory: what the entry itself is decides.\<close>

definition entry_flags :: "stat_fun \<Rightarrow> mailbox_list \<Rightarrow> string \<Rightarrow> string \<Rightarrow> (int \<times> mailbox_info_flag set) option" where
  "entry_flags stat ml dir fname =
     (let path = dir @ ''/'' @ fname in
      case stat path of
        Inl errno \<Rightarrow> Some (if ml_enotfound ml errno then (0, {MAILBOX_NONEXISTENT})
                            else if ml_enoaccess ml errno then (1, {MAILBOX_NOSELECT}) else (-1, {}))
      | Inr st \<Rightarrow>
          if \<not> fs_isdir st then
            if starts_with ''.nfs'' fname then Some (0, {MAILBOX_NONEXISTENT})
            else if \<not> ml_mailbox_files ml then Some (0, {MAILBOX_NOSELECT, MAILBOX_NOINFERIORS})
            else map_option (\<lambda>inbox.
                (1, (if inbox \<and> fname \<noteq> ''INBOX'' then {} else {MAILBOX_NOINFERIORS}) \<union>
                    {MAILBOX_SELECT, STAT_GET_MARKED_FILE st}))
              (rbox_is_inbox_file ml path fname)
          else if ml_mailbox_files ml then Some (1, {MAILBOX_NOSELECT})
          else Some (1, if ml_is_internal_name ml = None \<or> ml_iter_from_index_dir ml
                        then (if fs_nlink st = 2 then {MAILBOX_NOCHILDREN}
                              else if 2 < fs_nlink st then {MAILBOX_CHILDREN} else {})
                        else {}))"

definition rbox_fs_list_get_mailbox_flags :: "stat_fun \<Rightarrow> mailbox_list \<Rightarrow> string \<Rightarrow> string \<Rightarrow> file_type \<Rightarrow>
    (int \<times> mailbox_info_flag set) option" where
  "rbox_fs_list_get_mailbox_flags stat ml dir fname type =
     (if ml_maildir_name ml \<noteq> [] \<and> \<not> ml_iter_from_index_dir ml
      then Some (rbox_list_is_maildir_mailbox stat ml dir fname type {})
      else if \<not> ml_iter_from_index_dir ml \<and> (case ml_is_internal_name ml of None \<Rightarrow> False | Some f \<Rightarrow> f fname)
      then Some (0, {MAILBOX_NOSELECT})
      else if type = TYPE_DIR \<and> ml_mailbox_files ml then Some (1, {MAILBOX_NOSELECT})
      else if type = TYPE_FILE \<and> \<not> ml_mailbox_files ml then Some (0, {MAILBOX_NOSELECT, MAILBOX_NOINFERIORS})
      else entry_flags stat ml dir fname)"

section \<open>Properties\<close>

lemma maildir_flags:
  assumes "rbox_list_is_maildir_mailbox stat ml dir fname type {} = (ret, flags)"
  shows "ret \<in> {-1, 0, 1} \<and> \<not> {MAILBOX_CHILDREN, MAILBOX_NOCHILDREN} \<subseteq> flags \<and>
    (ret = 0 \<longrightarrow> flags \<inter> {MAILBOX_NOSELECT, MAILBOX_NONEXISTENT} \<noteq> {}) \<and>
    (ret \<noteq> 0 \<longrightarrow> MAILBOX_NONEXISTENT \<notin> flags) \<and> (ret = -1 \<longrightarrow> flags = {})"
  using assms by (auto simp: rbox_list_is_maildir_mailbox_def split: if_splits sum.splits)

lemma entry_flags_sound:
  assumes "entry_flags stat ml dir fname = Some (ret, flags)"
  shows "ret \<in> {-1, 0, 1} \<and> \<not> {MAILBOX_CHILDREN, MAILBOX_NOCHILDREN} \<subseteq> flags \<and>
    (ret = 0 \<longrightarrow> flags \<inter> {MAILBOX_NOSELECT, MAILBOX_NONEXISTENT} \<noteq> {}) \<and>
    (ret \<noteq> 0 \<longrightarrow> MAILBOX_NONEXISTENT \<notin> flags) \<and> (ret = -1 \<longrightarrow> flags = {})"
  using assms by (auto simp: entry_flags_def STAT_GET_MARKED_FILE_def Let_def split: if_splits sum.splits)

text \<open>
  Property C28: the answer for an entry of the directory is consistent, whatever the file system answers. The result is an error,
  skip or mailbox; no entry has children and none at once; an entry is skipped only when it cannot be
  selected or does not exist, and one that is kept exists; an error gives no flags.
\<close>
theorem list_flags_consistent:
  assumes "rbox_fs_list_get_mailbox_flags stat ml dir fname type = Some (ret, flags)"
  shows "ret \<in> {-1, 0, 1} \<and> \<not> {MAILBOX_CHILDREN, MAILBOX_NOCHILDREN} \<subseteq> flags \<and>
    (ret = 0 \<longrightarrow> flags \<inter> {MAILBOX_NOSELECT, MAILBOX_NONEXISTENT} \<noteq> {}) \<and>
    (ret \<noteq> 0 \<longrightarrow> MAILBOX_NONEXISTENT \<notin> flags) \<and> (ret = -1 \<longrightarrow> flags = {})"
  using assms maildir_flags entry_flags_sound
  by (simp add: rbox_fs_list_get_mailbox_flags_def split: if_splits) blast+

text \<open>A listing of mail directories, with one directory of three links and its mail directory.\<close>

definition sample_list :: mailbox_list where
  "sample_list = \<lparr>ml_maildir_name = ''rbox-Mails'', ml_iter_from_index_dir = False, ml_mailbox_files = False,
     ml_is_internal_name = None, ml_inbox_path = Some ''m/INBOX'', ml_enotfound = (\<lambda>e. e = ENOENT), ml_enoaccess = (\<lambda>e. e = 13)\<rparr>"

definition sample_stat :: "nat \<Rightarrow> stat_fun" where
  "sample_stat n path = (if path = ''m/box'' then Inr \<lparr>fs_isdir = True, fs_nlink = n, fs_size = 0, fs_atime = 0, fs_mtime = 0\<rparr>
     else if path = ''m/box/rbox-Mails'' then Inr \<lparr>fs_isdir = True, fs_nlink = 2, fs_size = 0, fs_atime = 0, fs_mtime = 0\<rparr>
     else Inl ENOENT)"

theorem list_flags_consistent_witness:
  "\<exists>flags. rbox_fs_list_get_mailbox_flags (sample_stat 3) sample_list ''m'' ''box'' TYPE_DIR = Some (1, flags) \<and>
     MAILBOX_NONEXISTENT \<notin> flags"
proof -
  obtain flags where f: "rbox_fs_list_get_mailbox_flags (sample_stat 3) sample_list ''m'' ''box'' TYPE_DIR = Some (1, flags)"
    by (simp add: rbox_fs_list_get_mailbox_flags_def rbox_list_is_maildir_mailbox_def sample_list_def sample_stat_def)
  show ?thesis using list_flags_consistent [OF f] f by simp
qed

text \<open>
  A mailbox directory whose mail directory exists can be selected and is said to have children exactly
  when its link count is above three. A file system that counts no links of directories answers one
  for every directory: there no mailbox ever has children.
\<close>

lemma maildir_children:
  assumes "ml_maildir_name ml \<noteq> []" and "\<not> ml_iter_from_index_dir ml" and "\<not> ml_mailbox_files ml"
    and "type \<in> {TYPE_DIR, TYPE_UNKNOWN, TYPE_SYMLINK}"
    and "stat (dir @ ''/'' @ fname) = Inr st" and "fs_isdir st" and "fs_nlink st \<noteq> 2"
    and "stat (dir @ ''/'' @ fname @ ''/'' @ ml_maildir_name ml) = Inr st2" and "fs_isdir st2"
  shows "rbox_fs_list_get_mailbox_flags stat ml dir fname type =
    Some (1, {MAILBOX_SELECT, if 3 < fs_nlink st then MAILBOX_CHILDREN else MAILBOX_NOCHILDREN})"
  using assms by (auto simp: rbox_fs_list_get_mailbox_flags_def rbox_list_is_maildir_mailbox_def)

end
