(* ===== verification/Rbox_Mailbox.thy ===== *)
theory Rbox_Mailbox
  imports Rbox_Sync Rbox_List
begin

text \<open>
  The life of a mailbox in \<open>src/src/storage-rbox/rbox-storage.cpp\<close>: the settings of the listing, allocating,
  opening, creating, updating and closing a mailbox. What dovecot's index storage and the file system
  do in these calls is the record \<open>'w mailbox_calls\<close>; recording an error for the client is such a call.
\<close>

section \<open>The calls\<close>

text \<open>\<open>CRITICAL\<close> is \<open>mail_storage_set_critical\<close>.\<close>

datatype mail_error = MAIL_ERROR_NOTFOUND | MAIL_ERROR_EXISTS | CRITICAL

text \<open>
  \<open>mc_mailbox_open\<close> is dovecot's \<open>mailbox_open\<close>, which calls the open function of the storage it is
  given. \<open>mc_opendir\<close> yields the error number or the names in the directory.
\<close>

record 'w mailbox_calls =
  mc_stat :: "'w \<Rightarrow> stat_fun"
  mc_opendir :: "'w \<Rightarrow> string \<Rightarrow> int + string list"
  mc_closedir :: "'w \<Rightarrow> string \<Rightarrow> int"
  mc_set_error :: "mail_error \<Rightarrow> 'w \<Rightarrow> 'w"
  mc_set_index_error :: "'w \<Rightarrow> 'w"
  mc_alloc_index :: "'w \<Rightarrow> int \<times> 'w"
  mc_ext_register :: "string \<Rightarrow> nat \<Rightarrow> nat \<Rightarrow> nat \<Rightarrow> 'w \<Rightarrow> 'w"
  mc_storage_open :: "'w \<Rightarrow> int \<times> 'w"
  mc_set_fsync_mode :: "'w \<Rightarrow> 'w"
  mc_storage_create :: "bool \<Rightarrow> 'w \<Rightarrow> int \<times> 'w"
  mc_storage_update :: "mailbox_update \<Rightarrow> 'w \<Rightarrow> int \<times> 'w"
  mc_storage_close :: "'w \<Rightarrow> 'w"
  mc_get_metadata :: "'w \<Rightarrow> int \<times> 'w"
  mc_sync_begin :: "'w \<Rightarrow> int \<times> 'w"
  mc_watch_remove_all :: "'w \<Rightarrow> 'w"
  mc_watch_add :: "string \<Rightarrow> 'w \<Rightarrow> 'w"
  mc_mailbox_open :: "(rbox_mailbox \<Rightarrow> 'w rbox_state \<Rightarrow> (int \<times> rbox_mailbox \<times> 'w rbox_state) option) \<Rightarrow>
    rbox_mailbox \<Rightarrow> 'w rbox_state \<Rightarrow> (int \<times> rbox_mailbox \<times> 'w rbox_state) option"

text \<open>
  The paths of a mailbox: its directory, its index directory (absent when dovecot cannot tell it),
  the prefix of the index files, whether the listing follows the index directories, and the directory
  of the alternative storage.
\<close>

record mailbox_paths =
  mp_path :: string
  mp_index_path :: "string option"
  mp_index_prefix :: string
  mp_iter_from_index_dir :: bool
  mp_alt_path :: "string option"

section \<open>Settings of the listing\<close>

text \<open>A pointer that may be null is an option, the names that are compared with an empty text are not.\<close>

record list_settings =
  ls_layout :: "string option"
  ls_maildir_name :: string
  ls_mailbox_dir_name :: string
  ls_subscription_fname :: "string option"
  ls_root_dir :: "string option"

definition rbox_storage_get_list_settings :: "list_settings \<Rightarrow> list_settings" where
  "rbox_storage_get_list_settings s =
     s\<lparr>ls_layout := Some (case ls_layout s of None \<Rightarrow> ''fs'' | Some l \<Rightarrow> l),
       ls_maildir_name := (if ls_maildir_name s = [] then ''rbox-Mails'' else ls_maildir_name s),
       ls_mailbox_dir_name := (if ls_mailbox_dir_name s = [] then ''mailboxes'' else ls_mailbox_dir_name s),
       ls_subscription_fname := Some (case ls_subscription_fname s of None \<Rightarrow> ''subscriptions'' | Some f \<Rightarrow> f)\<rparr>"

text \<open>\<open>home\<close> is the home directory of the owner, when there are both; \<open>may_access\<close> asks for full access.\<close>

definition rbox_storage_find_root_dir :: "string option \<Rightarrow> (string \<Rightarrow> bool) \<Rightarrow> string option" where
  "rbox_storage_find_root_dir home may_access =
     (case home of None \<Rightarrow> None
      | Some h \<Rightarrow> if may_access (h @ ''/rbox'') then Some (h @ ''/rbox'') else None)"

definition rbox_storage_autodetect :: "stat_fun \<Rightarrow> string option \<Rightarrow> (string \<Rightarrow> bool) \<Rightarrow> list_settings \<Rightarrow> bool \<times> list_settings" where
  "rbox_storage_autodetect stat home may_access s =
     (case (case ls_root_dir s of Some r \<Rightarrow> Some r | None \<Rightarrow> rbox_storage_find_root_dir home may_access) of
        None \<Rightarrow> (False, s)
      | Some root \<Rightarrow>
          (case stat (root @ ''/mailboxes'') of
             Inl _ \<Rightarrow> (False, s)
           | Inr st \<Rightarrow> if \<not> fs_isdir st then (False, s)
                        else (True, rbox_storage_get_list_settings (s\<lparr>ls_root_dir := Some root\<rparr>))))"

text \<open>The error text, or the unique root directory of the storage.\<close>

definition rbox_storage_create :: "list_settings \<Rightarrow> string + string option" where
  "rbox_storage_create s =
     (if ls_mailbox_dir_name s = [] then Inl ''rbox: MAILBOXDIR must not be empty'' else Inr (ls_root_dir s))"

section \<open>Allocating a mailbox\<close>

datatype mailbox_flag = MAILBOX_FLAG_NO_INDEX_FILES | Other_mailbox_flag nat

datatype index_flag = MAIL_INDEX_OPEN_FLAG_KEEP_BACKUPS | MAIL_INDEX_OPEN_FLAG_NEVER_IN_MEMORY | Other_index_flag nat

text \<open>
  The flags dovecot gets, the flags of the index, whether the listing of this plugin replaces dovecot's,
  and the storage. \<open>alloc\<close> is dovecot's allocation, with the index flags it sets.
\<close>

definition rbox_mailbox_alloc :: "'w env \<Rightarrow> (mailbox_flag set \<Rightarrow> index_flag set) \<Rightarrow> rbox_mailbox \<Rightarrow> mailbox_flag set \<Rightarrow> rbox_storage \<Rightarrow>
    mailbox_flag set \<times> index_flag set \<times> bool \<times> rbox_storage" where
  "rbox_mailbox_alloc E alloc box flags rs =
     (let intflags = flags - {MAILBOX_FLAG_NO_INDEX_FILES};
          rs1 = read_plugin_configuration E box rs in
      (intflags, alloc intflags \<union> {MAIL_INDEX_OPEN_FLAG_KEEP_BACKUPS, MAIL_INDEX_OPEN_FLAG_NEVER_IN_MEMORY},
       cfg_true rs1 ''rbox_bugfix_cephfs_21652'', rs1))"

text \<open>The extension for the header with its initial GUID, and the one for the mails: two GUIDs of 16 bytes.\<close>

definition rbox_mailbox_alloc_index :: "'w dovecot \<Rightarrow> 'w mailbox_calls \<Rightarrow> 'w \<Rightarrow> int \<times> 'w" where
  "rbox_mailbox_alloc_index D C w =
     (case mc_alloc_index C w of (r, w1) \<Rightarrow>
        if r < 0 then (-1, w1)
        else
          let w2 = mc_ext_register C ''dbox-hdr'' header_size 0 0 w1;
              (guid, w3) = dv_guid_generate D w2;
              w4 = dv_set_ext_init_data D (header_bytes (zero_header\<lparr>rh_mailbox_guid := guid\<rparr>)) w3
          in (0, mc_ext_register C ''obox'' 0 32 1 w4))"

section \<open>Opening\<close>

definition open_path :: "mailbox_paths \<Rightarrow> string option" where
  "open_path P = (if mp_iter_from_index_dir P
     then map_option (\<lambda>p. p @ ''/'' @ mp_index_prefix P @ ''.log'') (mp_index_path P) else Some (mp_path P))"

definition rbox_open_mailbox :: "'w mailbox_calls \<Rightarrow> mailbox_paths \<Rightarrow> 'w \<Rightarrow> int \<times> 'w" where
  "rbox_open_mailbox C P w =
     (case open_path P of None \<Rightarrow> (-1, w)
      | Some box_path \<Rightarrow>
          (case mc_stat C w box_path of
             Inl errno \<Rightarrow> (-1, mc_set_error C (if errno = ENOENT then MAIL_ERROR_NOTFOUND else CRITICAL) w)
           | Inr _ \<Rightarrow>
               (case mc_storage_open C w of (r, w1) \<Rightarrow>
                  if r < 0 then (-1, w1) else (0, mc_set_fsync_mode C w1))))"

text \<open>The header of the mailbox that is opened, after a synchronisation when it cannot be read.\<close>

definition header_guid :: "int \<times> rbox_index_header option \<times> bool \<times> 'w \<Rightarrow> bytes" where
  "header_guid = (\<lambda>(ret, h, _, _). if ret < 0 then zero_guid else case h of None \<Rightarrow> zero_guid | Some h \<Rightarrow> rh_mailbox_guid h)"

definition header_world :: "int \<times> rbox_index_header option \<times> bool \<times> 'w \<Rightarrow> 'w" where
  "header_world = (\<lambda>(_, _, _, w). w)"

definition open_header :: "'w env \<Rightarrow> 32 word \<Rightarrow> namespace_info list \<Rightarrow> rbox_mailbox \<Rightarrow> 'w rbox_state \<Rightarrow>
    (bytes \<times> rbox_mailbox \<times> 'w rbox_state) option" where
  "open_header E garbage nss box x =
     (let D = en_dovecot E; r1 = rbox_read_header D box (x_w x); x1 = x\<lparr>x_w := header_world r1\<rparr> in
      if 0 \<le> fst r1 then Some (header_guid r1, box, x1)
      else case rbox_sync E garbage nss box \<lparr>sf_force = True, sf_fsync = False, sf_force_rebuild = False\<rparr> x1 of None \<Rightarrow> None
      | Some (_, box2, x2) \<Rightarrow>
          let r3 = rbox_read_header D box2 (x_w x2) in Some (header_guid r3, box2, x2\<lparr>x_w := header_world r3\<rparr>))"

definition rbox_mailbox_open :: "'w env \<Rightarrow> 'w mailbox_calls \<Rightarrow> 32 word \<Rightarrow> namespace_info list \<Rightarrow> mailbox_paths \<Rightarrow>
    rbox_mailbox \<Rightarrow> 'w rbox_state \<Rightarrow> (int \<times> rbox_mailbox \<times> 'w rbox_state) option" where
  "rbox_mailbox_open E C garbage nss P box x =
     (let D = en_dovecot E; (r0, w0) = rbox_mailbox_alloc_index D C (x_w x) in
      if r0 < 0 then Some (-1, box, x\<lparr>x_w := w0\<rparr>)
      else let (r1, w1) = rbox_open_mailbox C P w0 in
        if r1 < 0 then Some (-1, box, x\<lparr>x_w := w1\<rparr>)
        else if bx_creating box then Some (0, box, x\<lparr>x_w := w1\<rparr>)
        else case open_header E garbage nss box (x\<lparr>x_w := w1\<rparr>) of None \<Rightarrow> None
        | Some (guid, box2, x2) \<Rightarrow>
            if guid \<noteq> zero_guid then Some (0, box2\<lparr>bx_guid := guid\<rparr>, x2)
            else case rbox_mailbox_create_indexes D box2 None True (x_w x2) of None \<Rightarrow> None
            | Some (r3, box3, w3) \<Rightarrow>
                if r3 < 0 then Some (-1, box3, x2\<lparr>x_w := w3\<rparr>)
                else let r4 = rbox_read_header D box3 w3; x4 = x2\<lparr>x_w := header_world r4\<rparr> in
                  if fst r4 < 0 then Some (-1, box3, x4) else Some (0, box3\<lparr>bx_guid := header_guid r4\<rparr>, x4))"

section \<open>Closing, creating and updating\<close>

definition rbox_mailbox_close :: "'w env \<Rightarrow> 'w mailbox_calls \<Rightarrow> 32 word \<Rightarrow> namespace_info list \<Rightarrow> rbox_mailbox \<Rightarrow> 'w rbox_state \<Rightarrow>
    (rbox_mailbox \<times> 'w rbox_state) option" where
  "rbox_mailbox_close E C garbage nss box x =
     (case (if rs_rebuild_count (x_rs x) \<noteq> 0
            then rbox_sync E garbage nss box \<lparr>sf_force = False, sf_fsync = False, sf_force_rebuild = False\<rparr> x
            else Some (0, box, x)) of None \<Rightarrow> None
      | Some (_, box1, x1) \<Rightarrow> Some (box1, x1\<lparr>x_w := mc_storage_close C (x_w x1)\<rparr>))"

definition dir_is_empty :: "'w mailbox_calls \<Rightarrow> string \<Rightarrow> 'w \<Rightarrow> int \<times> 'w" where
  "dir_is_empty C path w =
     (case mc_opendir C w path of
        Inl errno \<Rightarrow> if errno = ENOENT then (1, w) else (-1, mc_set_error C CRITICAL w)
      | Inr names \<Rightarrow>
          if mc_closedir C w path < 0 then (-1, mc_set_error C CRITICAL w)
          else (if list_ex (\<lambda>n. \<not> starts_with ''.'' n) names then 0 else 1, w))"

text \<open>Whether the directory of the alternative storage allows the creation.\<close>

definition check_alt_path :: "'w env \<Rightarrow> 'w mailbox_calls \<Rightarrow> mailbox_paths \<Rightarrow> rbox_mailbox \<Rightarrow> 'w rbox_state \<Rightarrow> bool \<times> 'w rbox_state" where
  "check_alt_path E C P box x =
     (case mp_alt_path P of None \<Rightarrow> (True, x)
      | Some alt \<Rightarrow>
          (case mc_stat C (x_w x) alt of Inl _ \<Rightarrow> (True, x)
           | Inr _ \<Rightarrow>
               (case dir_is_empty C alt (x_w x) of (r, w1) \<Rightarrow>
                  if r < 0 then (False, x\<lparr>x_w := w1\<rparr>)
                  else if r = 0 then
                    (False, rbox_set_mailbox_corrupted (en_dovecot E) box (x\<lparr>x_w := mc_set_error C CRITICAL w1\<rparr>))
                  else (True, x\<lparr>x_w := w1\<rparr>))))"

text \<open>
  The creation under the lock of the index, then the GUID that another process may have written. A
  sync that has nothing to do fails an assertion.
\<close>

definition create_locked :: "'w env \<Rightarrow> 'w mailbox_calls \<Rightarrow> rbox_mailbox \<Rightarrow> mailbox_update option \<Rightarrow> bool \<Rightarrow> 'w rbox_state \<Rightarrow>
    (int \<times> rbox_mailbox \<times> 'w rbox_state) option" where
  "create_locked E C box upd directory x =
     (let D = en_dovecot E; (r, w1) = mc_sync_begin C (x_w x) in
      if r = 0 then None
      else if r < 0 then Some (-1, box, x\<lparr>x_w := mc_set_index_error C w1\<rparr>)
      else case dv_header D w1 of None \<Rightarrow> None
      | Some hdr \<Rightarrow>
          (case (if ih_uid_validity hdr = 0 then rbox_mailbox_create_indexes D box upd True w1 else Some (0, box, w1)) of None \<Rightarrow> None
           | Some (r2, box2, w2) \<Rightarrow>
               if r2 < 0 then Some (-1, box2, x\<lparr>x_w := dv_sync_rollback D w2\<rparr>)
               else let (r3, w3) = dv_sync_commit D w2 in
                 if r3 < 0 then Some (-1, box2, x\<lparr>x_w := w3\<rparr>)
                 else if directory \<or> bx_guid box2 \<noteq> zero_guid then Some (0, box2, x\<lparr>x_w := w3\<rparr>)
                 else let r4 = rbox_read_header D box2 w3; w4 = header_world r4 in
                   if fst r4 < 0 then Some (-1, box2, x\<lparr>x_w := mc_set_error C CRITICAL w4\<rparr>)
                   else Some (0, box2\<lparr>bx_guid := header_guid r4\<rparr>, x\<lparr>x_w := w4\<rparr>)))"

definition rbox_mailbox_create :: "'w env \<Rightarrow> 'w mailbox_calls \<Rightarrow> 32 word \<Rightarrow> namespace_info list \<Rightarrow> mailbox_paths \<Rightarrow>
    rbox_mailbox \<Rightarrow> mailbox_update option \<Rightarrow> bool \<Rightarrow> 'w rbox_state \<Rightarrow> (int \<times> rbox_mailbox \<times> 'w rbox_state) option" where
  "rbox_mailbox_create E C garbage nss P box upd directory x =
     (let (r0, w0) = mc_storage_create C directory (x_w x) in
      if r0 \<le> 0 then Some (r0, box, x\<lparr>x_w := w0\<rparr>)
      else case mc_mailbox_open C (rbox_mailbox_open E C garbage nss P) box (x\<lparr>x_w := w0\<rparr>) of None \<Rightarrow> None
      | Some (r1, box1, x1) \<Rightarrow>
          if r1 < 0 then Some (-1, box1, x1)
          else case dv_header (en_dovecot E) (x_w x1) of None \<Rightarrow> None
          | Some hdr \<Rightarrow>
              if ih_uid_validity hdr \<noteq> 0 then Some (-1, box1, x1\<lparr>x_w := mc_set_error C MAIL_ERROR_EXISTS (x_w x1)\<rparr>)
              else let (usable, x2) = check_alt_path E C P box1 x1 in
                if usable then create_locked E C box1 upd directory x2 else Some (-1, box1, x2))"

definition rbox_mailbox_update :: "'w env \<Rightarrow> 'w mailbox_calls \<Rightarrow> 32 word \<Rightarrow> namespace_info list \<Rightarrow> mailbox_paths \<Rightarrow>
    rbox_mailbox \<Rightarrow> bool \<Rightarrow> mailbox_update \<Rightarrow> 'w rbox_state \<Rightarrow> (int \<times> rbox_mailbox \<times> 'w rbox_state) option" where
  "rbox_mailbox_update E C garbage nss P box opened upd x =
     (case (if opened then Some (0, box, x) else mc_mailbox_open C (rbox_mailbox_open E C garbage nss P) box x) of None \<Rightarrow> None
      | Some (r, box1, x1) \<Rightarrow>
          if r < 0 then Some (-1, box1, x1)
          else case rbox_mailbox_create_indexes (en_dovecot E) box1 (Some upd) True (x_w x1) of None \<Rightarrow> None
          | Some (r2, box2, w2) \<Rightarrow>
              if r2 < 0 then Some (-1, box2, x1\<lparr>x_w := w2\<rparr>)
              else let (r3, w3) = mc_storage_update C upd w2 in Some (r3, box2, x1\<lparr>x_w := w3\<rparr>))"

text \<open>The metadata of a mailbox: the GUID when it is asked for, else the value that was there.\<close>

definition rbox_mailbox_get_metadata :: "'w mailbox_calls \<Rightarrow> rbox_mailbox \<Rightarrow> bool \<Rightarrow> bytes \<Rightarrow> 'w \<Rightarrow> int \<times> bytes \<times> 'w" where
  "rbox_mailbox_get_metadata C box want_guid guid_r w =
     (let (r, w1) = mc_get_metadata C w in
      if r < 0 then (-1, guid_r, w1) else (0, if want_guid then bx_guid box else guid_r, w1))"

definition rbox_notify_changes :: "'w mailbox_calls \<Rightarrow> mailbox_paths \<Rightarrow> bool \<Rightarrow> 'w \<Rightarrow> 'w" where
  "rbox_notify_changes C P has_callback w = (if \<not> has_callback then mc_watch_remove_all C w else mc_watch_add C (mp_path P) w)"

section \<open>Properties\<close>

text \<open>A GUID that identifies a mailbox.\<close>

definition guid_ok :: "bytes \<Rightarrow> bool" where
  "guid_ok g \<longleftrightarrow> length g = 16 \<and> g \<noteq> zero_guid"

lemma header_of_bytes_guid: "length (rh_mailbox_guid (header_of_bytes b)) = 16"
  by (simp add: header_of_bytes_def Let_def header_size_def)

lemma read_header_guid:
  "0 \<le> fst (rbox_read_header D box w) \<Longrightarrow> guid_ok (header_guid (rbox_read_header D box w))"
  by (auto simp: rbox_read_header_def header_guid_def guid_ok_def header_of_bytes_guid Let_def split: if_splits)

lemma header_guid_not_zero: "0 \<le> fst (rbox_read_header D box w) \<Longrightarrow> header_guid (rbox_read_header D box w) \<noteq> zero_guid"
  by (drule read_header_guid) (simp add: guid_ok_def)

lemma header_guid_ok: "header_guid (rbox_read_header D box w) \<noteq> zero_guid \<Longrightarrow> guid_ok (header_guid (rbox_read_header D box w))"
  by (rule read_header_guid) (auto simp: header_guid_def split: prod.splits if_splits)

lemma open_header_guid:
  assumes "open_header E garbage nss box x = Some (guid, box', x')" and "guid \<noteq> zero_guid"
  shows "guid_ok guid"
  using assms header_guid_ok by (auto simp: open_header_def Let_def split: if_splits option.splits)

text \<open>
  Property C18: a mailbox that was opened has a GUID. When opening a mailbox that is not being created succeeds, its GUID has 16
  bytes and is not the empty one, whatever the index held: a header that cannot be read is repaired by
  a synchronisation or written anew.
\<close>
theorem opened_mailbox_has_guid:
  assumes "rbox_mailbox_open E C garbage nss P box x = Some (ret, box', x')" and "\<not> bx_creating box" and "0 \<le> ret"
  shows "guid_ok (bx_guid box')"
  using assms open_header_guid read_header_guid
  by (auto simp: rbox_mailbox_open_def Let_def not_less split: if_splits option.splits prod.splits)

text \<open>Calls that all succeed on a file system that has every directory, for evaluation.\<close>

definition sample_calls :: "'w mailbox_calls" where
  "sample_calls = \<lparr>mc_stat = (\<lambda>_ _. Inr \<lparr>fs_isdir = True, fs_nlink = 3, fs_size = 0, fs_atime = 0, fs_mtime = 0\<rparr>),
     mc_opendir = (\<lambda>_ _. Inr [''.'', ''..'']), mc_closedir = (\<lambda>_ _. 0), mc_set_error = (\<lambda>_. id), mc_set_index_error = id,
     mc_alloc_index = Pair 0, mc_ext_register = (\<lambda>_ _ _ _. id), mc_storage_open = Pair 0, mc_set_fsync_mode = id,
     mc_storage_create = (\<lambda>_. Pair 1), mc_storage_update = (\<lambda>_. Pair 0), mc_storage_close = id, mc_get_metadata = Pair 0,
     mc_sync_begin = Pair 1, mc_watch_remove_all = id, mc_watch_add = (\<lambda>_. id), mc_mailbox_open = (\<lambda>v. v)\<rparr>"

definition sample_paths :: mailbox_paths where
  "sample_paths = \<lparr>mp_path = ''m/box/rbox-Mails'', mp_index_path = Some ''i/box'', mp_index_prefix = ''dovecot.index'',
     mp_iter_from_index_dir = False, mp_alt_path = None\<rparr>"

text \<open>A dovecot whose index has a header with a GUID, and one whose index is new.\<close>

definition sample_guid :: bytes where
  "sample_guid = replicate 16 CHR ''g''"

definition indexed_env :: "((obj_key \<times> robj) list) env" where
  "indexed_env = sample_env\<lparr>en_dovecot := (en_dovecot sample_env)
     \<lparr>dv_header_ext := (\<lambda>_. Some (header_bytes (zero_header\<lparr>rh_mailbox_guid := sample_guid\<rparr>)))\<rparr>\<rparr>"

definition new_index_env :: "((obj_key \<times> robj) list) env" where
  "new_index_env = sample_env\<lparr>en_dovecot := (en_dovecot sample_env)
     \<lparr>dv_header := (\<lambda>_. Some \<lparr>ih_uid_validity = 0, ih_next_uid = 1, ih_first_recent_uid = 0\<rparr>)\<rparr>\<rparr>"

lemma indexed_read_header:
  "fst (rbox_read_header (en_dovecot indexed_env) box w) = 0"
  "header_guid (rbox_read_header (en_dovecot indexed_env) box w) = sample_guid"
proof -
  have "header_of_bytes (header_bytes (zero_header\<lparr>rh_mailbox_guid := sample_guid\<rparr>)) = zero_header\<lparr>rh_mailbox_guid := sample_guid\<rparr>"
    by (rule header_roundtrip) (simp_all add: zero_header_def sample_guid_def)
  moreover have "length (header_bytes (zero_header\<lparr>rh_mailbox_guid := sample_guid\<rparr>)) = 24"
    by (simp add: header_bytes_def zero_header_def sample_guid_def encode_le32_def)
  moreover have "sample_guid \<noteq> zero_guid" by (simp add: sample_guid_def zero_guid_def)
  ultimately show "fst (rbox_read_header (en_dovecot indexed_env) box w) = 0"
    "header_guid (rbox_read_header (en_dovecot indexed_env) box w) = sample_guid"
    by (simp_all add: rbox_read_header_def indexed_env_def header_guid_def Let_def)
qed

lemma sample_open_calls:
  "fst (rbox_mailbox_alloc_index D sample_calls w) = 0" "rbox_open_mailbox sample_calls sample_paths w = (0, w)"
  by (simp_all add: rbox_mailbox_alloc_index_def rbox_open_mailbox_def open_path_def sample_calls_def sample_paths_def
      Let_def split_beta)

theorem opened_mailbox_has_guid_witness:
  "\<exists>box' x'. rbox_mailbox_open indexed_env sample_calls 0 [] sample_paths sample_box (sample_state []) = Some (0, box', x') \<and>
     bx_guid box' = sample_guid \<and> guid_ok (bx_guid box')"
proof -
  have "sample_guid \<noteq> zero_guid" "\<not> bx_creating sample_box"
    by (simp_all add: sample_guid_def zero_guid_def sample_box_def)
  then obtain box' x' where o: "rbox_mailbox_open indexed_env sample_calls 0 [] sample_paths sample_box (sample_state []) = Some (0, box', x')"
      "bx_guid box' = sample_guid"
    by (simp add: rbox_mailbox_open_def open_header_def indexed_read_header sample_open_calls Let_def split_beta)
  then show ?thesis
    using opened_mailbox_has_guid [OF o(1)] \<open>\<not> bx_creating sample_box\<close> by simp
qed

lemma create_indexes_guid:
  assumes "rbox_mailbox_create_indexes D box (Some u) t w = Some (r, box', w')" and "mu_guid u \<noteq> zero_guid"
  shows "bx_guid box' = mu_guid u"
proof -
  have "bx_guid (fst (rbox_update_header D box (Some u) v)) = mu_guid u" for v
    using assms(2) by (simp add: rbox_update_header_def Let_def split_beta)
  moreover have "\<exists>v. box' = fst (rbox_update_header D box (Some u) v)"
    using assms(1) by (cases "dv_header D w"; cases t) (simp_all add: rbox_mailbox_create_indexes_def Let_def split_beta split del: if_split, (metis fst_conv)+)
  ultimately show ?thesis by metis
qed

text \<open>The whole creation ends in the creation under the lock.\<close>

lemma create_reaches_lock:
  assumes "rbox_mailbox_create E C garbage nss P box upd directory x = Some (ret, box', x')" and "0 \<le> ret"
    and "0 < fst (mc_storage_create C directory (x_w x))"
  shows "\<exists>box1 x1. create_locked E C box1 upd directory x1 = Some (ret, box', x')"
  using assms by (auto simp: rbox_mailbox_create_def Let_def split: option.splits prod.splits if_splits)

lemma create_locked_guid:
  assumes "create_locked E C box upd False x = Some (ret, box', x')" and "0 \<le> ret"
  shows "bx_guid box' \<noteq> zero_guid"
  using assms
  by (auto simp: create_locked_def Let_def not_less header_guid_not_zero split: option.splits prod.splits if_splits)

lemma create_locked_given:
  assumes "create_locked E C box (Some u) False x = Some (ret, box', x')" and "0 \<le> ret" and "mu_guid u \<noteq> zero_guid"
    and "\<forall>w hdr. dv_header (en_dovecot E) (snd (mc_sync_begin C w)) = Some hdr \<longrightarrow> ih_uid_validity hdr = 0"
  shows "bx_guid box' = mu_guid u"
proof -
  have "ih_uid_validity hdr = 0" if "dv_header (en_dovecot E) w1 = Some hdr" and "mc_sync_begin C (x_w x) = (r, w1)" for hdr r w1
    using assms(4) that by (metis snd_conv)
  then show ?thesis
    using assms(1-3)
    by (auto simp: create_locked_def Let_def dest: create_indexes_guid split: option.splits prod.splits if_splits)
qed

text \<open>
  Property C19: creating a mailbox. When the creation of a mailbox succeeds (a mailbox with mails, which dovecot could create), the
  mailbox has a GUID; and when dovecot asked for a GUID and no other process created the index before
  the lock was taken, it is the one that was asked for.
\<close>
theorem created_mailbox_guid:
  assumes "rbox_mailbox_create E C garbage nss P box upd False x = Some (ret, box', x')" and "0 \<le> ret"
    and "0 < fst (mc_storage_create C False (x_w x))"
  shows "bx_guid box' \<noteq> zero_guid \<and>
    (\<forall>u. upd = Some u \<longrightarrow> mu_guid u \<noteq> zero_guid \<longrightarrow>
       (\<forall>w hdr. dv_header (en_dovecot E) (snd (mc_sync_begin C w)) = Some hdr \<longrightarrow> ih_uid_validity hdr = 0) \<longrightarrow>
       bx_guid box' = mu_guid u)"
  using create_reaches_lock [OF assms] create_locked_guid create_locked_given assms(2) by metis

theorem created_mailbox_guid_witness:
  "\<exists>box' x'. rbox_mailbox_create new_index_env sample_calls 0 [] sample_paths (sample_box\<lparr>bx_creating := True\<rparr>)
     (Some \<lparr>mu_guid = sample_guid, mu_uid_validity = 7, mu_min_next_uid = 0, mu_min_first_recent_uid = 0, mu_min_highest_modseq = 0\<rparr>)
     False (sample_state []) = Some (0, box', x') \<and> bx_guid box' = sample_guid"
proof -
  let ?box = "sample_box\<lparr>bx_creating := True\<rparr>"
  let ?u = "\<lparr>mu_guid = sample_guid, mu_uid_validity = 7, mu_min_next_uid = 0, mu_min_first_recent_uid = 0, mu_min_highest_modseq = 0\<rparr> :: mailbox_update"
  have g: "sample_guid \<noteq> zero_guid" by (simp add: sample_guid_def zero_guid_def)
  have h: "dv_header (en_dovecot new_index_env) w = Some \<lparr>ih_uid_validity = 0, ih_next_uid = 1, ih_first_recent_uid = 0\<rparr>" for w
    by (simp add: new_index_env_def)
  have d: "dv_trans_commit (en_dovecot new_index_env) w = (0, w)" "dv_sync_commit (en_dovecot new_index_env) w = (0, w)" for w
    by (simp_all add: new_index_env_def sample_env_def fixed_dovecot_def)
  have s: "mc_storage_create sample_calls b w = (1, w)" "mc_sync_begin sample_calls w = (1, w)" "mc_mailbox_open sample_calls = (\<lambda>v. v)"
    "mp_alt_path sample_paths = None" for b and w :: mem
    by (simp_all add: sample_calls_def sample_paths_def)
  have "\<exists>b v. rbox_mailbox_create_indexes (en_dovecot new_index_env) ?box (Some ?u) True w = Some (0, b, v)" for w
    by (simp add: rbox_mailbox_create_indexes_def h d Let_def split_beta)
  then obtain b v where i: "rbox_mailbox_create_indexes (en_dovecot new_index_env) ?box (Some ?u) True w = Some (0, b w, v w)" for w
    by metis
  obtain box' x' where c: "rbox_mailbox_create new_index_env sample_calls 0 [] sample_paths ?box (Some ?u) False (sample_state []) = Some (0, box', x')"
    using g create_indexes_guid [OF i]
    by (simp add: rbox_mailbox_create_def rbox_mailbox_open_def create_locked_def check_alt_path_def h d s i sample_open_calls
        Let_def split_beta)
  show ?thesis
    using created_mailbox_guid [OF c] c g by (simp add: h s)
qed

text \<open>
  With a listing that follows the index directories, a mailbox whose index log is missing is not
  found, whether or not its own directory is there: the path for the second test was replaced before.
\<close>

lemma missing_index_log_hides_mailbox:
  assumes "mp_iter_from_index_dir P" and "mp_index_path P = Some ip"
    and "mc_stat C w (ip @ ''/'' @ mp_index_prefix P @ ''.log'') = Inl ENOENT"
  shows "rbox_open_mailbox C P w = (-1, mc_set_error C MAIL_ERROR_NOTFOUND w)"
  using assms by (simp add: rbox_open_mailbox_def open_path_def)

text \<open>Files in the directory of the alternative storage forbid the creation and mark the storage as corrupted.\<close>

lemma alt_files_forbid_creation:
  assumes "mp_alt_path P = Some alt" and "mc_stat C (x_w x) alt = Inr st"
    and "mc_opendir C (x_w x) alt = Inr names" and "0 \<le> mc_closedir C (x_w x) alt"
    and "n \<in> set names" and "\<not> starts_with ''.'' n"
  shows "\<not> fst (check_alt_path E C P box x) \<and> rs_corrupted (x_rs (snd (check_alt_path E C P box x)))"
proof -
  have "list_ex (\<lambda>n. \<not> starts_with ''.'' n) names" using assms by (auto simp: list_ex_iff)
  then show ?thesis
    using assms by (simp add: check_alt_path_def dir_is_empty_def rbox_set_mailbox_corrupted_def Let_def split: prod.split)
qed

text \<open>Settings that were completed can be used to create the storage, and completing them again changes nothing.\<close>

lemma completed_settings:
  "rbox_storage_get_list_settings (rbox_storage_get_list_settings s) = rbox_storage_get_list_settings s"
  "rbox_storage_autodetect stat home may_access s = (True, t) \<Longrightarrow>
     \<exists>root. ls_root_dir t = Some root \<and> rbox_storage_create t = Inr (Some root)"
  by (auto simp: rbox_storage_get_list_settings_def rbox_storage_autodetect_def rbox_storage_create_def
      split: option.splits sum.splits if_splits)

end
