(* ===== verification/Rmb_Parser.thy ===== *)
theory Rmb_Parser
  imports Rados_Util
begin

text \<open>
  The listing side of the \<open>rmb\<close> tool (\<open>src/src/librmb/tools/rmb\<close>): the conditions of \<open>ls\<close> and
  their parser (\<open>ls_cmd_parser\<close>), the mailboxes that collect the mails to show (\<open>rados-mail-box.h\<close>), the
  names of downloaded files (\<open>mailbox_tools.cpp\<close>) and the text of a mail (\<open>rados-mail.cpp\<close>).
\<close>

section \<open>Conditions\<close>

record predicate =
  pr_key :: string
  pr_op :: string
  pr_value :: string
  pr_valid :: bool

text \<open>A number that cannot be read leaves the variable at its initial -1, here the largest number.\<close>

definition long_or :: "int \<Rightarrow> string \<Rightarrow> int" where
  "long_or d s = (case stol s of Inl _ \<Rightarrow> d | Inr n \<Rightarrow> n)"

definition compare_by :: "string \<Rightarrow> ('a :: linorder) \<Rightarrow> 'a \<Rightarrow> bool" where
  "compare_by op a b = (if op = ''='' then a = b else if op = ''>'' then b < a else a < b)"

text \<open>
  Dates are compared as times, sizes and uids as unsigned numbers, everything else for equality.
  When the value of the mail is no number, the one of the condition is not read either.
\<close>

definition predicate_eval :: "(string \<Rightarrow> int option) \<Rightarrow> predicate \<Rightarrow> string \<Rightarrow> bool" where
  "predicate_eval parse_date p value =
     (let key = metadata_key_of_char (case c_str (pr_key p) of [] \<Rightarrow> NUL | c # _ \<Rightarrow> c) in
      if key = RBOX_METADATA_RECEIVED_TIME \<or> key = RBOX_METADATA_OLDV1_SAVE_TIME then
        let query_date = snd (convert_str_to_time_t parse_date (pr_value p)); obj_date = long_or (-1) value
        in compare_by (pr_op p) obj_date query_date
      else if key = RBOX_METADATA_VIRTUAL_SIZE \<or> key = RBOX_METADATA_PHYSICAL_SIZE \<or> key = RBOX_METADATA_MAIL_UID then
        let val = (word_of_int (long_or (-1) value) :: 64 word);
            val2 = (case stol value of Inl _ \<Rightarrow> -1 | Inr _ \<Rightarrow> word_of_int (long_or (-1) (pr_value p)))
        in compare_by (pr_op p) val val2
      else pr_value p = value)"

section \<open>The parser\<close>

record cmd_parser =
  cp_predicates :: "predicate smap"
  cp_ls_value :: string
  cp_keys :: string
  cp_out_dir :: string

text \<open>The quotes are looked for in the member, which is still empty, so they are never removed.\<close>

definition new_cmd_parser :: "string \<Rightarrow> cmd_parser" where
  "new_cmd_parser ls = \<lparr>cp_predicates = [], cp_ls_value = ls, cp_keys = [], cp_out_dir = []\<rparr>"

text \<open>
  Without an operator the key and the value are both the whole text, and the operator is read from
  outside the text: \<open>garbage\<close>.
\<close>

definition find_op :: "string \<Rightarrow> nat option" where
  "find_op ls = (case str_find ''='' ls of Some p \<Rightarrow> Some p
     | None \<Rightarrow> (case str_find ''>'' ls of Some p \<Rightarrow> Some p | None \<Rightarrow> str_find ''<'' ls))"

definition make_predicate :: "char \<Rightarrow> string \<Rightarrow> predicate" where
  "make_predicate garbage ls =
     (case find_op ls of
        Some pos \<Rightarrow> \<lparr>pr_key = take pos ls, pr_op = [ls ! pos], pr_value = drop (pos + 1) ls, pr_valid = True\<rparr>
      | None \<Rightarrow> \<lparr>pr_key = ls, pr_op = [garbage], pr_value = ls, pr_valid = True\<rparr>)"

definition create_predicate :: "char \<Rightarrow> string \<Rightarrow> cmd_parser \<Rightarrow> predicate \<times> cmd_parser" where
  "create_predicate garbage ls c =
     (let p = make_predicate garbage ls in (p, c\<lparr>cp_keys := cp_keys c @ pr_key p @ '' ''\<rparr>))"

definition add_predicate :: "char \<Rightarrow> string \<Rightarrow> cmd_parser \<Rightarrow> bool \<times> cmd_parser" where
  "add_predicate garbage ls c =
     (case create_predicate garbage ls c of (p, c1) \<Rightarrow>
        (pr_valid p, if pr_valid p then c1\<lparr>cp_predicates := smap_put (pr_key p) p (cp_predicates c1)\<rparr> else c1))"

text \<open>The loop over the text: \<open>tmp\<close> is what is left of it from \<open>offset\<close> on.\<close>

lemma str_find_Nil: "str_find [c] s = Some p \<Longrightarrow> s \<noteq> []"
  by (cases s) auto

function ls_loop :: "char \<Rightarrow> string \<Rightarrow> string \<Rightarrow> nat \<Rightarrow> cmd_parser \<Rightarrow> bool \<times> cmd_parser" where
  "ls_loop garbage ls tmp offset c =
     (case str_find '';'' tmp of None \<Rightarrow> add_predicate garbage tmp c
      | Some pos \<Rightarrow>
          ls_loop garbage ls (drop (offset + pos + 1) ls) (offset + pos + 1) (snd (add_predicate garbage (take pos tmp) c)))"
  by pat_completeness auto

termination
proof (relation "measure (\<lambda>(g, ls, tmp, offset, c). 2 * (length ls - offset) + (if tmp = [] then 0 else 1))")
  fix g ls tmp offset c pos
  assume "str_find '';'' tmp = Some pos"
  then have "tmp \<noteq> []" by (rule str_find_Nil)
  then show "((g, ls, drop (offset + pos + 1) ls, offset + pos + 1, snd (add_predicate g (take pos tmp) c)), g, ls, tmp, offset, c)
      \<in> measure (\<lambda>(g, ls, tmp, offset, c). 2 * (length ls - offset) + (if tmp = [] then 0 else 1))"
    by auto
qed simp

declare ls_loop.simps [simp del]

definition parse_ls_string :: "char \<Rightarrow> cmd_parser \<Rightarrow> bool \<times> cmd_parser" where
  "parse_ls_string garbage c =
     (if str_find '';'' (cp_ls_value c) = None then add_predicate garbage (cp_ls_value c) c
      else ls_loop garbage (cp_ls_value c) (cp_ls_value c) 0 c)"

definition contains_key :: "string \<Rightarrow> cmd_parser \<Rightarrow> bool" where
  "contains_key key c \<longleftrightarrow> str_find key (cp_keys c) \<noteq> None"

text \<open>\<open>home\<close> is the environment variable, \<open>path_max\<close> the size of the buffer it is copied to.\<close>

definition set_output_dir :: "string option \<Rightarrow> nat \<Rightarrow> string \<Rightarrow> cmd_parser \<Rightarrow> cmd_parser" where
  "set_output_dir home path_max out c =
     c\<lparr>cp_out_dir :=
         (if out \<noteq> [] \<and> hd out = CHR ''~'' then
            case home of None \<Rightarrow> out
            | Some h \<Rightarrow> take (path_max - 1) h @ (if 1 < length out \<and> out ! 1 \<noteq> CHR ''/'' then ''/'' else []) @ drop 1 out
          else out)\<rparr>"

section \<open>The text of a mail\<close>

definition endl :: string where "endl = [newline]"

definition opt_text :: "bytes option \<Rightarrow> (string \<Rightarrow> string) \<Rightarrow> string" where
  "opt_text b f = (case b of None \<Rightarrow> [] | Some v \<Rightarrow> f (c_str v))"

definition key_text :: "rbox_metadata_key \<Rightarrow> string" where
  "key_text k = [metadata_key_char k]"

definition keyword_lines :: "bytes smap \<Rightarrow> string" where
  "keyword_lines kws = concat (map (\<lambda>(k, v). replicate 29 (CHR '' '') @ k @ '' : '' @ v @ endl) kws)"

definition mail_to_string :: "(int \<Rightarrow> string) \<Rightarrow> string \<Rightarrow> rados_mail \<Rightarrow> string" where
  "mail_to_string fmt_date padding m =
     (let md = (\<lambda>k. get_metadata k (m_attrset m));
          recv = md RBOX_METADATA_RECEIVED_TIME;
          ts = (case recv of None \<Rightarrow> -1 | Some b \<Rightarrow> long_or (-1) (c_str b));
          line = (\<lambda>t. padding @ ''        '' @ t @ endl);
          keyed = (\<lambda>k label. opt_text (md k) (\<lambda>v. line (key_text k @ label @ v)))
      in endl @
         (if m_valid m then [] else padding @ ''<<<   MAIL OBJECT IS NOT VALID <<<<'' @ endl) @
         (if m_index_ref m then [] else padding @ ''<<<   MAIL OBJECT HAS NO INDEX REFERENCE <<<< oid: '' @ m_oid m @ endl) @
         padding @ ''MAIL:   '' @
         opt_text (md RBOX_METADATA_MAIL_UID) (\<lambda>v. key_text RBOX_METADATA_MAIL_UID @ ''(uid)='' @ v @ endl @ padding @ ''        '') @
         ''oid = '' @ m_oid m @ endl @
         (case convert_time_t_to_str fmt_date ts of (r, t) \<Rightarrow>
            if 0 \<le> r then line (key_text RBOX_METADATA_RECEIVED_TIME @ ''(receive_time)='' @ t)
            else opt_text recv (\<lambda>v. line (key_text RBOX_METADATA_RECEIVED_TIME @ ''(receive_time)= INVALID DATE : '' @ [CHR 39] @ v @ [CHR 39]))) @
         (case convert_time_t_to_str fmt_date (m_save_date m) of (r, t) \<Rightarrow>
            if 0 \<le> r then line (''save_time='' @ t)
            else line (''save_time= UNKNOWN '' @ [CHR 39] @ int_to_string (m_save_date m) @ [CHR 39])) @
         (case (md RBOX_METADATA_PHYSICAL_SIZE, md RBOX_METADATA_VIRTUAL_SIZE) of
            (Some p, Some v) \<Rightarrow> line (key_text RBOX_METADATA_PHYSICAL_SIZE @ ''(phy_size)='' @ c_str p @ '' '' @
              key_text RBOX_METADATA_VIRTUAL_SIZE @ ''(v_size) = '' @ c_str v @ '' stat_size='' @ int_to_string (m_object_size m))
          | _ \<Rightarrow> []) @
         keyed RBOX_METADATA_MAILBOX_GUID ''(mailbox_guid)='' @
         keyed RBOX_METADATA_ORIG_MAILBOX ''(mailbox_orig_name)='' @
         keyed RBOX_METADATA_GUID ''(mail_guid)='' @
         keyed RBOX_METADATA_VERSION ''(rbox_version): '' @
         (if m_extended m = [] then [] else line (key_text RBOX_METADATA_OLDV1_KEYWORDS @ ''(keywords): '') @ keyword_lines (m_extended m)) @
         opt_text (md RBOX_METADATA_OLDV1_FLAGS) (\<lambda>v. case string_to_flags v of None \<Rightarrow> []
            | Some f \<Rightarrow> line (key_text RBOX_METADATA_OLDV1_FLAGS @ ''(flags): '' @ resolve_flags f)) @
         keyed RBOX_METADATA_PVT_FLAGS ''(private flags): '' @
         keyed RBOX_METADATA_FROM_ENVELOPE ''(from envelope): '')"

section \<open>Mailboxes\<close>

text \<open>\<open>class RadosMailBox\<close>; the parser is shared, \<^const>\<open>None\<close> is a null pointer.\<close>

record mail_box =
  mb_parser :: "cmd_parser option"
  mb_guid :: string
  mb_count :: int
  mb_size :: "64 word"
  mb_mails :: "rados_mail list"
  mb_total :: "64 word"
  mb_orig_name :: string

definition new_mail_box :: "string \<Rightarrow> int \<Rightarrow> string \<Rightarrow> mail_box" where
  "new_mail_box guid n name =
     \<lparr>mb_parser = None, mb_guid = guid, mb_count = n, mb_size = 0, mb_mails = [], mb_total = 0, mb_orig_name = name\<rparr>"

text \<open>The loop over the conditions: what it adds to the mails.\<close>

fun filter_loop :: "(string \<Rightarrow> int option) \<Rightarrow> predicate smap \<Rightarrow> rados_mail \<Rightarrow> rados_mail list" where
  "filter_loop parse_date [] m = []"
| "filter_loop parse_date ((k, p) # ps) m =
     (case get_metadata_str k (m_attrset m) of
        Some v \<Rightarrow> if predicate_eval parse_date p (c_str v) then [m] else []
      | None \<Rightarrow> if k = ''-'' then m # filter_loop parse_date ps m else filter_loop parse_date ps m)"

definition add_mail :: "(string \<Rightarrow> int option) \<Rightarrow> rados_mail \<Rightarrow> mail_box \<Rightarrow> mail_box" where
  "add_mail parse_date m b =
     b\<lparr>mb_total := mb_total b + 1,
       mb_mails := mb_mails b @
         (if \<not> m_valid m then [m]
          else case mb_parser b of None \<Rightarrow> [m]
          | Some c \<Rightarrow> if cp_predicates c = [] then [m] else filter_loop parse_date (cp_predicates c) m)\<rparr>"

definition add_to_mailbox_size :: "64 word \<Rightarrow> mail_box \<Rightarrow> mail_box" where
  "add_to_mailbox_size n b = b\<lparr>mb_size := mb_size b + n\<rparr>"

definition mailbox_to_string :: "(int \<Rightarrow> string) \<Rightarrow> mail_box \<Rightarrow> string" where
  "mailbox_to_string fmt_date b =
     (let pad = ''         '' in
      endl @ ''MAILBOX: '' @ key_text RBOX_METADATA_MAILBOX_GUID @ ''(mailbox_guid)='' @ mb_guid b @ endl @
      pad @ key_text RBOX_METADATA_ORIG_MAILBOX @ ''(mailbox_orig_name)='' @ mb_orig_name b @ endl @
      pad @ ''mail_total='' @ int_to_string (uint (mb_total b)) @ '', mails_displayed='' @ int_to_string (int (length (mb_mails b))) @ endl @
      pad @ ''mailbox_size='' @ int_to_string (uint (mb_size b)) @ '' bytes '' @ endl @
      concat (map (mail_to_string fmt_date pad) (mb_mails b)))"

section \<open>Downloaded files\<close>

definition mailbox_path :: "string \<Rightarrow> string \<Rightarrow> string" where
  "mailbox_path base guid = (if base = [] then guid else if last base = CHR ''/'' then base @ guid else base @ ''/'' @ guid)"

text \<open>A mail without a uid writes a null pointer to the stream, which then takes nothing more.\<close>

definition build_filename :: "rados_mail \<Rightarrow> int \<times> string" where
  "build_filename m =
     (let name = (case get_metadata RBOX_METADATA_MAIL_UID (m_attrset m) of None \<Rightarrow> [] | Some u \<Rightarrow> c_str u @ ''.'' @ m_oid m)
      in (if name = [] then -1 else 0, name))"

section \<open>Lemmas\<close>

lemma add_predicate_simps:
  "add_predicate g t c = (True, c\<lparr>cp_keys := cp_keys c @ pr_key (make_predicate g t) @ '' '',
     cp_predicates := smap_put (pr_key (make_predicate g t)) (make_predicate g t) (cp_predicates c)\<rparr>)"
  by (simp add: add_predicate_def create_predicate_def make_predicate_def Let_def split: option.split)

lemma ls_loop_join:
  assumes "\<forall>u \<in> set (t # ts). CHR '';'' \<notin> set u"
  shows "ls_loop g (pre @ join_sep '';'' (t # ts)) (join_sep '';'' (t # ts)) (length pre) c =
    (True, foldl (\<lambda>c t. snd (add_predicate g t c)) c (t # ts))"
  using assms
proof (induction ts arbitrary: t pre c)
  case Nil
  then have "str_find '';'' t = None" by (simp add: str_find_char)
  then show ?case by (subst ls_loop.simps) (simp add: add_predicate_simps)
next
  case (Cons u us)
  let ?rest = "join_sep '';'' (u # us)" and ?pre = "pre @ t @ '';''"
  have f: "str_find '';'' (t @ CHR '';'' # ?rest) = Some (length t)"
    using Cons.prems by (auto simp: str_find_char takeWhile_append)
  have "ls_loop g (?pre @ ?rest) ?rest (length ?pre) (snd (add_predicate g t c)) =
      (True, foldl (\<lambda>c t. snd (add_predicate g t c)) (snd (add_predicate g t c)) (u # us))"
    by (rule Cons.IH) (use Cons.prems in simp)
  then show ?case by (subst ls_loop.simps) (simp add: f)
qed

lemma parse_ls_join:
  assumes "\<forall>t \<in> set ts. CHR '';'' \<notin> set t" and "ts \<noteq> []" and "cp_ls_value c = join_sep '';'' ts"
  shows "parse_ls_string g c = (True, foldl (\<lambda>c t. snd (add_predicate g t c)) c ts)"
proof (cases ts)
  case (Cons t us)
  show ?thesis
  proof (cases "str_find '';'' (join_sep '';'' ts) = None")
    case True
    then have "us = []" using Cons by (cases us) (auto simp: str_find_char split: if_splits)
    then show ?thesis using True Cons assms(3) by (simp add: parse_ls_string_def add_predicate_simps)
  next
    case False
    then show ?thesis using ls_loop_join [of t us g "[]" c] Cons assms(1,3) by (auto simp: parse_ls_string_def)
  qed
qed (use assms(2) in simp)

text \<open>Conditions as they are written: key, operator and value.\<close>

type_synonym ls_cond = "string \<times> char \<times> string"

definition cond_ok :: "ls_cond \<Rightarrow> bool" where
  "cond_ok = (\<lambda>(k, op, v). op \<in> set ''=><'' \<and> set (k @ v) \<inter> set ''=><;'' = {})"

definition cond_text :: "ls_cond \<Rightarrow> string" where
  "cond_text = (\<lambda>(k, op, v). k @ op # v)"

lemma make_predicate_cond:
  assumes "cond_ok (k, op, v)"
  shows "make_predicate g (k @ op # v) = \<lparr>pr_key = k, pr_op = [op], pr_value = v, pr_valid = True\<rparr>"
proof -
  have "find_op (k @ op # v) = Some (length k)"
    using assms by (auto simp: cond_ok_def find_op_def str_find_char takeWhile_append)
  then show ?thesis by (simp add: make_predicate_def)
qed

lemma add_conds:
  assumes "\<forall>x \<in> set conds. cond_ok x" and "distinct (map fst conds)"
  shows "smap_get k (cp_predicates (foldl (\<lambda>c t. snd (add_predicate g t c)) c (map cond_text conds))) =
    (case map_of conds k of Some (op, v) \<Rightarrow> Some \<lparr>pr_key = k, pr_op = [op], pr_value = v, pr_valid = True\<rparr>
     | None \<Rightarrow> smap_get k (cp_predicates c))"
  using assms
proof (induction conds arbitrary: c)
  case (Cons x xs)
  obtain k' op v where x: "x = (k', op, v)" by (cases x)
  then have "make_predicate g (k' @ op # v) = \<lparr>pr_key = k', pr_op = [op], pr_value = v, pr_valid = True\<rparr>"
    using Cons.prems(1) make_predicate_cond by simp
  moreover have "map_of xs k' = None" using Cons.prems(2) x by (simp add: map_of_eq_None_iff)
  ultimately show ?case
    using Cons.IH Cons.prems x by (auto simp: cond_text_def add_predicate_simps split: option.split)
qed simp

section \<open>Properties\<close>

text \<open>
  The conditions of \<open>ls\<close>. Conditions with different keys, joined by semicolons, are read back:
  the parser accepts them and has exactly these conditions, each with its operator and value.
\<close>

theorem ls_conditions_roundtrip:
  assumes "conds \<noteq> []" and "\<forall>x \<in> set conds. cond_ok x" and "distinct (map fst conds)"
  shows "\<exists>c. parse_ls_string g (new_cmd_parser (join_sep '';'' (map cond_text conds))) = (True, c) \<and>
    (\<forall>k. smap_get k (cp_predicates c) =
       map_option (\<lambda>(op, v). \<lparr>pr_key = k, pr_op = [op], pr_value = v, pr_valid = True\<rparr>) (map_of conds k))"
proof -
  have sep: "\<forall>t \<in> set (map cond_text conds). CHR '';'' \<notin> set t"
    using assms(2) by (force simp: cond_ok_def cond_text_def)
  show ?thesis
    using parse_ls_join [OF sep, of "new_cmd_parser (join_sep '';'' (map cond_text conds))" g] assms(1)
      add_conds [OF assms(2,3), of _ g "new_cmd_parser (join_sep '';'' (map cond_text conds))"]
    by (auto simp: new_cmd_parser_def smap_get_def split: option.split)
qed

text \<open>
  Property C37: the filter of \<open>ls\<close>. A valid mail is shown exactly when the first condition, in the order of the
  keys, whose key is among its attributes holds; the conditions after it are not looked at, and a mail with
  none of the attributes is not shown.
\<close>

theorem ls_filter_first_condition:
  assumes "m_valid m" and "mb_parser b = Some c" and "cp_predicates c \<noteq> []" and "smap_get ''-'' (cp_predicates c) = None"
  shows "mb_mails (add_mail parse_date m b) = mb_mails b @
    (case find (\<lambda>(k, p). smap_get k (m_attrset m) \<noteq> None) (cp_predicates c) of
       None \<Rightarrow> []
     | Some (k, p) \<Rightarrow> if predicate_eval parse_date p (c_str (the (smap_get k (m_attrset m)))) then [m] else [])"
proof -
  have "filter_loop parse_date ps m = (case find (\<lambda>(k, p). smap_get k (m_attrset m) \<noteq> None) ps of None \<Rightarrow> []
      | Some (k, p) \<Rightarrow> if predicate_eval parse_date p (c_str (the (smap_get k (m_attrset m)))) then [m] else [])"
    if "''-'' \<notin> fst ` set ps" for ps
    using that by (induction parse_date ps m rule: filter_loop.induct) (auto simp: get_metadata_str_def split: option.split)
  moreover have "''-'' \<notin> fst ` set (cp_predicates c)" using assms(4) by (simp add: smap_get_def map_of_eq_None_iff)
  ultimately show ?thesis using assms(1-3) by (simp add: add_mail_def)
qed

subsection \<open>Witnesses\<close>

theorem ls_conditions_roundtrip_witness:
  "\<exists>c. parse_ls_string NUL (new_cmd_parser ''U=7;P>100'') = (True, c) \<and>
     smap_get ''U'' (cp_predicates c) = Some \<lparr>pr_key = ''U'', pr_op = ''='', pr_value = ''7'', pr_valid = True\<rparr> \<and>
     smap_get ''P'' (cp_predicates c) = Some \<lparr>pr_key = ''P'', pr_op = ''>'', pr_value = ''100'', pr_valid = True\<rparr>"
  using ls_conditions_roundtrip [of "[(''U'', CHR ''='', ''7''), (''P'', CHR ''>'', ''100'')]" NUL]
  by (auto simp: cond_ok_def cond_text_def)

definition two_conditions :: cmd_parser where
  "two_conditions = snd (parse_ls_string NUL (new_cmd_parser ''Z=5;U=7''))"

theorem ls_filter_first_condition_witness:
  "mb_mails (add_mail (\<lambda>_. None) (new_rados_mail\<lparr>m_attrset := [(''U'', ''7''), (''Z'', ''6'')]\<rparr>)
     ((new_mail_box ''g'' 1 ''INBOX'')\<lparr>mb_parser := Some two_conditions\<rparr>)) = [new_rados_mail\<lparr>m_attrset := [(''U'', ''7''), (''Z'', ''6'')]\<rparr>]"
proof -
  have c: "cp_predicates two_conditions =
      [(''U'', \<lparr>pr_key = ''U'', pr_op = ''='', pr_value = ''7'', pr_valid = True\<rparr>),
       (''Z'', \<lparr>pr_key = ''Z'', pr_op = ''='', pr_value = ''5'', pr_valid = True\<rparr>)]" by code_simp
  have e: "predicate_eval (\<lambda>_. None) \<lparr>pr_key = ''U'', pr_op = ''='', pr_value = ''7'', pr_valid = True\<rparr> ''7''" by code_simp
  show ?thesis
    using ls_filter_first_condition [of "new_rados_mail\<lparr>m_attrset := [(''U'', ''7''), (''Z'', ''6'')]\<rparr>"
        "(new_mail_box ''g'' 1 ''INBOX'')\<lparr>mb_parser := Some two_conditions\<rparr>" two_conditions "\<lambda>_. None"] c e
    by (simp add: new_rados_mail_def new_mail_box_def smap_get_def c_str_def)
qed

end
