(* ===== verification/Rmb_Commands.thy ===== *)
theory Rmb_Commands
  imports Rmb_Parser Namespace_Mgr Metadata_Storage Save_Log
begin

text \<open>
  The commands of the \<open>rmb\<close> tool (\<open>src/src/librmb/tools/rmb/rmb-commands.cpp\<close>, \<open>mailbox_tools.cpp\<close>): undoing what a save log
  lists, deleting, renaming, configuring, listing and downloading mails, and the index of objects.
\<close>

section \<open>State and environment\<close>

text \<open>The file system of the host. A file that cannot be opened is the answer \<^const>\<open>False\<close>.\<close>

record 'w host_fs =
  fs_exists :: "string \<Rightarrow> 'w \<Rightarrow> bool"
  fs_mkdir :: "string \<Rightarrow> 'w \<Rightarrow> int \<times> 'w"
  fs_write :: "string \<Rightarrow> bytes \<Rightarrow> 'w \<Rightarrow> bool \<times> 'w"
  fs_unlink :: "string \<Rightarrow> 'w \<Rightarrow> int \<times> 'w"
  fs_rmdir :: "string \<Rightarrow> 'w \<Rightarrow> int \<times> 'w"

text \<open>
  The libraries, the C library's dates, the result of submitting the asynchronous \<open>stat\<close> of an object,
  and the order in which those requests complete.
\<close>

record 'w rmb_env =
  re_json :: json_lib
  re_client :: "'w client"
  re_rados :: "'w rados"
  re_fs :: "'w host_fs"
  re_parse_date :: "string \<Rightarrow> int option"
  re_fmt_date :: "int \<Rightarrow> string"
  re_aio_submit :: "string \<Rightarrow> int"
  re_aio_order :: "string list \<Rightarrow> string list"

record 'w rmb_state =
  ts_cl :: cluster
  ts_st :: storage
  ts_opts :: "string smap"
  ts_w :: 'w

text \<open>\<open>(*opts)[key]\<close>: a missing option is the empty text.\<close>

definition opt_get :: "string \<Rightarrow> string smap \<Rightarrow> string" where
  "opt_get k opts = (case smap_get k opts of None \<Rightarrow> [] | Some v \<Rightarrow> v)"

section \<open>Undoing a save log\<close>

text \<open>
  The entries of a log one after the other: saved and copied objects are removed, moved ones moved
  back. The connection changes with the pool; a failure to open it ends the run: \<^const>\<open>False\<close>.
\<close>

definition switch_pool :: "'w client \<Rightarrow> string \<Rightarrow> string \<Rightarrow> string \<Rightarrow> cluster \<Rightarrow> storage \<Rightarrow> 'w \<Rightarrow>
    (int \<times> cluster \<times> storage \<times> 'w) option" where
  "switch_pool C rados_cluster rados_user pool cl st w =
     (if st_pool_name st = pool then Some (0, cl, st, w)
      else case close_connection C cl st w of None \<Rightarrow> None
      | Some (cl1, w1) \<Rightarrow>
        (case open_connection3 C pool rados_cluster rados_user cl1 st w1 of
           Some (Inr r, cl2, st1, w2) \<Rightarrow> Some (r, cl2, st1, w2)
         | _ \<Rightarrow> None))"

definition undo_entry :: "'w rados \<Rightarrow> int \<Rightarrow> save_log_entry \<Rightarrow> cluster \<Rightarrow> storage \<Rightarrow> int \<Rightarrow> save_log_entry list smap \<Rightarrow> 'w \<Rightarrow>
    storage \<times> int \<times> save_log_entry list smap \<times> 'w" where
  "undo_entry R now e cl st count moved w =
     (if e_op e = ''save'' \<or> e_op e = ''cpy'' then
        case delete_mail R cl st (e_oid e) w of (r, w1) \<Rightarrow> (st, if r < 0 then count else count + 1, moved, w1)
      else
        case move R cl st now (e_oid e) (c_str (e_ns e)) (e_src_oid e) (c_str (e_src_ns e)) (e_metadata e) True w of (r, st1, w1) \<Rightarrow>
          (st1, count + 1,
           if r < 0 then moved
           else smap_put (e_src_user e) ((case smap_get (e_src_user e) moved of None \<Rightarrow> [] | Some es \<Rightarrow> es) @ [e]) moved, w1))"

fun undo_entries :: "'w client \<Rightarrow> 'w rados \<Rightarrow> int \<Rightarrow> string \<Rightarrow> string \<Rightarrow> save_log_entry list \<Rightarrow> cluster \<Rightarrow> storage \<Rightarrow> int \<Rightarrow>
    save_log_entry list smap \<Rightarrow> 'w \<Rightarrow> (bool \<times> cluster \<times> storage \<times> int \<times> save_log_entry list smap \<times> 'w) option" where
  "undo_entries C R now rados_cluster rados_user [] cl st count moved w = Some (True, cl, st, count, moved, w)"
| "undo_entries C R now rados_cluster rados_user (e # es) cl st count moved w =
     (case switch_pool C rados_cluster rados_user (e_pool e) cl st w of None \<Rightarrow> None
      | Some (r, cl1, st1, w1) \<Rightarrow>
        if r < 0 then Some (False, cl1, st1, count, moved, w1)
        else case undo_entry R now e cl1 (st_set_namespace (e_ns e) st1) count moved w1 of (st2, count1, moved1, w2) \<Rightarrow>
          undo_entries C R now rados_cluster rados_user es cl1 st2 count1 moved1 w2)"

text \<open>
  \<open>save_log\<close> is the content of the file, \<^const>\<open>None\<close> when it cannot be opened. Reading stops at an invalid line.
  After an error the cluster is given up without closing the storage.
\<close>

definition delete_with_save_log :: "'w client \<Rightarrow> 'w rados \<Rightarrow> int \<Rightarrow> string option \<Rightarrow> string \<Rightarrow> string \<Rightarrow> save_log_entry list smap option \<Rightarrow>
    cluster \<Rightarrow> 'w \<Rightarrow> (int \<times> save_log_entry list smap option \<times> cluster \<times> 'w) option" where
  "delete_with_save_log C R now save_log rados_cluster rados_user moved_items cl w =
     (case moved_items of None \<Rightarrow> Some (-1, None, cl, w)
      | Some moved \<Rightarrow>
        (case save_log of None \<Rightarrow> Some (-1, Some moved, cl, w)
         | Some text \<Rightarrow>
           (case undo_entries C R now rados_cluster rados_user
                   (fst (read_entries 0 \<lparr>is_text = text, is_eof = False, is_fail = False\<rparr>)) cl new_storage 0 moved w of None \<Rightarrow> None
            | Some (ok, cl1, st1, count, moved1, w1) \<Rightarrow>
                if \<not> ok then map_option (\<lambda>(cl2, w2). (-1, Some moved1, cl2, w2)) (deinit C cl1 w1)
                else case close_connection C cl1 st1 w1 of None \<Rightarrow> None
                | Some (cl2, w2) \<Rightarrow> map_option (\<lambda>(cl3, w3). (count, Some moved1, cl3, w3)) (deinit C cl2 w2))))"

section \<open>Listing the pools\<close>

text \<open>
  \<open>pool_list\<close> is the call of librados. Without a client, after a failed \<^const>\<open>init\<close> that \<^const>\<open>connect\<close> does not notice, a null
  pointer is used.
\<close>

definition lspools :: "'w client \<Rightarrow> ('w \<Rightarrow> int \<times> string list \<times> 'w) \<Rightarrow> cluster \<Rightarrow> 'w \<Rightarrow> (int \<times> string list \<times> cluster \<times> 'w) option" where
  "lspools C pool_list cl w =
     (case init C cl w of (_, cl1, w1) \<Rightarrow>
        (case connect C cl1 w1 of None \<Rightarrow> None
         | Some (r, cl2, w2) \<Rightarrow>
             if r < 0 then map_option (\<lambda>(cl3, w3). (0, [], cl3, w3)) (deinit C cl2 w2)
             else if \<not> c_cluster cl2 then None
             else case pool_list w2 of (ret, vec, w3) \<Rightarrow>
               map_option (\<lambda>(cl3, w4). (0, if ret = 0 then vec else [], cl3, w4)) (deinit C cl2 w3)))"

section \<open>Deleting and renaming\<close>

definition rmb_delete_mail :: "'w rmb_env \<Rightarrow> bool \<Rightarrow> 'w rmb_state \<Rightarrow> int \<times> 'w rmb_state" where
  "rmb_delete_mail E confirmed x =
     (if \<not> confirmed then (-1, x)
      else case delete_mail (re_rados E) (ts_cl x) (ts_st x) (opt_get ''to_delete'' (ts_opts x)) (ts_w x) of (r, w1) \<Rightarrow> (r, x\<lparr>ts_w := w1\<rparr>))"

text \<open>The object of the user is copied under the new name and then removed. \<open>now\<close> is the time of the copy.\<close>

definition rename_user :: "'w rmb_env \<Rightarrow> int \<Rightarrow> ceph_config option \<Rightarrow> bool \<Rightarrow> string \<Rightarrow> 'w rmb_state \<Rightarrow> int \<times> 'w rmb_state" where
  "rename_user E now cfg confirmed uid x =
     (case cfg of None \<Rightarrow> (-1, x)
      | Some cf \<Rightarrow>
        let R = re_rados E; suffix = jc_user_suffix (cf_config cf); user_ns = jc_user_ns (cf_config cf);
            src = uid @ suffix; dest = opt_get ''to_rename'' (ts_opts x) @ suffix in
        if \<not> is_user_mapping cf \<or> \<not> confirmed \<or> src = dest then (-1, x)
        else
          let st = st_set_namespace user_ns (ts_st x); x1 = x\<lparr>ts_st := st\<rparr> in
          case stat_mail R (ts_cl x) st src (ts_w x) of (exist, _, _, w1) \<Rightarrow>
            if exist < 0 then (-1, x1\<lparr>ts_w := w1\<rparr>)
            else case stat_mail R (ts_cl x) st dest w1 of (exist, _, _, w2) \<Rightarrow>
              if 0 \<le> exist then (-1, x1\<lparr>ts_w := w2\<rparr>)
              else case copy R (ts_cl x) st now src (c_str user_ns) dest (c_str user_ns) [] w2 of (ret, st1, w3) \<Rightarrow>
                if ret = 0 then case delete_mail R (ts_cl x) st1 src w3 of (r, w4) \<Rightarrow> (r, x1\<lparr>ts_st := st1, ts_w := w4\<rparr>)
                else (ret, x1\<lparr>ts_st := st1, ts_w := w3\<rparr>))"

section \<open>Configuration\<close>

definition configuration :: "'w rmb_env \<Rightarrow> bool \<Rightarrow> ceph_config \<Rightarrow> 'w rmb_state \<Rightarrow> int \<times> ceph_config \<times> 'w rmb_state" where
  "configuration E confirmed cf x =
     (let has_update = (smap_get ''update'' (ts_opts x) \<noteq> None); has_ls = (smap_get ''print_cfg'' (ts_opts x) \<noteq> None) in
      if has_update \<and> has_ls then (-1, cf, x)
      else if has_ls then (0, cf, x)
      else if \<not> has_update \<or> \<not> confirmed then (-1, cf, x)
      else let update = opt_get ''update'' (ts_opts x) in
        case str_find ''='' update of None \<Rightarrow> (-1, cf, x)
        | Some pos \<Rightarrow>
          (case update_valid_key_value (take pos update) (drop (pos + 1) update) (cf_config cf) of (ok, jc) \<Rightarrow>
             let cf1 = cf\<lparr>cf_config := jc\<rparr> in
             if \<not> ok then (-1, cf1, x)
             else case save_cfg (re_json E) (re_rados E) cf1 (ts_w x) of (r, w1) \<Rightarrow>
               (if r < 0 then -1 else 0, cf1, x\<lparr>ts_w := w1\<rparr>)))"

section \<open>Sorting\<close>

text \<open>
  The value of the second mail is read from the first one. A value that is missing or no number raises an exception, which is
  caught.
\<close>

definition sort_metadata :: "rbox_metadata_key \<Rightarrow> (int \<Rightarrow> int \<Rightarrow> bool) \<Rightarrow> rados_mail \<Rightarrow> rados_mail \<Rightarrow> bool" where
  "sort_metadata key lt i j =
     (case get_metadata key (m_attrset i) of None \<Rightarrow> False
      | Some t \<Rightarrow>
        (case stol (c_str t) of Inl _ \<Rightarrow> False
         | Inr a \<Rightarrow>
           (case get_metadata key (m_attrset i) of None \<Rightarrow> False
            | Some u \<Rightarrow> (case stol (c_str u) of Inl _ \<Rightarrow> False | Inr b \<Rightarrow> lt a b))))"

definition less_u64 :: "int \<Rightarrow> int \<Rightarrow> bool" where
  "less_u64 a b \<longleftrightarrow> (word_of_int a :: 64 word) < word_of_int b"

definition sort_uid :: "rados_mail \<Rightarrow> rados_mail \<Rightarrow> bool" where
  "sort_uid = sort_metadata RBOX_METADATA_MAIL_UID less_u64"

definition sort_recv_date :: "rados_mail \<Rightarrow> rados_mail \<Rightarrow> bool" where
  "sort_recv_date = sort_metadata RBOX_METADATA_RECEIVED_TIME (<)"

definition sort_phy_size :: "rados_mail \<Rightarrow> rados_mail \<Rightarrow> bool" where
  "sort_phy_size = sort_metadata RBOX_METADATA_PHYSICAL_SIZE less_u64"

definition sort_save_date :: "rados_mail \<Rightarrow> rados_mail \<Rightarrow> bool" where
  "sort_save_date i j \<longleftrightarrow> m_save_date i < m_save_date j"

text \<open>\<open>std::list::sort\<close>, which is stable.\<close>

fun insert_by :: "('a \<Rightarrow> 'a \<Rightarrow> bool) \<Rightarrow> 'a \<Rightarrow> 'a list \<Rightarrow> 'a list" where
  "insert_by lt x [] = [x]"
| "insert_by lt x (y # ys) = (if lt y x then y # insert_by lt x ys else x # y # ys)"

definition list_sort :: "('a \<Rightarrow> 'a \<Rightarrow> bool) \<Rightarrow> 'a list \<Rightarrow> 'a list" where
  "list_sort lt xs = foldr (insert_by lt) xs []"

definition sort_mails :: "string \<Rightarrow> rados_mail list \<Rightarrow> rados_mail list" where
  "sort_mails sort_string ms =
     list_sort (if sort_string = ''uid'' then sort_uid else if sort_string = ''recv_date'' then sort_recv_date
                else if sort_string = ''phy_size'' then sort_phy_size else sort_save_date) ms"

section \<open>Loading\<close>

text \<open>The completion of one request: an empty object or a failed request yields an invalid mail.\<close>

definition aio_cb :: "'w rmb_env \<Rightarrow> json_config \<Rightarrow> metadata_module_kind \<Rightarrow> io_ctx \<Rightarrow> bool \<Rightarrow> string \<Rightarrow> 'w \<Rightarrow> (rados_mail \<times> 'w) option" where
  "aio_cb E cfg kind io load_metadata oid w =
     (let mail = new_rados_mail\<lparr>m_oid := oid\<rparr> in
      case rd_stat (re_rados E) io oid w of (r, n, t, w1) \<Rightarrow>
        if r = 0 \<and> 0 < n then
          let m1 = mail\<lparr>m_object_size := to_int32 (int n), m_save_date := t\<rparr> in
          if load_metadata then
            map_option (\<lambda>(ret, m2, w2). (m2\<lparr>m_valid := m_valid m2 \<and> 0 \<le> ret \<and> m_attrset m2 \<noteq> [] \<and> validate_metadata (m_attrset m2)\<rparr>, w2))
              (module_load (re_json E) (re_rados E) cfg kind io m1 w1)
          else Some (m1, w1)
        else Some (mail\<lparr>m_valid := False\<rparr>, w1))"

fun complete_all :: "'w rmb_env \<Rightarrow> json_config \<Rightarrow> metadata_module_kind \<Rightarrow> io_ctx \<Rightarrow> bool \<Rightarrow> string list \<Rightarrow> 'w \<Rightarrow> (rados_mail list \<times> 'w) option" where
  "complete_all E cfg kind io load_metadata [] w = Some ([], w)"
| "complete_all E cfg kind io load_metadata (oid # oids) w =
     (case aio_cb E cfg kind io load_metadata oid w of None \<Rightarrow> None
      | Some (m, w1) \<Rightarrow> map_option (\<lambda>(ms, w2). (m # ms, w2)) (complete_all E cfg kind io load_metadata oids w1))"

text \<open>Mails are added to the list in the order their requests complete.\<close>

definition load_objects :: "'w rmb_env \<Rightarrow> json_config \<Rightarrow> metadata_module_kind option \<Rightarrow> rados_mail list \<Rightarrow> string \<Rightarrow> bool \<Rightarrow> 'w rmb_state \<Rightarrow>
    (int \<times> rados_mail list \<times> 'w rmb_state) option" where
  "load_objects E cfg ms mail_objects sort_string load_metadata x =
     (case ms of None \<Rightarrow> Some (-1, mail_objects, x)
      | Some kind \<Rightarrow>
        let io = st_io_ctx (ts_st x);
            oids = filter (\<lambda>oid. re_aio_submit E oid = 0) (find_mails (re_rados E) (ts_cl x) (ts_st x) None (ts_w x)) in
        map_option (\<lambda>(new, w1).
            (0, if load_metadata then sort_mails sort_string (mail_objects @ new) else mail_objects @ new, x\<lparr>ts_w := w1\<rparr>))
          (complete_all E cfg kind io load_metadata (re_aio_order E oids) (ts_w x)))"

text \<open>The ids of the objects whose metadata are valid.\<close>

fun valid_oids :: "'w rmb_env \<Rightarrow> json_config \<Rightarrow> metadata_module_kind \<Rightarrow> io_ctx \<Rightarrow> string list \<Rightarrow> 'w \<Rightarrow> (string set \<times> 'w) option" where
  "valid_oids E cfg kind io [] w = Some ({}, w)"
| "valid_oids E cfg kind io (oid # oids) w =
     (case module_load (re_json E) (re_rados E) cfg kind io (new_rados_mail\<lparr>m_oid := oid\<rparr>) w of None \<Rightarrow> None
      | Some (r, m, w1) \<Rightarrow>
          map_option (\<lambda>(s, w2). (if r < 0 \<or> \<not> validate_metadata (m_attrset m) then s else insert oid s, w2))
            (valid_oids E cfg kind io oids w1))"

definition load_object_set :: "'w rmb_env \<Rightarrow> json_config \<Rightarrow> metadata_module_kind \<Rightarrow> 'w rmb_state \<Rightarrow> (string set \<times> 'w rmb_state) option" where
  "load_object_set E cfg kind x =
     map_option (\<lambda>(s, w1). (s, x\<lparr>ts_w := w1\<rparr>))
       (valid_oids E cfg kind (st_io_ctx (ts_st x)) (find_mails (re_rados E) (ts_cl x) (ts_st x) None (ts_w x)) (ts_w x))"

definition overwrite_ceph_object_index :: "'w rmb_env \<Rightarrow> string set \<Rightarrow> 'w rmb_state \<Rightarrow> int \<times> 'w rmb_state" where
  "overwrite_ceph_object_index E oids x =
     (case ceph_index_overwrite (re_rados E) (ts_st x) oids (ts_w x) of (r, w1) \<Rightarrow> (r, x\<lparr>ts_w := w1\<rparr>))"

definition remove_ceph_object_index :: "'w rmb_env \<Rightarrow> 'w rmb_state \<Rightarrow> int \<times> 'w rmb_state" where
  "remove_ceph_object_index E x =
     (case ceph_index_delete (re_rados E) (ts_st x) (ts_w x) of (r, w1) \<Rightarrow> (r, x\<lparr>ts_w := w1\<rparr>))"

definition append_ceph_object_index :: "'w rmb_env \<Rightarrow> string set \<Rightarrow> 'w rmb_state \<Rightarrow> int \<times> 'w rmb_state" where
  "append_ceph_object_index E oids x =
     (case ceph_index_append_set (re_rados E) (ts_st x) oids (ts_w x) of (r, w1) \<Rightarrow> (r, x\<lparr>ts_w := w1\<rparr>))"

section \<open>Deleting a namespace\<close>

fun delete_listed :: "'w rmb_env \<Rightarrow> bool \<Rightarrow> rados_mail list \<Rightarrow> 'w rmb_state \<Rightarrow> 'w rmb_state" where
  "delete_listed E confirmed [] x = x"
| "delete_listed E confirmed (m # ms) x =
     delete_listed E confirmed ms (snd (rmb_delete_mail E confirmed (x\<lparr>ts_opts := smap_put ''to_delete'' (m_oid m) (ts_opts x)\<rparr>)))"

text \<open>The object of the user is looked for in the namespace \<open>users\<close>, whatever the configured one. \<open>garbage\<close>: see \<^const>\<open>make_predicate\<close>.\<close>

definition delete_namespace :: "'w rmb_env \<Rightarrow> char \<Rightarrow> metadata_module_kind option \<Rightarrow> rados_mail list \<Rightarrow> ceph_config option \<Rightarrow> bool \<Rightarrow>
    'w rmb_state \<Rightarrow> (int \<times> rados_mail list \<times> 'w rmb_state) option" where
  "delete_namespace E garbage ms mail_objects cfg confirmed x =
     (case (ms, cfg) of
        (Some kind, Some cf) \<Rightarrow>
          if \<not> fst (parse_ls_string garbage (new_cmd_parser ''-'')) then Some (0, mail_objects, x)
          else case load_objects E (cf_config cf) ms mail_objects ''uid'' True x of None \<Rightarrow> None
          | Some (ret, mails, x1) \<Rightarrow>
              if ret < 0 \<or> mails = [] then Some (ret, mails, x1)
              else
                let x2 = delete_listed E confirmed mails x1;
                    x3 = (if is_user_mapping cf then
                            let oid = opt_get ''namespace'' (ts_opts x2) @ jc_user_suffix (cf_config cf) in
                            snd (rmb_delete_mail E confirmed
                              (x2\<lparr>ts_opts := smap_put ''to_delete'' oid (ts_opts x2), ts_st := st_set_namespace ''users'' (ts_st x2)\<rparr>))
                          else x2)
                in Some (0, mails, x3)
      | _ \<Rightarrow> Some (-1, mail_objects, x))"

section \<open>Files\<close>

definition make_dir :: "'w host_fs \<Rightarrow> string \<Rightarrow> 'w \<Rightarrow> int \<times> 'w" where
  "make_dir F path w = (if fs_exists F path w then (0, w)
     else case fs_mkdir F path w of (r, w1) \<Rightarrow> (if r < 0 then -1 else 0, w1))"

definition init_mailbox_dir :: "'w host_fs \<Rightarrow> string \<Rightarrow> string \<Rightarrow> 'w \<Rightarrow> int \<times> 'w" where
  "init_mailbox_dir F base path w =
     (case make_dir F base w of (r, w1) \<Rightarrow> if r < 0 then (-1, w1) else make_dir F path w1)"

definition delete_mail_file :: "'w host_fs \<Rightarrow> string \<Rightarrow> rados_mail option \<Rightarrow> 'w \<Rightarrow> int \<times> 'w" where
  "delete_mail_file F path mail w =
     (case mail of None \<Rightarrow> (-1, w)
      | Some m \<Rightarrow> (case build_filename m of (r, name) \<Rightarrow> if r < 0 then (-1, w) else fs_unlink F (path @ ''/'' @ name) w))"

definition delete_mailbox_dir :: "'w host_fs \<Rightarrow> string \<Rightarrow> string \<Rightarrow> 'w \<Rightarrow> int \<times> 'w" where
  "delete_mailbox_dir F base path w =
     (if path = [] \<or> base = [] then (-1, w)
      else case fs_rmdir F path w of (r, w1) \<Rightarrow>
        if r < 0 then (-1, w1) else case fs_rmdir F base w1 of (r, w2) \<Rightarrow> (if r < 0 then -1 else 0, w2))"

text \<open>The size of the mail decides how much is written; beyond the buffer the code reads foreign memory: \<^const>\<open>None\<close>.\<close>

definition save_mail_file :: "'w host_fs \<Rightarrow> string \<Rightarrow> rados_mail option \<Rightarrow> 'w \<Rightarrow> (int \<times> 'w) option" where
  "save_mail_file F path mail w =
     (case mail of None \<Rightarrow> Some (-1, w)
      | Some m \<Rightarrow>
        (case build_filename m of (r, name) \<Rightarrow>
           if r < 0 then Some (-1, w)
           else case fs_write F (path @ ''/'' @ name) (take (nat (m_object_size m)) (m_buffer m)) w of (ok, w1) \<Rightarrow>
             if \<not> ok then Some (-1, w1)
             else if m_object_size m < 0 \<or> int (length (m_buffer m)) < m_object_size m then None
             else Some (0, w1)))"

section \<open>Listing and downloading\<close>

text \<open>A mail that cannot be read or is empty is not written.\<close>

fun download_mails :: "'w rmb_env \<Rightarrow> string \<Rightarrow> rados_mail list \<Rightarrow> 'w rmb_state \<Rightarrow> 'w rmb_state option" where
  "download_mails E path [] x = Some x"
| "download_mails E path (m # ms) x =
     (case read_mail (re_rados E) (ts_cl x) (ts_st x) (m_oid m) (ts_w x) of (r, b, w1) \<Rightarrow>
        if 0 < r then
          case save_mail_file (re_fs E) path (Some (m\<lparr>m_buffer := b\<rparr>)) w1 of None \<Rightarrow> None
          | Some (_, w2) \<Rightarrow> download_mails E path ms (x\<lparr>ts_w := w2\<rparr>)
        else download_mails E path ms (x\<lparr>ts_w := w1\<rparr>))"

text \<open>The texts that are printed, and the state. A directory that cannot be made ends the loop.\<close>

fun print_mail :: "'w rmb_env \<Rightarrow> mail_box smap \<Rightarrow> string \<Rightarrow> bool \<Rightarrow> 'w rmb_state \<Rightarrow> (int \<times> string list \<times> 'w rmb_state) option" where
  "print_mail E [] output_dir download x = Some (0, [], x)"
| "print_mail E ((g, b) # bs) output_dir download x =
     (if mb_count b = 0 then print_mail E bs output_dir download x
      else
        let text = mailbox_to_string (re_fmt_date E) b; path = mailbox_path output_dir (mb_guid b);
            rest = (\<lambda>x. map_option (\<lambda>(r, ts, x1). (r, text # ts, x1)) (print_mail E bs output_dir download x)) in
        if \<not> download then rest x
        else case init_mailbox_dir (re_fs E) output_dir path (ts_w x) of (r, w1) \<Rightarrow>
          if r < 0 then Some (0, [text], x\<lparr>ts_w := w1\<rparr>)
          else case download_mails E path (mb_mails b) (x\<lparr>ts_w := w1\<rparr>) of None \<Rightarrow> None | Some x1 \<Rightarrow> rest x1)"

text \<open>Mails are grouped by the GUID of their mailbox. A key that is only part of another key finds no condition: a null pointer.\<close>

definition mailbox_wanted :: "(string \<Rightarrow> int option) \<Rightarrow> cmd_parser \<Rightarrow> string \<Rightarrow> bool option" where
  "mailbox_wanted parse_date c guid =
     (if contains_key ''M'' c then map_option (\<lambda>p. predicate_eval parse_date p guid) (smap_get ''M'' (cp_predicates c)) else Some True)"

definition put_in_box :: "(string \<Rightarrow> int option) \<Rightarrow> cmd_parser \<Rightarrow> string \<Rightarrow> string \<Rightarrow> rados_mail \<Rightarrow> mail_box smap \<Rightarrow> mail_box smap" where
  "put_in_box parse_date c guid name m boxes =
     (let box = (case smap_get guid boxes of Some b \<Rightarrow> b | None \<Rightarrow> (new_mail_box guid 1 name)\<lparr>mb_parser := Some c\<rparr>)
      in smap_put guid (add_to_mailbox_size (word_of_int (m_object_size m)) (add_mail parse_date m box)) boxes)"

fun group_mails :: "(string \<Rightarrow> int option) \<Rightarrow> cmd_parser \<Rightarrow> rados_mail list \<Rightarrow> mail_box smap \<Rightarrow> mail_box smap option" where
  "group_mails parse_date c [] boxes = Some boxes"
| "group_mails parse_date c (m # ms) boxes =
     (case (get_metadata_str ''M'' (m_attrset m), get_metadata_str ''B'' (m_attrset m)) of
        (Some guid, Some name) \<Rightarrow>
          (case mailbox_wanted parse_date c (c_str guid) of None \<Rightarrow> None
           | Some ok \<Rightarrow>
               if ok then group_mails parse_date c ms (put_in_box parse_date c (c_str guid) (c_str name) m boxes)
               else group_mails parse_date c ms boxes)
      | _ \<Rightarrow> group_mails parse_date c ms boxes)"

definition query_mail_storage :: "'w rmb_env \<Rightarrow> rados_mail list \<Rightarrow> cmd_parser \<Rightarrow> bool \<Rightarrow> bool \<Rightarrow> 'w rmb_state \<Rightarrow>
    (int \<times> string list \<times> 'w rmb_state) option" where
  "query_mail_storage E mail_objects c download silent x =
     (case group_mails (re_parse_date E) c mail_objects [] of None \<Rightarrow> None
      | Some boxes \<Rightarrow>
          if silent then Some (0, [], x)
          else map_option (\<lambda>(r, ts, x1). (r, (''mailbox_count: '' @ int_to_string (int (length boxes))) # ts, x1))
            (print_mail E boxes (cp_out_dir c) download x))"

section \<open>Metadata\<close>

text \<open>
  The module and the namespace of the user. A lookup that fails is tried again. The configuration uses
  the io context of the storage, whose namespace a failed lookup leaves empty.
\<close>

definition init_metadata_storage_module :: "'w rmb_env \<Rightarrow> ceph_config \<Rightarrow> string option \<Rightarrow> 'w rmb_state \<Rightarrow>
    metadata_module_kind option \<times> string option \<times> 'w rmb_state" where
  "init_metadata_storage_module E cf uid x =
     (case uid of None \<Rightarrow> (None, None, x)
      | Some u \<Rightarrow>
        let R = re_rados E; jc = (cf_config cf)\<lparr>jc_valid := True\<rparr>;
            kind = (if jc_metadata_storage_module jc = ima_module_name then Module_Ima else Module_Default);
            u1 = (if opt_get ''namespace'' (ts_opts x) \<noteq> [] then opt_get ''namespace'' (ts_opts x) @ jc_user_suffix jc else u);
            mgr = \<lparr>nm_config = Some \<lparr>dc_dovecot = new_rados_config\<lparr>rc_valid := True\<rparr>,
                     dc_rados = \<lparr>cf_config = jc, cf_io_ctx = Some (st_io_ctx (ts_st x))\<rparr>\<rparr>, nm_cache = []\<rparr>;
            (found, ns, mgr1, w1) = lookup_key R u1 [] mgr (ts_w x) in
        if found then (Some kind, Some u1, x\<lparr>ts_st := st_set_namespace ns (ts_st x), ts_w := w1\<rparr>)
        else case lookup_key R u1 ns mgr1 w1 of (found, ns1, mgr2, w2) \<Rightarrow>
          if found then (Some kind, Some u1, x\<lparr>ts_st := st_set_namespace ns1 (ts_st x), ts_w := w2\<rparr>)
          else (None, Some u1, x\<lparr>ts_st := (ts_st x)\<lparr>st_io_ctx := (case nm_config mgr2 of None \<Rightarrow> st_io_ctx (ts_st x)
                   | Some c \<Rightarrow> (case cf_io_ctx (dc_rados c) of None \<Rightarrow> st_io_ctx (ts_st x) | Some io \<Rightarrow> io))\<rparr>, ts_w := w2\<rparr>))"

definition attribute_value :: "(string \<Rightarrow> int option) \<Rightarrow> rbox_metadata_key \<Rightarrow> string \<Rightarrow> string" where
  "attribute_value parse_date ke value =
     (if is_date_attribute ke \<and> \<not> is_numeric (Some value) then
        case convert_string_to_date parse_date value of None \<Rightarrow> value | Some d \<Rightarrow> d
      else value)"

fun set_attributes :: "'w rmb_env \<Rightarrow> json_config \<Rightarrow> metadata_module_kind \<Rightarrow> string \<Rightarrow> (string \<times> string) list \<Rightarrow> 'w rmb_state \<Rightarrow>
    'w rmb_state option" where
  "set_attributes E cfg kind oid [] x = Some x"
| "set_attributes E cfg kind oid ((k, v) # kvs) x =
     (let ke = metadata_key_of_char (case k of [] \<Rightarrow> NUL | c # _ \<Rightarrow> c); io = st_io_ctx (ts_st x) in
      case module_load (re_json E) (re_rados E) cfg kind io (new_rados_mail\<lparr>m_oid := oid\<rparr>) (ts_w x) of None \<Rightarrow> None
      | Some (_, m, w1) \<Rightarrow>
          (case module_set (re_json E) (re_rados E) cfg kind io m (convert_str ke (attribute_value (re_parse_date E) ke v)) w1 of
             (_, _, w2) \<Rightarrow> set_attributes E cfg kind oid kvs (x\<lparr>ts_w := w2\<rparr>)))"

definition update_attributes :: "'w rmb_env \<Rightarrow> json_config \<Rightarrow> metadata_module_kind \<Rightarrow> string smap \<Rightarrow> 'w rmb_state \<Rightarrow> (int \<times> 'w rmb_state) option" where
  "update_attributes E cfg kind metadata x =
     (let oid = opt_get ''set'' (ts_opts x) in
      if oid \<noteq> [] \<and> metadata \<noteq> [] then map_option (Pair 0) (set_attributes E cfg kind oid metadata x) else Some (-1, x))"

definition set_output_path :: "string option \<Rightarrow> nat \<Rightarrow> string smap \<Rightarrow> cmd_parser \<Rightarrow> cmd_parser" where
  "set_output_path home path_max opts c =
     (case smap_get ''out'' opts of Some out \<Rightarrow> set_output_dir home path_max out c
      | None \<Rightarrow> set_output_dir home path_max
          (take (path_max - 1) (case home of None \<Rightarrow> ''rmb'' | Some h \<Rightarrow> h @ ''/rmb'')) c)"

section \<open>Lemmas\<close>

lemma list_sort_never: "list_sort (\<lambda>_ _. False) xs = xs"
proof -
  have "insert_by (\<lambda>_ _. False) x ys = x # ys" for x :: 'a and ys by (cases ys) simp_all
  then show ?thesis by (induction xs) (simp_all add: list_sort_def)
qed

lemma sort_metadata_self: "\<forall>a. \<not> lt a a \<Longrightarrow> sort_metadata key lt = (\<lambda>_ _. False)"
  by (auto simp: sort_metadata_def fun_eq_iff split: option.split sum.split)

text \<open>The object an entry of the log names, in the pool of the storage.\<close>

definition entry_key :: "storage \<Rightarrow> save_log_entry \<Rightarrow> obj_key" where
  "entry_key st e = okey (set_namespace (e_ns e) (st_io_ctx st)) (e_oid e)"

definition undoable :: "save_log_entry \<Rightarrow> bool" where
  "undoable e \<longleftrightarrow> (e_op e = ''save'' \<or> e_op e = ''cpy'') \<and> e_oid e \<noteq> []"

lemma entry_key_ns [simp]:
  "entry_key (st_set_namespace ns st) = entry_key st" "st_pool_name (st_set_namespace ns st) = st_pool_name st"
  by (simp_all add: fun_eq_iff entry_key_def st_set_namespace_def set_namespace_def)

lemma undo_entries_removes:
  assumes "law_remove R V" and "removes_existing R V"
  shows "storage_ready cl st \<Longrightarrow> \<forall>e \<in> set es. undoable e \<and> e_pool e = st_pool_name st \<and> V w (entry_key st e) \<noteq> None \<Longrightarrow>
    distinct (map (entry_key st) es) \<Longrightarrow>
    \<exists>st1 w1. undo_entries C R now cn un es cl st n m w = Some (True, cl, st1, n + int (length es), m, w1) \<and>
      st_io_ctx_created st1 = st_io_ctx_created st \<and>
      V w1 = (\<lambda>k. if k \<in> entry_key st ` set es then None else V w k)"
proof (induction es arbitrary: st n w)
  case (Cons e es)
  let ?st = "st_set_namespace (e_ns e) st"
  have k: "okey (st_io_ctx ?st) (e_oid e) = entry_key st e" by (simp add: entry_key_def st_set_namespace_def)
  obtain w1 where r: "rd_remove R (st_io_ctx ?st) (e_oid e) w = (0, w1)"
    using assms(2) Cons.prems(2) k unfolding removes_existing_def by (metis list.set_intros(1) prod.collapse)
  then have v: "V w1 = (V w)(entry_key st e := None)" using assms(1) k unfolding law_remove_def by fastforce
  have ready: "storage_ready cl ?st" using Cons.prems(1) by (simp add: storage_ready_def st_set_namespace_def)
  have "\<forall>e' \<in> set es. undoable e' \<and> e_pool e' = st_pool_name ?st \<and> V w1 (entry_key ?st e') \<noteq> None" "distinct (map (entry_key ?st) es)"
    using Cons.prems(2,3) by (auto simp: v) (metis image_eqI)
  from Cons.IH [OF ready this, of "n + 1"] obtain st1 w2 where
    ih: "undo_entries C R now cn un es cl ?st (n + 1) m w1 = Some (True, cl, st1, n + 1 + int (length es), m, w2)"
      "st_io_ctx_created st1 = st_io_ctx_created ?st" "V w2 = (\<lambda>k. if k \<in> entry_key ?st ` set es then None else V w1 k)" by blast
  have "switch_pool C cn un (e_pool e) cl st w = Some (0, cl, st, w)" using Cons.prems(2) by (simp add: switch_pool_def)
  moreover have "undo_entry R now e cl ?st n m w = (?st, n + 1, m, w1)"
    using Cons.prems(1,2) r by (auto simp: undo_entry_def undoable_def delete_mail_def storage_ready_def st_set_namespace_def)
  moreover have "st_io_ctx_created ?st = st_io_ctx_created st" by (simp add: st_set_namespace_def)
  moreover have "V w2 = (\<lambda>k. if k \<in> entry_key st ` set (e # es) then None else V w k)" unfolding ih(3) v by (rule ext) simp
  ultimately show ?case using ih(1,2) by simp
qed simp

lemma undo_entries_reconnects:
  assumes "close_connection C cl new_storage w = Some (cl, w)" and "es \<noteq> []" and "\<forall>e \<in> set es. e_pool e = pool" and "pool \<noteq> []"
    and "open_connection3 C pool cn un cl new_storage w = Some (Inr r, cl1, st1, w1)" and "0 \<le> r" and "st_pool_name st1 = pool"
  shows "undo_entries C R now cn un es cl new_storage n m w = undo_entries C R now cn un es cl1 st1 n m w1"
proof -
  have "st_pool_name new_storage \<noteq> pool" using assms(4) by (simp add: new_storage_def)
  then show ?thesis using assms by (cases es) (auto simp: switch_pool_def)
qed

text \<open>Giving up the cluster changes no object.\<close>

lemma deinit_keeps:
  assumes "cluster_ok cl" and "\<forall>w. V (cc_shutdown C w) = V w"
  shows "\<exists>cl1 w1. deinit C cl w = Some (cl1, w1) \<and> cluster_ok cl1 \<and> V w1 = V w \<and>
    c_ref_count cl1 = max 0 (c_ref_count cl - 1) \<and> (c_connected cl1 \<longleftrightarrow> c_connected cl \<and> 1 < c_ref_count cl)"
proof -
  have "deinit C cl w \<noteq> None" using assms(1) by (auto simp: deinit_def cluster_ok_def Let_def)
  then obtain cl1 w1 where d: "deinit C cl w = Some (cl1, w1)" by fastforce
  moreover have "V w1 = V w" using d assms(2) by (auto simp: deinit_def Let_def split: if_splits)
  moreover have "c_ref_count cl1 = max 0 (c_ref_count cl - 1) \<and> (c_connected cl1 \<longleftrightarrow> c_connected cl \<and> 1 < c_ref_count cl)"
    using d assms(1) by (auto simp: deinit_def cluster_ok_def Let_def split: if_splits)
  ultimately show ?thesis using deinit_ok [OF d assms(1)] by blast
qed

section \<open>Properties\<close>

text \<open>
  Property C15: undoing a save log. For a log of saved and copied objects of one pool, as the driver writes it, whose entries are
  distinct and name existing objects, the tool removes exactly the objects the log names and reports how many there were, when the
  connection to the pool can be opened and the cluster removes what is there. Afterwards it gives up the references of
  its storage and of the cluster, so that the count is two lower than with the open connection, but not negative, and the
  connection is ended unless others still hold it.
\<close>

theorem undo_removes_logged:
  assumes "law_remove R V" and "removes_existing R V" and "\<forall>w. V (cc_shutdown C w) = V w"
    and "es \<noteq> []" and "\<forall>e \<in> set es. entry_ok e \<and> undoable e \<and> e_pool e = pool" and "pool \<noteq> []"
    and "open_connection3 C pool cn un cl new_storage w = Some (Inr r, cl1, st1, w1)" and "0 \<le> r" and "V w1 = V w"
    and "storage_ready cl1 st1" and "st_pool_name st1 = pool" and "cluster_ok cl1"
    and "distinct (map (entry_key st1) es)" and "\<forall>e \<in> set es. V w (entry_key st1 e) \<noteq> None"
  shows "\<exists>cl2 w2. delete_with_save_log C R now (Some (concat (map entry_write es))) cn un (Some m) cl w =
      Some (int (length es), Some m, cl2, w2) \<and>
    c_ref_count cl2 = max 0 (c_ref_count cl1 - 2) \<and> (c_connected cl2 \<longleftrightarrow> 2 < c_ref_count cl1) \<and>
    V w2 = (\<lambda>k. if k \<in> entry_key st1 ` set es then None else V w k)"
proof -
  let ?f = "\<lambda>e. save_log_entry_of (e_oid e) (e_ns e) (e_pool e) (e_op e)"
  have plain: "CHR '';'' \<notin> set (e_op e)" if "e \<in> set es" for e using assms(5) that by (auto simp: undoable_def)
  have rd: "fst (read_entries 0 \<lparr>is_text = concat (map entry_write es), is_eof = False, is_fail = False\<rparr>) = map ?f es"
    using read_entries_written [of es 0] assms(5) plain by (auto simp: reread_plain)
  have key: "entry_key st1 (save_log_entry_of (e_oid e) (e_ns e) p (e_op e)) = entry_key st1 e"
      "undoable (save_log_entry_of (e_oid e) (e_ns e) p (e_op e)) = undoable e" "e_pool (save_log_entry_of o1 n1 p op1) = p" for e p o1 n1 op1
    by (simp_all add: entry_key_def undoable_def save_log_entry_of_def empty_entry_def)
  have "\<forall>e \<in> set (map ?f es). undoable e \<and> e_pool e = st_pool_name st1 \<and> V w1 (entry_key st1 e) \<noteq> None"
      "distinct (map (entry_key st1) (map ?f es))"
    using assms(5,9,11,13,14) by (auto simp: key o_def)
  from undo_entries_removes [OF assms(1,2,10) this, of C now cn un 0 m] obtain st2 w2 where
    u: "undo_entries C R now cn un (map ?f es) cl1 st1 0 m w1 = Some (True, cl1, st2, int (length es), m, w2)"
      "st_io_ctx_created st2" "V w2 = (\<lambda>k. if k \<in> entry_key st1 ` set (map ?f es) then None else V w1 k)"
    using assms(10) by (auto simp: storage_ready_def)
  have "undo_entries C R now cn un (map ?f es) cl new_storage 0 m w = undo_entries C R now cn un (map ?f es) cl1 st1 0 m w1"
    by (rule undo_entries_reconnects [OF _ _ _ assms(6-8,11)])
       (use assms(4,5) key in \<open>auto simp: close_connection_def new_storage_def\<close>)
  note u1 = this [unfolded u(1)]
  obtain cl2 w3 where d1: "deinit C cl1 w2 = Some (cl2, w3)" "cluster_ok cl2" "V w3 = V w2"
      "c_ref_count cl2 = max 0 (c_ref_count cl1 - 1)" "c_connected cl2 \<longleftrightarrow> c_connected cl1 \<and> 1 < c_ref_count cl1"
    using deinit_keeps [OF assms(12,3)] by blast
  obtain cl3 w4 where d2: "deinit C cl2 w3 = Some (cl3, w4)" "V w4 = V w3"
      "c_ref_count cl3 = max 0 (c_ref_count cl2 - 1)" "c_connected cl3 \<longleftrightarrow> c_connected cl2 \<and> 1 < c_ref_count cl2"
    using deinit_keeps [OF d1(2) assms(3)] by blast
  have "c_connected cl1" using assms(10) by (simp add: storage_ready_def)
  then have "c_ref_count cl3 = max 0 (c_ref_count cl1 - 2)" "c_connected cl3 \<longleftrightarrow> 2 < c_ref_count cl1"
    using d1(4,5) d2(3,4) by auto
  moreover have "entry_key st1 ` set (map ?f es) = entry_key st1 ` set es" by (simp add: image_image key)
  ultimately show ?thesis
    using d1 d2 u(2) u(3) [unfolded assms(9)] by (simp add: delete_with_save_log_def rd u1 close_connection_def)
qed

text \<open>
  Property C25: renaming a user. When the object of the user exists and there is none under the new name, renaming copies it, with
  its content and attributes, to the new name and removes the old one; nothing else changes.
\<close>

theorem rename_moves_user:
  assumes "R = re_rados E" and "law_aio_operate R V" and "aio_succeeds R" and "law_stat R V" and "stats_succeed R V" and "law_remove R V"
    and "removes_existing R V" and "storage_ready (ts_cl x) (ts_st x)" and "is_user_mapping cf" and "NUL \<notin> set (jc_user_ns (cf_config cf))"
    and "src = uid @ jc_user_suffix (cf_config cf)" and "dest = opt_get ''to_rename'' (ts_opts x) @ jc_user_suffix (cf_config cf)"
    and "src \<noteq> dest" and "src \<noteq> []" and "io = set_namespace (jc_user_ns (cf_config cf)) (st_io_ctx (ts_st x))"
    and "V (ts_w x) (okey io src) = Some ob" and "V (ts_w x) (okey io dest) = None"
  shows "\<exists>y. rename_user E now (Some cf) True uid x = (0, y) \<and>
    V (ts_w y) = (V (ts_w x))(okey io dest \<mapsto> ob\<lparr>o_mtime := now\<rparr>, okey io src := None)"
proof -
  let ?ns = "jc_user_ns (cf_config cf)" and ?cl = "ts_cl x"
  define st where st: "st = st_set_namespace ?ns (ts_st x)"
  have io: "st_io_ctx st = io" by (simp add: st assms(15) st_set_namespace_def)
  have ready: "storage_ready ?cl st" using assms(8) by (simp add: st storage_ready_def st_set_namespace_def)
  have ns: "c_str ?ns = ?ns" using assms(10) by (rule c_str_no_nul)
  obtain r1 n1 t1 w1 where s1: "stat_mail R ?cl st src (ts_w x) = (r1, n1, t1, w1)" by (metis prod_cases4)
  then have 1: "rd_stat R io src (ts_w x) = (r1, n1, t1, w1)" using ready io by (simp add: stat_mail_def)
  then have v1: "V w1 = V (ts_w x)" "0 \<le> r1" using assms(4,5,16) unfolding law_stat_def stats_succeed_def
    by (blast, metis fst_conv option.discI)
  obtain r2 n2 t2 w2 where s2: "stat_mail R ?cl st dest w1 = (r2, n2, t2, w2)" by (metis prod_cases4)
  then have 2: "rd_stat R io dest w1 = (r2, n2, t2, w2)" using ready io by (simp add: stat_mail_def)
  then have v2: "V w2 = V (ts_w x)" "r2 < 0" using assms(4,5,17) v1(1) unfolding law_stat_def stats_succeed_def
    by (metis, metis fst_conv linorder_not_le)
  obtain st1 w3 where cp: "copy R ?cl st now src ?ns dest ?ns [] w2 = (0, st1, w3)"
    using copy_succeeds [OF assms(3) ready] by (metis prod.collapse)
  have eff: "V w3 = (V (ts_w x))(okey io dest \<mapsto> ob\<lparr>o_mtime := now\<rparr>)" "st1 = st\<lparr>st_io_ctx := set_namespace ?ns io\<rparr>"
    using copy_effect [OF assms(2) ready cp] assms(16) v2(1) io by (simp_all add: copy_ctx_def smap_put_all_def)
  have io1: "st_io_ctx st1 = io" by (simp add: eff(2) assms(15) set_namespace_def)
  have ne: "okey io src \<noteq> okey io dest" using assms(13) by (simp add: okey_def)
  obtain w4 where rm: "rd_remove R io src w3 = (0, w4)"
    using assms(7,16) ne unfolding removes_existing_def eff(1) by (metis fun_upd_other fun_upd_apply option.discI prod.collapse eff(1))
  then have "V w4 = (V w3)(okey io src := None)" using assms(6) unfolding law_remove_def by fastforce
  moreover have "delete_mail R ?cl st1 src w3 = (0, w4)"
    using rm io1 ready assms(14) eff(2) by (simp add: delete_mail_def storage_ready_def)
  moreover have "uid \<noteq> opt_get ''to_rename'' (ts_opts x)" using assms(11-13) by auto
  ultimately show ?thesis
    using s1 s2 v1(2) v2(2) cp eff(1) assms(9,13)
    by (simp add: rename_user_def Let_def ns assms(1) [symmetric] assms(11,12) [symmetric] st [symmetric])
qed

text \<open>
  Property C38: renaming from the command line. The user id the tool determines has the suffix of the user already, and renaming adds
  it once more: unless an object with the suffix twice exists, renaming fails and changes nothing, also when the user exists.
\<close>

theorem rename_appends_suffix_twice:
  assumes "law_stat (re_rados E) V" and "stats_succeed (re_rados E) V" and "opt_get ''namespace'' (ts_opts x) = name" and "name \<noteq> []"
    and "init_metadata_storage_module E cf (Some u) x = (Some kind, Some uid, x1)" and "suffix = jc_user_suffix (cf_config cf)"
    and "V (ts_w x1) (okey (set_namespace (jc_user_ns (cf_config cf)) (st_io_ctx (ts_st x1))) (name @ suffix @ suffix)) = None"
  shows "\<exists>y. rename_user E now (Some cf) confirmed uid x1 = (-1, y) \<and> V (ts_w y) = V (ts_w x1)"
proof -
  let ?st = "st_set_namespace (jc_user_ns (cf_config cf)) (ts_st x1)"
  have uid: "uid = name @ suffix"
    using assms(3-6) by (auto simp: init_metadata_storage_module_def Let_def split: prod.splits if_splits)
  obtain r n t w1 where s: "stat_mail (re_rados E) (ts_cl x1) ?st (name @ suffix @ suffix) (ts_w x1) = (r, n, t, w1)" by (metis prod_cases4)
  have "r < 0 \<and> V w1 = V (ts_w x1)"
  proof (cases "storage_ready (ts_cl x1) ?st")
    case True
    then have "rd_stat (re_rados E) (st_io_ctx ?st) (name @ suffix @ suffix) (ts_w x1) = (r, n, t, w1)" using s by (simp add: stat_mail_def)
    moreover have "st_io_ctx ?st = set_namespace (jc_user_ns (cf_config cf)) (st_io_ctx (ts_st x1))" by (simp add: st_set_namespace_def)
    ultimately show ?thesis using assms(1,2,7) unfolding law_stat_def stats_succeed_def by (metis fst_conv linorder_not_le)
  qed (use s in \<open>simp add: stat_mail_def\<close>)
  then show ?thesis using s by (auto simp: rename_user_def Let_def uid assms(6))
qed

text \<open>
  Property C39: sorting. Sorting by uid, by the received date or by the size leaves the mails as they are, because both values are read from
  the same mail; any other sort key sorts by the time of saving and keeps the order of equal times.
\<close>

theorem only_save_date_sorts:
  "sort_mails sort_string ms =
     (if sort_string \<in> {''uid'', ''recv_date'', ''phy_size''} then ms else sort_key m_save_date ms)"
proof -
  have never: "sort_uid = (\<lambda>_ _. False)" "sort_recv_date = (\<lambda>_ _. False)" "sort_phy_size = (\<lambda>_ _. False)"
    by (simp_all add: sort_uid_def sort_recv_date_def sort_phy_size_def sort_metadata_self less_u64_def)
  have "insert_by sort_save_date i ys = insort_key m_save_date i ys" for i ys
    by (induction ys) (auto simp: sort_save_date_def)
  then have "list_sort sort_save_date ms = sort_key m_save_date ms" by (induction ms) (simp_all add: list_sort_def)
  then show ?thesis by (auto simp: sort_mails_def never list_sort_never)
qed

subsection \<open>Witnesses\<close>

definition tool_client :: "mem client" where
  "tool_client = fixed_client [(''rados_osd_op_timeout'', ''30''), (''osd_max_write_size'', ''90''), (''osd_max_object_size'', ''1000'')] [''mails'']"

definition logged :: "save_log_entry list" where
  "logged = [save_log_entry_of ''o1'' ''ns'' ''mails'' op_save, save_log_entry_of ''o2'' ''ns'' ''mails'' op_cpy]"

definition logged_objects :: mem where
  "logged_objects = [((''mails'', ''ns'', ''o1''), empty_robj), ((''mails'', ''ns'', ''o2''), empty_robj), ((''mails'', ''ns'', ''o3''), empty_robj)]"

lemma tool_opens:
  "case open_connection3 tool_client ''mails'' ''ceph'' ''admin'' (initial_cluster []) new_storage logged_objects of
     Some (Inr r, cl1, st1, w) \<Rightarrow> 0 \<le> r \<and> storage_ready cl1 st1 \<and> st_pool_name st1 = ''mails'' \<and> cluster_ok cl1 \<and>
       st_io_ctx st1 = \<lparr>ctx_pool = ''mails'', ctx_ns = []\<rparr> \<and> w = logged_objects \<and> c_ref_count cl1 = 1
   | _ \<Rightarrow> False"
  by code_simp

theorem undo_removes_logged_witness:
  "\<exists>cl w. delete_with_save_log tool_client mem_rados 0 (Some (concat (map entry_write logged))) ''ceph'' ''admin'' (Some [])
       (initial_cluster []) logged_objects = Some (2, Some [], cl, w) \<and>
     \<not> c_connected cl \<and> c_ref_count cl = 0 \<and> map_of w (''mails'', ''ns'', ''o1'') = None \<and> map_of w (''mails'', ''ns'', ''o3'') = Some empty_robj"
proof -
  obtain r cl1 st1 where o: "open_connection3 tool_client ''mails'' ''ceph'' ''admin'' (initial_cluster []) new_storage logged_objects =
      Some (Inr r, cl1, st1, logged_objects)" "0 \<le> r" "storage_ready cl1 st1" "st_pool_name st1 = ''mails''" "cluster_ok cl1"
      "st_io_ctx st1 = \<lparr>ctx_pool = ''mails'', ctx_ns = []\<rparr>" "c_ref_count cl1 = 1"
    using tool_opens by (auto split: option.splits sum.splits prod.splits) (metis sum.exhaust)
  have l: "logged \<noteq> []" "\<forall>e \<in> set logged. entry_ok e \<and> undoable e \<and> e_pool e = ''mails''" "''mails'' \<noteq> []"
    by (simp_all add: logged_def save_log_entry_of_def empty_entry_def entry_ok_def csv_ok_def undoable_def op_save_def op_cpy_def)
  have k: "map (entry_key st1) logged = [(''mails'', ''ns'', ''o1''), (''mails'', ''ns'', ''o2'')]"
    by (simp add: logged_def entry_key_def o(6) set_namespace_def okey_def save_log_entry_of_def empty_entry_def)
  then have "distinct (map (entry_key st1) logged)" by simp
  moreover have "entry_key st1 ` set logged = {(''mails'', ''ns'', ''o1''), (''mails'', ''ns'', ''o2'')}" using arg_cong [OF k, of set] by simp
  moreover have "\<forall>e \<in> set logged. map_of logged_objects (entry_key st1 e) \<noteq> None"
    using k by (auto simp: logged_def logged_objects_def)
  moreover have "\<forall>w. map_of (cc_shutdown tool_client w) = map_of w" by (simp add: tool_client_def fixed_client_def)
  moreover have "length logged = 2" by (simp add: logged_def)
  ultimately show ?thesis
    using undo_removes_logged [OF mem_rados_laws(13) mem_answers(2) _ l o(1,2) refl o(3-5), of 0 "[]"]
    by (auto simp: logged_objects_def o(7))
qed

definition user_objects :: mem where
  "user_objects = [(([], ''users'', ''bob_u''), empty_robj\<lparr>o_data := ''ns1''\<rparr>)]"

definition tool_env :: "mem rmb_env" where
  "tool_env = \<lparr>re_json = flat_json, re_client = tool_client, re_rados = mem_rados,
     re_fs = \<lparr>fs_exists = \<lambda>_ _. True, fs_mkdir = \<lambda>_. Pair 0, fs_write = \<lambda>_ _. Pair True, fs_unlink = \<lambda>_. Pair 0, fs_rmdir = \<lambda>_. Pair 0\<rparr>,
     re_parse_date = \<lambda>_. None, re_fmt_date = int_to_string, re_aio_submit = \<lambda>_. 0, re_aio_order = id\<rparr>"

definition tool_state :: "mem \<Rightarrow> mem rmb_state" where
  "tool_state w = \<lparr>ts_cl = sample_cluster, ts_st = sample_storage,
     ts_opts = [(''namespace'', ''bob''), (''to_rename'', ''eve'')], ts_w = w\<rparr>"

definition mapping_config :: ceph_config where
  "mapping_config = \<lparr>cf_config = new_json_config\<lparr>jc_user_mapping := ''true''\<rparr>, cf_io_ctx = None\<rparr>"

lemma mapping_config_sel:
  "jc_user_suffix (cf_config mapping_config) = ''_u''" "jc_user_ns (cf_config mapping_config) = ''users''" "is_user_mapping mapping_config"
  by code_simp+

lemma tool_io: "set_namespace ns (st_io_ctx (ts_st (tool_state w))) = \<lparr>ctx_pool = [], ctx_ns = ns\<rparr>"
  by (simp add: tool_state_def sample_storage_def new_storage_def null_ctx_def set_namespace_def)

theorem rename_moves_user_witness:
  "\<exists>y. rename_user tool_env 9 (Some mapping_config) True ''bob'' (tool_state user_objects) = (0, y) \<and>
     map_of (ts_w y) ([], ''users'', ''eve_u'') = Some (empty_robj\<lparr>o_data := ''ns1'', o_mtime := 9\<rparr>) \<and>
     map_of (ts_w y) ([], ''users'', ''bob_u'') = None"
proof -
  let ?x = "tool_state user_objects" and ?io = "\<lparr>ctx_pool = [], ctx_ns = ''users''\<rparr>"
  have opts: "opt_get ''to_rename'' (ts_opts ?x) = ''eve''" "ts_w (tool_state w) = w" for w by (simp_all add: tool_state_def opt_get_def smap_get_def)
  have 1: "mem_rados = re_rados tool_env" by (simp add: tool_env_def)
  have 2: "storage_ready (ts_cl ?x) (ts_st ?x)" using sample_ready by (simp add: tool_state_def)
  have 3: "NUL \<notin> set (jc_user_ns (cf_config mapping_config))" "''bob_u'' = ''bob'' @ jc_user_suffix (cf_config mapping_config)"
      "''eve_u'' = opt_get ''to_rename'' (ts_opts ?x) @ jc_user_suffix (cf_config mapping_config)" "''bob_u'' \<noteq> ''eve_u''" "''bob_u'' \<noteq> []"
      "?io = set_namespace (jc_user_ns (cf_config mapping_config)) (st_io_ctx (ts_st ?x))"
    by (simp_all add: mapping_config_sel opts tool_io)
  have 4: "map_of (ts_w ?x) (okey ?io ''bob_u'') = Some (empty_robj\<lparr>o_data := ''ns1''\<rparr>)" "map_of (ts_w ?x) (okey ?io ''eve_u'') = None"
    by (simp_all add: opts user_objects_def okey_def)
  obtain y where "rename_user tool_env 9 (Some mapping_config) True ''bob'' ?x = (0, y)"
      "map_of (ts_w y) = (map_of (ts_w ?x))(okey ?io ''eve_u'' \<mapsto> empty_robj\<lparr>o_data := ''ns1'', o_mtime := 9\<rparr>, okey ?io ''bob_u'' := None)"
    using rename_moves_user [OF 1 mem_rados_laws(2) mem_aio_succeeds mem_rados_laws(6) mem_answers(1) mem_rados_laws(13) mem_answers(2) 2
        mapping_config_sel(3) 3 4, of 9] by blast
  then show ?thesis by (simp add: okey_def)
qed

theorem rename_appends_suffix_twice_witness:
  "\<exists>kind uid x1 y. init_metadata_storage_module tool_env mapping_config (Some []) (tool_state user_objects) = (Some kind, Some uid, x1) \<and>
     rename_user tool_env 9 (Some mapping_config) True uid x1 = (-1, y) \<and> map_of (ts_w y) ([], ''users'', ''bob_u'') \<noteq> None"
proof -
  let ?x = "tool_state user_objects"
  have i: "case init_metadata_storage_module tool_env mapping_config (Some []) ?x of
      (Some kind, Some uid, x1) \<Rightarrow> ts_w x1 = user_objects \<and> ctx_pool (st_io_ctx (ts_st x1)) = [] | _ \<Rightarrow> False"
    by code_simp
  then obtain kind uid x1 where m: "init_metadata_storage_module tool_env mapping_config (Some []) ?x = (Some kind, Some uid, x1)"
      "ts_w x1 = user_objects" "ctx_pool (st_io_ctx (ts_st x1)) = []"
    by (auto split: prod.splits option.splits)
  have o: "opt_get ''namespace'' (ts_opts ?x) = ''bob''" by (simp add: tool_state_def opt_get_def smap_get_def)
  have R: "re_rados tool_env = mem_rados" by (simp add: tool_env_def)
  have n: "map_of (ts_w x1) (okey (set_namespace (jc_user_ns (cf_config mapping_config)) (st_io_ctx (ts_st x1))) (''bob'' @ ''_u'' @ ''_u'')) = None"
    by (simp add: m(2,3) mapping_config_sel set_namespace_def okey_def user_objects_def)
  obtain y where "rename_user tool_env 9 (Some mapping_config) True uid x1 = (-1, y)" "map_of (ts_w y) = map_of (ts_w x1)"
    using rename_appends_suffix_twice [of tool_env map_of ?x "''bob''", OF _ _ o _ m(1) mapping_config_sel(1) [symmetric] n] mem_rados_laws(6) mem_answers(1) R
    by auto
  then show ?thesis using m by (auto simp: user_objects_def)
qed

end
