(* ===== verification/Rmb_Main.thy ===== *)
theory Rmb_Main
  imports Rmb_Commands
begin

text \<open>
  The \<open>main\<close> function of the \<open>rmb\<close> tool and its argument parser (\<open>src/src/librmb/tools/rmb/rmb.cpp\<close>).
\<close>

section \<open>Arguments\<close>

text \<open>The first two characters and everything from the first equals sign on are kept.\<close>

definition dashes_to_underscores :: "string \<Rightarrow> string" where
  "dashes_to_underscores s =
     take 2 s @ map (\<lambda>c. if c = CHR ''-'' then CHR ''_'' else c) (takeWhile (\<lambda>c. c \<noteq> CHR ''='') (drop 2 s)) @
     dropWhile (\<lambda>c. c \<noteq> CHR ''='') (drop 2 s)"

definition ceph_argparse_flag :: "string list \<Rightarrow> string \<Rightarrow> bool" where
  "ceph_argparse_flag names first \<longleftrightarrow> list_ex (\<lambda>a. dashes_to_underscores a = dashes_to_underscores first) names"

text \<open>The value follows an equals sign or is the next argument; \<open>rest\<close> are the arguments after this one.\<close>

datatype with_arg = No_Match | Missing_Argument | Match string "string list"

primrec va_ceph_argparse_witharg :: "string list \<Rightarrow> string \<Rightarrow> string list \<Rightarrow> with_arg" where
  "va_ceph_argparse_witharg [] first rest = No_Match"
| "va_ceph_argparse_witharg (a # names) first rest =
     (let a2 = dashes_to_underscores a; tmp = dashes_to_underscores first in
      if take (length a2) tmp = a2 then
        (case drop (length a) tmp of
           [] \<Rightarrow> (case rest of [] \<Rightarrow> Missing_Argument | v # rest1 \<Rightarrow> Match v rest1)
         | c # v \<Rightarrow> if c = CHR ''='' then Match v rest else va_ceph_argparse_witharg names first rest)
      else va_ceph_argparse_witharg names first rest)"

text \<open>The chain of conditions as a table: flags and options with a value, in the order they are tried.\<close>

datatype arg_flag = Version | Help | Debug | Config | Create | Show_Config | Confirmed

datatype arg_opt = Flag_Opt arg_flag string string | With_Opt string string string

definition arg_opts :: "arg_opt list" where
  "arg_opts =
     [Flag_Opt Version ''-v'' ''--version'', With_Opt ''pool'' ''-p'' ''--pool'', With_Opt ''namespace'' ''-N'' ''--namespace'',
      With_Opt ''out'' ''-O'' ''--out'', Flag_Opt Help ''-h'' ''--help'', With_Opt ''cfg_obj'' ''-o'' ''--object'',
      With_Opt ''clustername'' ''-c'' ''--cluster'', With_Opt ''rados_user'' ''-u'' ''--rados_user'',
      Flag_Opt Debug ''-D'' ''--debug'', With_Opt ''remove_save_log'' ''-r'' ''--remove'', With_Opt ''ls'' ''ls'' ''--ls'',
      With_Opt ''get'' ''get'' ''--get'', With_Opt ''set'' ''set'' ''--set'', With_Opt ''sort'' ''sort'' ''--sort'',
      Flag_Opt Config ''cfg'' ''--config'', With_Opt ''update'' ''update'' ''--update'', Flag_Opt Create ''create'' ''--create'',
      Flag_Opt Show_Config ''show'' ''--show'',
      Flag_Opt Confirmed ''-yes-i-really-really-mean-it'' ''--yes-i-really-really-mean-it'',
      With_Opt ''to_delete'' ''delete'' ''--delete'', With_Opt ''to_rename'' ''rename'' ''--rename'']"

record cmd_line =
  ca_opts :: "string smap"
  ca_metadata :: "string smap"
  ca_is_config :: bool
  ca_create_config :: bool
  ca_show_usage :: bool
  ca_confirmed :: bool

definition no_args :: cmd_line where
  "no_args = \<lparr>ca_opts = [], ca_metadata = [], ca_is_config = False, ca_create_config = False, ca_show_usage = False,
     ca_confirmed = False\<rparr>"

fun set_flag :: "arg_flag \<Rightarrow> cmd_line \<Rightarrow> cmd_line" where
  "set_flag Version c = c"
| "set_flag Help c = c\<lparr>ca_show_usage := True\<rparr>"
| "set_flag Debug c = c\<lparr>ca_opts := smap_put ''debug'' ''true'' (ca_opts c)\<rparr>"
| "set_flag Config c = c\<lparr>ca_is_config := True\<rparr>"
| "set_flag Create c = c\<lparr>ca_create_config := True\<rparr>"
| "set_flag Show_Config c = c\<lparr>ca_opts := smap_put ''print_cfg'' ''true'' (ca_opts c)\<rparr>"
| "set_flag Confirmed c = c\<lparr>ca_confirmed := True\<rparr>"

text \<open>The version ends the process with code 0, a missing value with code 1.\<close>

datatype arg_step = Unmatched | Exit int | Matched "string list" cmd_line

fun try_opts :: "arg_opt list \<Rightarrow> string \<Rightarrow> string list \<Rightarrow> cmd_line \<Rightarrow> arg_step" where
  "try_opts [] first rest c = Unmatched"
| "try_opts (Flag_Opt fl s l # os) first rest c =
     (if ceph_argparse_flag [s, l] first then if fl = Version then Exit 0 else Matched rest (set_flag fl c)
      else try_opts os first rest c)"
| "try_opts (With_Opt k s l # os) first rest c =
     (case va_ceph_argparse_witharg [s, l] first rest of
        No_Match \<Rightarrow> try_opts os first rest c
      | Missing_Argument \<Rightarrow> Exit 1
      | Match v rest1 \<Rightarrow> Matched rest1 (c\<lparr>ca_opts := smap_put k v (ca_opts c)\<rparr>))"

lemma witharg_shorter: "va_ceph_argparse_witharg names first rest = Match v rest1 \<Longrightarrow> length rest1 \<le> length rest"
  by (induction names) (auto simp: Let_def split: if_splits list.splits)

lemma try_opts_shorter: "try_opts os first rest c = Matched rest1 c1 \<Longrightarrow> length rest1 \<le> length rest"
  by (induction os first rest c rule: try_opts.induct)
    (auto dest: witharg_shorter split: if_splits with_arg.splits simp del: va_ceph_argparse_witharg.simps)

text \<open>
  The vector is \<open>done @ rest\<close>, the iterator points to the first element of \<open>rest\<close>; a matched argument and its value are erased from
  the vector. For an argument that is no option, the pair at \<open>idx\<close> becomes metadata, whatever the position of the iterator.
\<close>

function parse_loop :: "string list \<Rightarrow> string list \<Rightarrow> nat \<Rightarrow> cmd_line \<Rightarrow> int + string list \<times> cmd_line" where
  "parse_loop done [] idx c = Inr (done, c)"
| "parse_loop done (a # rest) idx c =
     (if a = ''--'' then Inr (done @ rest, c)
      else case try_opts arg_opts a rest c of
        Exit code \<Rightarrow> Inl code
      | Matched rest1 c1 \<Rightarrow> parse_loop done rest1 idx c1
      | Unmatched \<Rightarrow>
          let args = done @ a # rest in
          if idx + 1 < length args
          then parse_loop (done @ [a]) rest (idx + 2) (c\<lparr>ca_metadata := smap_put (args ! idx) (args ! (idx + 1)) (ca_metadata c)\<rparr>)
          else parse_loop (done @ [a]) rest (idx + 1) c)"
  by pat_completeness auto

termination
  by (relation "measure (\<lambda>(done, rest, idx, c). length rest)") (auto dest: try_opts_shorter)

definition parse_cmd_line_args :: "string list \<Rightarrow> int + string list \<times> cmd_line" where
  "parse_cmd_line_args args = parse_loop [] args 0 no_args"

section \<open>The main function\<close>

text \<open>
  The environment: besides the libraries, the content of a file (\<^const>\<open>None\<close> when it cannot be opened), the pools
  of the cluster, the home directory, the limit of a path, the current time, the byte \<^const>\<open>make_predicate\<close> may read,
  and what the memory of an empty argument vector holds (\<^const>\<open>None\<close>: nothing that can be read).
\<close>

record 'w main_env =
  me_rmb :: "'w rmb_env"
  me_read_file :: "string \<Rightarrow> 'w \<Rightarrow> string option"
  me_pool_list :: "'w \<Rightarrow> int \<times> string list \<times> 'w"
  me_home :: "string option"
  me_path_max :: nat
  me_now :: int
  me_garbage :: char
  me_stale :: "string option"

definition opt_or :: "string \<Rightarrow> string \<Rightarrow> string smap \<Rightarrow> string" where
  "opt_or k d opts = (case smap_get k opts of None \<Rightarrow> d | Some v \<Rightarrow> v)"

text \<open>The end of the process: the objects of the mails are freed and the cluster is given up.\<close>

definition release_exit :: "'w main_env \<Rightarrow> 'w rmb_state \<Rightarrow> 'w rmb_state option" where
  "release_exit M x =
     map_option (\<lambda>(cl1, w1). x\<lparr>ts_cl := cl1, ts_w := w1\<rparr>) (deinit (re_client (me_rmb M)) (ts_cl x) (ts_w x))"

definition show_mails :: "'w main_env \<Rightarrow> ceph_config \<Rightarrow> metadata_module_kind \<Rightarrow> string \<Rightarrow> string \<Rightarrow> cmd_parser \<Rightarrow> bool \<Rightarrow> 'w rmb_state \<Rightarrow>
    'w rmb_state option" where
  "show_mails M cf kind sort_type query parser download x =
     (case (if query = ''all'' \<or> query = ''-'' then (True, parser) else parse_ls_string (me_garbage M) parser) of (ok, p1) \<Rightarrow>
        if \<not> ok then Some x
        else case load_objects (me_rmb M) (cf_config cf) (Some kind) [] sort_type True x of None \<Rightarrow> None
        | Some (_, mails, x1) \<Rightarrow>
            map_option (\<lambda>(_, _, x2). x2) (query_mail_storage (me_rmb M) mails p1 download False x1))"

text \<open>
  The commands that need the mails of a user. After an error of \<^const>\<open>delete_namespace\<close> the mails are freed twice. The
  configuration that the metadata module points to is read as if it still existed.
\<close>

definition run_command :: "'w main_env \<Rightarrow> cmd_line \<Rightarrow> ceph_config \<Rightarrow> metadata_module_kind \<Rightarrow> string \<Rightarrow> 'w rmb_state \<Rightarrow> 'w rmb_state option" where
  "run_command M c cf kind uid x =
     (let E = me_rmb M; opts = ca_opts c; sort_type = opt_or ''sort'' ''uid'' opts in
      if smap_get ''to_delete'' opts \<noteq> None then
        if opt_get ''to_delete'' opts = ''-'' then
          case delete_namespace E (me_garbage M) (Some kind) [] (Some cf) (ca_confirmed c) x of None \<Rightarrow> None
          | Some (r, mails, x1) \<Rightarrow>
              if r < 0 then if mails \<noteq> [] then None else case release_exit M x1 of None \<Rightarrow> None | Some x2 \<Rightarrow> release_exit M x2
              else release_exit M x1
        else release_exit M (snd (rmb_delete_mail E (ca_confirmed c) x))
      else if smap_get ''to_rename'' opts \<noteq> None then
        release_exit M (snd (rename_user E (me_now M) (Some cf) (ca_confirmed c) uid x))
      else if smap_get ''ls'' opts \<noteq> None then
        case show_mails M cf kind sort_type (opt_get ''ls'' opts) (new_cmd_parser (opt_get ''ls'' opts)) False x of None \<Rightarrow> None
        | Some x1 \<Rightarrow> release_exit M x1
      else if smap_get ''get'' opts \<noteq> None then
        case show_mails M cf kind sort_type (opt_get ''get'' opts)
               (set_output_path (me_home M) (me_path_max M) opts (new_cmd_parser (opt_get ''get'' opts))) True x of None \<Rightarrow> None
        | Some x1 \<Rightarrow> release_exit M x1
      else if smap_get ''set'' opts \<noteq> None then
        case update_attributes E (cf_config cf) kind (ca_metadata c) x of None \<Rightarrow> None | Some (_, x1) \<Rightarrow> release_exit M x1
      else release_exit M x)"

text \<open>With a connection: the configuration is loaded or created, then changed, or the user's mails are worked on.\<close>

definition run_configured :: "'w main_env \<Rightarrow> cmd_line \<Rightarrow> 'w rmb_state \<Rightarrow> (int \<times> 'w rmb_state) option" where
  "run_configured M c x =
     (let E = me_rmb M; J = re_json E; R = re_rados E;
          name = opt_or ''cfg_obj'' (jc_cfg_object_name new_json_config) (ca_opts c);
          cf0 = \<lparr>cf_config = new_json_config\<lparr>jc_cfg_object_name := name\<rparr>, cf_io_ctx = Some (st_io_ctx (ts_st x))\<rparr> in
      case load_cfg J R cf0 (ts_w x) of None \<Rightarrow> None
      | Some (r, cf, w1) \<Rightarrow>
          let x1 = x\<lparr>ts_w := w1\<rparr> in
          if r < 0 then map_option (Pair 0) (release_exit M (if ca_create_config c then x1\<lparr>ts_w := snd (save_cfg J R cf w1)\<rparr> else x1))
          else if ca_is_config c then
            case configuration E (ca_confirmed c) cf x1 of (_, _, x2) \<Rightarrow> map_option (Pair 0) (release_exit M x2)
          else if smap_get ''namespace'' (ca_opts c) = None then Some (1, x1)
          else case init_metadata_storage_module E cf (Some []) x1 of
            (Some kind, Some uid, x2) \<Rightarrow> map_option (Pair 0) (run_command M c cf kind uid x2)
          | (_, _, x2) \<Rightarrow> map_option (Pair 0) (release_exit M x2))"

definition rmb_main :: "'w main_env \<Rightarrow> string list \<Rightarrow> cluster \<Rightarrow> 'w \<Rightarrow> (int \<times> cluster \<times> 'w) option" where
  "rmb_main M argv cl w =
     (case parse_cmd_line_args (tl argv) of
        Inl code \<Rightarrow> Some (code, cl, w)
      | Inr (args, c) \<Rightarrow>
        if ca_show_usage c \<or> args = [] \<and> ca_opts c = [] \<and> \<not> ca_is_config c then Some (1, cl, w)
        else case (case args of a # _ \<Rightarrow> Some a | [] \<Rightarrow> me_stale M) of None \<Rightarrow> None
        | Some first \<Rightarrow>
          let E = me_rmb M; C = re_client E; opts = ca_opts c;
              rados_cluster = opt_or ''clustername'' ''ceph'' opts; rados_user = opt_or ''rados_user'' ''client.admin'' opts;
              remove_save_log = opt_or ''remove_save_log'' [] opts in
          if remove_save_log \<noteq> [] then
            if ca_confirmed c then
              map_option (\<lambda>(r, _, cl1, w1). (r, cl1, w1))
                (delete_with_save_log C (re_rados E) (me_now M) (me_read_file M remove_save_log w) rados_cluster rados_user (Some []) cl w)
            else Some (0, cl, w)
          else if first = ''lspools'' then map_option (\<lambda>(r, _, cl1, w1). (r, cl1, w1)) (lspools C (me_pool_list M) cl w)
          else case open_connection3 C (opt_or ''pool'' ''mail_storage'' opts) rados_cluster rados_user cl new_storage w of
            Some (Inr r, cl1, st1, w1) \<Rightarrow>
              if r < 0 then map_option (\<lambda>(cl2, w2). (-1, cl2, w2)) (deinit C cl1 w1)
              else map_option (\<lambda>(code, x). (code, ts_cl x, ts_w x))
                (run_configured M c \<lparr>ts_cl = cl1, ts_st = st1, ts_opts = opts, ts_w = w1\<rparr>)
          | _ \<Rightarrow> None)"

section \<open>Lemmas on the argument parser\<close>

text \<open>The key of an option with a value, by one of its names; words that are no option; pairs of words.\<close>

fun opt_key_in :: "arg_opt list \<Rightarrow> string \<Rightarrow> string option" where
  "opt_key_in [] n = None"
| "opt_key_in (Flag_Opt _ _ _ # os) n = opt_key_in os n"
| "opt_key_in (With_Opt k s l # os) n = (if n = s \<or> n = l then Some k else opt_key_in os n)"

definition opt_key :: "string \<Rightarrow> string option" where
  "opt_key = opt_key_in arg_opts"

definition plain_arg :: "string \<Rightarrow> bool" where
  "plain_arg a \<longleftrightarrow> a \<noteq> ''--'' \<and> try_opts arg_opts a [] no_args = Unmatched"

fun flat_pairs :: "('a \<times> 'a) list \<Rightarrow> 'a list" where
  "flat_pairs [] = []"
| "flat_pairs ((a, b) # ps) = a # b # flat_pairs ps"

fun pairs_of :: "'a list \<Rightarrow> ('a \<times> 'a) list" where
  "pairs_of (a # b # xs) = (a, b) # pairs_of xs"
| "pairs_of _ = []"

lemma pairs_of_flat [simp]: "pairs_of (flat_pairs ps) = ps"
  by (induction ps rule: flat_pairs.induct) simp_all

lemma length_flat_pairs [simp]: "length (flat_pairs ps) = 2 * length ps"
  by (induction ps rule: flat_pairs.induct) simp_all

lemma set_flat_pairs: "set (flat_pairs ps) = fst ` set ps \<union> snd ` set ps"
  by (induction ps rule: flat_pairs.induct) auto

lemma witharg_no_match: "va_ceph_argparse_witharg names a rest = No_Match \<longleftrightarrow> va_ceph_argparse_witharg names a [] = No_Match"
  by (induction names) (auto simp: Let_def split: list.splits)

lemma try_opts_unmatched: "try_opts os a rest c = Unmatched \<longleftrightarrow> try_opts os a [] no_args = Unmatched"
proof (induction os)
  case (Cons opt os)
  show ?case
  proof (cases opt)
    case (With_Opt k s l)
    then show ?thesis using Cons witharg_no_match [of "[s, l]" a rest]
      by (auto split: with_arg.splits simp del: va_ceph_argparse_witharg.simps)
  qed (use Cons in auto)
qed simp

lemma plain_unmatched: "plain_arg a \<Longrightarrow> a \<noteq> ''--'' \<and> try_opts arg_opts a rest c = Unmatched"
  using try_opts_unmatched [of arg_opts a rest c] by (simp add: plain_arg_def)

text \<open>The option that an argument without an equals sign selects.\<close>

fun matched_key :: "arg_opt list \<Rightarrow> string \<Rightarrow> string option" where
  "matched_key [] n = None"
| "matched_key (Flag_Opt fl s l # os) n = (if ceph_argparse_flag [s, l] n then None else matched_key os n)"
| "matched_key (With_Opt k s l # os) n =
     (case va_ceph_argparse_witharg [s, l] n [] of No_Match \<Rightarrow> matched_key os n | Missing_Argument \<Rightarrow> Some k | Match _ _ \<Rightarrow> None)"

lemma witharg_next: "va_ceph_argparse_witharg names n [] = Missing_Argument \<Longrightarrow> va_ceph_argparse_witharg names n (v # rest) = Match v rest"
  by (induction names) (auto simp: Let_def split: list.splits if_splits)

lemma matched_key_matches:
  "matched_key os n = Some k \<Longrightarrow> try_opts os n (v # rest) c = Matched rest (c\<lparr>ca_opts := smap_put k v (ca_opts c)\<rparr>)"
proof (induction os)
  case (Cons opt os)
  then show ?case
  proof (cases opt)
    case (With_Opt k' s l)
    then show ?thesis using Cons witharg_no_match [of "[s, l]" n "v # rest"] witharg_next [of "[s, l]" n v rest]
      by (auto split: with_arg.splits simp del: va_ceph_argparse_witharg.simps)
  qed (auto split: if_splits)
qed simp

lemma opt_key_in_names:
  "opt_key_in os n = Some k \<Longrightarrow> n \<in> set (concat (map (\<lambda>opt. case opt of With_Opt _ s l \<Rightarrow> [s, l] | _ \<Rightarrow> []) os))"
  by (induction os n rule: opt_key_in.induct) (auto split: if_splits)

lemma opt_key_matched: "opt_key n = Some k \<Longrightarrow> matched_key arg_opts n = Some k \<and> n \<noteq> ''--''"
proof -
  have "\<forall>n \<in> set (concat (map (\<lambda>opt. case opt of With_Opt _ s l \<Rightarrow> [s, l] | _ \<Rightarrow> []) arg_opts)).
      matched_key arg_opts n = opt_key_in arg_opts n \<and> n \<noteq> ''--''"
    by code_simp
  then show "opt_key n = Some k \<Longrightarrow> ?thesis" using opt_key_in_names [of arg_opts n k] unfolding opt_key_def by metis
qed

lemma opt_key_matches:
  assumes "opt_key n = Some k"
  shows "n \<noteq> ''--'' \<and> try_opts arg_opts n (v # rest) c = Matched rest (c\<lparr>ca_opts := smap_put k v (ca_opts c)\<rparr>)"
  using opt_key_matched [OF assms] matched_key_matches by blast

lemma parse_plain:
  assumes "\<forall>a \<in> set rest. plain_arg a"
  shows "parse_loop done rest idx c = Inr (done @ rest,
     c\<lparr>ca_metadata := smap_put_all (take (length rest) (pairs_of (drop idx (done @ rest)))) (ca_metadata c)\<rparr>)"
  using assms
proof (induction rest arbitrary: "done" idx c)
  case (Cons a rest)
  let ?args = "done @ a # rest"
  have u: "a \<noteq> ''--''" "try_opts arg_opts a rest c = Unmatched" using Cons.prems plain_unmatched by auto
  show ?case
  proof (cases "idx + 1 < length ?args")
    case True
    then have "drop idx ?args = ?args ! idx # ?args ! (idx + 1) # drop (idx + 2) ?args"
      by (metis Cons_nth_drop_Suc Suc_eq_plus1 Suc_lessD add_2_eq_Suc')
    then show ?thesis using u True Cons.IH [of "done @ [a]" "idx + 2"] Cons.prems
      by (simp add: smap_put_all_def Let_def)
  next
    case False
    then have "length (drop idx ?args) \<le> 1" "length (drop (idx + 1) ?args) \<le> 1" by auto
    then have "pairs_of (drop idx ?args) = []" "pairs_of (drop (idx + 1) ?args) = []"
      by (metis (no_types) One_nat_def Suc_le_mono le_zero_eq length_Cons length_greater_0_conv list.exhaust nat.simps(3) not_less pairs_of.simps(2,3))+
    then show ?thesis using u False Cons.IH [of "done @ [a]" "idx + 1"] Cons.prems
      by (simp add: smap_put_all_def Let_def)
  qed
qed (simp add: smap_put_all_def)

lemma parse_options:
  assumes "\<forall>(n, v) \<in> set os. opt_key n \<noteq> None"
  shows "parse_loop [] (flat_pairs os @ rest) idx c =
    parse_loop [] rest idx (c\<lparr>ca_opts := smap_put_all (map (\<lambda>(n, v). (the (opt_key n), v)) os) (ca_opts c)\<rparr>)"
  using assms
proof (induction os arbitrary: c rule: flat_pairs.induct)
  case (2 n v os)
  then obtain k where k: "opt_key n = Some k" by auto
  then show ?case using 2 opt_key_matches [OF k, of v "flat_pairs os @ rest" c] by (simp add: smap_put_all_def)
qed (simp add: smap_put_all_def)

section \<open>Calls that change no object\<close>

text \<open>
  Calls of librados that only read, or that configure and connect the client, change no object of the observer \<open>V\<close>; neither do
  the files of the host.
\<close>

definition quiet_client :: "'w client \<Rightarrow> ('w \<Rightarrow> 'v) \<Rightarrow> bool" where
  "quiet_client C V \<longleftrightarrow> (\<forall>w. V (snd (cc_init C w)) = V w) \<and> (\<forall>u c w. V (snd (cc_init2 C u c w)) = V w) \<and>
     (\<forall>w. V (snd (cc_conf_parse_env C w)) = V w) \<and> (\<forall>w. V (snd (cc_conf_read_file C w)) = V w) \<and>
     (\<forall>k w. V (snd (snd (cc_conf_get C k w))) = V w) \<and> (\<forall>k v w. V (snd (cc_conf_set C k v w)) = V w) \<and>
     (\<forall>w. V (snd (cc_connect C w)) = V w) \<and> (\<forall>w. V (cc_shutdown C w) = V w) \<and>
     (\<forall>w. V (snd (snd (cc_pool_list2 C w))) = V w) \<and> (\<forall>p w. V (snd (cc_pool_create C p w)) = V w) \<and>
     (\<forall>p w. V (snd (snd (cc_ioctx_create C p w))) = V w)"

definition quiet_reads :: "'w rados \<Rightarrow> ('w \<Rightarrow> obj_key \<rightharpoonup> robj) \<Rightarrow> bool" where
  "quiet_reads R V \<longleftrightarrow> law_read R V \<and> law_stat R V \<and> law_getxattrs R V \<and> law_omap_get_keys R V \<and> law_omap_get_vals R V"

definition quiet_files :: "'w host_fs \<Rightarrow> ('w \<Rightarrow> 'v) \<Rightarrow> bool" where
  "quiet_files F V \<longleftrightarrow> (\<forall>p w. V (snd (fs_mkdir F p w)) = V w) \<and> (\<forall>p d w. V (snd (fs_write F p d w)) = V w)"

lemma quiet_clientD:
  assumes "quiet_client C V"
  shows "V (snd (cc_init C w)) = V w" "V (snd (cc_init2 C u c w)) = V w" "V (snd (cc_conf_parse_env C w)) = V w"
    "V (snd (cc_conf_read_file C w)) = V w" "V (snd (snd (cc_conf_get C k w))) = V w" "V (snd (cc_conf_set C k v w)) = V w"
    "V (snd (cc_connect C w)) = V w" "V (cc_shutdown C w) = V w" "V (snd (snd (cc_pool_list2 C w))) = V w"
    "V (snd (cc_pool_create C p w)) = V w" "V (snd (snd (cc_ioctx_create C p w))) = V w"
  using assms unfolding quiet_client_def by blast+

lemma set_client_options_keeps: "quiet_client C V \<Longrightarrow> V (set_client_options C opts w) = V w"
  by (induction C opts w rule: set_client_options.induct) (simp_all add: quiet_clientD)

lemma initialize_keeps: "quiet_client C V \<Longrightarrow> V (snd (initialize C cl w)) = V w"
  by (simp add: initialize_def mount_timeout_def op_timeout_def Let_def split_beta set_client_options_keeps quiet_clientD)

lemma init_keeps: "quiet_client C V \<Longrightarrow> V (snd (snd (init_user cn un C cl w))) = V w" "quiet_client C V \<Longrightarrow> V (snd (snd (init C cl w))) = V w"
  by (simp_all add: init_user_def init_def init_with_def Let_def split_beta initialize_keeps quiet_clientD)

lemma connect_keeps: "connect C cl w = Some (r, cl', w') \<Longrightarrow> quiet_client C V \<Longrightarrow> V w' = V w"
  using quiet_clientD(7) [of C V w] by (auto simp: connect_def split: if_splits prod.splits)

lemma deinit_keeps_view: "deinit C cl w = Some (cl', w') \<Longrightarrow> quiet_client C V \<Longrightarrow> V w' = V w"
  by (auto simp: deinit_def Let_def quiet_clientD split: if_splits)

lemma pool_create_keeps: "pool_create C pool cl w = Some (r, cl', w') \<Longrightarrow> quiet_client C V \<Longrightarrow> V w' = V w"
  by (auto simp: pool_create_def split_beta quiet_clientD dest!: connect_keeps split: option.splits if_splits)

lemma ioctx_of_pool_keeps: "ioctx_of_pool C pool io cl w = Some (r, io', cl', w') \<Longrightarrow> quiet_client C V \<Longrightarrow> V w' = V w"
  by (auto simp: ioctx_of_pool_def split_beta quiet_clientD dest!: pool_create_keeps split: option.splits if_splits)

lemma io_ctx_create_keeps: "io_ctx_create C pool io cl w = Some (r, io', cl', w') \<Longrightarrow> quiet_client C V \<Longrightarrow> V w' = V w"
  by (auto simp: io_ctx_create_def dest!: connect_keeps ioctx_of_pool_keeps split: option.splits if_splits)

lemma recovery_keeps: "recovery_index_io_ctx C pool io cl w = Some (r, io', cl', w') \<Longrightarrow> quiet_client C V \<Longrightarrow> V w' = V w"
  by (auto simp: recovery_index_io_ctx_def dest!: ioctx_of_pool_keeps split: if_splits)

lemma get_config_option_keeps: "get_config_option C k cl w = Some (r, v, w') \<Longrightarrow> quiet_client C V \<Longrightarrow> V w' = V w"
  using quiet_clientD(5) [of C V k w] by (auto simp: get_config_option_def split: if_splits)

lemma create_connection_keeps:
  assumes "create_connection C p ip cl st w = Some (r, cl', st', w')" and q: "quiet_client C V"
  shows "V w' = V w"
proof -
  obtain e io cl1 w1 where 1: "io_ctx_create C p (st_io_ctx st) cl w = Some (e, io, cl1, w1)"
    using assms(1) by (auto simp: create_connection_def split: option.splits)
  note v1 = io_ctx_create_keeps [OF 1 q]
  show ?thesis
  proof (cases "e < 0")
    case True
    then show ?thesis using assms(1) 1 v1 by (simp add: create_connection_def)
  next
    case False
    let ?io = "st_recovery_ctx (st\<lparr>st_io_ctx := io\<rparr>)"
    obtain e2 rio cl2 w2 where 2: "recovery_index_io_ctx C ip ?io cl1 w1 = Some (e2, rio, cl2, w2)"
      using assms(1) 1 False by (auto simp: create_connection_def split: option.splits)
    note v2 = recovery_keeps [OF 2 q]
    show ?thesis using assms(1) 1 2 False v1 v2 unfolding create_connection_def
      by (auto simp: Let_def dest!: get_config_option_keeps [OF _ q] split: option.split_asm sum.split_asm if_split_asm)
  qed
qed

lemma open_connection3_keeps: "open_connection3 C p cn un cl st w = Some (r, cl', st', w') \<Longrightarrow> quiet_client C V \<Longrightarrow> V w' = V w"
  using init_keeps(1) [of C V cn un cl w] by (auto simp: open_connection3_def dest!: create_connection_keeps split: if_splits prod.splits)

lemma lspools_keeps:
  assumes "lspools C pl cl w = Some (r, l, cl', w')" and q: "quiet_client C V" and "\<forall>w. V (snd (snd (pl w))) = V w"
  shows "V w' = V w"
proof -
  obtain r1 cl1 w1 where 1: "init C cl w = (r1, cl1, w1)" by (metis prod_cases3)
  then have v1: "V w1 = V w" using init_keeps(2) [OF q, of cl w] by simp
  show ?thesis using assms(1,3) 1 v1
    by (auto simp: lspools_def split_beta dest!: connect_keeps [OF _ q] deinit_keeps_view [OF _ q] split: option.split_asm if_split_asm)
qed

lemma quiet_readsD:
  assumes "quiet_reads R V"
  shows "V (snd (snd (rd_read R io oid w))) = V w" "V (snd (snd (snd (rd_stat R io oid w)))) = V w"
    "V (snd (snd (rd_getxattrs R io oid w))) = V w" "V (snd (snd (rd_omap_get_keys R io oid w))) = V w"
    "V (snd (snd (rd_omap_get_vals_by_keys R io oid ks w))) = V w"
  using assms unfolding quiet_reads_def law_read_def law_stat_def law_getxattrs_def law_omap_get_keys_def law_omap_get_vals_def
  by (metis prod.collapse)+

lemma read_object_keeps: "quiet_reads R V \<Longrightarrow> V (snd (snd (read_object R c oid w))) = V w"
  using read_retry_data [of R V] by (auto simp: read_object_def quiet_reads_def split: option.split) (metis prod.collapse)

lemma load_cfg_keeps: "load_cfg J R c w = Some (r, c', w') \<Longrightarrow> quiet_reads R V \<Longrightarrow> V w' = V w"
  using read_object_keeps [of R V c "jc_cfg_object_name (cf_config c)" w]
  by (auto simp: load_cfg_def split: if_splits prod.splits option.splits)

lemma lookup_key_keeps: "quiet_reads R V \<Longrightarrow> V (snd (snd (snd (lookup_key R uid value m w)))) = V w"
  using read_object_keeps by (auto simp: lookup_key_def Let_def split_beta split: option.split)

lemma get_all_keeps: "quiet_reads R V \<Longrightarrow> V (snd (snd (get_all_keys_and_values R io oid kv w))) = V w"
  by (simp add: get_all_keys_and_values_def split_beta quiet_readsD)

lemma module_load_keeps:
  assumes "module_load J R cfg kind io m w = Some (r, m', w')" and q: "quiet_reads R V"
  shows "V w' = V w"
proof (cases kind)
  case Module_Ima
  obtain r1 a w1 where g: "getxattrs_retry R io (m_oid m) 10 (-1) w = (r1, a, w1)" by (metis prod_cases3)
  have v1: "V w1 = V w" using getxattrs_retry_data [OF _ g, of V] q by (simp add: quiet_reads_def)
  have "V (snd (snd (get_all_keys_and_values R io oid kv w1))) = V w" for oid kv using get_all_keeps [OF q] v1 by simp
  then show ?thesis using assms(1) v1 unfolding Module_Ima module_load_def ima_load_metadata_def metadata_module_kind.case g prod.case Let_def
    by (auto split: if_split_asm option.split_asm prod.split_asm) (metis snd_conv)+
next
  case Module_Default
  obtain r1 a w1 where g: "rd_getxattrs R io (m_oid m) w = (r1, a, w1)" by (metis prod_cases3)
  then have v1: "V w1 = V w" using q by (auto simp: quiet_reads_def law_getxattrs_def)
  have "V (snd (snd (get_all_keys_and_values R io oid kv w1))) = V w" for oid kv using get_all_keeps [OF q] v1 by simp
  then show ?thesis using assms(1) v1 unfolding Module_Default module_load_def default_load_metadata_def metadata_module_kind.case g prod.case Let_def
    by (auto split: if_split_asm prod.split_asm) (metis snd_conv)+
qed

lemma aio_cb_keeps:
  assumes "aio_cb E cfg kind io lm oid w = Some (m, w')" and q: "quiet_reads (re_rados E) V"
  shows "V w' = V w"
  using assms(1) by (auto simp: aio_cb_def Let_def split_beta quiet_readsD [OF q] dest!: module_load_keeps [OF _ q] split: if_splits)

lemma complete_all_keeps:
  assumes "complete_all E cfg kind io lm oids w = Some (ms, w')" and q: "quiet_reads (re_rados E) V"
  shows "V w' = V w"
  using assms(1) by (induction oids arbitrary: w ms) (auto dest!: aio_cb_keeps [OF _ q] split: option.splits)

lemma load_objects_keeps:
  assumes "load_objects E cfg ms mo so lm x = Some (r, ml, x')" and q: "quiet_reads (re_rados E) V"
  shows "V (ts_w x') = V (ts_w x)"
  using assms(1) by (auto simp: load_objects_def Let_def dest!: complete_all_keeps [OF _ q] split: option.splits)

lemma init_metadata_keeps:
  "quiet_reads (re_rados E) V \<Longrightarrow> V (ts_w (snd (snd (init_metadata_storage_module E cf uid x)))) = V (ts_w x)"
  by (auto simp: init_metadata_storage_module_def Let_def split_beta lookup_key_keeps split: option.splits)

lemma init_mailbox_dir_keeps: "quiet_files F V \<Longrightarrow> V (snd (init_mailbox_dir F b p w)) = V w"
  by (simp add: init_mailbox_dir_def make_dir_def split_beta quiet_files_def)

lemma save_mail_file_keeps: "save_mail_file F p m w = Some (r, w') \<Longrightarrow> quiet_files F V \<Longrightarrow> V w' = V w"
  by (auto simp: save_mail_file_def split_beta quiet_files_def split: option.splits if_splits)

lemma download_keeps:
  assumes "download_mails E p ms x = Some x'" and r: "quiet_reads (re_rados E) V" and f: "quiet_files (re_fs E) V"
  shows "V (ts_w x') = V (ts_w x)"
  using assms(1)
proof (induction ms arbitrary: x)
  case (Cons m ms)
  have "V (snd (snd (read_mail (re_rados E) (ts_cl x) (ts_st x) (m_oid m) (ts_w x)))) = V (ts_w x)"
    by (simp add: read_mail_def quiet_readsD [OF r])
  then show ?case using Cons
    by (auto simp: split_beta dest!: save_mail_file_keeps [OF _ f] split: if_splits option.splits)
qed simp

lemma print_mail_keeps:
  assumes "quiet_reads (re_rados E) V" and "quiet_files (re_fs E) V"
  shows "print_mail E bs d dl x = Some (r, t, x') \<Longrightarrow> V (ts_w x') = V (ts_w x)"
proof (induction bs arbitrary: x t)
  case (Cons gb bs)
  obtain g b where gb: "gb = (g, b)" by (cases gb)
  then show ?case using Cons init_mailbox_dir_keeps [OF assms(2)]
    by (auto simp: Let_def split_beta dest!: download_keeps [OF _ assms] split: if_splits option.splits)
qed simp

lemma query_keeps:
  assumes "query_mail_storage E ms c dl sl x = Some (r, t, x')" and "quiet_reads (re_rados E) V" and "quiet_files (re_fs E) V"
  shows "V (ts_w x') = V (ts_w x)"
  using assms(1) by (auto simp: query_mail_storage_def dest!: print_mail_keeps [OF assms(2,3)] split: option.splits if_splits)

text \<open>Commands without confirmation.\<close>

lemma rmb_delete_mail_unconfirmed: "rmb_delete_mail E False x = (-1, x)"
  by (simp add: rmb_delete_mail_def)

lemma delete_listed_unconfirmed: "ts_w (delete_listed E False ms x) = ts_w x"
  by (induction ms arbitrary: x) (simp_all add: rmb_delete_mail_unconfirmed)

lemma delete_namespace_unconfirmed:
  assumes "delete_namespace E g ms mo cf False x = Some (r, ml, x')" and q: "quiet_reads (re_rados E) V"
  shows "V (ts_w x') = V (ts_w x)"
  using assms(1)
  by (auto simp: delete_namespace_def Let_def rmb_delete_mail_unconfirmed delete_listed_unconfirmed
      dest!: load_objects_keeps [OF _ q] split: option.splits if_splits)

lemma rename_unconfirmed: "rename_user E now cf False uid x = (-1, x)"
  by (simp add: rename_user_def Let_def split: option.split)

lemma configuration_unconfirmed: "snd (snd (configuration E False cf x)) = x"
  by (simp add: configuration_def Let_def)

text \<open>What the environment of the tool promises about calls that are not meant to change objects.\<close>

definition quiet_env :: "'w main_env \<Rightarrow> ('w \<Rightarrow> obj_key \<rightharpoonup> robj) \<Rightarrow> bool" where
  "quiet_env M V \<longleftrightarrow> quiet_client (re_client (me_rmb M)) V \<and> quiet_reads (re_rados (me_rmb M)) V \<and>
     quiet_files (re_fs (me_rmb M)) V \<and> (\<forall>w. V (snd (snd (me_pool_list M w))) = V w)"

lemma quiet_envD:
  assumes "quiet_env M V"
  shows "quiet_client (re_client (me_rmb M)) V" "quiet_reads (re_rados (me_rmb M)) V" "quiet_files (re_fs (me_rmb M)) V"
    "V (snd (snd (me_pool_list M w))) = V w"
  using assms by (simp_all add: quiet_env_def)

lemma release_keeps: "release_exit M x = Some x' \<Longrightarrow> quiet_env M V \<Longrightarrow> V (ts_w x') = V (ts_w x)"
  using deinit_keeps_view [OF _ quiet_envD(1)] by (fastforce simp: release_exit_def)

lemma show_mails_keeps:
  assumes "show_mails M cf k so q p d x = Some x'" and "quiet_env M V"
  shows "V (ts_w x') = V (ts_w x)"
  using assms(1)
  by (auto simp: show_mails_def split_beta dest!: load_objects_keeps [OF _ quiet_envD(2) [OF assms(2)]]
      query_keeps [OF _ quiet_envD(2,3) [OF assms(2)]] split: option.splits if_splits)

lemma run_command_unconfirmed:
  assumes "run_command M c cf k uid x = Some x'" and q: "quiet_env M V" and "\<not> ca_confirmed c" and "smap_get ''set'' (ca_opts c) = None"
  shows "V (ts_w x') = V (ts_w x)"
proof -
  have r: "quiet_reads (re_rados (me_rmb M)) V" using q by (simp add: quiet_env_def)
  show ?thesis using assms(1,3,4)
    by (auto simp: run_command_def Let_def rmb_delete_mail_unconfirmed rename_unconfirmed
        dest!: release_keeps [OF _ q] show_mails_keeps [OF _ q] delete_namespace_unconfirmed [OF _ r] split: if_split_asm option.split_asm)
qed

lemma run_configured_unconfirmed:
  assumes "run_configured M c x = Some (r, x')" and q: "quiet_env M V" and "\<not> ca_confirmed c" and "smap_get ''set'' (ca_opts c) = None"
    and "\<not> ca_create_config c"
  shows "V (ts_w x') = V (ts_w x)"
proof -
  have r: "quiet_reads (re_rados (me_rmb M)) V" using q by (simp add: quiet_env_def)
  show ?thesis using assms(1,3-5)
    by (auto simp: run_configured_def Let_def split_beta configuration_unconfirmed init_metadata_keeps [OF r]
        dest!: load_cfg_keeps [OF _ r] release_keeps [OF _ q] run_command_unconfirmed [OF _ q]
        split: if_split_asm option.split_asm prod.split_asm)
qed

section \<open>Properties\<close>

text \<open>
  Property C14: nothing without confirmation. When the tool is run without \<open>--yes-i-really-really-mean-it\<close>, no matter with which command except
  \<open>set\<close> and \<open>create\<close>, and the run ends regularly, every object in the cluster is as before.
\<close>

theorem unconfirmed_run_changes_nothing:
  assumes "quiet_env M V" and "parse_cmd_line_args (tl argv) = Inr (args, c)" and "\<not> ca_confirmed c"
    and "smap_get ''set'' (ca_opts c) = None" and "\<not> ca_create_config c" and "rmb_main M argv cl w = Some (code, cl', w')"
  shows "V w' = V w"
proof -
  have l: "\<forall>w. V (snd (snd (me_pool_list M w))) = V w" using quiet_envD(4) [OF assms(1)] by blast
  show ?thesis using assms(2-6)
    by (auto simp: rmb_main_def Let_def dest!: lspools_keeps [OF _ quiet_envD(1) [OF assms(1)] l]
        open_connection3_keeps [OF _ quiet_envD(1) [OF assms(1)]] deinit_keeps_view [OF _ quiet_envD(1) [OF assms(1)]]
        run_configured_unconfirmed [OF _ assms(1)] split: if_split_asm option.split_asm list.split_asm sum.split_asm prod.split_asm)
qed

definition tool_main :: "mem main_env" where
  "tool_main = \<lparr>me_rmb = tool_env, me_read_file = \<lambda>_ _. None, me_pool_list = \<lambda>w. (0, [''mails''], w), me_home = None, me_path_max = 4096,
     me_now = 9, me_garbage = NUL, me_stale = Some ''bob''\<rparr>"

definition tool_cluster_objects :: mem where
  "tool_cluster_objects = [((''mails'', [], ''rbox_cfg''), empty_robj\<lparr>o_data := snd (to_json flat_json new_json_config)\<rparr>),
     ((''mails'', ''bob'', ''o1''), empty_robj\<lparr>o_data := ''mail''\<rparr>)]"

theorem unconfirmed_run_changes_nothing_witness:
  "\<exists>cl' w'. rmb_main tool_main [''rmb'', ''-p'', ''mails'', ''-N'', ''bob'', ''delete'', ''o1''] (initial_cluster []) tool_cluster_objects =
     Some (0, cl', w') \<and> map_of w' = map_of tool_cluster_objects"
proof -
  let ?argv = "[''rmb'', ''-p'', ''mails'', ''-N'', ''bob'', ''delete'', ''o1'']"
  have q: "quiet_env tool_main map_of"
    using mem_rados_laws
    by (simp add: quiet_env_def quiet_client_def quiet_reads_def quiet_files_def tool_main_def tool_env_def tool_client_def fixed_client_def split: option.split)
  have p: "parse_cmd_line_args (tl ?argv) = Inr ([], no_args\<lparr>ca_opts := [(''namespace'', ''bob''), (''pool'', ''mails''), (''to_delete'', ''o1'')]\<rparr>)"
    by code_simp
  have s: "\<not> ca_confirmed (no_args\<lparr>ca_opts := [(''namespace'', ''bob''), (''pool'', ''mails''), (''to_delete'', ''o1'')]\<rparr>)"
    "smap_get ''set'' (ca_opts (no_args\<lparr>ca_opts := [(''namespace'', ''bob''), (''pool'', ''mails''), (''to_delete'', ''o1'')]\<rparr>)) = None"
    "\<not> ca_create_config (no_args\<lparr>ca_opts := [(''namespace'', ''bob''), (''pool'', ''mails''), (''to_delete'', ''o1'')]\<rparr>)"
    by code_simp+
  have "map_option fst (rmb_main tool_main ?argv (initial_cluster []) tool_cluster_objects) = Some 0" by code_simp
  then obtain cl' w' where r: "rmb_main tool_main ?argv (initial_cluster []) tool_cluster_objects = Some (0, cl', w')" by auto
  show ?thesis using unconfirmed_run_changes_nothing [OF q p s r] r by blast
qed

text \<open>
  The command line. Options with their values, followed by words that are no options, are read as exactly these
  options and, pairwise, as metadata; the words stay in the vector.
\<close>

theorem cmd_line_roundtrip:
  assumes "\<forall>(n, v) \<in> set os. opt_key n \<noteq> None" and "\<forall>(k, v) \<in> set kvs. plain_arg k \<and> plain_arg v"
  shows "parse_cmd_line_args (flat_pairs os @ flat_pairs kvs) = Inr (flat_pairs kvs, no_args
    \<lparr>ca_opts := smap_put_all (map (\<lambda>(n, v). (the (opt_key n), v)) os) [], ca_metadata := smap_put_all kvs []\<rparr>)"
proof -
  have "\<forall>a \<in> set (flat_pairs kvs). plain_arg a" using assms(2) by (auto simp: set_flat_pairs)
  then show ?thesis
    by (simp add: parse_cmd_line_args_def parse_options [OF assms(1)] parse_plain no_args_def)
qed

theorem cmd_line_roundtrip_witness:
  "parse_cmd_line_args [''-N'', ''bob'', ''set'', ''o1'', ''U'', ''7'', ''B'', ''INBOX''] = Inr ([''U'', ''7'', ''B'', ''INBOX''], no_args
     \<lparr>ca_opts := [(''namespace'', ''bob''), (''set'', ''o1'')], ca_metadata := [(''B'', ''INBOX''), (''U'', ''7'')]\<rparr>)"
proof -
  have p: "\<forall>(k, v) \<in> set [(''U'', ''7''), (''B'', ''INBOX'')]. plain_arg k \<and> plain_arg v" by code_simp
  have o: "\<forall>(n, v) \<in> set [(''-N'', ''bob''), (''set'', ''o1'')]. opt_key n \<noteq> None" by code_simp
  have k: "opt_key ''-N'' = Some ''namespace''" "opt_key ''set'' = Some ''set''" by code_simp+
  have s: "smap_put_all [(''namespace'', ''bob''), (''set'', ''o1'')] [] = [(''namespace'', ''bob''), (''set'', ''o1'')]"
    "smap_put_all [(''U'', ''7''), (''B'', ''INBOX'')] [] = [(''B'', ''INBOX''), (''U'', ''7'')]" by code_simp+
  show ?thesis using cmd_line_roundtrip [OF o p] by (simp add: k s)
qed

text \<open>
  An option after the metadata: when a pair of words precedes an option with its value, the option is honoured, but it also
  becomes metadata, under its own name.
\<close>

theorem late_option_becomes_metadata:
  assumes "plain_arg k" and "plain_arg v" and "opt_key n = Some key"
  shows "parse_cmd_line_args [k, v, n, val] =
    Inr ([k, v], no_args\<lparr>ca_opts := [(key, val)], ca_metadata := smap_put n val [(k, v)]\<rparr>)"
  using plain_unmatched [OF assms(1)] plain_unmatched [OF assms(2)] opt_key_matches [OF assms(3)]
  by (simp add: parse_cmd_line_args_def no_args_def)

theorem late_option_becomes_metadata_witness:
  "parse_cmd_line_args [''U'', ''7'', ''-N'', ''bob''] =
    Inr ([''U'', ''7''], no_args\<lparr>ca_opts := [(''namespace'', ''bob'')], ca_metadata := smap_put ''-N'' ''bob'' [(''U'', ''7'')]\<rparr>)"
proof -
  have p: "plain_arg ''U''" "plain_arg ''7''" "opt_key ''-N'' = Some ''namespace''" by code_simp+
  show ?thesis using late_option_becomes_metadata [OF p] .
qed

end
