(* ===== verification/Rbox_Doveadm.thy ===== *)
theory Rbox_Doveadm
  imports Rmb_Main Rbox_Storage
begin

text \<open>
  The commands of the doveadm plugin (\<open>src/src/storage-rbox/doveadm-rbox-plugin.cpp\<close>). Every command has its own connection object,
  which is destroyed when the command ends. The exit code of the command is the result; \<^const>\<open>None\<close> is a crash.
\<close>

section \<open>Environment\<close>

text \<open>
  What dovecot answers when a mailbox is scanned: whether it is a virtual one, the result of opening it, for every mail the GUID and
  object id of its index record (\<^const>\<open>None\<close> without one), and the results of ending the search and of the commit.
\<close>

record box_scan =
  bs_virtual :: bool
  bs_open :: int
  bs_records :: "(bytes \<times> bytes) option list"
  bs_search_end :: int
  bs_commit :: int

text \<open>A namespace: its mailboxes, each with whether it can be selected, and whether the listing ended well.\<close>

record list_ns =
  ln_boxes :: "(string \<times> bool) list"
  ln_list_ok :: bool

text \<open>
  A user: the namespaces from the one of the inbox on (\<^const>\<open>None\<close>: there are no namespaces), the settings of the user, and the numbers of
  mails for \<^const>\<open>check_users_mailbox_delete_ns_object\<close>.
\<close>

record adm_user =
  au_username :: string
  au_namespaces :: "list_ns list option"
  au_getenv :: "string \<Rightarrow> bytes option"
  au_mail_counts :: "user_namespace list"

text \<open>
  The other calls of dovecot: the three results of switching to another user; the children of a mailbox; removing a mailbox, with
  the flags unsafe and require empty; and ending its subscription. \<open>ad_oid_garbage\<close> are the bytes of an object id that was not set.
\<close>

record 'w adm_env =
  ad_main :: "'w main_env"
  ad_dovecot :: "'w dovecot"
  ad_getenv :: "string \<Rightarrow> bytes option"
  ad_scan :: "string \<Rightarrow> 'w \<Rightarrow> box_scan \<times> 'w"
  ad_next_user :: "string \<Rightarrow> 'w \<Rightarrow> int \<times> int \<times> int \<times> 'w"
  ad_children :: "string \<Rightarrow> 'w \<Rightarrow> int \<times> string list \<times> 'w"
  ad_delete_box :: "bool \<Rightarrow> bool \<Rightarrow> string \<Rightarrow> 'w \<Rightarrow> int \<times> 'w"
  ad_unsubscribe :: "string \<Rightarrow> 'w \<Rightarrow> int \<times> 'w"
  ad_oid_garbage :: bytes

abbreviation ad_rmb :: "'w adm_env \<Rightarrow> 'w rmb_env" where "ad_rmb A \<equiv> me_rmb (ad_main A)"

section \<open>The connection of a command\<close>

record 'w plugin =
  pl_cl :: cluster
  pl_storage :: storage
  pl_config :: dovecot_ceph_cfg
  pl_w :: 'w

definition new_plugin :: "cluster \<Rightarrow> 'w \<Rightarrow> 'w plugin" where
  "new_plugin cl w = \<lparr>pl_cl = cl, pl_storage = new_storage,
     pl_config = \<lparr>dc_dovecot = new_rados_config, dc_rados = \<lparr>cf_config = new_json_config, cf_io_ctx = Some null_ctx\<rparr>\<rparr>, pl_w = w\<rparr>"

text \<open>The destructor closes the storage and then gives up the cluster as well.\<close>

definition destroy_plugin :: "'w adm_env \<Rightarrow> 'a \<Rightarrow> 'w plugin \<Rightarrow> ('a \<times> cluster \<times> 'w) option" where
  "destroy_plugin A res p =
     (let C = re_client (ad_rmb A) in
      case close_connection C (pl_cl p) (pl_storage p) (pl_w p) of None \<Rightarrow> None
      | Some (cl1, w1) \<Rightarrow> map_option (\<lambda>(cl2, w2). (res, cl2, w2)) (deinit C cl1 w1))"

text \<open>An exception of the connection is not caught.\<close>

definition plugin_open :: "'w adm_env \<Rightarrow> 'w plugin \<Rightarrow> (int \<times> 'w plugin) option" where
  "plugin_open A p =
     (let d = dc_dovecot (pl_config p) in
      case open_connection_user (re_client (ad_rmb A)) (rc_get d ''rbox_pool_name'') (rc_get d ''rbox_index_pool_name'')
             (rc_get d ''rbox_cluster_name'') (rc_get d ''rados_user_name'') (pl_cl p) (pl_storage p) (pl_w p) of
        Some (Inr r, cl1, st1, w1) \<Rightarrow> Some (r, p\<lparr>pl_cl := cl1, pl_storage := st1, pl_w := w1\<rparr>)
      | _ \<Rightarrow> None)"

definition read_settings :: "(string \<Rightarrow> bytes option) \<Rightarrow> 'w plugin \<Rightarrow> 'w plugin" where
  "read_settings getenv p =
     (let cfg = pl_config p in
      p\<lparr>pl_config := dc_set_config_valid True (cfg\<lparr>dc_dovecot :=
          fold (\<lambda>setting d. rc_update_metadata setting (getenv setting) d) (map fst (rc_config (dc_dovecot cfg))) (dc_dovecot cfg)\<rparr>)\<rparr>)"

text \<open>The ceph configuration reads and writes through the io context of the storage.\<close>

definition plugin_cfg :: "'w plugin \<Rightarrow> ceph_config" where
  "plugin_cfg p = (dc_rados (pl_config p))\<lparr>cf_io_ctx := Some (st_io_ctx (pl_storage p))\<rparr>"

definition set_plugin_cfg :: "ceph_config \<Rightarrow> 'w plugin \<Rightarrow> 'w plugin" where
  "set_plugin_cfg cf p = p\<lparr>pl_config := (pl_config p)\<lparr>dc_rados := cf\<rparr>\<rparr>"

definition open_connection_load_config :: "'w adm_env \<Rightarrow> 'w plugin \<Rightarrow> (int \<times> 'w plugin) option" where
  "open_connection_load_config A p =
     (case plugin_open A (read_settings (ad_getenv A) p) of None \<Rightarrow> None
      | Some (open_ret, p1) \<Rightarrow>
          if open_ret < 0 then Some (open_ret, p1)
          else map_option (\<lambda>(ret, cf, w1). (ret, (set_plugin_cfg cf p1)\<lparr>pl_w := w1\<rparr>))
            (load_cfg (re_json (ad_rmb A)) (re_rados (ad_rmb A)) (plugin_cfg p1) (pl_w p1)))"

text \<open>The commands of the tool work on the storage of the plugin.\<close>

definition cmds :: "string smap \<Rightarrow> 'w plugin \<Rightarrow> 'w rmb_state" where
  "cmds opts p = \<lparr>ts_cl = pl_cl p, ts_st = pl_storage p, ts_opts = opts, ts_w = pl_w p\<rparr>"

definition after_cmds :: "'w rmb_state \<Rightarrow> 'w plugin \<Rightarrow> 'w plugin" where
  "after_cmds x p = p\<lparr>pl_cl := ts_cl x, pl_storage := ts_st x, pl_w := ts_w x\<rparr>"

section \<open>The configuration\<close>

definition cmd_rmb_config :: "'w adm_env \<Rightarrow> string smap \<Rightarrow> cluster \<Rightarrow> 'w \<Rightarrow> (int \<times> cluster \<times> 'w) option" where
  "cmd_rmb_config A opts cl w =
     (case open_connection_load_config A (read_settings (ad_getenv A) (new_plugin cl w)) of None \<Rightarrow> None
      | Some (open_ret, p) \<Rightarrow>
          if open_ret < 0 then destroy_plugin A open_ret p
          else case configuration (ad_rmb A) True (plugin_cfg p) (cmds opts p) of (ret, cf, x) \<Rightarrow>
            destroy_plugin A (if ret < 0 then -1 else 0) (set_plugin_cfg cf (after_cmds x p)))"

definition cmd_rmb_config_show :: "'w adm_env \<Rightarrow> cluster \<Rightarrow> 'w \<Rightarrow> (int \<times> cluster \<times> 'w) option" where
  "cmd_rmb_config_show A cl w = cmd_rmb_config A [(''print_cfg'', ''true'')] cl w"

definition cmd_rmb_config_create :: "'w adm_env \<Rightarrow> cluster \<Rightarrow> 'w \<Rightarrow> (int \<times> cluster \<times> 'w) option" where
  "cmd_rmb_config_create A cl w =
     (let J = re_json (ad_rmb A); R = re_rados (ad_rmb A) in
      case plugin_open A (read_settings (ad_getenv A) (new_plugin cl w)) of None \<Rightarrow> None
      | Some (open_ret, p) \<Rightarrow>
          if open_ret < 0 then destroy_plugin A (-1) p
          else case load_cfg J R (plugin_cfg p) (pl_w p) of None \<Rightarrow> None
          | Some (ret, cf, w1) \<Rightarrow>
              let p1 = (set_plugin_cfg cf p)\<lparr>pl_w := w1\<rparr> in
              if ret < 0 then case save_cfg J R (plugin_cfg p1) w1 of (ret, w2) \<Rightarrow> destroy_plugin A (if ret < 0 then -1 else 0) (p1\<lparr>pl_w := w2\<rparr>)
              else destroy_plugin A 1 p1)"

text \<open>The arguments of the program; an argument vector with one element ends with a null pointer.\<close>

definition cmd_rmb_config_update :: "'w adm_env \<Rightarrow> string list \<Rightarrow> cluster \<Rightarrow> 'w \<Rightarrow> (int \<times> cluster \<times> 'w) option" where
  "cmd_rmb_config_update A argv cl w =
     (case argv of _ # update # _ \<Rightarrow> cmd_rmb_config A [(''update'', update)] cl w | _ \<Rightarrow> Some (-1, cl, w))"

definition cmd_rmb_lspools :: "'w adm_env \<Rightarrow> cluster \<Rightarrow> 'w \<Rightarrow> (int \<times> cluster \<times> 'w) option" where
  "cmd_rmb_lspools A cl w = map_option (\<lambda>(r, _, cl1, w1). (r, cl1, w1)) (lspools (re_client (ad_rmb A)) (me_pool_list (ad_main A)) cl w)"

section \<open>Mails and their index records\<close>

text \<open>The first mail whose object id the record has is marked.\<close>

fun mark_first :: "string \<Rightarrow> rados_mail list \<Rightarrow> rados_mail list" where
  "mark_first oid [] = []"
| "mark_first oid (m # ms) = (if m_oid m = oid then m\<lparr>m_index_ref := True\<rparr> # ms else m # mark_first oid ms)"

fun mark_records :: "(bytes \<Rightarrow> string) \<Rightarrow> (bytes \<times> bytes) option list \<Rightarrow> rados_mail list \<Rightarrow> rados_mail list" where
  "mark_records to_string [] mails = mails"
| "mark_records to_string (None # rs) mails = mark_records to_string rs mails"
| "mark_records to_string (Some (guid, oid) # rs) mails = mark_records to_string rs (mark_first (to_string oid) mails)"

definition iterate_mailbox :: "'w adm_env \<Rightarrow> string \<Rightarrow> rados_mail list \<Rightarrow> 'w \<Rightarrow> int \<times> rados_mail list \<times> 'w" where
  "iterate_mailbox A vname mails w =
     (case ad_scan A vname w of (b, w1) \<Rightarrow>
        if bs_virtual b then (0, mails, w1)
        else if bs_open b < 0 then (-1, mails, w1)
        else (if bs_search_end b < 0 \<or> bs_commit b < 0 then -1 else 0,
              mark_records (dv_guid_to_string (ad_dovecot A)) (bs_records b) mails, w1))"

text \<open>A mailbox that cannot be scanned ends the loop.\<close>

fun check_mailboxes :: "'w adm_env \<Rightarrow> (string \<times> bool) list \<Rightarrow> rados_mail list \<Rightarrow> 'w \<Rightarrow> int \<times> rados_mail list \<times> 'w" where
  "check_mailboxes A [] mails w = (0, mails, w)"
| "check_mailboxes A ((vname, selectable) # boxes) mails w =
     (if \<not> selectable then check_mailboxes A boxes mails w
      else case iterate_mailbox A vname mails w of (ret, mails1, w1) \<Rightarrow>
        if ret < 0 then (-1, mails1, w1) else check_mailboxes A boxes mails1 w1)"

definition check_namespace_mailboxes :: "'w adm_env \<Rightarrow> list_ns \<Rightarrow> rados_mail list \<Rightarrow> 'w \<Rightarrow> int \<times> rados_mail list \<times> 'w" where
  "check_namespace_mailboxes A ns mails w =
     (case check_mailboxes A (ln_boxes ns) mails w of (ret, mails1, w1) \<Rightarrow> (if ln_list_ok ns then ret else -1, mails1, w1))"

text \<open>The results of the namespaces are not looked at.\<close>

fun check_namespaces :: "'w adm_env \<Rightarrow> list_ns list \<Rightarrow> rados_mail list \<Rightarrow> 'w \<Rightarrow> rados_mail list \<times> 'w" where
  "check_namespaces A [] mails w = (mails, w)"
| "check_namespaces A (ns # nss) mails w =
     (case check_namespace_mailboxes A ns mails w of (_, mails1, w1) \<Rightarrow> check_namespaces A nss mails1 w1)"

definition cmd_rmb_search_run :: "'w adm_env \<Rightarrow> string smap \<Rightarrow> adm_user \<Rightarrow> bool \<Rightarrow> cmd_parser \<Rightarrow> bool \<Rightarrow> bool \<Rightarrow> cluster \<Rightarrow> 'w \<Rightarrow>
    ((int \<times> rados_mail list) \<times> cluster \<times> 'w) option" where
  "cmd_rmb_search_run A opts user download parser silent load_metadata cl w =
     (case open_connection_load_config A (new_plugin cl w) of None \<Rightarrow> None
      | Some (open_ret, p) \<Rightarrow>
        if open_ret < 0 then destroy_plugin A (open_ret, []) p
        else
          let M = ad_main A; E = me_rmb M; opts1 = smap_put ''namespace'' (au_username user) opts; cf = plugin_cfg p in
          case init_metadata_storage_module E cf (Some []) (cmds opts1 p) of
            (None, _, x1) \<Rightarrow> destroy_plugin A (-1, []) (after_cmds x1 p)
          | (Some kind, _, x1) \<Rightarrow>
            (case load_objects E (cf_config cf) (Some kind) [] (opt_get ''sort'' opts1) load_metadata x1 of None \<Rightarrow> None
             | Some (ret, mails, x2) \<Rightarrow>
                 if ret < 0 then destroy_plugin A (ret, mails) (after_cmds x2 p)
                 else case (case au_namespaces user of None \<Rightarrow> (mails, ts_w x2) | Some nss \<Rightarrow> check_namespaces A nss mails (ts_w x2)) of
                   (mails1, w3) \<Rightarrow>
                     let x3 = x2\<lparr>ts_w := w3\<rparr>;
                         parser1 = (if download then set_output_path (me_home M) (me_path_max M) opts1 parser else parser) in
                     if \<not> load_metadata then destroy_plugin A (ret, mails1) (after_cmds x3 p)
                     else case query_mail_storage E mails1 parser1 download silent x3 of None \<Rightarrow> None
                     | Some (ret, _, x4) \<Rightarrow> destroy_plugin A (ret, mails1) (after_cmds x4 p)))"

text \<open>Listing; the second result tells whether objects without an index record were reported.\<close>

definition wants_search :: "'w adm_env \<Rightarrow> bool \<Rightarrow> cmd_parser \<Rightarrow> bool \<times> cmd_parser" where
  "wants_search A all parser = (if all then (True, parser) else parse_ls_string (me_garbage (ad_main A)) parser)"

definition cmd_rmb_ls_run :: "'w adm_env \<Rightarrow> string option \<Rightarrow> string option \<Rightarrow> adm_user \<Rightarrow> cluster \<Rightarrow> 'w \<Rightarrow> ((int \<times> bool) \<times> cluster \<times> 'w) option" where
  "cmd_rmb_ls_run A search_query sort_arg user cl w =
     (case search_query of None \<Rightarrow> Some ((-1, False), cl, w)
      | Some q \<Rightarrow>
        let opts = smap_put ''sort'' (case sort_arg of None \<Rightarrow> ''uid'' | Some s \<Rightarrow> s) [(''ls'', q)] in
        case wants_search A (q = ''all'' \<or> q = ''-'') (new_cmd_parser q) of (ok, parser) \<Rightarrow>
          if \<not> ok then Some ((-1, False), cl, w)
          else map_option (\<lambda>((code, mails), cl1, w1). ((code, \<exists>m \<in> set mails. \<not> m_index_ref m), cl1, w1))
            (cmd_rmb_search_run A opts user False parser False True cl w))"

definition cmd_rmb_ls_mb_run :: "'w adm_env \<Rightarrow> adm_user \<Rightarrow> cluster \<Rightarrow> 'w \<Rightarrow> (int \<times> cluster \<times> 'w) option" where
  "cmd_rmb_ls_mb_run A user cl w =
     (case wants_search A False (new_cmd_parser ''mb'') of (ok, parser) \<Rightarrow>
        if \<not> ok then Some (-1, cl, w)
        else map_option (\<lambda>((code, _), cl1, w1). (code, cl1, w1))
          (cmd_rmb_search_run A [(''ls'', ''mb''), (''sort'', ''uid'')] user False parser False True cl w))"

text \<open>The option \<open>ls\<close> is compared with a dash, not the query: it is empty here.\<close>

definition cmd_rmb_get_run :: "'w adm_env \<Rightarrow> string option \<Rightarrow> string option \<Rightarrow> adm_user \<Rightarrow> cluster \<Rightarrow> 'w \<Rightarrow> (int \<times> cluster \<times> 'w) option" where
  "cmd_rmb_get_run A search_query output_path user cl w =
     (case search_query of None \<Rightarrow> Some (-1, cl, w)
      | Some q \<Rightarrow>
        let opts0 = smap_put ''get'' q []; opts1 = (case output_path of None \<Rightarrow> opts0 | Some out \<Rightarrow> smap_put ''out'' out opts0);
            opts2 = smap_put ''sort'' ''uid'' opts1 in
        case wants_search A (q = ''all'' \<or> opt_get ''ls'' opts2 = ''-'') (new_cmd_parser q) of (ok, parser) \<Rightarrow>
          if \<not> ok then Some (-1, cl, w)
          else map_option (\<lambda>((code, _), cl1, w1). (code, cl1, w1)) (cmd_rmb_search_run A opts2 user True parser False True cl w))"

section \<open>Checking the index\<close>

fun delete_unreferenced :: "'w adm_env \<Rightarrow> bool \<Rightarrow> rados_mail list \<Rightarrow> int \<Rightarrow> 'w plugin \<Rightarrow> int \<times> 'w plugin" where
  "delete_unreferenced A del [] code p = (code, p)"
| "delete_unreferenced A del (m # ms) code p =
     (if del \<and> \<not> m_index_ref m then
        case delete_mail_ptr (re_rados (ad_rmb A)) (pl_cl p) (pl_storage p) (Some m) (pl_w p) of (_, w1) \<Rightarrow>
          delete_unreferenced A del ms 2 (p\<lparr>pl_w := w1\<rparr>)
      else delete_unreferenced A del ms code p)"

definition cmd_rmb_check_indices_run :: "'w adm_env \<Rightarrow> bool \<Rightarrow> adm_user \<Rightarrow> cluster \<Rightarrow> 'w \<Rightarrow> (int \<times> cluster \<times> 'w) option" where
  "cmd_rmb_check_indices_run A del user cl w =
     (let opts = [(''ls'', ''-''), (''sort'', ''uid'')] in
      case cmd_rmb_search_run A opts user False (snd (parse_ls_string (me_garbage (ad_main A)) (new_cmd_parser ''-''))) True False cl w of
        None \<Rightarrow> None
      | Some ((code, mails), cl1, w1) \<Rightarrow>
          if code < 0 then Some (code, cl1, w1)
          else
            let code1 = (if \<exists>m \<in> set mails. \<not> m_index_ref m then 1 else code) in
            case open_connection_load_config A (new_plugin cl1 w1) of None \<Rightarrow> None
            | Some (open_ret, p) \<Rightarrow>
                if open_ret < 0 then destroy_plugin A open_ret p
                else case init_metadata_storage_module (ad_rmb A) (plugin_cfg p) (Some []) (cmds (smap_put ''namespace'' (au_username user) opts) p) of
                  (None, _, x1) \<Rightarrow> destroy_plugin A (-1) (after_cmds x1 p)
                | (Some _, _, x1) \<Rightarrow>
                    (case delete_unreferenced A del mails code1 (after_cmds x1 p) of (code2, p2) \<Rightarrow> destroy_plugin A code2 p2))"

section \<open>Single objects and users\<close>

definition cmd_rmb_set_run :: "'w adm_env \<Rightarrow> bool \<Rightarrow> string option \<Rightarrow> string option \<Rightarrow> adm_user \<Rightarrow> cluster \<Rightarrow> 'w \<Rightarrow> (int \<times> cluster \<times> 'w) option" where
  "cmd_rmb_set_run A single_user oid key_value_pair user cl w =
     (case (oid, key_value_pair) of
        (Some oi, Some kv) \<Rightarrow>
          if \<not> single_user then Some (-1, cl, w)
          else case open_connection_load_config A (new_plugin cl w) of None \<Rightarrow> None
          | Some (open_ret, p) \<Rightarrow>
            if open_ret < 0 then destroy_plugin A open_ret p
            else
              let opts = smap_put ''namespace'' (au_username user) [(''set'', oi)] in
              case init_metadata_storage_module (ad_rmb A) (plugin_cfg p) (Some []) (cmds opts p) of
                (None, _, x1) \<Rightarrow> destroy_plugin A (-1) (after_cmds x1 p)
              | (Some kind, _, x1) \<Rightarrow>
                (case getline_tokens (CHR ''='') kv of
                   [k, v] \<Rightarrow>
                     if 1 < length k then destroy_plugin A (-1) (after_cmds x1 p)
                     else case update_attributes (ad_rmb A) (cf_config (plugin_cfg p)) kind [(k, v)] x1 of None \<Rightarrow> None
                     | Some (code, x2) \<Rightarrow> destroy_plugin A code (after_cmds x2 p)
                 | _ \<Rightarrow> destroy_plugin A (-1) (after_cmds x1 p))
      | _ \<Rightarrow> Some (-1, cl, w))"

definition cmd_rmb_delete_run :: "'w adm_env \<Rightarrow> bool \<Rightarrow> string option \<Rightarrow> adm_user \<Rightarrow> cluster \<Rightarrow> 'w \<Rightarrow> (int \<times> cluster \<times> 'w) option" where
  "cmd_rmb_delete_run A single_user oid user cl w =
     (case oid of None \<Rightarrow> Some (-1, cl, w)
      | Some oi \<Rightarrow>
        if \<not> single_user then Some (-1, cl, w)
        else case open_connection_load_config A (new_plugin cl w) of None \<Rightarrow> None
        | Some (open_ret, p) \<Rightarrow>
          if open_ret < 0 then destroy_plugin A open_ret p
          else
            let opts = smap_put ''namespace'' (au_username user) [(''to_delete'', oi)] in
            case init_metadata_storage_module (ad_rmb A) (plugin_cfg p) (Some []) (cmds opts p) of
              (None, _, x1) \<Rightarrow> destroy_plugin A (-1) (after_cmds x1 p)
            | (Some _, _, x1) \<Rightarrow> (case rmb_delete_mail (ad_rmb A) True x1 of (code, x2) \<Rightarrow> destroy_plugin A code (after_cmds x2 p)))"

definition cmd_rmb_rename_run :: "'w adm_env \<Rightarrow> bool \<Rightarrow> string option \<Rightarrow> adm_user \<Rightarrow> cluster \<Rightarrow> 'w \<Rightarrow> (int \<times> cluster \<times> 'w) option" where
  "cmd_rmb_rename_run A single_user new_user_name user cl w =
     (case new_user_name of None \<Rightarrow> Some (-1, cl, w)
      | Some name \<Rightarrow>
        if \<not> single_user then Some (-1, cl, w)
        else case open_connection_load_config A (new_plugin cl w) of None \<Rightarrow> None
        | Some (open_ret, p) \<Rightarrow>
          if open_ret < 0 then destroy_plugin A open_ret p
          else
            let opts = smap_put ''namespace'' (au_username user) [(''to_rename'', name)] in
            case rename_user (ad_rmb A) (me_now (ad_main A)) (Some (plugin_cfg p)) True (au_username user) (cmds opts p) of (code, x1) \<Rightarrow>
              destroy_plugin A code (after_cmds x1 p))"

section \<open>Reverting a save log\<close>

text \<open>
  An index record for a mail that was moved back. A GUID that cannot be read ends it before the record is written; an object id that
  cannot be read goes unnoticed.
\<close>

definition restore_index_entry :: "'w dovecot \<Rightarrow> bytes \<Rightarrow> string \<Rightarrow> string \<Rightarrow> string \<Rightarrow> 'w \<Rightarrow> (int \<times> 'w) option" where
  "restore_index_entry D garbage mailbox_name mail_guid mail_oid w =
     (case dv_mailbox_open D mailbox_name w of (r, _, w1) \<Rightarrow>
        if r < 0 then Some (-1, w1)
        else case dv_header D w1 of None \<Rightarrow> None
        | Some hdr \<Rightarrow>
          let next_uid = (if ih_next_uid hdr \<noteq> 0 then ih_next_uid hdr else 1) in
          case dv_append D next_uid w1 of (seq, w2) \<Rightarrow>
            (case dv_guid_from_uuid_string D (c_str mail_guid) of None \<Rightarrow> Some (-1, w2)
             | Some guid \<Rightarrow>
               let oid = (case dv_guid_from_string D (c_str mail_oid) of None \<Rightarrow> garbage | Some b \<Rightarrow> b) in
               case dv_trans_commit D (dv_update_ext D seq guid oid w2) of (r, w3) \<Rightarrow> Some (if r < 0 then -1 else 0, w3)))"

text \<open>An entry without the GUID or the name of the mailbox makes the code read past the end of a list.\<close>

fun restore_entries :: "'w dovecot \<Rightarrow> bytes \<Rightarrow> save_log_entry list \<Rightarrow> 'w \<Rightarrow> 'w option" where
  "restore_entries D garbage [] w = Some w"
| "restore_entries D garbage (e # es) w =
     (case (find (\<lambda>m. md_key m = ''G'') (e_metadata e), find (\<lambda>m. md_key m = ''B'') (e_metadata e)) of
        (Some guid, Some name) \<Rightarrow>
          (case restore_index_entry D garbage (c_str (md_bl name)) (md_bl guid) (e_src_oid e) w of None \<Rightarrow> None
           | Some (_, w1) \<Rightarrow> restore_entries D garbage es w1)
      | _ \<Rightarrow> None)"

definition doveadm_rmb_mail_next_user :: "'w adm_env \<Rightarrow> string \<Rightarrow> save_log_entry list \<Rightarrow> 'w \<Rightarrow> (int \<times> 'w) option" where
  "doveadm_rmb_mail_next_user A username entries w =
     (case ad_next_user A username w of (server, lookup, next, w1) \<Rightarrow>
        if server \<noteq> 0 then Some (server, w1)
        else if lookup \<le> 0 then Some (lookup, w1)
        else if next < 0 then Some (next, w1)
        else map_option (Pair 1) (restore_entries (ad_dovecot A) (ad_oid_garbage A) entries w1))"

fun restore_users :: "'w adm_env \<Rightarrow> save_log_entry list smap \<Rightarrow> 'w \<Rightarrow> 'w option" where
  "restore_users A [] w = Some w"
| "restore_users A ((username, entries) # users) w =
     (case doveadm_rmb_mail_next_user A (c_str username) entries w of None \<Rightarrow> None | Some (_, w1) \<Rightarrow> restore_users A users w1)"

definition cmd_rmb_revert_log_run :: "'w adm_env \<Rightarrow> bool \<Rightarrow> string option \<Rightarrow> adm_user \<Rightarrow> cluster \<Rightarrow> 'w \<Rightarrow> (int \<times> cluster \<times> 'w) option" where
  "cmd_rmb_revert_log_run A single_user log_file user cl w =
     (case log_file of None \<Rightarrow> Some (-1, cl, w)
      | Some file \<Rightarrow>
        if \<not> single_user then Some (-1, cl, w)
        else case plugin_open A (read_settings (au_getenv user) (new_plugin cl w)) of None \<Rightarrow> None
        | Some (open_ret, p) \<Rightarrow>
          if open_ret < 0 then destroy_plugin A open_ret p
          else
            let M = ad_main A; d = dc_dovecot (pl_config p) in
            case delete_with_save_log (re_client (me_rmb M)) (re_rados (me_rmb M)) (me_now M) (me_read_file M file (pl_w p))
                   (rc_get d ''rbox_cluster_name'') (rc_get d ''rados_user_name'') (Some []) (pl_cl p) (pl_w p) of None \<Rightarrow> None
            | Some (r, moved, cl1, w1) \<Rightarrow>
                (case restore_users A (case moved of None \<Rightarrow> [] | Some m \<Rightarrow> m) w1 of None \<Rightarrow> None
                 | Some w2 \<Rightarrow> destroy_plugin A (if 0 \<le> r then 0 else -1) (p\<lparr>pl_cl := cl1, pl_w := w2\<rparr>)))"

section \<open>The index object\<close>

text \<open>A virtual mailbox is an error here. The ids that were found stay in the list when the scan fails at its end.\<close>

definition iterate_list_objects :: "'w adm_env \<Rightarrow> string \<Rightarrow> string set \<Rightarrow> 'w \<Rightarrow> int \<times> string set \<times> 'w" where
  "iterate_list_objects A vname object_list w =
     (case ad_scan A vname w of (b, w1) \<Rightarrow>
        if bs_virtual b \<or> bs_open b < 0 then (-1, object_list, w1)
        else (if bs_search_end b < 0 \<or> bs_commit b < 0 then -1 else 0,
              object_list \<union> set (map (\<lambda>(_, oid). dv_guid_to_string (ad_dovecot A) oid) (List.map_filter id (bs_records b))), w1))"

text \<open>
  The mailboxes of one namespace; the first result tells whether the index could be written. A mailbox that cannot be scanned ends the
  namespace, and the loop goes on with the next one.
\<close>

fun index_mailboxes :: "'w adm_env \<Rightarrow> (string \<times> bool) list \<Rightarrow> int \<Rightarrow> string set \<Rightarrow> 'w rmb_state \<Rightarrow> bool \<times> int \<times> string set \<times> 'w rmb_state" where
  "index_mailboxes A [] ret oids x = (True, ret, oids, x)"
| "index_mailboxes A ((vname, selectable) # boxes) ret oids x =
     (if \<not> selectable then index_mailboxes A boxes ret oids x
      else case iterate_list_objects A vname oids (ts_w x) of (r, oids1, w1) \<Rightarrow>
        if r < 0 then (True, -1, oids1, x\<lparr>ts_w := w1\<rparr>)
        else case append_ceph_object_index (ad_rmb A) oids1 (x\<lparr>ts_w := w1\<rparr>) of (a, x1) \<Rightarrow>
          if a < 0 then (False, -1, oids1, x1) else index_mailboxes A boxes r {} x1)"

fun index_namespaces :: "'w adm_env \<Rightarrow> list_ns list \<Rightarrow> int \<Rightarrow> string set \<Rightarrow> 'w rmb_state \<Rightarrow> bool \<times> int \<times> 'w rmb_state" where
  "index_namespaces A [] ret oids x = (True, ret, x)"
| "index_namespaces A (ns # nss) ret oids x =
     (case index_mailboxes A (ln_boxes ns) ret oids x of (ok, ret1, oids1, x1) \<Rightarrow>
        if ok then index_namespaces A nss ret1 oids1 x1 else (False, ret1, x1))"

text \<open>The result and the exit code; \<open>code\<close> is the exit code so far, which one error leaves as it is.\<close>

definition cmd_rmb_create_ceph_index_run :: "'w adm_env \<Rightarrow> bool \<Rightarrow> adm_user \<Rightarrow> int \<Rightarrow> cluster \<Rightarrow> 'w \<Rightarrow> ((int \<times> int) \<times> cluster \<times> 'w) option" where
  "cmd_rmb_create_ceph_index_run A full_refresh user code cl w =
     (case open_connection_load_config A (read_settings (au_getenv user) (new_plugin cl w)) of None \<Rightarrow> None
      | Some (open_ret, p) \<Rightarrow>
        if open_ret < 0 then destroy_plugin A (open_ret, open_ret) p
        else
          let E = ad_rmb A in
          case init_metadata_storage_module E (plugin_cfg p) (Some []) (cmds [(''namespace'', au_username user)] p) of
            (None, _, x1) \<Rightarrow> destroy_plugin A (-1, -1) (after_cmds x1 p)
          | (Some kind, _, x1) \<Rightarrow>
            let x2 = snd (remove_ceph_object_index E x1) in
            (case au_namespaces user of None \<Rightarrow> destroy_plugin A (0, 0) (after_cmds x2 p)
             | Some nss \<Rightarrow>
                 if \<not> full_refresh then
                   case index_namespaces A nss 0 {} x2 of (ok, ret, x3) \<Rightarrow>
                     destroy_plugin A (if ok then (ret, ret) else (-1, -1)) (after_cmds x3 p)
                 else case load_object_set E (cf_config (plugin_cfg p)) kind x2 of None \<Rightarrow> None
                 | Some (oids, x3) \<Rightarrow>
                     (case overwrite_ceph_object_index E oids x3 of (r, x4) \<Rightarrow>
                        destroy_plugin A (if r < 0 then (-1, code) else (0, 0)) (after_cmds x4 p))))"

section \<open>Options of the commands\<close>

definition cmd_check_indices_parse_arg :: "char \<Rightarrow> bool \<Rightarrow> bool \<times> bool" where
  "cmd_check_indices_parse_arg c delete_not_referenced_objects = (True, c = CHR ''d'' \<or> delete_not_referenced_objects)"

definition cmd_create_ceph_index_parse_arg :: "char \<Rightarrow> bool \<Rightarrow> bool \<times> bool" where
  "cmd_create_ceph_index_parse_arg c full_refresh = (True, c = CHR ''r'' \<or> full_refresh)"

section \<open>Removing mailboxes\<close>

record delete_ctx =
  dl_mailboxes :: "string list"
  dl_recursive :: bool
  dl_require_empty :: bool
  dl_unsafe :: bool
  dl_subscriptions :: bool

definition sort_reverse :: "string list \<Rightarrow> string list" where
  "sort_reverse names = rev (sort names)"

definition cmd_mailbox_delete_parse_arg :: "char \<Rightarrow> delete_ctx \<Rightarrow> bool \<times> delete_ctx" where
  "cmd_mailbox_delete_parse_arg c ctx =
     (if c = CHR ''r'' then (True, ctx\<lparr>dl_recursive := True\<rparr>)
      else if c = CHR ''s'' then (True, ctx\<lparr>dl_subscriptions := True\<rparr>)
      else if c = CHR ''e'' then (True, ctx\<lparr>dl_require_empty := True\<rparr>)
      else if c = CHR ''Z'' then (True, ctx\<lparr>dl_unsafe := True\<rparr>)
      else (False, ctx))"

definition cmd_rmb_mailbox_delete_init :: "string list \<Rightarrow> delete_ctx \<Rightarrow> delete_ctx" where
  "cmd_rmb_mailbox_delete_init args ctx = ctx\<lparr>dl_mailboxes := sort_reverse (dl_mailboxes ctx @ args)\<rparr>"

fun get_all_children :: "'w adm_env \<Rightarrow> string list \<Rightarrow> int \<Rightarrow> string list \<Rightarrow> 'w \<Rightarrow> int \<times> string list \<times> 'w" where
  "get_all_children A [] ret found w = (ret, found, w)"
| "get_all_children A (name # names) ret found w =
     (case ad_children A name w of (r, children, w1) \<Rightarrow>
        get_all_children A names (if r < 0 then -1 else ret) (found @ children @ (if name \<noteq> [] then [name] else [])) w1)"

fun delete_mailboxes :: "'w adm_env \<Rightarrow> delete_ctx \<Rightarrow> string list \<Rightarrow> int \<Rightarrow> 'w \<Rightarrow> int \<times> 'w" where
  "delete_mailboxes A ctx [] ret w = (ret, w)"
| "delete_mailboxes A ctx (name # names) ret w =
     (case ad_delete_box A (dl_unsafe ctx) (dl_require_empty ctx) name w of (r, w1) \<Rightarrow>
        case (if dl_subscriptions ctx then ad_unsubscribe A name w1 else (0, w1)) of (r2, w2) \<Rightarrow>
          delete_mailboxes A ctx names (if r < 0 \<or> r2 < 0 then -1 else ret) w2)"

definition cmd_mailbox_delete_run :: "'w adm_env \<Rightarrow> bool \<Rightarrow> delete_ctx \<Rightarrow> 'w \<Rightarrow> int \<times> 'w" where
  "cmd_mailbox_delete_run A single_user ctx w =
     (if \<not> single_user then (-1, w)
      else case (if dl_recursive ctx then get_all_children A (dl_mailboxes ctx) 0 [] w else (0, dl_mailboxes ctx, w)) of (ret, names, w1) \<Rightarrow>
        delete_mailboxes A ctx (if dl_recursive ctx then sort_reverse names else names) ret w1)"

text \<open>After all mailboxes were removed, the object of a user without mails is removed as well.\<close>

definition plugin_env :: "'w adm_env \<Rightarrow> 'w env" where
  "plugin_env A = \<lparr>en_json = re_json (ad_rmb A), en_client = re_client (ad_rmb A), en_rados = re_rados (ad_rmb A),
     en_dovecot = ad_dovecot A, en_can_open = \<lambda>_. False, en_behind = []\<rparr>"

definition cmd_rmb_mailbox_delete_run :: "'w adm_env \<Rightarrow> bool \<Rightarrow> delete_ctx \<Rightarrow> adm_user \<Rightarrow> cluster \<Rightarrow> 'w \<Rightarrow> (int \<times> cluster \<times> 'w) option" where
  "cmd_rmb_mailbox_delete_run A single_user ctx user cl w =
     (case cmd_mailbox_delete_run A single_user ctx w of (code, w1) \<Rightarrow>
        if code \<noteq> 0 then Some (code, cl, w1)
        else case open_connection_load_config A (read_settings (au_getenv user) (new_plugin cl w1)) of None \<Rightarrow> None
        | Some (open_ret, p) \<Rightarrow>
          if open_ret < 0 then destroy_plugin A open_ret p
          else if is_user_mapping (plugin_cfg p) then
            (case check_users_mailbox_delete_ns_object (plugin_env A) (au_mail_counts user) 0
                    \<lparr>x_cl = pl_cl p, x_rs = rbox_storage_alloc\<lparr>rs_s := pl_storage p, rs_config := pl_config p\<rparr>, x_w = pl_w p\<rparr> of
               (_, x) \<Rightarrow> destroy_plugin A code (p\<lparr>pl_cl := x_cl x, pl_storage := rs_s (x_rs x), pl_w := x_w x\<rparr>))
          else destroy_plugin A code p)"

section \<open>Lemmas\<close>

text \<open>The object ids of index records, and the ids that mailboxes and namespaces refer to.\<close>

definition record_oids :: "(bytes \<Rightarrow> string) \<Rightarrow> (bytes \<times> bytes) option list \<Rightarrow> string set" where
  "record_oids f rs = {f oid |guid oid. Some (guid, oid) \<in> set rs}"

definition scan_oids :: "(bytes \<Rightarrow> string) \<Rightarrow> box_scan \<Rightarrow> string set" where
  "scan_oids f b = (if bs_virtual b then {} else record_oids f (bs_records b))"

definition box_oids :: "(bytes \<Rightarrow> string) \<Rightarrow> (string \<Rightarrow> box_scan) \<Rightarrow> (string \<times> bool) list \<Rightarrow> string set" where
  "box_oids f scan boxes = (\<Union>v \<in> {v. (v, True) \<in> set boxes}. scan_oids f (scan v))"

text \<open>
  Scanning a mailbox gives the same answer at any time and changes no object. A mailbox is readable when it is virtual or every call succeeds.
\<close>

definition law_scan :: "'w adm_env \<Rightarrow> (string \<Rightarrow> box_scan) \<Rightarrow> ('w \<Rightarrow> obj_key \<rightharpoonup> robj) \<Rightarrow> bool" where
  "law_scan A scan V \<longleftrightarrow> (\<forall>v w. fst (ad_scan A v w) = scan v \<and> V (snd (ad_scan A v w)) = V w)"

definition scan_ok :: "box_scan \<Rightarrow> bool" where
  "scan_ok b \<longleftrightarrow> 0 \<le> bs_open b \<and> 0 \<le> bs_search_end b \<and> 0 \<le> bs_commit b"

definition readable :: "(string \<Rightarrow> box_scan) \<Rightarrow> (string \<times> bool) list \<Rightarrow> bool" where
  "readable scan boxes \<longleftrightarrow> (\<forall>(v, selectable) \<in> set boxes. selectable \<longrightarrow> bs_virtual (scan v) \<or> scan_ok (scan v))"

definition mark_oids :: "string set \<Rightarrow> rados_mail list \<Rightarrow> rados_mail list" where
  "mark_oids S ms = map (\<lambda>m. if m_oid m \<in> S then m\<lparr>m_index_ref := True\<rparr> else m) ms"

lemma map_oid_mark [simp]: "map m_oid (mark_oids S ms) = map m_oid ms" "mark_oids {} ms = ms"
  by (auto simp: mark_oids_def)

lemma mark_oids_mark [simp]: "mark_oids T (mark_oids S ms) = mark_oids (S \<union> T) ms"
  by (auto simp: mark_oids_def)

lemma mark_first_oids: "distinct (map m_oid ms) \<Longrightarrow> mark_first oid ms = mark_oids {oid} ms"
  by (induction ms) (auto simp: mark_oids_def rev_image_eqI intro!: map_idI [symmetric])

lemma mark_records_oids: "distinct (map m_oid ms) \<Longrightarrow> mark_records f rs ms = mark_oids (record_oids f rs) ms"
proof (induction f rs ms rule: mark_records.induct)
  case (3 f guid oid rs ms)
  have "record_oids f (Some (guid, oid) # rs) = insert (f oid) (record_oids f rs)" by (auto simp: record_oids_def)
  then show ?case using 3 by (simp add: mark_first_oids)
qed (auto simp: record_oids_def mark_oids_def)

lemma iterate_mailbox_marks:
  assumes "law_scan A scan V" and "distinct (map m_oid ms)" and "bs_virtual (scan v) \<or> scan_ok (scan v)"
  shows "\<exists>w1. iterate_mailbox A v ms w = (0, mark_oids (scan_oids (dv_guid_to_string (ad_dovecot A)) (scan v)) ms, w1) \<and> V w1 = V w"
proof -
  obtain w1 where "ad_scan A v w = (scan v, w1)" "V w1 = V w" using assms(1) unfolding law_scan_def by (metis prod.collapse)
  then show ?thesis using assms(2,3)
    by (auto simp: iterate_mailbox_def scan_oids_def scan_ok_def mark_records_oids)
qed

lemma box_oids_simps [simp]:
  "box_oids f scan [] = {}" "box_oids f scan ((v, True) # bs) = scan_oids f (scan v) \<union> box_oids f scan bs"
  "box_oids f scan ((v, False) # bs) = box_oids f scan bs"
  by (auto simp: box_oids_def)

lemma check_mailboxes_marks:
  assumes "law_scan A scan V"
  shows "distinct (map m_oid ms) \<Longrightarrow> readable scan boxes \<Longrightarrow>
    \<exists>w1. V w1 = V w \<and> (\<forall>rest. check_mailboxes A (boxes @ rest) ms w =
      check_mailboxes A rest (mark_oids (box_oids (dv_guid_to_string (ad_dovecot A)) scan boxes) ms) w1)"
proof (induction boxes arbitrary: ms w)
  case Nil
  show ?case by (rule exI [of _ w]) simp
next
  case (Cons b boxes)
  let ?f = "dv_guid_to_string (ad_dovecot A)"
  obtain v sel where b: "b = (v, sel)" by (cases b)
  have r: "readable scan boxes" using Cons.prems(2) by (simp add: readable_def)
  show ?case
  proof (cases sel)
    case True
    then have "bs_virtual (scan v) \<or> scan_ok (scan v)" using Cons.prems(2) b by (simp add: readable_def)
    from iterate_mailbox_marks [OF assms Cons.prems(1) this, of w] obtain w1 where
      1: "iterate_mailbox A v ms w = (0, mark_oids (scan_oids ?f (scan v)) ms, w1)" "V w1 = V w" by blast
    from Cons.IH [OF _ r, of "mark_oids (scan_oids ?f (scan v)) ms" w1] Cons.prems(1) obtain w2 where
      "V w2 = V w1" "\<forall>rest. check_mailboxes A (boxes @ rest) (mark_oids (scan_oids ?f (scan v)) ms) w1 =
         check_mailboxes A rest (mark_oids (scan_oids ?f (scan v) \<union> box_oids ?f scan boxes) ms) w2" by auto
    then show ?thesis using 1 True b by (intro exI [of _ w2]) simp
  next
    case False
    then show ?thesis using Cons.IH [OF Cons.prems(1) r, of w] b by simp
  qed
qed

definition namespace_oids :: "(bytes \<Rightarrow> string) \<Rightarrow> (string \<Rightarrow> box_scan) \<Rightarrow> list_ns list \<Rightarrow> string set" where
  "namespace_oids f scan nss = (\<Union>ns \<in> set nss. box_oids f scan (ln_boxes ns))"

lemma check_namespaces_marks:
  assumes "law_scan A scan V"
  shows "distinct (map m_oid ms) \<Longrightarrow> \<forall>ns \<in> set nss. readable scan (ln_boxes ns) \<Longrightarrow>
    \<exists>w1. check_namespaces A nss ms w = (mark_oids (namespace_oids (dv_guid_to_string (ad_dovecot A)) scan nss) ms, w1) \<and> V w1 = V w"
proof (induction nss arbitrary: ms w)
  case (Cons ns nss)
  let ?f = "dv_guid_to_string (ad_dovecot A)"
  have "readable scan (ln_boxes ns)" using Cons.prems(2) by simp
  from check_mailboxes_marks [OF assms Cons.prems(1) this, of w] obtain w1 where
    1: "V w1 = V w" "check_mailboxes A (ln_boxes ns) ms w = (0, mark_oids (box_oids ?f scan (ln_boxes ns)) ms, w1)"
    by (metis append_Nil2 check_mailboxes.simps(1))
  from Cons.IH [of "mark_oids (box_oids ?f scan (ln_boxes ns)) ms" w1] Cons.prems show ?case
    by (auto simp: check_namespace_mailboxes_def 1 namespace_oids_def)
qed (simp add: namespace_oids_def)

text \<open>The mails that are not marked are removed.\<close>

lemma delete_unreferenced_removes:
  assumes "law_remove (re_rados (ad_rmb A)) V" and "removes_existing (re_rados (ad_rmb A)) V"
  shows "storage_ready (pl_cl p) (pl_storage p) \<Longrightarrow> distinct (map m_oid ms) \<Longrightarrow> [] \<notin> m_oid ` set ms \<Longrightarrow>
    \<forall>m \<in> set ms. V (pl_w p) (okey (st_io_ctx (pl_storage p)) (m_oid m)) \<noteq> None \<Longrightarrow>
    \<exists>c w1. delete_unreferenced A True ms code p = (c, p\<lparr>pl_w := w1\<rparr>) \<and>
      V w1 = V (pl_w p) |` (- (okey (st_io_ctx (pl_storage p)) ` m_oid ` {m \<in> set ms. \<not> m_index_ref m}))"
proof (induction ms arbitrary: p code)
  case (Cons m ms)
  let ?io = "st_io_ctx (pl_storage p)" and ?R = "re_rados (ad_rmb A)"
  show ?case
  proof (cases "m_index_ref m")
    case True
    then have "{m' \<in> set (m # ms). \<not> m_index_ref m'} = {m' \<in> set ms. \<not> m_index_ref m'}" by auto
    then show ?thesis using True Cons.IH [of p code] Cons.prems by simp
  next
    case False
    have ex: "V (pl_w p) (okey ?io (m_oid m)) \<noteq> None" using Cons.prems(4) by simp
    obtain w1 where r: "rd_remove ?R ?io (m_oid m) (pl_w p) = (0, w1)"
      using assms(2) ex unfolding removes_existing_def by (metis prod.collapse)
    then have v: "V w1 = (V (pl_w p))(okey ?io (m_oid m) := None)" using assms(1) unfolding law_remove_def by fastforce
    have d: "delete_mail_ptr ?R (pl_cl p) (pl_storage p) (Some m) (pl_w p) = (0, w1)"
      using r Cons.prems(1,3) by (auto simp: delete_mail_ptr_def delete_mail_def storage_ready_def)
    have "\<forall>m' \<in> set ms. V w1 (okey ?io (m_oid m')) \<noteq> None" using Cons.prems(2,4) by (auto simp: v okey_def rev_image_eqI)
    then obtain c w2 where "delete_unreferenced A True ms 2 (p\<lparr>pl_w := w1\<rparr>) = (c, p\<lparr>pl_w := w2\<rparr>)"
        "V w2 = V (pl_w (p\<lparr>pl_w := w1\<rparr>)) |` (- (okey ?io ` m_oid ` {m \<in> set ms. \<not> m_index_ref m}))"
      using Cons.IH [of "p\<lparr>pl_w := w1\<rparr>" 2] Cons.prems by auto
    moreover have "{m' \<in> set (m # ms). \<not> m_index_ref m'} = insert m {m' \<in> set ms. \<not> m_index_ref m'}" using False by auto
    ultimately show ?thesis using False d v by (intro exI [of _ c] exI [of _ w2]) (auto simp: fun_eq_iff restrict_map_def)
  qed
qed (force simp: restrict_map_def)

text \<open>Every id of a mailbox is appended to the index object.\<close>

definition appends_succeed :: "'w rados \<Rightarrow> bool" where
  "appends_succeed R \<longleftrightarrow> (\<forall>io oid d w. fst (rd_append R io oid d w) = 0)"

definition indexable :: "(bytes \<Rightarrow> string) \<Rightarrow> (string \<Rightarrow> box_scan) \<Rightarrow> (string \<times> bool) list \<Rightarrow> bool" where
  "indexable f scan boxes \<longleftrightarrow> (\<forall>(v, selectable) \<in> set boxes. selectable \<longrightarrow> \<not> bs_virtual (scan v) \<and> scan_ok (scan v) \<and>
     (\<forall>t \<in> record_oids f (bs_records (scan v)). oid_ok t))"

lemma record_oids_list: "record_oids f rs = set (map (\<lambda>(_, oid). f oid) (List.map_filter id rs))"
  by (force simp: record_oids_def map_filter_def)

lemma index_mailbox_appends:
  assumes "law_scan A scan V" and "law_append (re_rados (ad_rmb A)) V" and "appends_succeed (re_rados (ad_rmb A))"
    and "indexable (dv_guid_to_string (ad_dovecot A)) scan [(v, True)]" and "index_wf (index_data V (ts_st x) (ts_w x))"
  shows "\<exists>x1. ts_st x1 = ts_st x \<and> index_wf (index_data V (ts_st x) (ts_w x1)) \<and>
    ceph_index_to_set (index_data V (ts_st x) (ts_w x1)) =
      ceph_index_to_set (index_data V (ts_st x) (ts_w x)) \<union> scan_oids (dv_guid_to_string (ad_dovecot A)) (scan v) \<and>
    (\<forall>boxes ret. index_mailboxes A ((v, True) # boxes) ret {} x = index_mailboxes A boxes 0 {} x1)"
proof -
  let ?f = "dv_guid_to_string (ad_dovecot A)" and ?R = "re_rados (ad_rmb A)" and ?st = "ts_st x"
  let ?S = "record_oids ?f (bs_records (scan v))"
  obtain w1 where s: "ad_scan A v (ts_w x) = (scan v, w1)" "V w1 = V (ts_w x)"
    using assms(1) unfolding law_scan_def by (metis prod.collapse)
  have ok: "\<not> bs_virtual (scan v)" "scan_ok (scan v)" "\<forall>t \<in> ?S. oid_ok t" using assms(4) by (simp_all add: indexable_def)
  have i: "iterate_list_objects A v {} (ts_w x) = (0, ?S, w1)"
    using s(1) ok(1,2) by (simp add: iterate_list_objects_def scan_ok_def record_oids_list)
  obtain w2 where a: "ceph_index_append_set ?R ?st ?S w1 = (0, w2)"
    using assms(3) unfolding appends_succeed_def ceph_index_append_set_def by (metis prod.collapse)
  have "index_data V ?st w2 = index_data V ?st w1 @ convert_to_ceph_index ?S"
    using assms(2) a unfolding law_append_def ceph_index_append_set_def index_data_def by (fastforce simp: Let_def)
  moreover have "index_data V ?st w1 = index_data V ?st (ts_w x)" by (simp add: index_data_def s(2))
  moreover have "finite ?S" by (simp add: record_oids_list)
  ultimately have "index_wf (index_data V ?st w2) \<and>
      ceph_index_to_set (index_data V ?st w2) = ceph_index_to_set (index_data V ?st (ts_w x)) \<union> ?S"
    using index_wf_append [OF assms(5) _ ok(3)] by simp
  moreover have "append_ceph_object_index (ad_rmb A) ?S (x\<lparr>ts_w := w1\<rparr>) = (0, x\<lparr>ts_w := w2\<rparr>)"
    using a by (simp add: append_ceph_object_index_def)
  ultimately show ?thesis using i ok(1) by (intro exI [of _ "x\<lparr>ts_w := w2\<rparr>"]) (simp add: scan_oids_def)
qed

lemma index_mailboxes_appends:
  assumes "law_scan A scan V" and "law_append (re_rados (ad_rmb A)) V" and "appends_succeed (re_rados (ad_rmb A))"
  shows "indexable (dv_guid_to_string (ad_dovecot A)) scan boxes \<Longrightarrow> index_wf (index_data V (ts_st x) (ts_w x)) \<Longrightarrow> \<exists>x1.
    index_mailboxes A boxes 0 {} x = (True, 0, {}, x1) \<and> ts_st x1 = ts_st x \<and> index_wf (index_data V (ts_st x) (ts_w x1)) \<and>
    ceph_index_to_set (index_data V (ts_st x) (ts_w x1)) =
      ceph_index_to_set (index_data V (ts_st x) (ts_w x)) \<union> box_oids (dv_guid_to_string (ad_dovecot A)) scan boxes"
proof (induction boxes arbitrary: x)
  case (Cons b boxes)
  let ?f = "dv_guid_to_string (ad_dovecot A)"
  obtain v sel where b: "b = (v, sel)" by (cases b)
  have r: "indexable ?f scan boxes" using Cons.prems(1) by (simp add: indexable_def)
  show ?case
  proof (cases sel)
    case True
    then have "indexable ?f scan [(v, True)]" using Cons.prems(1) b by (simp add: indexable_def)
    from index_mailbox_appends [OF assms this Cons.prems(2)] obtain x1 where 1: "ts_st x1 = ts_st x" "index_wf (index_data V (ts_st x) (ts_w x1))"
      "ceph_index_to_set (index_data V (ts_st x) (ts_w x1)) = ceph_index_to_set (index_data V (ts_st x) (ts_w x)) \<union> scan_oids ?f (scan v)"
      "\<forall>boxes ret. index_mailboxes A ((v, True) # boxes) ret {} x = index_mailboxes A boxes 0 {} x1" by blast
    from Cons.IH [OF r, of x1] show ?thesis using 1 True b by (auto simp del: index_mailboxes.simps)
  next
    case False
    then show ?thesis using Cons.IH [OF r Cons.prems(2)] b by simp
  qed
qed simp

section \<open>Properties\<close>

text \<open>
  Property C13: checking the index with deletion. When all mailboxes can be read, exactly the objects of the given mails that no index record
  of any mailbox refers to are removed.
\<close>

theorem check_removes_unreferenced:
  assumes "law_scan A scan V" and "law_remove (re_rados (ad_rmb A)) V" and "removes_existing (re_rados (ad_rmb A)) V"
    and "\<forall>ns \<in> set nss. readable scan (ln_boxes ns)" and "distinct (map m_oid ms)" and "[] \<notin> m_oid ` set ms" and "\<forall>m \<in> set ms. \<not> m_index_ref m"
    and "storage_ready (pl_cl p) (pl_storage p)" and "io = st_io_ctx (pl_storage p)" and "\<forall>m \<in> set ms. V w (okey io (m_oid m)) \<noteq> None"
  shows "\<exists>mails w1 code w2. check_namespaces A nss ms w = (mails, w1) \<and>
    delete_unreferenced A True mails 0 (p\<lparr>pl_w := w1\<rparr>) = (code, p\<lparr>pl_w := w2\<rparr>) \<and>
    V w2 = V w |` (- (okey io ` (m_oid ` set ms - namespace_oids (dv_guid_to_string (ad_dovecot A)) scan nss)))"
proof -
  let ?S = "namespace_oids (dv_guid_to_string (ad_dovecot A)) scan nss"
  obtain w1 where 1: "check_namespaces A nss ms w = (mark_oids ?S ms, w1)" "V w1 = V w"
    using check_namespaces_marks [OF assms(1,5,4)] by blast
  have oids: "m_oid ` set (mark_oids ?S ms) = m_oid ` set ms" using map_oid_mark(1) [of ?S ms] by (metis list.set_map)
  have un: "m_oid ` {m \<in> set (mark_oids ?S ms). \<not> m_index_ref m} = m_oid ` set ms - ?S"
    using assms(7) by (force simp: mark_oids_def)
  have "\<forall>m \<in> set (mark_oids ?S ms). V w1 (okey io (m_oid m)) \<noteq> None" using assms(10) 1(2) oids by (metis imageE imageI)
  then obtain c w2 where 2: "delete_unreferenced A True (mark_oids ?S ms) 0 (p\<lparr>pl_w := w1\<rparr>) = (c, p\<lparr>pl_w := w2\<rparr>)"
      "V w2 = V (pl_w (p\<lparr>pl_w := w1\<rparr>)) |` (- (okey io ` m_oid ` {m \<in> set (mark_oids ?S ms). \<not> m_index_ref m}))"
    using delete_unreferenced_removes [OF assms(2,3), of "p\<lparr>pl_w := w1\<rparr>" "mark_oids ?S ms" 0] assms(5,6,8,9) oids by auto
  then have "V w2 = V w |` (- (okey io ` (m_oid ` set ms - ?S)))" using 1(2) un by simp
  then show ?thesis using 1(1) 2(1) by blast
qed

text \<open>
  Property C40: a mailbox that cannot be opened. The mailboxes after it are not scanned, the failure is ignored, and objects that only
  their index records refer to are removed by the check: mails that are in a mailbox are lost.
\<close>

theorem unreadable_mailbox_loses_mails:
  assumes "law_scan A scan V" and "law_remove (re_rados (ad_rmb A)) V" and "removes_existing (re_rados (ad_rmb A)) V"
    and "ln_boxes ns = before @ (v, True) # others" and "readable scan before" and "\<not> bs_virtual (scan v)" and "bs_open (scan v) < 0"
    and "distinct (map m_oid ms)" and "[] \<notin> m_oid ` set ms" and "\<forall>m \<in> set ms. \<not> m_index_ref m"
    and "storage_ready (pl_cl p) (pl_storage p)" and "io = st_io_ctx (pl_storage p)" and "\<forall>m \<in> set ms. V w (okey io (m_oid m)) \<noteq> None"
    and "m \<in> set ms" and "m_oid m \<notin> box_oids (dv_guid_to_string (ad_dovecot A)) scan before"
  shows "\<exists>mails w1 code w2. check_namespaces A [ns] ms w = (mails, w1) \<and>
    delete_unreferenced A True mails 0 (p\<lparr>pl_w := w1\<rparr>) = (code, p\<lparr>pl_w := w2\<rparr>) \<and> V w2 (okey io (m_oid m)) = None"
proof -
  let ?S = "box_oids (dv_guid_to_string (ad_dovecot A)) scan before"
  obtain w0 where 0: "V w0 = V w" "check_mailboxes A (before @ (v, True) # others) ms w = check_mailboxes A ((v, True) # others) (mark_oids ?S ms) w0"
    using check_mailboxes_marks [OF assms(1,8,5), of w] by blast
  obtain w1 where s: "ad_scan A v w0 = (scan v, w1)" "V w1 = V w0" using assms(1) unfolding law_scan_def by (metis prod.collapse)
  have 1: "check_namespaces A [ns] ms w = (mark_oids ?S ms, w1)"
    using s(1) assms(6,7) by (simp add: check_namespace_mailboxes_def assms(4) 0(2) iterate_mailbox_def)
  have oids: "m_oid ` set (mark_oids ?S ms) = m_oid ` set ms" using map_oid_mark(1) [of ?S ms] by (metis list.set_map)
  have "\<forall>m \<in> set (mark_oids ?S ms). V w1 (okey io (m_oid m)) \<noteq> None" using assms(13) 0(1) s(2) oids by (metis imageE imageI)
  then obtain c w2 where 2: "delete_unreferenced A True (mark_oids ?S ms) 0 (p\<lparr>pl_w := w1\<rparr>) = (c, p\<lparr>pl_w := w2\<rparr>)"
      "V w2 = V (pl_w (p\<lparr>pl_w := w1\<rparr>)) |` (- (okey io ` m_oid ` {m \<in> set (mark_oids ?S ms). \<not> m_index_ref m}))"
    using delete_unreferenced_removes [OF assms(2,3), of "p\<lparr>pl_w := w1\<rparr>" "mark_oids ?S ms" 0] assms(8,9,11,12) oids by auto
  have "m \<in> set (mark_oids ?S ms)" using assms(14,15) by (force simp: mark_oids_def)
  then have "okey io (m_oid m) \<in> okey io ` m_oid ` {m \<in> set (mark_oids ?S ms). \<not> m_index_ref m}" using assms(10,14) by blast
  then have "V w2 (okey io (m_oid m)) = None" using 2(2) by simp
  then show ?thesis using 1 2(1) by blast
qed

text \<open>
  Property C24: creating the index object. When every mailbox can be read, is not virtual, and the appends succeed, the index object names
  what it named before and the object of every mail of every mailbox.
\<close>

theorem created_index_lists_mails:
  assumes "law_scan A scan V" and "law_append (re_rados (ad_rmb A)) V" and "appends_succeed (re_rados (ad_rmb A))"
    and "\<forall>ns \<in> set nss. indexable (dv_guid_to_string (ad_dovecot A)) scan (ln_boxes ns)" and "index_wf (index_data V (ts_st x) (ts_w x))"
  shows "\<exists>x1. index_namespaces A nss 0 {} x = (True, 0, x1) \<and> ceph_index_to_set (index_data V (ts_st x) (ts_w x1)) =
    ceph_index_to_set (index_data V (ts_st x) (ts_w x)) \<union> namespace_oids (dv_guid_to_string (ad_dovecot A)) scan nss"
  using assms(4,5)
proof (induction nss arbitrary: x)
  case (Cons ns nss)
  let ?f = "dv_guid_to_string (ad_dovecot A)"
  have "indexable ?f scan (ln_boxes ns)" using Cons.prems(1) by simp
  from index_mailboxes_appends [OF assms(1-3) this Cons.prems(2)] obtain x1 where
    1: "index_mailboxes A (ln_boxes ns) 0 {} x = (True, 0, {}, x1)" "ts_st x1 = ts_st x" "index_wf (index_data V (ts_st x) (ts_w x1))"
      "ceph_index_to_set (index_data V (ts_st x) (ts_w x1)) = ceph_index_to_set (index_data V (ts_st x) (ts_w x)) \<union> box_oids ?f scan (ln_boxes ns)"
    by blast
  from Cons.IH [of x1] Cons.prems 1 show ?case by (auto simp: namespace_oids_def Un_assoc)
qed (simp add: namespace_oids_def)

subsection \<open>Witnesses\<close>

text \<open>A user with an inbox and a mailbox \<open>Broken\<close> that cannot be opened.\<close>

definition sample_scan :: "string \<Rightarrow> box_scan" where
  "sample_scan v = \<lparr>bs_virtual = False, bs_open = (if v = ''Broken'' then -1 else 0), bs_records = [Some (''g1'', ''o1''), None],
     bs_search_end = 0, bs_commit = 0\<rparr>"

definition sample_adm :: "mem adm_env" where
  "sample_adm = \<lparr>ad_main = tool_main, ad_dovecot = fixed_dovecot ''g'' None [], ad_getenv = \<lambda>_. None, ad_scan = \<lambda>v w. (sample_scan v, w),
     ad_next_user = \<lambda>_ w. (0, 1, 0, w), ad_children = \<lambda>_ w. (0, [], w), ad_delete_box = \<lambda>_ _ _. Pair 0, ad_unsubscribe = \<lambda>_. Pair 0,
     ad_oid_garbage = []\<rparr>"

definition sample_plugin :: "mem \<Rightarrow> mem plugin" where
  "sample_plugin w = (new_plugin sample_cluster w)\<lparr>pl_storage := sample_storage\<rparr>"

definition sample_mails :: "rados_mail list" where
  "sample_mails = [new_rados_mail\<lparr>m_oid := ''o1''\<rparr>, new_rados_mail\<lparr>m_oid := ''o2''\<rparr>]"

definition sample_objects :: mem where
  "sample_objects = [(([], [], ''o1''), empty_robj), (([], [], ''o2''), empty_robj)]"

lemma sample_adm_laws:
  "law_scan sample_adm sample_scan map_of" "law_remove (re_rados (ad_rmb sample_adm)) map_of" "removes_existing (re_rados (ad_rmb sample_adm)) map_of"
  "law_append (re_rados (ad_rmb sample_adm)) map_of" "appends_succeed (re_rados (ad_rmb sample_adm))"
  "dv_guid_to_string (ad_dovecot sample_adm) = id"
  using mem_rados_laws(4,13) mem_answers(2)
  by (simp_all add: law_scan_def sample_adm_def tool_main_def tool_env_def fixed_dovecot_def appends_succeed_def mem_rados_def mem_set_def)

lemma sample_mails_ok:
  "distinct (map m_oid sample_mails)" "[] \<notin> m_oid ` set sample_mails" "\<forall>m \<in> set sample_mails. \<not> m_index_ref m"
  "storage_ready (pl_cl (sample_plugin w)) (pl_storage (sample_plugin w))" "\<lparr>ctx_pool = [], ctx_ns = []\<rparr> = st_io_ctx (pl_storage (sample_plugin w))"
  "\<forall>m \<in> set sample_mails. map_of sample_objects (okey \<lparr>ctx_pool = [], ctx_ns = []\<rparr> (m_oid m)) \<noteq> None"
  using sample_ready
  by (simp_all add: sample_mails_def new_rados_mail_def sample_plugin_def new_plugin_def sample_storage_def new_storage_def null_ctx_def
      sample_objects_def okey_def)

lemma sample_oids: "scan_oids id (sample_scan v) = {''o1''}"
  by (auto simp: scan_oids_def sample_scan_def record_oids_def)

theorem check_removes_unreferenced_witness:
  "\<exists>mails w1 code w2. check_namespaces sample_adm [\<lparr>ln_boxes = [(''INBOX'', True)], ln_list_ok = True\<rparr>] sample_mails sample_objects = (mails, w1) \<and>
     delete_unreferenced sample_adm True mails 0 ((sample_plugin [])\<lparr>pl_w := w1\<rparr>) = (code, (sample_plugin [])\<lparr>pl_w := w2\<rparr>) \<and>
     map_of w2 ([], [], ''o1'') \<noteq> None \<and> map_of w2 ([], [], ''o2'') = None"
proof -
  let ?nss = "[\<lparr>ln_boxes = [(''INBOX'', True)], ln_list_ok = True\<rparr>]"
  have r: "\<forall>ns \<in> set ?nss. readable sample_scan (ln_boxes ns)" by (simp add: readable_def scan_ok_def sample_scan_def)
  have n: "namespace_oids (dv_guid_to_string (ad_dovecot sample_adm)) sample_scan ?nss = {''o1''}"
    by (simp add: namespace_oids_def sample_adm_laws(6) sample_oids)
  have o: "m_oid ` set sample_mails = {''o1'', ''o2''}" by (auto simp: sample_mails_def)
  obtain mails w1 code w2 where c: "check_namespaces sample_adm ?nss sample_mails sample_objects = (mails, w1)"
      "delete_unreferenced sample_adm True mails 0 ((sample_plugin [])\<lparr>pl_w := w1\<rparr>) = (code, (sample_plugin [])\<lparr>pl_w := w2\<rparr>)"
      "map_of w2 = map_of sample_objects |` (- (okey \<lparr>ctx_pool = [], ctx_ns = []\<rparr> ` ({''o1'', ''o2''} - {''o1''})))"
    using check_removes_unreferenced [OF sample_adm_laws(1-3) r sample_mails_ok(1-3) sample_mails_ok(4) [of "[]"] sample_mails_ok(5,6)]
    unfolding n o by blast
  have "map_of w2 ([], [], ''o1'') \<noteq> None" "map_of w2 ([], [], ''o2'') = None"
    by (simp_all add: c(3) okey_def restrict_map_def sample_objects_def)
  then show ?thesis using c(1,2) by blast
qed

theorem unreadable_mailbox_loses_mails_witness:
  "\<exists>mails w1 code w2.
     check_namespaces sample_adm [\<lparr>ln_boxes = [(''Broken'', True), (''INBOX'', True)], ln_list_ok = True\<rparr>] sample_mails sample_objects = (mails, w1) \<and>
     delete_unreferenced sample_adm True mails 0 ((sample_plugin [])\<lparr>pl_w := w1\<rparr>) = (code, (sample_plugin [])\<lparr>pl_w := w2\<rparr>) \<and>
     map_of w2 ([], [], ''o1'') = None \<and> ''o1'' \<in> box_oids id sample_scan [(''INBOX'', True)]"
proof -
  let ?ns = "\<lparr>ln_boxes = [(''Broken'', True), (''INBOX'', True)], ln_list_ok = True\<rparr>" and ?m = "new_rados_mail\<lparr>m_oid := ''o1''\<rparr>"
  have b: "ln_boxes ?ns = [] @ (''Broken'', True) # [(''INBOX'', True)]" "readable sample_scan []" "\<not> bs_virtual (sample_scan ''Broken'')"
    "bs_open (sample_scan ''Broken'') < 0" by (simp_all add: readable_def sample_scan_def)
  have m: "?m \<in> set sample_mails" "m_oid ?m \<notin> box_oids (dv_guid_to_string (ad_dovecot sample_adm)) sample_scan []"
    by (simp_all add: sample_mails_def)
  show ?thesis
    using unreadable_mailbox_loses_mails [OF sample_adm_laws(1-3) b sample_mails_ok(1-3) sample_mails_ok(4) [of "[]"] sample_mails_ok(5,6) m]
    by (simp add: okey_def sample_oids)
qed

theorem created_index_lists_mails_witness:
  "\<exists>x1. index_namespaces sample_adm [\<lparr>ln_boxes = [(''INBOX'', True)], ln_list_ok = True\<rparr>] 0 {} (cmds [] (sample_plugin [])) = (True, 0, x1) \<and>
     ceph_index_to_set (index_data map_of sample_storage (ts_w x1)) = {''o1''}"
proof -
  let ?nss = "[\<lparr>ln_boxes = [(''INBOX'', True)], ln_list_ok = True\<rparr>]" and ?x = "cmds [] (sample_plugin [])"
  have i: "\<forall>ns \<in> set ?nss. indexable (dv_guid_to_string (ad_dovecot sample_adm)) sample_scan (ln_boxes ns)"
    by (auto simp: indexable_def sample_adm_laws(6) sample_scan_def scan_ok_def record_oids_def oid_ok_def)
  have e: "ts_st ?x = sample_storage" "index_data map_of (ts_st ?x) (ts_w ?x) = []"
    by (simp_all add: cmds_def sample_plugin_def new_plugin_def index_data_def obj_or_new_def empty_robj_def)
  have w: "index_wf (index_data map_of (ts_st ?x) (ts_w ?x))" by (simp add: e(2) index_wf_def)
  have c: "ceph_index_to_set [] = {}" by (simp add: ceph_index_to_set_eq)
  have n: "namespace_oids (dv_guid_to_string (ad_dovecot sample_adm)) sample_scan ?nss = {''o1''}"
    by (simp add: namespace_oids_def sample_adm_laws(6) sample_oids)
  show ?thesis using created_index_lists_mails [OF sample_adm_laws(1,4,5) i w] unfolding n e(1) e(2) [unfolded e(1)] c Un_empty_left .
qed

end
