(* ===== verification/Dictionary.thy ===== *)
theory Dictionary
  imports Storage_Impl Namespace_Mgr
begin

text \<open>
  \<open>RadosDictionaryImpl\<close> (\<open>src/src/librmb/rados-dictionary-impl.cpp\<close>): a dictionary keeps its
  private keys in one omap object of the user's namespace and its shared keys in one of the public
  namespace. Both io contexts are opened on first use. The configuration points to the context it
  was loaded with, and the namespace manager changes the namespace of that context: the model keeps
  this aliasing as \<open>d_cfg_ctx\<close>.
\<close>

section \<open>State\<close>

datatype ctx_ref = Shared_Ctx | Private_Ctx

record dictionary =
  d_poolname :: string
  d_username :: string
  d_oid :: string
  d_shared_oid :: string
  d_private_oid :: string
  d_shared_ctx :: io_ctx
  d_private_ctx :: io_ctx
  d_shared_created :: bool
  d_private_created :: bool
  d_completions :: nat
  d_cfg :: "dovecot_ceph_cfg option"
  d_cfg_ctx :: ctx_ref
  d_cache :: "string smap option"
  d_guid :: "string option"
  d_cfg_object_name :: string

definition new_dictionary :: "string \<Rightarrow> string \<Rightarrow> string \<Rightarrow> string option \<Rightarrow> string \<Rightarrow> dictionary" where
  "new_dictionary poolname username oid guid cfg_object_name =
     \<lparr>d_poolname = poolname, d_username = username, d_oid = oid, d_shared_oid = oid, d_private_oid = oid,
      d_shared_ctx = null_ctx, d_private_ctx = null_ctx, d_shared_created = False, d_private_created = False,
      d_completions = 0, d_cfg = None, d_cfg_ctx = Shared_Ctx, d_cache = None, d_guid = guid,
      d_cfg_object_name = cfg_object_name\<rparr>"

definition DICT_PATH_PRIVATE :: string where "DICT_PATH_PRIVATE = ''priv/''"
definition DICT_PATH_SHARED :: string where "DICT_PATH_SHARED = ''shared/''"

definition get_full_oid :: "dictionary \<Rightarrow> string \<Rightarrow> string" where
  "get_full_oid d key =
     (if starts_with DICT_PATH_PRIVATE key then d_private_oid d
      else if starts_with DICT_PATH_SHARED key then d_shared_oid d
      else [])"

definition ctx_at :: "ctx_ref \<Rightarrow> dictionary \<Rightarrow> io_ctx" where
  "ctx_at r d = (case r of Shared_Ctx \<Rightarrow> d_shared_ctx d | Private_Ctx \<Rightarrow> d_private_ctx d)"

definition set_ctx :: "ctx_ref \<Rightarrow> io_ctx \<Rightarrow> dictionary \<Rightarrow> dictionary" where
  "set_ctx r c d = (case r of Shared_Ctx \<Rightarrow> d\<lparr>d_shared_ctx := c\<rparr> | Private_Ctx \<Rightarrow> d\<lparr>d_private_ctx := c\<rparr>)"

section \<open>Opening the contexts\<close>

text \<open>The configuration as seen through its pointer, and the context written back after a call.\<close>

definition cfg_view :: "dictionary \<Rightarrow> dovecot_ceph_cfg \<Rightarrow> dovecot_ceph_cfg" where
  "cfg_view d cfg = cfg\<lparr>dc_rados := (dc_rados cfg)\<lparr>cf_io_ctx := Some (ctx_at (d_cfg_ctx d) d)\<rparr>\<rparr>"

definition cfg_store :: "dovecot_ceph_cfg \<Rightarrow> dictionary \<Rightarrow> dictionary" where
  "cfg_store cfg d =
     (case cf_io_ctx (dc_rados cfg) of
        None \<Rightarrow> d\<lparr>d_cfg := Some cfg\<rparr>
      | Some c \<Rightarrow> (set_ctx (d_cfg_ctx d) c d)\<lparr>d_cfg := Some cfg\<rparr>)"

definition load_configuration :: "json_lib \<Rightarrow> 'w rados \<Rightarrow> ctx_ref \<Rightarrow> dictionary \<Rightarrow> 'w \<Rightarrow>
    (bool \<times> dictionary \<times> 'w) option" where
  "load_configuration J R r d w =
     (if d_cfg d \<noteq> None then Some (True, d, w)
      else
        let cfg0 = \<lparr>dc_dovecot = new_rados_config, dc_rados = \<lparr>cf_config = new_json_config, cf_io_ctx = Some (ctx_at r d)\<rparr>\<rparr>;
            cfg1 = dc_set_config_valid True (cfg0\<lparr>dc_dovecot := (dc_dovecot cfg0)\<lparr>rc_config :=
                     smap_put ''rbox_cfg_object_name'' (d_cfg_object_name d) (rc_config (dc_dovecot cfg0))\<rparr>\<rparr>)
        in (case load_rados_config J R cfg1 w of
              None \<Rightarrow> None
            | Some (load, cfg2, w1) \<Rightarrow>
                let (loaded, cfg3, w2) =
                      (if load = - ENOENT then
                         (case save_default_rados_config J R cfg2 w1 of (_, c, w2) \<Rightarrow> (True, c, w2))
                       else (\<not> load < 0, cfg2, w1));
                    d1 = d\<lparr>d_cfg := Some cfg3, d_cfg_ctx := r\<rparr>
                in Some (loaded,
                         if d_username d1 = []
                         then d1\<lparr>d_username := jc_public_namespace (cf_config (dc_rados cfg3))\<rparr> else d1,
                         w2)))"

text \<open>
  \<open>lookup_namespace\<close> returns 0 when the key was found and whether the new entry was stored
  otherwise; \<open>ns\<close> is the empty string of the caller when nothing was found or generated.
\<close>

definition lookup_namespace :: "'w rados \<Rightarrow> string \<Rightarrow> dictionary \<Rightarrow> 'w \<Rightarrow> bool \<times> string \<times> dictionary \<times> 'w" where
  "lookup_namespace R user d w =
     (case d_cfg d of None \<Rightarrow> (False, [], d, w)
      | Some cfg \<Rightarrow>
        let cache = (case d_cache d of None \<Rightarrow> [] | Some c \<Rightarrow> c);
            m = \<lparr>nm_config = Some (cfg_view d cfg), nm_cache = cache\<rparr>;
            (found, ns, m1, w1) = lookup_key R user [] m w;
            (res, ns2, m2, w2) = (if \<not> found then add_namespace_entry R user ns (d_guid d) m1 w1
                                  else (False, ns, m1, w1));
            d1 = (case nm_config m2 of None \<Rightarrow> d | Some c \<Rightarrow> cfg_store c d)
        in (res, ns2, d1\<lparr>d_cache := Some (nm_cache m2)\<rparr>, w2))"

definition get_shared_io_ctx :: "json_lib \<Rightarrow> 'w client \<Rightarrow> 'w rados \<Rightarrow> dictionary \<Rightarrow> cluster \<Rightarrow> 'w \<Rightarrow>
    (io_ctx \<times> dictionary \<times> cluster \<times> 'w) option" where
  "get_shared_io_ctx J C R d cl w =
     (if d_shared_created d then Some (d_shared_ctx d, d, cl, w)
      else case io_ctx_create C (d_poolname d) (d_shared_ctx d) cl w of
        None \<Rightarrow> None
      | Some (ret, c, cl1, w1) \<Rightarrow>
          let d1 = d\<lparr>d_shared_ctx := c, d_shared_created := (ret = 0)\<rparr> in
          (case load_configuration J R Shared_Ctx d1 w1 of
             None \<Rightarrow> None
           | Some (loaded, d2, w2) \<Rightarrow>
               if loaded then
                 let user = (case d_cfg d2 of None \<Rightarrow> [] | Some cfg \<Rightarrow> jc_public_namespace (cf_config (dc_rados cfg)));
                     (_, ns, d3, w3) = lookup_namespace R user d2 w2;
                     d4 = d3\<lparr>d_shared_ctx := set_namespace ns (d_shared_ctx d3)\<rparr>
                 in Some (d_shared_ctx d4, d4, cl1, w3)
               else Some (d_shared_ctx d2, d2, cl1, w2)))"

definition get_private_io_ctx :: "json_lib \<Rightarrow> 'w client \<Rightarrow> 'w rados \<Rightarrow> dictionary \<Rightarrow> cluster \<Rightarrow> 'w \<Rightarrow>
    (io_ctx \<times> dictionary \<times> cluster \<times> 'w) option" where
  "get_private_io_ctx J C R d cl w =
     (if d_private_created d then Some (d_private_ctx d, d, cl, w)
      else case io_ctx_create C (d_poolname d) (d_private_ctx d) cl w of
        None \<Rightarrow> None
      | Some (ret, c, cl1, w1) \<Rightarrow>
          let d1 = d\<lparr>d_private_ctx := c\<rparr> in
          if ret = 0 then
            (case load_configuration J R Private_Ctx d1 w1 of
               None \<Rightarrow> None
             | Some (loaded, d2, w2) \<Rightarrow>
                 if loaded then
                   let suffix = (case d_cfg d2 of None \<Rightarrow> [] | Some cfg \<Rightarrow> jc_user_suffix (cf_config (dc_rados cfg)));
                       (_, ns, d3, w3) = lookup_namespace R (d_username d2 @ suffix) d2 w2;
                       d4 = d3\<lparr>d_private_created := True, d_private_ctx := set_namespace ns (d_private_ctx d3)\<rparr>
                   in Some (d_private_ctx d4, d4, cl1, w3)
                 else Some (d_private_ctx d2, d2, cl1, w2))
          else Some (d_private_ctx d1, d1, cl1, w1))"

text \<open>A key that is neither private nor shared fails an assertion: \<^const>\<open>None\<close>.\<close>

definition get_io_ctx :: "json_lib \<Rightarrow> 'w client \<Rightarrow> 'w rados \<Rightarrow> string \<Rightarrow> dictionary \<Rightarrow> cluster \<Rightarrow> 'w \<Rightarrow>
    (io_ctx \<times> dictionary \<times> cluster \<times> 'w) option" where
  "get_io_ctx J C R key d cl w =
     (if starts_with DICT_PATH_PRIVATE key then get_private_io_ctx J C R d cl w
      else if starts_with DICT_PATH_SHARED key then get_shared_io_ctx J C R d cl w
      else None)"

definition dict_get :: "json_lib \<Rightarrow> 'w client \<Rightarrow> 'w rados \<Rightarrow> string \<Rightarrow> dictionary \<Rightarrow> cluster \<Rightarrow> 'w \<Rightarrow>
    (int \<times> bytes option \<times> dictionary \<times> cluster \<times> 'w) option" where
  "dict_get J C R key d cl w =
     (case get_io_ctx J C R key d cl w of None \<Rightarrow> None
      | Some (c, d1, cl1, w1) \<Rightarrow>
        (case rd_aio_read R c (get_full_oid d1 key) [ROmapKeys [key]] w1 of (r, cr, res, w2) \<Rightarrow>
           let err = (if r < 0 then r else cr) in
           if err = 0 then
             (case res of
                (r_val, m, _) # _ \<Rightarrow>
                  if r_val = 0 then
                    (case smap_get key m of
                       Some v \<Rightarrow> Some (0, Some v, d1, cl1, w2)
                     | None \<Rightarrow> Some (- ENOENT, None, d1, cl1, w2))
                  else Some (r_val, None, d1, cl1, w2)
              | [] \<Rightarrow> Some (-1, None, d1, cl1, w2))
           else Some (err, None, d1, cl1, w2)))"

text \<open>
  The list of outstanding completions is only counted; \<open>wait_for_completions\<close> removes one at a
  time until none is left.
\<close>

definition push_back_completion :: "dictionary \<Rightarrow> dictionary" where
  "push_back_completion d = d\<lparr>d_completions := d_completions d + 1\<rparr>"

definition remove_completion :: "dictionary \<Rightarrow> dictionary" where
  "remove_completion d = d\<lparr>d_completions := d_completions d - 1\<rparr>"

function wait_for_completions :: "dictionary \<Rightarrow> dictionary" where
  "wait_for_completions d =
     (if d_completions d \<noteq> 0 then wait_for_completions (remove_completion d) else d)"
  by pat_completeness auto
termination
  by (relation "measure d_completions") (auto simp: remove_completion_def)

declare wait_for_completions.simps [simp del]

lemma wait_for_completions_none: "wait_for_completions d = d\<lparr>d_completions := 0\<rparr>"
proof (induction d rule: wait_for_completions.induct)
  case (1 d)
  then show ?case by (subst wait_for_completions.simps) (simp add: remove_completion_def)
qed

section \<open>One context moves the other\<close>

lemma lookup_namespace_resets:
  assumes "d_cfg d = Some cfg" and "dc_is_config_valid cfg" and "is_user_mapping (dc_rados cfg)"
    and "user \<noteq> []" and "smap_get user (case d_cache d of None \<Rightarrow> [] | Some c \<Rightarrow> c) = None"
    and "lookup_namespace R user d w = (res, ns, d', w')"
  shows "ctx_ns (ctx_at (d_cfg_ctx d) d') = []"
proof -
  have view: "dc_is_config_valid (cfg_view d cfg)" "is_user_mapping (dc_rados (cfg_view d cfg))"
    using assms(2,3) by (simp_all add: cfg_view_def dc_is_config_valid_def is_user_mapping_def)
  let ?io = "ctx_at (d_cfg_ctx d) d"
  have ctx: "cf_io_ctx (dc_rados (cfg_view d cfg)) = Some ?io"
    by (simp add: cfg_view_def)
  show ?thesis
    using assms view ctx
    by (auto simp: lookup_namespace_def lookup_key_def add_namespace_entry_def Let_def cfg_store_def ctx_at_def
        set_ctx_def set_namespace_def split: prod.splits option.splits if_splits ctx_ref.splits)
qed

text \<open>
  Opening the private context moves the shared one. When the shared context was opened
  first, so that the configuration points to it, and users are mapped to namespaces, opening the
  private context for a user that is not in the cache leaves the shared context in the default
  namespace: shared keys are from then on read and written outside the public namespace.
\<close>

theorem private_moves_shared:
  assumes "\<not> d_private_created d" and "d_cfg d = Some cfg" and "d_cfg_ctx d = Shared_Ctx"
    and "dc_is_config_valid cfg" and "is_user_mapping (dc_rados cfg)"
    and "d_username d @ jc_user_suffix (cf_config (dc_rados cfg)) \<noteq> []"
    and "smap_get (d_username d @ jc_user_suffix (cf_config (dc_rados cfg)))
           (case d_cache d of None \<Rightarrow> [] | Some c \<Rightarrow> c) = None"
    and "io_ctx_create C (d_poolname d) (d_private_ctx d) cl w = Some (0, c, cl1, w1)"
    and "get_private_io_ctx J C R d cl w = Some (c', d', cl', w')"
  shows "ctx_ns (d_shared_ctx d') = []"
proof -
  let ?user = "d_username d @ jc_user_suffix (cf_config (dc_rados cfg))" and ?d = "d\<lparr>d_private_ctx := c\<rparr>"
  obtain res ns d3 w3 where l: "lookup_namespace R ?user ?d w1 = (res, ns, d3, w3)" by (metis prod_cases4)
  have "ctx_ns (ctx_at Shared_Ctx d3) = []"
    using lookup_namespace_resets [OF _ assms(4-6) _ l] assms(2,3,7) by simp
  moreover have "d_shared_ctx d' = d_shared_ctx d3"
    using assms l by (auto simp: get_private_io_ctx_def load_configuration_def Let_def)
  ultimately show ?thesis by (simp add: ctx_at_def)
qed

definition aliased_dict :: dictionary where
  "aliased_dict = (new_dictionary ''p'' ''u'' ''dict'' (Some ''g'') ''rbox_cfg'')
     \<lparr>d_shared_ctx := \<lparr>ctx_pool = ''p'', ctx_ns = ''public''\<rparr>, d_shared_created := True,
      d_cfg := Some sample_cfg, d_cfg_ctx := Shared_Ctx, d_cache := Some []\<rparr>"

theorem private_moves_shared_witness:
  "ctx_ns (d_shared_ctx aliased_dict) = ''public'' \<and>
   (case get_private_io_ctx flat_json (fixed_client [] [''p'']) mem_rados aliased_dict sample_cluster [] of
      None \<Rightarrow> False | Some (_, d', _, _) \<Rightarrow> ctx_ns (d_shared_ctx d') = [])"
proof -
  let ?g = "get_private_io_ctx flat_json (fixed_client [] [''p'']) mem_rados aliased_dict sample_cluster []"
  let ?io = "io_ctx_create (fixed_client [] [''p'']) (d_poolname aliased_dict) (d_private_ctx aliased_dict) sample_cluster ([] :: mem)"
  have "case ?g of None \<Rightarrow> False | Some _ \<Rightarrow> True" by code_simp
  then obtain c' d' cl' w' where g: "?g = Some (c', d', cl', w')" by (auto split: option.splits)
  have "case ?io of None \<Rightarrow> False | Some (r, _) \<Rightarrow> r = 0" by code_simp
  then obtain c cl1 w1 where i: "?io = Some (0, c, cl1, w1)" by (auto split: option.splits)
  have f: "\<not> d_private_created aliased_dict" "d_cfg aliased_dict = Some sample_cfg" "d_cfg_ctx aliased_dict = Shared_Ctx"
    "d_username aliased_dict = ''u''" "d_cache aliased_dict = Some []" "ctx_ns (d_shared_ctx aliased_dict) = ''public''"
    by (simp_all add: aliased_dict_def new_dictionary_def)
  show ?thesis
    using private_moves_shared [OF f(1-3) sample_cfg_facts(2,3) _ _ i g] g by (simp add: f smap_get_def)
qed

end
