(* ===== verification/Dict_Rados.thy ===== *)
theory Dict_Rados
  imports Dictionary
begin

text \<open>
  The dovecot dictionary driver of \<open>src/src/dict-rados/dict-rados.cpp\<close>: parsing the dictionary URI,
  lookups, transactions that collect changes and deploy them at commit, and iteration. Dovecot's
  escaping of the user name and its GUIDs are arguments; a callback is the value it is called with.
\<close>

section \<open>Creating a dictionary\<close>

definition explode :: "string \<Rightarrow> char \<Rightarrow> string list" where
  "explode str sep = getline_tokens sep str"

record dict_uri =
  u_oid :: string
  u_pool :: string
  u_cluster :: string
  u_user :: string
  u_cfg :: string

definition default_uri :: dict_uri where
  "default_uri = \<lparr>u_oid = [], u_pool = ''mail_dictionaries'', u_cluster = ''ceph'',
     u_user = ''client.admin'', u_cfg = ''rbox_cfg''\<rparr>"

datatype uri_result = Uri_Ok dict_uri | Uri_Invalid | Uri_Throws cpp_exn

definition uri_field :: "(cpp_exn + string) \<Rightarrow> (string \<Rightarrow> dict_uri) \<Rightarrow> uri_result" where
  "uri_field v f = (case v of Inl e \<Rightarrow> Uri_Throws e | Inr s \<Rightarrow> Uri_Ok (f s))"

text \<open>One property of the URI, with the offsets of the source.\<close>

definition parse_prop :: "string \<Rightarrow> dict_uri \<Rightarrow> uri_result" where
  "parse_prop p u =
     (if starts_with ''oid='' p then uri_field (substr_from p 4) (\<lambda>s. u\<lparr>u_oid := s\<rparr>)
      else if starts_with ''pool='' p then uri_field (substr_from p 5) (\<lambda>s. u\<lparr>u_pool := s\<rparr>)
      else if starts_with ''dict_cluster_name='' p then uri_field (substr_from p 18) (\<lambda>s. u\<lparr>u_cluster := s\<rparr>)
      else if starts_with ''dict_user_name='' p then uri_field (substr_from p 16) (\<lambda>s. u\<lparr>u_user := s\<rparr>)
      else if starts_with ''dict_cfg_object_name='' p then uri_field (substr_from p 21) (\<lambda>s. u\<lparr>u_cfg := s\<rparr>)
      else Uri_Invalid)"

fun parse_props :: "string list \<Rightarrow> dict_uri \<Rightarrow> uri_result" where
  "parse_props [] u = Uri_Ok u"
| "parse_props (p # ps) u = (case parse_prop p u of Uri_Ok u' \<Rightarrow> parse_props ps u' | e \<Rightarrow> e)"

definition parse_uri :: "string option \<Rightarrow> uri_result" where
  "parse_uri uri = (case uri of None \<Rightarrow> Uri_Ok default_uri | Some s \<Rightarrow> parse_props (explode s (CHR '':'')) default_uri)"

text \<open>The result is \<^const>\<open>None\<close> when an exception leaves the function.\<close>

definition rados_dict_init :: "'w client \<Rightarrow> (string \<Rightarrow> string) \<Rightarrow> string option \<Rightarrow> string \<Rightarrow> string option \<Rightarrow>
    cluster \<Rightarrow> 'w \<Rightarrow> (int \<times> dictionary option \<times> cluster \<times> 'w) option" where
  "rados_dict_init C dict_escape_string uri set_username guid cl w =
     (case parse_uri uri of
        Uri_Throws _ \<Rightarrow> None
      | Uri_Invalid \<Rightarrow> Some (-1, None, cl, w)
      | Uri_Ok u \<Rightarrow>
          let username = (if CHR ''/'' \<in> set set_username then dict_escape_string set_username else set_username) in
          (case init_user (u_cluster u) (u_user u) C cl w of (ret, cl1, w1) \<Rightarrow>
             if ret < 0 then Some (-1, None, cl1, w1)
             else Some (0, Some (new_dictionary (u_pool u) username (u_oid u) guid (u_cfg u)), cl1, w1)))"

definition rados_dict_wait :: "dictionary \<Rightarrow> dictionary" where
  "rados_dict_wait d = wait_for_completions d"

definition rados_dict_deinit :: "'w client \<Rightarrow> dictionary option \<Rightarrow> cluster \<Rightarrow> 'w \<Rightarrow> (cluster \<times> 'w) option" where
  "rados_dict_deinit C d cl w = (case d of None \<Rightarrow> Some (cl, w) | Some _ \<Rightarrow> deinit C cl w)"

section \<open>Lookup\<close>

datatype commit_ret = RADOS_COMMIT_RET_OK | RADOS_COMMIT_RET_NOTFOUND | RADOS_COMMIT_RET_FAILED

definition rados_dict_lookup :: "json_lib \<Rightarrow> 'w client \<Rightarrow> 'w rados \<Rightarrow> string \<Rightarrow> dictionary \<Rightarrow> cluster \<Rightarrow> 'w \<Rightarrow>
    (commit_ret \<times> string option \<times> dictionary \<times> cluster \<times> 'w) option" where
  "rados_dict_lookup J C R key d cl w =
     (case get_io_ctx J C R key d cl w of None \<Rightarrow> None
      | Some (c, d1, cl1, w1) \<Rightarrow>
        (case rd_omap_get_vals_by_keys R c (get_full_oid d1 key) [key] w1 of (err, m, w2) \<Rightarrow>
           if err = 0 then
             (case smap_get key m of
                Some v \<Rightarrow> Some (RADOS_COMMIT_RET_OK, Some (c_str v), d1, cl1, w2)
              | None \<Rightarrow> Some (RADOS_COMMIT_RET_NOTFOUND, None, d1, cl1, w2))
           else if err < 0 \<and> err \<noteq> - ENOENT then Some (RADOS_COMMIT_RET_FAILED, None, d1, cl1, w2)
           else Some (RADOS_COMMIT_RET_NOTFOUND, None, d1, cl1, w2)))"

text \<open>What the completion callback hands to dovecot.\<close>

definition rados_lookup_complete_callback :: "string \<Rightarrow> int \<Rightarrow> bytes smap \<Rightarrow> commit_ret \<times> string option" where
  "rados_lookup_complete_callback key ret result_map =
     (if ret = 0 then
        (case smap_get key result_map of
           Some v \<Rightarrow> (RADOS_COMMIT_RET_OK, Some (c_str v))
         | None \<Rightarrow> (RADOS_COMMIT_RET_NOTFOUND, None))
      else if ret = - ENOENT then (RADOS_COMMIT_RET_NOTFOUND, None)
      else (RADOS_COMMIT_RET_FAILED, None))"

definition rados_dict_lookup_async :: "json_lib \<Rightarrow> 'w client \<Rightarrow> 'w rados \<Rightarrow> string \<Rightarrow> dictionary \<Rightarrow> cluster \<Rightarrow> 'w \<Rightarrow>
    (commit_ret \<times> string option \<times> dictionary \<times> cluster \<times> 'w) option" where
  "rados_dict_lookup_async J C R key d cl w =
     (case get_io_ctx J C R key d cl w of None \<Rightarrow> None
      | Some (c, d1, cl1, w1) \<Rightarrow>
        (case rd_aio_read R c (get_full_oid d1 key) [ROmapKeys [key]] w1 of (err, cr, res, w2) \<Rightarrow>
           if err < 0 then Some (RADOS_COMMIT_RET_FAILED, None, d1, cl1, w2)
           else case rados_lookup_complete_callback key cr (concat (map (fst \<circ> snd) res)) of (ret, v) \<Rightarrow>
             Some (ret, v, push_back_completion d1, cl1, w2)))"

section \<open>Transactions\<close>

text \<open>The set of keys to remove is a map to unit, in key order.\<close>

record transaction =
  t_changed :: bool
  t_atomic_inc_not_found :: bool
  t_set_map :: "string smap"
  t_unset_set :: "unit smap"
  t_atomic_inc_map :: "int smap"
  t_dirty_private :: bool
  t_dirty_shared :: bool
  t_locked_private :: bool
  t_locked_shared :: bool

definition rados_dict_transaction_init :: transaction where
  "rados_dict_transaction_init =
     \<lparr>t_changed = False, t_atomic_inc_not_found = False, t_set_map = [], t_unset_set = [], t_atomic_inc_map = [],
      t_dirty_private = False, t_dirty_shared = False, t_locked_private = False, t_locked_shared = False\<rparr>"

definition is_private :: "string \<Rightarrow> transaction \<Rightarrow> (bool \<times> transaction) option" where
  "is_private key t =
     (if starts_with DICT_PATH_PRIVATE key then Some (True, t\<lparr>t_dirty_private := True\<rparr>)
      else if starts_with DICT_PATH_SHARED key then Some (False, t\<lparr>t_dirty_shared := True\<rparr>)
      else None)"

definition set_locked :: "string \<Rightarrow> transaction \<Rightarrow> transaction" where
  "set_locked key t =
     (if starts_with DICT_PATH_SHARED key then t\<lparr>t_locked_shared := True\<rparr>
      else if starts_with DICT_PATH_PRIVATE key then t\<lparr>t_locked_private := True\<rparr>
      else t)"

definition is_locked :: "string \<Rightarrow> transaction \<Rightarrow> bool option" where
  "is_locked key t =
     (if starts_with DICT_PATH_SHARED key then Some (t_locked_shared t)
      else if starts_with DICT_PATH_PRIVATE key then Some (t_locked_private t)
      else None)"

definition get_result :: "int \<Rightarrow> commit_ret" where
  "get_result result = (if result < 0 \<and> result \<noteq> - 1000 then RADOS_COMMIT_RET_FAILED else RADOS_COMMIT_RET_OK)"

definition add_set_item :: "string \<Rightarrow> string \<Rightarrow> transaction \<Rightarrow> transaction" where
  "add_set_item key value t =
     t\<lparr>t_unset_set := (if smap_get key (t_unset_set t) \<noteq> None then smap_del key (t_unset_set t) else t_unset_set t),
       t_set_map := smap_put key value (t_set_map t)\<rparr>"

definition add_unset_item :: "string \<Rightarrow> transaction \<Rightarrow> transaction" where
  "add_unset_item key t = t\<lparr>t_unset_set := smap_put key () (t_unset_set t)\<rparr>"

definition add_atomic_inc_item :: "string \<Rightarrow> int \<Rightarrow> transaction \<Rightarrow> transaction" where
  "add_atomic_inc_item key diff t =
     (let diff' = (case smap_get key (t_atomic_inc_map t) of None \<Rightarrow> diff | Some x \<Rightarrow> to_int64 (diff + x))
      in t\<lparr>t_atomic_inc_map := smap_put key diff' (t_atomic_inc_map t)\<rparr>)"

definition rados_dict_set :: "string \<Rightarrow> string \<Rightarrow> transaction \<Rightarrow> transaction" where
  "rados_dict_set key value t = add_set_item key value (t\<lparr>t_changed := True\<rparr>)"

definition rados_dict_unset :: "string \<Rightarrow> transaction \<Rightarrow> transaction" where
  "rados_dict_unset key t = add_unset_item key (t\<lparr>t_changed := True\<rparr>)"

definition rados_dict_atomic_inc :: "string \<Rightarrow> int \<Rightarrow> transaction \<Rightarrow> transaction" where
  "rados_dict_atomic_inc key diff t = add_atomic_inc_item key diff t"

text \<open>The context and object of one key during a commit.\<close>

definition deploy_target :: "json_lib \<Rightarrow> 'w client \<Rightarrow> 'w rados \<Rightarrow> string \<Rightarrow> transaction \<Rightarrow> dictionary \<Rightarrow> cluster \<Rightarrow> 'w \<Rightarrow>
    (io_ctx \<times> string \<times> transaction \<times> dictionary \<times> cluster \<times> 'w) option" where
  "deploy_target J C R key t d cl w =
     (case is_private key t of None \<Rightarrow> None
      | Some (priv, t1) \<Rightarrow>
        (case (if priv then get_private_io_ctx J C R d cl w else get_shared_io_ctx J C R d cl w) of
           None \<Rightarrow> None
         | Some (c, d1, cl1, w1) \<Rightarrow> Some (c, if priv then d_private_oid d else d_shared_oid d, t1, d1, cl1, w1)))"

fun deploy_set_items :: "json_lib \<Rightarrow> 'w client \<Rightarrow> 'w rados \<Rightarrow> string smap \<Rightarrow> transaction \<Rightarrow> dictionary \<Rightarrow> cluster \<Rightarrow> 'w \<Rightarrow>
    (transaction \<times> dictionary \<times> cluster \<times> 'w) option" where
  "deploy_set_items J C R [] t d cl w = Some (t, d, cl, w)"
| "deploy_set_items J C R ((key, v) # items) t d cl w =
     (case deploy_target J C R key t d cl w of None \<Rightarrow> None
      | Some (c, oid, t1, d1, cl1, w1) \<Rightarrow>
          deploy_set_items J C R items t1 d1 cl1 (snd (rd_omap_set R c oid [(key, v)] w1)))"

definition deploy_set_map :: "json_lib \<Rightarrow> 'w client \<Rightarrow> 'w rados \<Rightarrow> transaction \<Rightarrow> dictionary \<Rightarrow> cluster \<Rightarrow> 'w \<Rightarrow>
    (transaction \<times> dictionary \<times> cluster \<times> 'w) option" where
  "deploy_set_map J C R t d cl w =
     map_option (\<lambda>(t1, r). (t1\<lparr>t_set_map := []\<rparr>, r)) (deploy_set_items J C R (t_set_map t) t d cl w)"

fun deploy_inc_items :: "json_lib \<Rightarrow> 'w client \<Rightarrow> 'w rados \<Rightarrow> int smap \<Rightarrow> transaction \<Rightarrow> dictionary \<Rightarrow> cluster \<Rightarrow> 'w \<Rightarrow>
    (transaction \<times> dictionary \<times> cluster \<times> 'w) option" where
  "deploy_inc_items J C R [] t d cl w = Some (t, d, cl, w)"
| "deploy_inc_items J C R ((key, n) # items) t d cl w =
     (if t_atomic_inc_not_found t then Some (t, d, cl, w)
      else case deploy_target J C R key t d cl w of None \<Rightarrow> None
      | Some (c, oid, t1, d1, cl1, w1) \<Rightarrow>
          deploy_inc_items J C R items t1 d1 cl1 (snd (osd_add R c oid key n w1)))"

definition deploy_atomic_inc_map :: "json_lib \<Rightarrow> 'w client \<Rightarrow> 'w rados \<Rightarrow> transaction \<Rightarrow> dictionary \<Rightarrow> cluster \<Rightarrow> 'w \<Rightarrow>
    (transaction \<times> dictionary \<times> cluster \<times> 'w) option" where
  "deploy_atomic_inc_map J C R t d cl w =
     map_option (\<lambda>(t1, r). (t1\<lparr>t_atomic_inc_map := []\<rparr>, r)) (deploy_inc_items J C R (t_atomic_inc_map t) t d cl w)"

fun deploy_unset_items :: "json_lib \<Rightarrow> 'w client \<Rightarrow> 'w rados \<Rightarrow> unit smap \<Rightarrow> transaction \<Rightarrow> dictionary \<Rightarrow> cluster \<Rightarrow> 'w \<Rightarrow>
    (transaction \<times> dictionary \<times> cluster \<times> 'w) option" where
  "deploy_unset_items J C R [] t d cl w = Some (t, d, cl, w)"
| "deploy_unset_items J C R ((key, _) # items) t d cl w =
     (case deploy_target J C R key t d cl w of None \<Rightarrow> None
      | Some (c, oid, t1, d1, cl1, w1) \<Rightarrow>
          deploy_unset_items J C R items t1 d1 cl1 (snd (rd_omap_rm_keys R c oid [key] w1)))"

definition deploy_unset_set :: "json_lib \<Rightarrow> 'w client \<Rightarrow> 'w rados \<Rightarrow> transaction \<Rightarrow> dictionary \<Rightarrow> cluster \<Rightarrow> 'w \<Rightarrow>
    (transaction \<times> dictionary \<times> cluster \<times> 'w) option" where
  "deploy_unset_set J C R t d cl w =
     map_option (\<lambda>(t1, r). (t1\<lparr>t_unset_set := []\<rparr>, r)) (deploy_unset_items J C R (t_unset_set t) t d cl w)"

text \<open>\<open>failed\<close> is initialised to false and never set: the errors of the deploy loops are only logged.\<close>

definition rados_dict_transaction_commit :: "json_lib \<Rightarrow> 'w client \<Rightarrow> 'w rados \<Rightarrow> transaction \<Rightarrow> dictionary \<Rightarrow> cluster \<Rightarrow> 'w \<Rightarrow>
    (commit_ret \<times> dictionary \<times> cluster \<times> 'w) option" where
  "rados_dict_transaction_commit J C R t d cl w =
     (case deploy_set_map J C R t d cl w of None \<Rightarrow> None
      | Some (t1, d1, cl1, w1) \<Rightarrow>
        (case deploy_atomic_inc_map J C R t1 d1 cl1 w1 of None \<Rightarrow> None
         | Some (t2, d2, cl2, w2) \<Rightarrow>
           (case deploy_unset_set J C R t2 d2 cl2 w2 of None \<Rightarrow> None
            | Some (t3, d3, cl3, w3) \<Rightarrow>
                let failed = False in
                Some (if t_atomic_inc_not_found t3 then RADOS_COMMIT_RET_NOTFOUND
                      else if failed then RADOS_COMMIT_RET_FAILED else RADOS_COMMIT_RET_OK, d3, cl3, w3))))"

definition rados_dict_transaction_rollback :: "transaction \<Rightarrow> dictionary \<Rightarrow> dictionary" where
  "rados_dict_transaction_rollback t d = d"

section \<open>Iteration\<close>

record kv_map =
  kv_rval :: int
  kv_key :: string
  kv_map :: "bytes smap"

record iterate_context =
  it_recurse :: bool
  it_exact_key :: bool
  it_no_value :: bool
  it_failed :: bool
  it_results :: "kv_map list"

definition key_set :: "string \<Rightarrow> string list \<Rightarrow> string list" where
  "key_set prefix paths = map fst (foldl (\<lambda>m k. smap_put k () m) [] (filter (starts_with prefix) paths))"

text \<open>The reads one operation holds, each with the key its result is kept under.\<close>

definition iterate_reads :: "bool \<Rightarrow> string list \<Rightarrow> (string \<times> read_item) list" where
  "iterate_reads exact keys = (if exact then [([], ROmapKeys keys)] else map (\<lambda>k. (k, ROmapPrefix k)) keys)"

text \<open>The flag \<open>more\<close> of an answer that was cut off is a local variable that nobody reads.\<close>

definition iterate_kv_maps :: "(string \<times> read_item) list \<Rightarrow> (int \<times> bytes smap \<times> bool) list \<Rightarrow> kv_map list" where
  "iterate_kv_maps reads res = map2 (\<lambda>(k, _) (rv, m, _). \<lparr>kv_rval = rv, kv_key = k, kv_map = m\<rparr>) reads res"

text \<open>One of the two queries, with its submission and completion results; none without keys.\<close>

definition iterate_query :: "'w rados \<Rightarrow> bool \<Rightarrow> string list \<Rightarrow> io_ctx \<Rightarrow> string \<Rightarrow> 'w \<Rightarrow>
    int \<times> int \<times> kv_map list \<times> 'w" where
  "iterate_query R exact keys c oid w =
     (let reads = iterate_reads exact keys in
      case rd_aio_read R c oid (map snd reads) w of (err, cr, res, w1) \<Rightarrow> (err, cr, iterate_kv_maps reads res, w1))"

definition rados_dict_iterate_init :: "json_lib \<Rightarrow> 'w client \<Rightarrow> 'w rados \<Rightarrow> string list \<Rightarrow> bool \<Rightarrow> bool \<Rightarrow> bool \<Rightarrow>
    dictionary \<Rightarrow> cluster \<Rightarrow> 'w \<Rightarrow> (iterate_context \<times> dictionary \<times> cluster \<times> 'w) option" where
  "rados_dict_iterate_init J C R paths recurse exact no_value d cl w =
     (let private_keys = key_set DICT_PATH_PRIVATE paths;
          shared_keys = key_set DICT_PATH_SHARED paths;
          iter = (\<lambda>failed results. \<lparr>it_recurse = recurse, it_exact_key = exact, it_no_value = no_value,
                                    it_failed = failed, it_results = results\<rparr>) in
      if private_keys = [] \<and> shared_keys = [] then Some (iter True [], d, cl, w)
      else
        case (if private_keys = [] then Some (0, 0, [], d, cl, w)
              else case get_private_io_ctx J C R d cl w of None \<Rightarrow> None
                | Some (c, d1, cl1, w1) \<Rightarrow>
                    (case iterate_query R exact private_keys c (d_private_oid d1) w1 of
                       (err, cr, res, w2) \<Rightarrow> Some (err, cr, res, d1, cl1, w2))) of
          None \<Rightarrow> None
        | Some (err_p, cr_p, res_p, d2, cl2, w2) \<Rightarrow>
          if err_p < 0 then Some (iter True res_p, d2, cl2, w2)
          else
            case (if shared_keys = [] then Some (0, 0, [], d2, cl2, w2)
                  else case get_shared_io_ctx J C R d2 cl2 w2 of None \<Rightarrow> None
                    | Some (c, d3, cl3, w3) \<Rightarrow>
                        (case iterate_query R exact shared_keys c (d_shared_oid d3) w3 of
                           (err, cr, res, w4) \<Rightarrow> Some (err, cr, res, d3, cl3, w4))) of
              None \<Rightarrow> None
            | Some (err_s, cr_s, res_s, d4, cl4, w4) \<Rightarrow>
                let results = res_p @ res_s in
                Some (iter (err_s < 0 \<or> cr_p < 0 \<or> cr_s < 0 \<or> (\<exists>r \<in> set results. kv_rval r < 0)) results,
                      d4, cl4, w4))"

text \<open>
  \<open>it_results\<close> holds the results from the iterator on, and the map of the first of them the
  entries from its own iterator on. An empty list is the end iterator.
\<close>

function iterate_from :: "bool \<Rightarrow> kv_map list \<Rightarrow> (string \<times> bytes) option \<times> kv_map list" where
  "iterate_from all [] = (None, [])"
| "iterate_from all (r # rs) =
     (case kv_map r of
        [] \<Rightarrow> iterate_from all rs
      | e # m \<Rightarrow>
          if \<not> all \<and> CHR ''/'' \<in> set (drop (length (kv_key r)) (fst e))
          then iterate_from all (r\<lparr>kv_map := m\<rparr> # rs)
          else (Some e, r\<lparr>kv_map := m\<rparr> # rs))"
  by pat_completeness auto
termination
  by (relation "measure (\<lambda>(_, rs). length rs + length (concat (map kv_map rs)))") auto

text \<open>\<^const>\<open>None\<close> stands for the use of the end iterator after the last entry was returned.\<close>

definition rados_dict_iterate :: "iterate_context \<Rightarrow> ((string \<times> string option) option \<times> iterate_context) option" where
  "rados_dict_iterate iter =
     (if it_failed iter then Some (None, iter)
      else if it_results iter = [] then None
      else case iterate_from (it_recurse iter \<or> it_exact_key iter) (it_results iter) of (e, rs) \<Rightarrow>
        Some (map_option (\<lambda>(k, v). (c_str k, if it_no_value iter then None else Some (c_str v))) e,
              iter\<lparr>it_results := rs\<rparr>))"

definition rados_dict_iterate_deinit :: "iterate_context \<Rightarrow> int" where
  "rados_dict_iterate_deinit iter = (if it_failed iter then - 1 else 0)"

section \<open>The content of an opened dictionary\<close>

text \<open>
  An opened dictionary is one whose two contexts exist. Its content, seen through the observer of
  the object store, is the value of every private or shared key.
\<close>

definition dict_open :: "dictionary \<Rightarrow> bool" where
  "dict_open d \<longleftrightarrow> d_private_created d \<and> d_shared_created d"

definition dict_key :: "string \<Rightarrow> bool" where
  "dict_key k \<longleftrightarrow> starts_with DICT_PATH_PRIVATE k \<or> starts_with DICT_PATH_SHARED k"

definition key_ctx :: "dictionary \<Rightarrow> string \<Rightarrow> io_ctx" where
  "key_ctx d k = (if starts_with DICT_PATH_PRIVATE k then d_private_ctx d else d_shared_ctx d)"

definition key_obj :: "dictionary \<Rightarrow> string \<Rightarrow> obj_key" where
  "key_obj d k = okey (key_ctx d k) (get_full_oid d k)"

definition content :: "('w \<Rightarrow> obj_key \<rightharpoonup> robj) \<Rightarrow> dictionary \<Rightarrow> 'w \<Rightarrow> string \<rightharpoonup> bytes" where
  "content V d w k =
     (if dict_key k then smap_get k (o_omap (obj_or_new (V w) (key_obj d k))) else None)"

definition same_items :: "transaction \<Rightarrow> transaction \<Rightarrow> bool" where
  "same_items t t' \<longleftrightarrow> t_set_map t' = t_set_map t \<and> t_unset_set t' = t_unset_set t \<and>
     t_atomic_inc_map t' = t_atomic_inc_map t \<and> t_atomic_inc_not_found t' = t_atomic_inc_not_found t"

lemma obj_or_new_upd [simp]:
  "obj_or_new (st(k \<mapsto> ob)) k' = (if k' = k then ob else obj_or_new st k')"
  by (simp add: obj_or_new_def)

lemma private_not_shared: "starts_with DICT_PATH_PRIVATE k \<Longrightarrow> \<not> starts_with DICT_PATH_SHARED k"
  by (cases k) (auto simp: DICT_PATH_PRIVATE_def DICT_PATH_SHARED_def starts_with_def)

lemma open_contexts:
  assumes "dict_open d"
  shows "get_private_io_ctx J C R d cl w = Some (d_private_ctx d, d, cl, w)"
    and "get_shared_io_ctx J C R d cl w = Some (d_shared_ctx d, d, cl, w)"
    and "dict_key k \<Longrightarrow> get_io_ctx J C R k d cl w = Some (key_ctx d k, d, cl, w)"
  using assms
  by (auto simp: dict_open_def get_private_io_ctx_def get_shared_io_ctx_def get_io_ctx_def dict_key_def key_ctx_def)

lemma deploy_target_open:
  assumes "dict_open d" and "dict_key k"
  shows "\<exists>t'. same_items t t' \<and>
    deploy_target J C R k t d cl w = Some (key_ctx d k, get_full_oid d k, t', d, cl, w)"
  using assms
  by (auto simp: deploy_target_def is_private_def same_items_def key_ctx_def get_full_oid_def dict_key_def
      open_contexts dest: private_not_shared)

lemma same_items_refl [simp]: "same_items t t"
  by (simp add: same_items_def)

lemma content_upd:
  assumes "V w' = (V w)(key_obj d k \<mapsto> ob)" and "dict_key k"
    and "\<And>k'. k' \<noteq> k \<Longrightarrow> smap_get k' (o_omap ob) = smap_get k' (o_omap (obj_or_new (V w) (key_obj d k)))"
  shows "content V d w' = (content V d w)(k := smap_get k (o_omap ob))"
  using assms by (intro ext) (simp add: content_def)

text \<open>Every write the commit makes reports success.\<close>

definition omap_writes_succeed :: "'w rados \<Rightarrow> bool" where
  "omap_writes_succeed R \<longleftrightarrow> (\<forall>c oid m ks k n w.
     0 \<le> fst (rd_omap_set R c oid m w) \<and> 0 \<le> fst (rd_omap_rm_keys R c oid ks w) \<and>
     (length k < 2 ^ 32 \<longrightarrow> \<bar>n\<bar> < 1000000 \<longrightarrow> 0 \<le> fst (osd_add R c oid k n w)))"

lemma omap_set_content:
  assumes "law_omap_set R V" and "omap_writes_succeed R" and "dict_key k"
  shows "content V d (snd (rd_omap_set R (key_ctx d k) (get_full_oid d k) [(k, v)] w)) =
         (content V d w)(k \<mapsto> v)"
proof -
  obtain r w' where e: "rd_omap_set R (key_ctx d k) (get_full_oid d k) [(k, v)] w = (r, w')" by fastforce
  moreover have "0 \<le> r" using assms(2) e unfolding omap_writes_succeed_def by (metis fst_conv)
  ultimately obtain t where "V w' = (V w)(key_obj d k \<mapsto> apply_item (V w) (WOmapSet [(k, v)]) (touched t (V w) (key_obj d k)))"
    using assms(1) unfolding law_omap_set_def key_obj_def by blast
  from content_upd [OF this assms(3)] show ?thesis
    by (simp add: e smap_put_all_def)
qed

lemma omap_rm_content:
  assumes "law_omap_rm_keys R V" and "omap_writes_succeed R" and "dict_key k"
  shows "content V d (snd (rd_omap_rm_keys R (key_ctx d k) (get_full_oid d k) [k] w)) =
         (content V d w)(k := None)"
proof -
  obtain r w' where e: "rd_omap_rm_keys R (key_ctx d k) (get_full_oid d k) [k] w = (r, w')" by fastforce
  moreover have "0 \<le> r" using assms(2) e unfolding omap_writes_succeed_def by (metis fst_conv)
  ultimately obtain t where "V w' = (V w)(key_obj d k \<mapsto> (let ob = touched t (V w) (key_obj d k) in
       ob\<lparr>o_omap := filter (\<lambda>p. fst p \<notin> set [k]) (o_omap ob)\<rparr>))"
    using assms(1) unfolding law_omap_rm_keys_def key_obj_def by blast
  from content_upd [OF this assms(3)] show ?thesis
    by (simp add: e Let_def flip: smap_del_def)
qed

lemma osd_add_content:
  assumes "law_numops_add R V" and "omap_writes_succeed R" and "dict_key k" and "length k < 2 ^ 32"
    and "addable (content V d w k) n"
  shows "content V d (snd (osd_add R (key_ctx d k) (get_full_oid d k) k n w)) =
         (content V d w)(k \<mapsto> int_to_string (counter (content V d w k) + n))"
proof -
  obtain r w' where e: "osd_add R (key_ctx d k) (get_full_oid d k) k n w = (r, w')" by fastforce
  moreover have "0 \<le> r" using assms(2,4,5) e unfolding omap_writes_succeed_def addable_def by (metis fst_conv)
  ultimately obtain t where "V w' = (V w)(key_obj d k \<mapsto> omap_add k n (touched t (V w) (key_obj d k)))"
    using assms(1,3-5) unfolding law_numops_add_def key_obj_def content_def osd_add_def by (simp, blast)
  from content_upd [OF this assms(3)] show ?thesis
    using assms(3) by (simp add: e omap_add_def content_def)
qed

section \<open>What a commit does\<close>

definition set_all :: "bytes smap \<Rightarrow> (string \<rightharpoonup> bytes) \<Rightarrow> string \<rightharpoonup> bytes" where
  "set_all items m = fold (\<lambda>(k, v) m. m(k \<mapsto> v)) items m"

definition inc_all :: "int smap \<Rightarrow> (string \<rightharpoonup> bytes) \<Rightarrow> string \<rightharpoonup> bytes" where
  "inc_all items m = fold (\<lambda>(k, n) m. m(k \<mapsto> int_to_string (counter (m k) + n))) items m"

definition unset_all :: "unit smap \<Rightarrow> (string \<rightharpoonup> bytes) \<Rightarrow> string \<rightharpoonup> bytes" where
  "unset_all items m = fold (\<lambda>(k, _) m. m(k := None)) items m"

lemma set_all_map: "distinct (map fst items) \<Longrightarrow> set_all items m = m ++ map_of items"
proof (induction items arbitrary: m)
  case (Cons p items)
  have "map_of items (fst p) = None" using Cons.prems by (simp add: map_of_eq_None_iff)
  with Cons show ?case
    by (auto simp: set_all_def map_add_def fun_eq_iff split: option.splits prod.splits)
qed (simp add: set_all_def)

lemma unset_all_map: "unset_all items m = (\<lambda>k. if map_of items k \<noteq> None then None else m k)"
  by (induction items arbitrary: m) (auto simp: unset_all_def fun_eq_iff)

lemma inc_all_map:
  "distinct (map fst items) \<Longrightarrow> inc_all items m =
     (\<lambda>k. case map_of items k of None \<Rightarrow> m k | Some n \<Rightarrow> Some (int_to_string (counter (m k) + n)))"
proof (induction items arbitrary: m)
  case (Cons p items)
  have "map_of items (fst p) = None" using Cons.prems by (simp add: map_of_eq_None_iff)
  with Cons show ?case
    by (auto simp: inc_all_def fun_eq_iff split: option.splits prod.splits)
qed (simp add: inc_all_def)

lemma deploy_set_items_content:
  assumes "law_omap_set R V" and "omap_writes_succeed R" and "dict_open d" and "\<forall>k \<in> fst ` set items. dict_key k"
  shows "\<exists>t' w'. deploy_set_items J C R items t d cl w = Some (t', d, cl, w') \<and> same_items t t' \<and>
           content V d w' = set_all items (content V d w)"
  using assms(4)
proof (induction items arbitrary: t w)
  case (Cons p items)
  obtain k v where p: "p = (k, v)" by (cases p)
  then have k: "dict_key k" using Cons.prems by simp
  obtain t1 where t1: "same_items t t1"
    "deploy_target J C R k t d cl w = Some (key_ctx d k, get_full_oid d k, t1, d, cl, w)"
    using deploy_target_open [OF assms(3) k, where t = t and J = J and C = C and R = R and cl = cl and w = w] by blast
  from Cons.IH [of t1 "snd (rd_omap_set R (key_ctx d k) (get_full_oid d k) [(k, v)] w)"] Cons.prems t1 p
  show ?case
    by (auto simp: omap_set_content [OF assms(1,2) k] set_all_def same_items_def fun_upd_def)
qed (simp add: set_all_def)

lemma deploy_unset_items_content:
  assumes "law_omap_rm_keys R V" and "omap_writes_succeed R" and "dict_open d" and "\<forall>k \<in> fst ` set items. dict_key k"
  shows "\<exists>t' w'. deploy_unset_items J C R items t d cl w = Some (t', d, cl, w') \<and> same_items t t' \<and>
           content V d w' = unset_all items (content V d w)"
  using assms(4)
proof (induction items arbitrary: t w)
  case (Cons p items)
  obtain k u where p: "p = (k, u)" by (cases p)
  then have k: "dict_key k" using Cons.prems by simp
  obtain t1 where t1: "same_items t t1"
    "deploy_target J C R k t d cl w = Some (key_ctx d k, get_full_oid d k, t1, d, cl, w)"
    using deploy_target_open [OF assms(3) k, where t = t and J = J and C = C and R = R and cl = cl and w = w] by blast
  from Cons.IH [of t1 "snd (rd_omap_rm_keys R (key_ctx d k) (get_full_oid d k) [k] w)"] Cons.prems t1 p
  show ?case
    by (auto simp: omap_rm_content [OF assms(1,2) k] unset_all_def same_items_def fun_upd_def)
qed (simp add: unset_all_def)

lemma deploy_inc_items_content:
  assumes "law_numops_add R V" and "omap_writes_succeed R" and "dict_open d" and "distinct (map fst items)"
    and "\<forall>(k, n) \<in> set items. dict_key k \<and> length k < 2 ^ 32 \<and> addable (content V d w k) n"
    and "\<not> t_atomic_inc_not_found t"
  shows "\<exists>t' w'. deploy_inc_items J C R items t d cl w = Some (t', d, cl, w') \<and> same_items t t' \<and>
           content V d w' = inc_all items (content V d w)"
  using assms(4-6)
proof (induction items arbitrary: t w)
  case (Cons p items)
  obtain k n where p: "p = (k, n)" by (cases p)
  then have k: "dict_key k" "length k < 2 ^ 32" "addable (content V d w k) n" using Cons.prems by auto
  obtain t1 where t1: "same_items t t1"
    "deploy_target J C R k t d cl w = Some (key_ctx d k, get_full_oid d k, t1, d, cl, w)"
    using deploy_target_open [OF assms(3) k(1), where t = t and J = J and C = C and R = R and cl = cl and w = w] by blast
  let ?w = "snd (osd_add R (key_ctx d k) (get_full_oid d k) k n w)"
  have c: "content V d ?w = (content V d w)(k \<mapsto> int_to_string (counter (content V d w k) + n))"
    by (rule osd_add_content [OF assms(1,2) k])
  then have "\<forall>(k', n') \<in> set items. dict_key k' \<and> length k' < 2 ^ 32 \<and> addable (content V d ?w k') n'"
    using Cons.prems p by (force simp: image_iff)
  with Cons.IH [of ?w t1] Cons.prems t1 p show ?case
    by (auto simp: c inc_all_def same_items_def fun_upd_def)
qed (simp add: inc_all_def)

lemma commit_content:
  assumes laws: "law_omap_set R V" "law_numops_add R V" "law_omap_rm_keys R V" "omap_writes_succeed R"
    and "dict_open d"
    and ok: "smap_ok (t_set_map t)" "smap_ok (t_atomic_inc_map t)" "\<not> t_atomic_inc_not_found t"
    and keys: "\<forall>k \<in> fst ` set (t_set_map t) \<union> fst ` set (t_unset_set t). dict_key k"
    and inc: "\<forall>(k, n) \<in> set (t_atomic_inc_map t). dict_key k \<and> length k < 2 ^ 32 \<and>
                addable (set_all (t_set_map t) (content V d w) k) n"
  shows "\<exists>w'. rados_dict_transaction_commit J C R t d cl w = Some (RADOS_COMMIT_RET_OK, d, cl, w') \<and>
    content V d w' = unset_all (t_unset_set t) (inc_all (t_atomic_inc_map t) (set_all (t_set_map t) (content V d w)))"
proof -
  obtain t1 w1 where 1: "deploy_set_items J C R (t_set_map t) t d cl w = Some (t1, d, cl, w1)" "same_items t t1"
    "content V d w1 = set_all (t_set_map t) (content V d w)"
    using deploy_set_items_content [OF laws(1,4) \<open>dict_open d\<close>] keys by blast
  let ?t1 = "t1\<lparr>t_set_map := []\<rparr>"
  have "distinct (map fst (t_atomic_inc_map t))" using ok(2) by (rule smap_ok_distinct)
  then obtain t2 w2 where 2: "deploy_inc_items J C R (t_atomic_inc_map t) ?t1 d cl w1 = Some (t2, d, cl, w2)"
    "same_items ?t1 t2" "content V d w2 = inc_all (t_atomic_inc_map t) (content V d w1)"
    using deploy_inc_items_content [OF laws(2,4) \<open>dict_open d\<close>, of "t_atomic_inc_map t" w1 ?t1 J C cl] inc ok(3) 1
    by (auto simp: same_items_def)
  let ?t2 = "t2\<lparr>t_atomic_inc_map := []\<rparr>"
  obtain t3 w3 where 3: "deploy_unset_items J C R (t_unset_set t) ?t2 d cl w2 = Some (t3, d, cl, w3)"
    "same_items ?t2 t3" "content V d w3 = unset_all (t_unset_set t) (content V d w2)"
    using deploy_unset_items_content [OF laws(3,4) \<open>dict_open d\<close>] keys by blast
  from 1 2 3 ok(3) show ?thesis
    by (auto simp: rados_dict_transaction_commit_def deploy_set_map_def deploy_atomic_inc_map_def
        deploy_unset_set_def same_items_def)
qed

section \<open>A transaction as a sequence of changes\<close>

text \<open>
  The changes a transaction collects, and what dovecot expects of them: they take effect in the
  order they were made.
\<close>

datatype dict_op = Dict_Set string string | Dict_Unset string | Dict_Inc string int

fun run_dict_op :: "transaction \<Rightarrow> dict_op \<Rightarrow> transaction" where
  "run_dict_op t (Dict_Set k v) = rados_dict_set k v t"
| "run_dict_op t (Dict_Unset k) = rados_dict_unset k t"
| "run_dict_op t (Dict_Inc k n) = rados_dict_atomic_inc k n t"

fun apply_dict_op :: "(string \<rightharpoonup> bytes) \<Rightarrow> dict_op \<Rightarrow> string \<rightharpoonup> bytes" where
  "apply_dict_op m (Dict_Set k v) = m(k \<mapsto> v)"
| "apply_dict_op m (Dict_Unset k) = m(k := None)"
| "apply_dict_op m (Dict_Inc k n) = m(k \<mapsto> int_to_string (counter (m k) + n))"

definition run_dict_ops :: "dict_op list \<Rightarrow> transaction" where
  "run_dict_ops ops = foldl run_dict_op rados_dict_transaction_init ops"

definition apply_dict_ops :: "dict_op list \<Rightarrow> (string \<rightharpoonup> bytes) \<Rightarrow> string \<rightharpoonup> bytes" where
  "apply_dict_ops ops m = foldl apply_dict_op m ops"

fun op_key :: "dict_op \<Rightarrow> string" where
  "op_key (Dict_Set k _) = k"
| "op_key (Dict_Unset k) = k"
| "op_key (Dict_Inc k _) = k"

fun op_inc :: "dict_op \<Rightarrow> int" where
  "op_inc (Dict_Inc _ n) = \<bar>n\<bar>"
| "op_inc _ = 0"

definition inc_keys :: "dict_op list \<Rightarrow> string list" where
  "inc_keys ops = concat (map (\<lambda>op. case op of Dict_Inc k _ \<Rightarrow> [k] | _ \<Rightarrow> []) ops)"

definition plain_keys :: "dict_op list \<Rightarrow> string list" where
  "plain_keys ops = concat (map (\<lambda>op. case op of Dict_Inc _ _ \<Rightarrow> [] | op \<Rightarrow> [op_key op]) ops)"

lemmas transaction_defs = rados_dict_set_def rados_dict_unset_def rados_dict_atomic_inc_def
  add_set_item_def add_unset_item_def add_atomic_inc_item_def

lemma run_dict_ops_simps [simp]:
  "run_dict_ops [] = rados_dict_transaction_init"
  "run_dict_ops (ops @ [op]) = run_dict_op (run_dict_ops ops) op"
  by (simp_all add: run_dict_ops_def)

lemma apply_dict_ops_simps [simp]:
  "apply_dict_ops [] m = m"
  "apply_dict_ops (ops @ [op]) m = apply_dict_op (apply_dict_ops ops m) op"
  by (simp_all add: apply_dict_ops_def)

lemma op_keys_simps [simp]:
  "inc_keys [] = []" "plain_keys [] = []"
  "inc_keys (ops @ [op]) = inc_keys ops @ (case op of Dict_Inc k _ \<Rightarrow> [k] | _ \<Rightarrow> [])"
  "plain_keys (ops @ [op]) = plain_keys ops @ (case op of Dict_Inc _ _ \<Rightarrow> [] | op \<Rightarrow> [op_key op])"
  by (simp_all add: inc_keys_def plain_keys_def)

lemma transaction_ok:
  "smap_ok (t_set_map (run_dict_ops ops)) \<and> smap_ok (t_unset_set (run_dict_ops ops)) \<and>
   smap_ok (t_atomic_inc_map (run_dict_ops ops)) \<and> \<not> t_atomic_inc_not_found (run_dict_ops ops)"
proof (induction ops rule: rev_induct)
  case (snoc op ops)
  then show ?case by (cases op) (auto simp: transaction_defs)
qed (simp add: rados_dict_transaction_init_def)

lemma keys_smap_del: "fst ` set (smap_del k m) \<subseteq> fst ` set m"
  by (auto simp: smap_del_def)

lemma transaction_keys:
  "fst ` set (t_set_map (run_dict_ops ops)) \<union> fst ` set (t_unset_set (run_dict_ops ops)) \<subseteq> op_key ` set ops \<and>
   fst ` set (t_atomic_inc_map (run_dict_ops ops)) \<subseteq> set (inc_keys ops) \<and> set (inc_keys ops) \<subseteq> op_key ` set ops"
proof (induction ops rule: rev_induct)
  case (snoc op ops)
  then show ?case
    using keys_smap_del [of "op_key op" "t_unset_set (run_dict_ops ops)"]
    by (cases op) (auto 0 3 simp: transaction_defs keys_smap_put Let_def split: if_splits)
qed (simp add: rados_dict_transaction_init_def)

lemma plain_key_ops:
  "k \<notin> set (inc_keys ops) \<Longrightarrow> smap_get k (t_atomic_inc_map (run_dict_ops ops)) = None \<and>
   apply_dict_ops ops m k =
     (if smap_get k (t_unset_set (run_dict_ops ops)) \<noteq> None then None
      else case smap_get k (t_set_map (run_dict_ops ops)) of None \<Rightarrow> m k | Some v \<Rightarrow> Some v)"
proof (induction ops rule: rev_induct)
  case (snoc op ops)
  then show ?case by (cases op) (auto simp: transaction_defs split: if_splits option.splits)
qed (simp add: rados_dict_transaction_init_def smap_get_def)

lemma op_inc_nonneg [simp]: "0 \<le> op_inc op"
  by (cases op) auto

lemma counter_to_string: "\<bar>x\<bar> < 1000000 \<Longrightarrow> counter (Some (int_to_string x)) = x"
  by (simp add: counter_def stol_to_string)

lemma inc_key_ops:
  assumes "k \<notin> set (plain_keys ops)" and "\<bar>counter (m k)\<bar> + sum_list (map op_inc ops) < 1000000"
  shows "smap_get k (t_set_map (run_dict_ops ops)) = None \<and> smap_get k (t_unset_set (run_dict_ops ops)) = None \<and>
   (case smap_get k (t_atomic_inc_map (run_dict_ops ops)) of
      None \<Rightarrow> apply_dict_ops ops m k = m k \<and> k \<notin> set (inc_keys ops)
    | Some n \<Rightarrow> \<bar>n\<bar> \<le> sum_list (map op_inc ops) \<and>
                apply_dict_ops ops m k = Some (int_to_string (counter (m k) + n)))"
  using assms
proof (induction ops rule: rev_induct)
  case (snoc op ops)
  have b: "\<bar>counter (m k)\<bar> + sum_list (map op_inc ops) < 1000000" and k: "k \<notin> set (plain_keys ops)"
    using snoc.prems op_inc_nonneg [of op] by (auto simp del: op_inc_nonneg)
  note IH = snoc.IH [OF k b]
  have nn: "0 \<le> sum_list (map op_inc ops)"
    by (rule sum_list_nonneg) auto
  have c: "counter (Some (int_to_string (n + counter (m k)))) = n + counter (m k)"
    if "\<bar>n\<bar> \<le> sum_list (map op_inc ops)" for n
    using that b by (intro counter_to_string) linarith
  have i: "to_int64 (x + n) = x + n" if "\<bar>n\<bar> \<le> sum_list (map op_inc ops)" "op = Dict_Inc k' x" for n x k'
    using that snoc.prems(2) by (intro to_int64_id) auto
  show ?case
    using IH snoc.prems nn by (cases op) (auto simp: transaction_defs c i ac_simps split: if_splits option.splits)
qed (simp add: rados_dict_transaction_init_def smap_get_def)

lemma commit_key:
  assumes "k \<in> set (inc_keys ops) \<Longrightarrow> k \<notin> set (plain_keys ops) \<and>
             \<bar>counter (m k)\<bar> + sum_list (map op_inc ops) < 1000000"
  shows "unset_all (t_unset_set (run_dict_ops ops)) (inc_all (t_atomic_inc_map (run_dict_ops ops))
           (set_all (t_set_map (run_dict_ops ops)) m)) k = apply_dict_ops ops m k"
proof -
  let ?t = "run_dict_ops ops"
  have maps: "set_all (t_set_map ?t) m = m ++ map_of (t_set_map ?t)"
    "\<And>m. inc_all (t_atomic_inc_map ?t) m = (\<lambda>k. case map_of (t_atomic_inc_map ?t) k of None \<Rightarrow> m k
       | Some n \<Rightarrow> Some (int_to_string (counter (m k) + n)))"
    using transaction_ok [of ops] by (auto intro: set_all_map inc_all_map smap_ok_distinct)
  show ?thesis
  proof (cases "k \<in> set (inc_keys ops)")
    case True
    then show ?thesis
      using inc_key_ops [of k ops m] assms
      by (auto simp: maps unset_all_map smap_get_def map_add_def split: option.splits)
  next
    case False
    from plain_key_ops [OF this, of m] show ?thesis
      by (auto simp: maps unset_all_map smap_get_def map_add_def split: option.splits)
  qed
qed

lemma inc_items_addable:
  assumes "\<forall>op \<in> set ops. dict_key (op_key op) \<and> length (op_key op) < 2 ^ 32"
    and "\<forall>k \<in> set (inc_keys ops). k \<notin> set (plain_keys ops) \<and> is_counter (m k) \<and>
           \<bar>counter (m k)\<bar> + sum_list (map op_inc ops) < 1000000"
    and "(k, n) \<in> set (t_atomic_inc_map (run_dict_ops ops))"
  shows "dict_key k \<and> length k < 2 ^ 32 \<and> addable (set_all (t_set_map (run_dict_ops ops)) m k) n"
proof -
  let ?t = "run_dict_ops ops"
  have k: "k \<in> set (inc_keys ops)" "k \<in> op_key ` set ops"
    using transaction_keys [of ops] image_eqI [OF _ assms(3), of k fst] by (simp_all, blast+)
  have "smap_get k (t_atomic_inc_map ?t) = Some n"
    using assms(3) transaction_ok [of ops] by (auto simp: smap_get_def smap_ok_distinct)
  then have "smap_get k (t_set_map ?t) = None \<and> \<bar>n\<bar> \<le> sum_list (map op_inc ops)"
    using inc_key_ops [of k ops m] k(1) assms(2) by auto
  moreover have "set_all (t_set_map ?t) m = m ++ map_of (t_set_map ?t)"
    using transaction_ok [of ops] by (intro set_all_map) (simp add: smap_ok_distinct)
  ultimately show ?thesis
    using k assms(1,2) by (auto simp: addable_def smap_get_def map_add_def)
qed

text \<open>
  Property C2: a committed transaction takes effect as its changes in the order they were made.
  On an opened dictionary whose writes succeed, collecting the changes \<open>ops\<close> and committing them
  returns OK and leaves exactly the content that applying \<open>ops\<close> one after the other gives, when no
  key is both incremented and set or removed and the counters are integers that stay below a million.
\<close>

theorem commit_applies_in_order:
  assumes "law_omap_set R V" and "law_numops_add R V" and "law_omap_rm_keys R V" and "omap_writes_succeed R"
    and "dict_open d"
    and "\<forall>op \<in> set ops. dict_key (op_key op) \<and> length (op_key op) < 2 ^ 32"
    and "\<forall>k \<in> set (inc_keys ops). k \<notin> set (plain_keys ops) \<and> is_counter (content V d w k) \<and>
           \<bar>counter (content V d w k)\<bar> + sum_list (map op_inc ops) < 1000000"
  shows "\<exists>w'. rados_dict_transaction_commit J C R (run_dict_ops ops) d cl w =
                Some (RADOS_COMMIT_RET_OK, d, cl, w') \<and>
              content V d w' = apply_dict_ops ops (content V d w)"
proof -
  let ?t = "run_dict_ops ops"
  have "\<forall>k \<in> fst ` set (t_set_map ?t) \<union> fst ` set (t_unset_set ?t). dict_key k"
    using transaction_keys [of ops] assms(6) by auto
  moreover have "\<forall>(k, n) \<in> set (t_atomic_inc_map ?t). dict_key k \<and> length k < 2 ^ 32 \<and>
      addable (set_all (t_set_map ?t) (content V d w) k) n"
    using inc_items_addable [OF assms(6,7)] by auto
  ultimately obtain w' where "rados_dict_transaction_commit J C R ?t d cl w = Some (RADOS_COMMIT_RET_OK, d, cl, w')"
    and c: "content V d w' = unset_all (t_unset_set ?t) (inc_all (t_atomic_inc_map ?t) (set_all (t_set_map ?t) (content V d w)))"
    using commit_content [OF assms(1-5), of ?t w J C cl] transaction_ok [of ops] by auto
  moreover have "content V d w' = apply_dict_ops ops (content V d w)"
    unfolding c using assms(7) by (intro ext commit_key) auto
  ultimately show ?thesis by blast
qed

definition sample_dict :: dictionary where
  "sample_dict = (new_dictionary ''p'' ''u'' ''dict'' None ''rbox_cfg'')
     \<lparr>d_shared_ctx := \<lparr>ctx_pool = ''p'', ctx_ns = ''public''\<rparr>, d_private_ctx := \<lparr>ctx_pool = ''p'', ctx_ns = ''u''\<rparr>,
      d_shared_created := True, d_private_created := True\<rparr>"

lemma sample_dict_open: "dict_open sample_dict"
  by (simp add: dict_open_def sample_dict_def)

lemma mem_omap_writes: "omap_writes_succeed mem_rados"
proof -
  have "fst (osd_add mem_rados c oid k n w) = 0" if "length k < 2 ^ 32" and "\<bar>n\<bar> < 1000000" for c oid k n w
    using mem_numops_view [of k n c oid] that by (simp add: osd_add_def mem_rados_def mem_set_def)
  then show ?thesis by (simp add: omap_writes_succeed_def mem_rados_def mem_set_def)
qed

theorem commit_applies_in_order_witness:
  "\<exists>w'. rados_dict_transaction_commit flat_json (fixed_client [] []) mem_rados
          (run_dict_ops [Dict_Set ''priv/a'' ''1'', Dict_Inc ''shared/n'' 2, Dict_Unset ''priv/a'', Dict_Inc ''shared/n'' 3])
          sample_dict sample_cluster [] = Some (RADOS_COMMIT_RET_OK, sample_dict, sample_cluster, w') \<and>
        content map_of sample_dict w' = apply_dict_ops
          [Dict_Set ''priv/a'' ''1'', Dict_Inc ''shared/n'' 2, Dict_Unset ''priv/a'', Dict_Inc ''shared/n'' 3]
          (content map_of sample_dict [])"
proof -
  have "content map_of sample_dict [] = (\<lambda>_. None)"
    by (simp add: fun_eq_iff content_def obj_or_new_def empty_robj_def smap_get_def)
  then show ?thesis
    by (intro commit_applies_in_order [OF mem_rados_laws(9,14,10) mem_omap_writes sample_dict_open])
       (auto simp: inc_keys_def plain_keys_def dict_key_def DICT_PATH_PRIVATE_def DICT_PATH_SHARED_def
         starts_with_def is_counter_def counter_def)
qed

text \<open>
  When a key is both incremented and set, the order of the changes is lost: the commit
  deploys all sets first. Incrementing by 1 and then setting 5 leaves 6 instead of 5.
\<close>

theorem inc_then_set_reordered:
  "case rados_dict_transaction_commit flat_json (fixed_client [] []) mem_rados
      (run_dict_ops [Dict_Inc ''priv/n'' 1, Dict_Set ''priv/n'' ''5'']) sample_dict sample_cluster [] of
     None \<Rightarrow> False
   | Some (r, d, _, w) \<Rightarrow> r = RADOS_COMMIT_RET_OK \<and> content map_of d w ''priv/n'' = Some ''6'' \<and>
       apply_dict_ops [Dict_Inc ''priv/n'' 1, Dict_Set ''priv/n'' ''5''] (content map_of d []) ''priv/n'' = Some ''5''"
  by code_simp

definition writes_refused :: "'w rados \<Rightarrow> bool" where
  "writes_refused R \<longleftrightarrow> (\<forall>c oid m ks cls meth inp w. rd_omap_set R c oid m w = (-5, w) \<and>
     rd_omap_rm_keys R c oid ks w = (-5, w) \<and> rd_exec R c oid cls meth inp w = (-5, w))"

lemma deploy_set_refused:
  assumes "writes_refused R" and "dict_open d" and "\<forall>k \<in> fst ` set items. dict_key k"
  shows "\<exists>t'. deploy_set_items J C R items t d cl w = Some (t', d, cl, w) \<and> same_items t t'"
  using assms(3)
proof (induction items arbitrary: t)
  case (Cons p items)
  obtain k v where p: "p = (k, v)" by (cases p)
  then obtain t1 where t1: "same_items t t1"
    "deploy_target J C R k t d cl w = Some (key_ctx d k, get_full_oid d k, t1, d, cl, w)"
    using deploy_target_open [OF assms(2), of k t J C R cl w] Cons.prems by auto
  from Cons.IH [of t1] Cons.prems t1 p assms(1) show ?case
    by (auto simp: writes_refused_def same_items_def)
qed simp

lemma deploy_inc_refused:
  assumes "writes_refused R" and "dict_open d" and "\<forall>k \<in> fst ` set items. dict_key k"
  shows "\<exists>t'. deploy_inc_items J C R items t d cl w = Some (t', d, cl, w) \<and> same_items t t'"
  using assms(3)
proof (induction items arbitrary: t)
  case (Cons p items)
  obtain k v where p: "p = (k, v)" by (cases p)
  then obtain t1 where t1: "same_items t t1"
    "deploy_target J C R k t d cl w = Some (key_ctx d k, get_full_oid d k, t1, d, cl, w)"
    using deploy_target_open [OF assms(2), of k t J C R cl w] Cons.prems by auto
  from Cons.IH [of t1] Cons.prems t1 p assms(1) show ?case
    by (auto simp: writes_refused_def osd_add_def same_items_def)
qed simp

lemma deploy_unset_refused:
  assumes "writes_refused R" and "dict_open d" and "\<forall>k \<in> fst ` set items. dict_key k"
  shows "\<exists>t'. deploy_unset_items J C R items t d cl w = Some (t', d, cl, w) \<and> same_items t t'"
  using assms(3)
proof (induction items arbitrary: t)
  case (Cons p items)
  obtain k v where p: "p = (k, v)" by (cases p)
  then obtain t1 where t1: "same_items t t1"
    "deploy_target J C R k t d cl w = Some (key_ctx d k, get_full_oid d k, t1, d, cl, w)"
    using deploy_target_open [OF assms(2), of k t J C R cl w] Cons.prems by auto
  from Cons.IH [of t1] Cons.prems t1 p assms(1) show ?case
    by (auto simp: writes_refused_def same_items_def)
qed simp

text \<open>
  Property C32: the result of a commit does not tell whether it was written. A store that refuses
  every write, and so never changes, still yields OK for every transaction on an opened dictionary.
\<close>

theorem commit_hides_failures:
  assumes "writes_refused R" and "dict_open d" and "\<forall>op \<in> set ops. dict_key (op_key op)"
  shows "rados_dict_transaction_commit J C R (run_dict_ops ops) d cl w = Some (RADOS_COMMIT_RET_OK, d, cl, w)"
proof -
  let ?t = "run_dict_ops ops"
  have all: "\<forall>k \<in> A. dict_key k" if "A \<subseteq> op_key ` set ops" for A
    using that assms(3) by auto
  have keys: "\<forall>k \<in> fst ` set (t_set_map ?t). dict_key k" "\<forall>k \<in> fst ` set (t_atomic_inc_map ?t). dict_key k"
    "\<forall>k \<in> fst ` set (t_unset_set ?t). dict_key k"
    using transaction_keys [of ops] subset_trans by (intro all; simp; blast?)+
  obtain t1 where 1: "deploy_set_items J C R (t_set_map ?t) ?t d cl w = Some (t1, d, cl, w)" "same_items ?t t1"
    using deploy_set_refused [OF assms(1,2) keys(1), of J C ?t cl w] by blast
  obtain t2 where 2: "deploy_inc_items J C R (t_atomic_inc_map ?t) (t1\<lparr>t_set_map := []\<rparr>) d cl w = Some (t2, d, cl, w)"
    "same_items (t1\<lparr>t_set_map := []\<rparr>) t2"
    using deploy_inc_refused [OF assms(1,2) keys(2), of J C "t1\<lparr>t_set_map := []\<rparr>" cl w] by blast
  obtain t3 where 3: "deploy_unset_items J C R (t_unset_set ?t) (t2\<lparr>t_atomic_inc_map := []\<rparr>) d cl w = Some (t3, d, cl, w)"
    "same_items (t2\<lparr>t_atomic_inc_map := []\<rparr>) t3"
    using deploy_unset_refused [OF assms(1,2) keys(3), of J C "t2\<lparr>t_atomic_inc_map := []\<rparr>" cl w] by blast
  from 1 2 3 transaction_ok [of ops] show ?thesis
    by (auto simp: rados_dict_transaction_commit_def deploy_set_map_def deploy_atomic_inc_map_def
        deploy_unset_set_def same_items_def)
qed

theorem commit_hides_failures_witness:
  "let R = mem_rados\<lparr>rd_omap_set := \<lambda>_ _ _ w. (-5, w), rd_omap_rm_keys := \<lambda>_ _ _ w. (-5, w),
             rd_exec := \<lambda>_ _ _ _ _ w. (-5, w)\<rparr>
   in writes_refused R \<and>
      rados_dict_transaction_commit flat_json (fixed_client [] []) R (run_dict_ops [Dict_Set ''priv/a'' ''1''])
        sample_dict sample_cluster [] = Some (RADOS_COMMIT_RET_OK, sample_dict, sample_cluster, [])"
  unfolding Let_def
  by (intro conjI commit_hides_failures sample_dict_open)
     (auto simp: writes_refused_def dict_key_def DICT_PATH_PRIVATE_def starts_with_def)

section \<open>What a lookup returns\<close>

lemma smap_get_one: "smap_get k (filter (\<lambda>p. fst p \<in> set [k]) m) = smap_get k m"
  by (induction m) (auto simp: smap_get_def)

definition lookup_spec :: "bytes option \<Rightarrow> commit_ret \<times> string option" where
  "lookup_spec v = (case v of None \<Rightarrow> (RADOS_COMMIT_RET_NOTFOUND, None)
     | Some b \<Rightarrow> (RADOS_COMMIT_RET_OK, Some (c_str b)))"

lemma open_oid: "get_full_oid d k = snd (snd (key_obj d k))"
  by (simp add: key_obj_def okey_def)

text \<open>
  A lookup whose read succeeds returns exactly the content of the dictionary: the value
  up to its first NUL for a stored key, not found otherwise; a read that fails with anything but
  \<open>-ENOENT\<close> is reported as a failure. The content is not changed.
\<close>

theorem lookup_returns_content:
  assumes "law_omap_get_vals R V" and "dict_open d" and "dict_key k"
    and "rd_omap_get_vals_by_keys R (key_ctx d k) (get_full_oid d k) [k] w = (r, m, w')" and "r \<le> 0"
  shows "\<exists>ret v. rados_dict_lookup J C R k d cl w = Some (ret, v, d, cl, w') \<and>
    (r = 0 \<longrightarrow> (ret, v) = lookup_spec (content V d w k)) \<and>
    (ret = RADOS_COMMIT_RET_FAILED \<longleftrightarrow> r < 0 \<and> r \<noteq> - ENOENT) \<and> content V d w' = content V d w"
proof -
  have "V w' = V w" and "r = 0 \<Longrightarrow> \<exists>ob. V w (key_obj d k) = Some ob \<and> m = filter (\<lambda>p. fst p \<in> set [k]) (o_omap ob)"
    using assms(1,4) unfolding law_omap_get_vals_def key_obj_def by (blast, force)
  then have "content V d w' = content V d w" and "r = 0 \<Longrightarrow> smap_get k m = content V d w k"
    using assms(3) smap_get_one [of k] by (auto simp: content_def)
  then show ?thesis
    using assms open_contexts(3) [OF assms(2,3), of J C R cl w]
    by (auto simp: rados_dict_lookup_def lookup_spec_def split: option.splits)
qed

theorem lookup_returns_content_witness:
  "\<exists>ret v w'. rados_dict_lookup flat_json (fixed_client [] []) mem_rados ''priv/a'' sample_dict sample_cluster
      [((''p'', ''u'', ''dict''), empty_robj\<lparr>o_omap := [(''priv/a'', ''x'')]\<rparr>)] = Some (ret, v, sample_dict, sample_cluster, w') \<and>
    (ret, v) = lookup_spec (content map_of sample_dict
      [((''p'', ''u'', ''dict''), empty_robj\<lparr>o_omap := [(''priv/a'', ''x'')]\<rparr>)] ''priv/a'')"
  using lookup_returns_content [OF mem_rados_laws(12) sample_dict_open, of "''priv/a''"
      "[((''p'', ''u'', ''dict''), empty_robj\<lparr>o_omap := [(''priv/a'', ''x'')]\<rparr>)]" 0 "[(''priv/a'', ''x'')]" _
      flat_json "fixed_client [] []" sample_cluster]
  by (force simp: dict_key_def key_ctx_def get_full_oid_def DICT_PATH_PRIVATE_def starts_with_def sample_dict_def
      new_dictionary_def okey_def mem_rados_def mem_get_def)

section \<open>What an iteration returns\<close>

text \<open>The caller's loop: iterate until no entry is returned.\<close>

fun drain :: "nat \<Rightarrow> iterate_context \<Rightarrow> (string \<times> string option) list option" where
  "drain 0 iter = None"
| "drain (Suc n) iter =
     (case rados_dict_iterate iter of None \<Rightarrow> None
      | Some (None, _) \<Rightarrow> Some []
      | Some (Some e, iter') \<Rightarrow> map_option ((#) e) (drain n iter'))"

definition matching :: "bool \<Rightarrow> kv_map \<Rightarrow> bytes smap" where
  "matching all r = filter (\<lambda>e. all \<or> CHR ''/'' \<notin> set (drop (length (kv_key r)) (fst e))) (kv_map r)"

definition entry :: "bool \<Rightarrow> string \<times> bytes \<Rightarrow> string \<times> string option" where
  "entry no_value e = (c_str (fst e), if no_value then None else Some (c_str (snd e)))"

lemma iterate_from_matching:
  "case iterate_from all rs of
     (None, rs') \<Rightarrow> concat (map (matching all) rs) = [] \<and> rs' = []
   | (Some e, rs') \<Rightarrow> concat (map (matching all) rs) = e # concat (map (matching all) rs') \<and> rs' \<noteq> []"
proof (induction all rs rule: iterate_from.induct)
  case (2 all r rs)
  show ?case
  proof (cases "kv_map r")
    case Nil
    then have "concat (map (matching all) (r # rs)) = concat (map (matching all) rs)" by (simp add: matching_def)
    with Nil 2(1) [OF Nil] show ?thesis by (simp split: prod.splits option.splits)
  next
    case (Cons e m)
    then show ?thesis
      using 2(2) [OF Cons] by (auto simp: matching_def split: prod.splits option.splits)
  qed
qed simp

lemma drain_matching:
  assumes "\<not> it_failed iter" and "it_results iter \<noteq> []"
    and "length (concat (map (matching (it_recurse iter \<or> it_exact_key iter)) (it_results iter))) < n"
  shows "drain n iter = Some (map (entry (it_no_value iter))
           (concat (map (matching (it_recurse iter \<or> it_exact_key iter)) (it_results iter))))"
  using assms
proof (induction n arbitrary: iter)
  case (Suc n)
  let ?all = "it_recurse iter \<or> it_exact_key iter"
  obtain e rs where it: "iterate_from ?all (it_results iter) = (e, rs)" by fastforce
  note m = iterate_from_matching [of ?all "it_results iter", unfolded it]
  show ?case
  proof (cases e)
    case None
    with Suc.prems it m show ?thesis by (simp add: rados_dict_iterate_def)
  next
    case (Some p)
    then have "drain n (iter\<lparr>it_results := rs\<rparr>) = Some (map (entry (it_no_value iter)) (concat (map (matching ?all) rs)))"
      using Suc.IH [of "iter\<lparr>it_results := rs\<rparr>"] Suc.prems m by simp
    with Some Suc.prems it m show ?thesis
      by (simp add: rados_dict_iterate_def entry_def split_beta)
  qed
qed simp

text \<open>What the queries and the filter together select from one omap.\<close>

definition iterate_entries :: "bool \<Rightarrow> bool \<Rightarrow> string list \<Rightarrow> bytes smap \<Rightarrow> bytes smap" where
  "iterate_entries recurse exact keys m =
     (if exact then filter (\<lambda>e. fst e \<in> set keys) m
      else concat (map (\<lambda>k. filter (\<lambda>e. starts_with k (fst e) \<and>
             (recurse \<or> CHR ''/'' \<notin> set (drop (length k) (fst e)))) m) keys))"

lemma iterate_queryD:
  "iterate_query R exact keys c oid w = (err, cr, res, w') \<Longrightarrow>
   \<exists>res0. rd_aio_read R c oid (map snd (iterate_reads exact keys)) w = (err, cr, res0, w') \<and>
     res = iterate_kv_maps (iterate_reads exact keys) res0"
  by (auto simp: iterate_query_def Let_def split: prod.splits)

text \<open>The answers to the queries for these keys are within the bounds of the OSD.\<close>

definition answers_fit :: "(bytes smap \<Rightarrow> bool) \<Rightarrow> bool \<Rightarrow> string list \<Rightarrow> bytes smap \<Rightarrow> bool" where
  "answers_fit fits exact keys m \<longleftrightarrow> exact \<or> (\<forall>k \<in> set keys. fits (filter (\<lambda>p. starts_with k (fst p)) m))"

lemma iterate_entries_eq:
  "concat (map (\<lambda>(k, rd). filter (\<lambda>e. (recurse \<or> exact) \<or> CHR ''/'' \<notin> set (drop (length k) (fst e))) (read_omap rd m))
     (iterate_reads exact keys)) = iterate_entries recurse exact keys m"
  by (auto simp: iterate_entries_def iterate_reads_def comp_def intro!: arg_cong [of _ _ concat] filter_cong)

lemma concat_map_subset:
  assumes "length xs = length ys" and "\<And>i. i < length xs \<Longrightarrow> set (f (xs ! i)) \<subseteq> set (g (ys ! i))"
  shows "set (concat (map f xs)) \<subseteq> set (concat (map g ys))"
proof
  fix e assume "e \<in> set (concat (map f xs))"
  then obtain x where "x \<in> set xs" "e \<in> set (f x)" by auto
  then obtain i where "i < length xs" "e \<in> set (f (xs ! i))" by (metis in_set_conv_nth)
  with assms have "e \<in> set (g (ys ! i))" "ys ! i \<in> set ys" by auto
  then show "e \<in> set (concat (map g ys))" by auto
qed

lemma iterate_query_entries:
  assumes law: "law_aio_read R fits V" and q: "iterate_query R exact keys c oid w = (err, cr, res, w')"
    and ok: "0 \<le> err" "0 \<le> cr" "\<forall>r \<in> set res. 0 \<le> kv_rval r"
  defines "m \<equiv> o_omap (obj_or_new (V w) (okey c oid))"
  shows "set (concat (map (matching (recurse \<or> exact)) res)) \<subseteq> set (iterate_entries recurse exact keys m) \<and>
    (answers_fit fits exact keys m \<longrightarrow> concat (map (matching (recurse \<or> exact)) res) = iterate_entries recurse exact keys m)"
proof -
  let ?reads = "iterate_reads exact keys"
  let ?f = "\<lambda>k. filter (\<lambda>e. (recurse \<or> exact) \<or> CHR ''/'' \<notin> set (drop (length k) (fst e)))"
  let ?g = "\<lambda>(k, rd). ?f k (read_omap rd m)"
  obtain res0 where r: "rd_aio_read R c oid (map snd ?reads) w = (err, cr, res0, w')"
    and res: "res = iterate_kv_maps ?reads res0"
    using iterate_queryD [OF q] by blast
  obtain ob where "V w (okey c oid) = Some ob" and len: "length res0 = length ?reads"
    and "\<And>i. i < length ?reads \<Longrightarrow> 0 \<le> fst (res0 ! i) \<Longrightarrow> law_answer fits (snd (?reads ! i)) (o_omap ob) (snd (res0 ! i))"
    using law [unfolded law_aio_read_def, rule_format, OF r] ok(1,2) by auto
  moreover have "0 \<le> fst (res0 ! i)" if "i < length ?reads" for i
    using bspec [OF ok(3) nth_mem, of i] that len by (simp add: res iterate_kv_maps_def split_beta)
  ultimately have law': "law_answer fits (snd (?reads ! i)) m (snd (res0 ! i))" if "i < length ?reads" for i
    using that by (simp add: m_def)
  have len': "length res = length ?reads" using len by (simp add: res iterate_kv_maps_def)
  have match: "matching (recurse \<or> exact) (res ! i) = ?f (fst (?reads ! i)) (fst (snd (res0 ! i)))" if "i < length ?reads" for i
    using that len by (simp add: res iterate_kv_maps_def matching_def split_beta)
  have "set (matching (recurse \<or> exact) (res ! i)) \<subseteq> set (?g (?reads ! i))" if "i < length ?reads" for i
    using law' [OF that] unfolding match [OF that] by (cases "res0 ! i") (auto simp: split_beta dest: in_set_takeD)
  then have sub: "set (concat (map (matching (recurse \<or> exact)) res)) \<subseteq> set (concat (map ?g ?reads))"
    by (rule concat_map_subset [OF len']) (simp add: len')
  have eq: "map (matching (recurse \<or> exact)) res = map ?g ?reads" if fit: "answers_fit fits exact keys m"
  proof (rule nth_equalityI)
    fix i assume "i < length (map (matching (recurse \<or> exact)) res)"
    then have i: "i < length ?reads" using len' by simp
    have "(case snd (?reads ! i) of ROmapKeys _ \<Rightarrow> True | ROmapPrefix _ \<Rightarrow> fits (read_omap (snd (?reads ! i)) m))"
      using fit i by (auto simp: answers_fit_def iterate_reads_def split: read_item.splits if_splits)
    then have "fst (snd (res0 ! i)) = read_omap (snd (?reads ! i)) m"
      using law' [OF i] by (cases "res0 ! i") (auto split: read_item.splits)
    then show "map (matching (recurse \<or> exact)) res ! i = map ?g ?reads ! i"
      using i len' match [OF i] by (simp add: split_beta)
  qed (simp add: len')
  show ?thesis
    unfolding iterate_entries_eq [symmetric] by (intro conjI impI arg_cong [of _ _ concat] sub eq)
qed

lemma iterate_query_view:
  assumes "law_aio_read R fits V" and "iterate_query R exact keys c oid w = (err, cr, res, w')"
  shows "V w' = V w" and "length res = length (iterate_reads exact keys)"
  using assms(1) iterate_queryD [OF assms(2)] unfolding law_aio_read_def
  by (blast, fastforce simp: iterate_kv_maps_def)

text \<open>One of the two queries on an opened dictionary; nothing is read without keys.\<close>

definition iterate_part :: "'w rados \<Rightarrow> bool \<Rightarrow> string list \<Rightarrow> io_ctx \<Rightarrow> string \<Rightarrow> 'w \<Rightarrow>
    int \<times> int \<times> kv_map list \<times> 'w" where
  "iterate_part R exact keys c oid w = (if keys = [] then (0, 0, [], w) else iterate_query R exact keys c oid w)"

lemma iterate_part_entries:
  assumes "law_aio_read R fits V" and "iterate_part R exact keys c oid w = (err, cr, res, w')"
    and "0 \<le> err" and "0 \<le> cr" and "\<forall>r \<in> set res. 0 \<le> kv_rval r"
  defines "m \<equiv> o_omap (obj_or_new (V w) (okey c oid))"
  shows "V w' = V w \<and> (keys \<noteq> [] \<longrightarrow> res \<noteq> []) \<and>
    set (concat (map (matching (recurse \<or> exact)) res)) \<subseteq> set (iterate_entries recurse exact keys m) \<and>
    (answers_fit fits exact keys m \<longrightarrow> concat (map (matching (recurse \<or> exact)) res) = iterate_entries recurse exact keys m)"
proof (cases "keys = []")
  case False
  then have q: "iterate_query R exact keys c oid w = (err, cr, res, w')"
    using assms(2) by (simp add: iterate_part_def)
  have "keys \<noteq> [] \<longrightarrow> res \<noteq> []"
    using iterate_query_view(2) [OF assms(1) q] by (auto simp: iterate_reads_def split: if_splits)
  then show ?thesis
    using iterate_query_view(1) [OF assms(1) q] iterate_query_entries [OF assms(1) q assms(3-5), of recurse]
    unfolding m_def by blast
qed (use assms in \<open>simp add: iterate_part_def iterate_entries_def\<close>)

lemma key_set_subset: "set (key_set prefix paths) \<subseteq> set paths"
proof -
  have "fst ` set (foldl (\<lambda>m k. smap_put k () m) acc ks) = fst ` set acc \<union> set ks" for acc :: "unit smap" and ks
    by (induction ks arbitrary: acc) (simp_all add: keys_smap_put)
  from this [of "[]" "filter (starts_with prefix) paths"] show ?thesis
    by (auto simp: key_set_def)
qed

lemma iterate_init_open:
  assumes "dict_open d" and "key_set DICT_PATH_PRIVATE paths \<noteq> [] \<or> key_set DICT_PATH_SHARED paths \<noteq> []"
    and "iterate_part R exact (key_set DICT_PATH_PRIVATE paths) (d_private_ctx d) (d_private_oid d) w = (ep, cp, rp, w1)"
    and "iterate_part R exact (key_set DICT_PATH_SHARED paths) (d_shared_ctx d) (d_shared_oid d) w1 = (es, cs, rs, w2)"
  shows "rados_dict_iterate_init J C R paths recurse exact no_value d cl w =
    Some (if ep < 0
      then (\<lparr>it_recurse = recurse, it_exact_key = exact, it_no_value = no_value, it_failed = True, it_results = rp\<rparr>, d, cl, w1)
      else (\<lparr>it_recurse = recurse, it_exact_key = exact, it_no_value = no_value,
             it_failed = (es < 0 \<or> cp < 0 \<or> cs < 0 \<or> \<not> (\<forall>r \<in> set (rp @ rs). 0 \<le> kv_rval r)), it_results = rp @ rs\<rparr>,
            d, cl, w2))"
  using assms
  by (auto simp: rados_dict_iterate_init_def open_contexts iterate_part_def Let_def not_le split: if_splits)

text \<open>
  Property C20: what an iteration that is not marked as failed returns. It ends, reports success and changes nothing, and it
  returns only entries it was asked for: for every private path and then for every shared path, in key order, the entries
  whose key is the path (exact), starts with the path (recursive), or starts with it and has no further slash. It returns
  all of them when the paths are exact, or when the entries below each path are within the bounds of what the OSD puts into one
  answer; the code does not ask for the rest of an answer that was cut off.
\<close>

theorem iterate_returns_matches:
  assumes law: "law_aio_read R fits V" and "dict_open d"
    and init: "rados_dict_iterate_init J C R paths recurse exact no_value d cl w = Some (iter, d', cl', w')"
    and "\<not> it_failed iter"
  defines "private_omap \<equiv> o_omap (obj_or_new (V w) (okey (d_private_ctx d) (d_private_oid d)))"
    and "shared_omap \<equiv> o_omap (obj_or_new (V w) (okey (d_shared_ctx d) (d_shared_oid d)))"
  defines "asked \<equiv> iterate_entries recurse exact (key_set DICT_PATH_PRIVATE paths) private_omap @
                  iterate_entries recurse exact (key_set DICT_PATH_SHARED paths) shared_omap"
  shows "\<exists>es. drain (Suc (length es)) iter = Some (map (entry no_value) es) \<and> set es \<subseteq> set asked \<and>
    (exact \<or> (\<forall>k \<in> set paths. fits (filter (\<lambda>p. starts_with k (fst p)) private_omap) \<and>
                         fits (filter (\<lambda>p. starts_with k (fst p)) shared_omap)) \<longrightarrow> es = asked) \<and>
    rados_dict_iterate_deinit iter = 0 \<and> V w' = V w"
proof -
  let ?pk = "key_set DICT_PATH_PRIVATE paths" and ?sk = "key_set DICT_PATH_SHARED paths"
  have keys: "?pk \<noteq> [] \<or> ?sk \<noteq> []"
    using init assms(4) by (auto simp: rados_dict_iterate_init_def Let_def split: if_splits)
  obtain ep cp rp w1 where p: "iterate_part R exact ?pk (d_private_ctx d) (d_private_oid d) w = (ep, cp, rp, w1)"
    by (metis prod_cases4)
  obtain es cs rs w2 where s: "iterate_part R exact ?sk (d_shared_ctx d) (d_shared_oid d) w1 = (es, cs, rs, w2)"
    by (metis prod_cases4)
  have ok: "0 \<le> ep" "0 \<le> cp" "\<forall>r \<in> set rp. 0 \<le> kv_rval r" "0 \<le> es" "0 \<le> cs" "\<forall>r \<in> set rs. 0 \<le> kv_rval r"
    and it: "iter = \<lparr>it_recurse = recurse, it_exact_key = exact, it_no_value = no_value, it_failed = False, it_results = rp @ rs\<rparr>"
    and w: "w' = w2"
    using init assms(4) iterate_init_open [OF assms(2) keys p s, of J C recurse no_value cl]
    by (auto split: if_splits simp: not_less)
  note parts = iterate_part_entries [OF law p ok(1-3), of recurse] iterate_part_entries [OF law s ok(4-6), of recurse]
  let ?es = "concat (map (matching (recurse \<or> exact)) (it_results iter))"
  have "it_results iter \<noteq> []" using keys parts by (auto simp: it)
  then have "drain (Suc (length ?es)) iter = Some (map (entry no_value) ?es)"
    using drain_matching [of iter "Suc (length ?es)"] by (simp add: it)
  moreover have "V w1 = V w" "V w' = V w" using parts w by simp_all
  moreover from this have "set ?es \<subseteq> set asked"
    using parts unfolding it asked_def private_omap_def shared_omap_def by auto
  moreover have "?es = asked" if f: "exact \<or> (\<forall>k \<in> set paths. fits (filter (\<lambda>p. starts_with k (fst p)) private_omap) \<and>
      fits (filter (\<lambda>p. starts_with k (fst p)) shared_omap))"
  proof -
    have "answers_fit fits exact ?pk private_omap" "answers_fit fits exact ?sk shared_omap"
      using f key_set_subset unfolding answers_fit_def by blast+
    then show ?thesis
      using parts \<open>V w1 = V w\<close> unfolding it asked_def private_omap_def shared_omap_def by simp
  qed
  ultimately show ?thesis by (intro exI [of _ ?es]) (simp add: it rados_dict_iterate_deinit_def)
qed

definition sample_dict_store :: mem where
  "sample_dict_store = [((''p'', ''u'', ''dict''),
     empty_robj\<lparr>o_omap := [(''priv/a'', ''1''), (''priv/b/c'', ''2''), (''priv/d'', ''3'')]\<rparr>)]"

theorem iterate_returns_matches_witness:
  "\<exists>iter. drain 3 iter = Some [(''priv/a'', Some ''1''), (''priv/d'', Some ''3'')] \<and>
     rados_dict_iterate_deinit iter = 0 \<and>
     rados_dict_iterate_init flat_json (fixed_client [] []) mem_rados [''priv/''] False False False sample_dict
       sample_cluster sample_dict_store = Some (iter, sample_dict, sample_cluster, sample_dict_store)"
proof -
  let ?init = "rados_dict_iterate_init flat_json (fixed_client [] []) mem_rados [''priv/''] False False False sample_dict
      sample_cluster sample_dict_store"
  have "case ?init of None \<Rightarrow> False | Some (i, d, cl, w) \<Rightarrow>
      \<not> it_failed i \<and> d = sample_dict \<and> cl = sample_cluster \<and> w = sample_dict_store"
    by code_simp
  then obtain iter where i: "?init = Some (iter, sample_dict, sample_cluster, sample_dict_store)" "\<not> it_failed iter"
    by (auto split: option.splits prod.splits)
  have e: "iterate_entries False False (key_set DICT_PATH_PRIVATE [''priv/''])
        (o_omap (obj_or_new (map_of sample_dict_store) (okey (d_private_ctx sample_dict) (d_private_oid sample_dict))))
      = [(''priv/a'', ''1''), (''priv/d'', ''3'')]"
    "iterate_entries False False (key_set DICT_PATH_SHARED [''priv/''])
        (o_omap (obj_or_new (map_of sample_dict_store) (okey (d_shared_ctx sample_dict) (d_shared_oid sample_dict)))) = []"
    "map (entry False) [(''priv/a'', ''1''), (''priv/d'', ''3'')] = [(''priv/a'', Some ''1''), (''priv/d'', Some ''3'')]"
    by code_simp+
  have f: "length (filter (\<lambda>p. starts_with k (fst p)) (o_omap (obj_or_new (map_of sample_dict_store) key))) \<le> 3" for k key
    by (rule order_trans [OF length_filter_le]) (simp add: obj_or_new_def sample_dict_store_def empty_robj_def)
  obtain es where "drain (Suc (length es)) iter = Some (map (entry False) es)" and "rados_dict_iterate_deinit iter = 0"
      and "es = [(''priv/a'', ''1''), (''priv/d'', ''3'')] @ []"
    using iterate_returns_matches [OF mem_rados_laws(17) [of "\<lambda>m. length m \<le> 3"] sample_dict_open i, unfolded e] f by blast
  then show ?thesis
    using i(1) e(3) by (auto simp: eval_nat_numeral simp del: drain.simps list.map)
qed

section \<open>The properties of the URI\<close>

text \<open>
  Every property of the URI sets its field to the text behind the equals sign, except
  \<open>dict_user_name\<close>: its offset is one too large, so the first character of the user name is lost
  and an empty name leaves the function with an exception.
\<close>

theorem uri_properties:
  "parse_prop (''oid='' @ s) u = Uri_Ok (u\<lparr>u_oid := s\<rparr>) \<and>
   parse_prop (''pool='' @ s) u = Uri_Ok (u\<lparr>u_pool := s\<rparr>) \<and>
   parse_prop (''dict_cluster_name='' @ s) u = Uri_Ok (u\<lparr>u_cluster := s\<rparr>) \<and>
   parse_prop (''dict_cfg_object_name='' @ s) u = Uri_Ok (u\<lparr>u_cfg := s\<rparr>) \<and>
   parse_prop (''dict_user_name='' @ s) u = (case s of [] \<Rightarrow> Uri_Throws Out_of_range | _ # n \<Rightarrow> Uri_Ok (u\<lparr>u_user := n\<rparr>))"
  by (simp add: parse_prop_def starts_with_def uri_field_def substr_from_def split: list.split)

end
