(* ===== verification/Spec2Isabelle.thy ===== *)
theory Spec2Isabelle
  imports Rbox_Copy Rbox_Mailbox Rbox_Doveadm Dict_Rados
begin

text \<open>
  A verification development of the dovecot ceph plugin: mails of the IMAP server dovecot are stored
  as objects of the ceph object store (RADOS), one object per mail, while dovecot keeps the index of
  a mailbox in its own files. A second driver stores the key-value dictionaries of dovecot in the
  same store.

  \<^bold>\<open>Parts of the program and their interplay.\<close> The library \<^verbatim>\<open>src/librmb\<close> wraps librados. A process
  has one cluster connection, counted by its users (\<^verbatim>\<open>rados-cluster-impl\<close>). A storage
  (\<^verbatim>\<open>rados-storage-impl\<close>) holds an io context for a pool and a namespace and reads, writes, copies,
  moves, lists and removes mail objects (\<^verbatim>\<open>rados-mail\<close>). The metadata of a mail are extended attributes
  of its object; a metadata module (\<^verbatim>\<open>rados-metadata-storage-default\<close> or \<^verbatim>\<open>-ima\<close>) decides how they
  are laid out. The configuration is a JSON object in the store (\<^verbatim>\<open>rados-ceph-config\<close>), the namespace
  of a user is found through an indirection object (\<^verbatim>\<open>rados-namespace-manager\<close>). The mail storage
  \<^verbatim>\<open>src/storage-rbox\<close> is the dovecot driver on top of this: it opens the connection of a mailbox
  (\<^verbatim>\<open>rbox-storage\<close>), saves mails in transactions (\<^verbatim>\<open>rbox-save\<close>), reads and copies them (\<^verbatim>\<open>rbox-mail\<close>,
  \<^verbatim>\<open>rbox-copy\<close>), applies changes of the index to the objects (\<^verbatim>\<open>rbox-sync\<close>) and rebuilds an index
  from the objects (\<^verbatim>\<open>rbox-sync-rebuild\<close>). The dictionary driver \<^verbatim>\<open>src/dict-rados\<close> uses
  \<^verbatim>\<open>rados-dictionary-impl\<close>. Administrators work on the objects with the tool \<^verbatim>\<open>rmb\<close> (\<^verbatim>\<open>librmb/tools/rmb\<close>) and
  with commands of doveadm (\<^verbatim>\<open>doveadm-rbox-plugin\<close>), which use the commands of the tool.

  \<^bold>\<open>Style of the model.\<close> Definitions keep the names of the source; every definition is executable.
  C and C++ objects are records, error numbers are \<^typ>\<open>int\<close>, bit fields and counters that can wrap
  are words, C++ exceptions are left values of a sum, and \<^const>\<open>None\<close> as the result of an operation
  is the end of the process: a null pointer, a failed assertion or an exception nobody catches.
  Code that is not part of the repository is a parameter: librados is the record of
  functions in \<^verbatim>\<open>Rados_Api\<close> over an arbitrary type of store, dovecot the record of \<^verbatim>\<open>Dovecot_Api\<close>, the JSON
  library the record of \<^verbatim>\<open>Json_Lib\<close>, the client object of the cluster a record in \<^verbatim>\<open>Cluster\<close>. What the
  code relies on is stated as named laws (\<^verbatim>\<open>law_read\<close>, \<^verbatim>\<open>law_operate\<close> and so on), which the properties
  assume one by one; an in-memory store (\<^verbatim>\<open>mem_rados\<close>) satisfies them and runs the witnesses.

  \<^bold>\<open>The theories.\<close>
  \<^item> \<^verbatim>\<open>Rbox_Prelude\<close>: string maps (the ordered \<^verbatim>\<open>std::map\<close>), number texts, searching in strings.
  \<^item> \<^verbatim>\<open>Rados_Types\<close>: the metadata keys and entries (\<^verbatim>\<open>rados-types.h\<close>, \<^verbatim>\<open>rados-metadata.h\<close>), the
    little-endian encoding (\<^verbatim>\<open>encoding.h\<close>), the mail object (\<^verbatim>\<open>rados-mail\<close>).
  \<^item> \<^verbatim>\<open>Rados_Api\<close>: librados as parameter, its laws and the in-memory store.
  \<^item> \<^verbatim>\<open>Rados_Util\<close>, \<^verbatim>\<open>Alt_Storage\<close> (\<^verbatim>\<open>rados-util.cpp\<close>): conversions, validation of metadata, placement
    group texts, the ceph index text; copying and moving mails to the alternative pool.
  \<^item> \<^verbatim>\<open>Save_Log\<close> (\<^verbatim>\<open>rados-save-log\<close>): the log of written, moved and copied objects and its parser.
  \<^item> \<^verbatim>\<open>Cluster\<close> (\<^verbatim>\<open>rados-cluster-impl\<close>): the shared connection, with a step relation for its users, the
    invariant of the reference count and what happens at the last release.
  \<^item> \<^verbatim>\<open>Json_Lib\<close>, \<^verbatim>\<open>Ceph_Config\<close> (\<^verbatim>\<open>rados-ceph-config\<close>, \<^verbatim>\<open>rados-ceph-json-config\<close>,
    \<^verbatim>\<open>rados-dovecot-config\<close>): loading, saving and updating the configuration.
  \<^item> \<^verbatim>\<open>Namespace_Mgr\<close> (\<^verbatim>\<open>rados-namespace-manager\<close>): lookup, cache and creation of namespaces.
  \<^item> \<^verbatim>\<open>Storage_Impl\<close> (\<^verbatim>\<open>rados-storage-impl\<close>): the object storage; saving in pieces, waiting, reading,
    copying, moving, searching, the index of objects.
  \<^item> \<^verbatim>\<open>Metadata_Storage\<close> (\<^verbatim>\<open>rados-metadata-storage-*\<close>): the two modules behind the locale
    \<^verbatim>\<open>metadata_module\<close>, which is interpreted for both.
  \<^item> \<^verbatim>\<open>Dictionary\<close>, \<^verbatim>\<open>Dict_Rados\<close> (\<^verbatim>\<open>rados-dictionary-impl\<close>, \<^verbatim>\<open>dict-rados.cpp\<close>): URIs, lookups,
    transactions as pending maps and their deployment, iterations.
  \<^item> \<^verbatim>\<open>Dovecot_Api\<close>: the index, mailbox list and logging interface of dovecot as parameter.
  \<^item> \<^verbatim>\<open>Rbox_Storage\<close> (\<^verbatim>\<open>rbox-storage.cpp\<close>), \<^verbatim>\<open>Rbox_Rebuild\<close> (\<^verbatim>\<open>rbox-sync-rebuild.cpp\<close>), \<^verbatim>\<open>Rbox_Sync\<close>
    (\<^verbatim>\<open>rbox-sync.cpp\<close>): the mail storage, the rebuild of an index and the synchronisation.
  \<^item> \<^verbatim>\<open>Rbox_List\<close>, \<^verbatim>\<open>Rbox_Mailbox\<close> (\<^verbatim>\<open>rbox-mailbox-list-fs.cpp\<close>, the rest of \<^verbatim>\<open>rbox-storage.cpp\<close>): the flags of the
    directory listing; allocating, opening, creating, updating and closing a mailbox.
  \<^item> \<^verbatim>\<open>Dovecot_Mail\<close>: the calls of dovecot about single mails as parameter.
  \<^item> \<^verbatim>\<open>Rbox_Write\<close>, \<^verbatim>\<open>Rbox_Save\<close> (\<^verbatim>\<open>ostream-bufferlist.cpp\<close>, \<^verbatim>\<open>rbox-save.cpp\<close>): the output stream, the
    context of a save transaction, its mails, commit and rollback.
  \<^item> \<^verbatim>\<open>Rbox_Mail\<close>, \<^verbatim>\<open>Rbox_Copy\<close> (\<^verbatim>\<open>rbox-mail.cpp\<close>, \<^verbatim>\<open>istream-bufferlist.cpp\<close>, \<^verbatim>\<open>rbox-copy.cpp\<close>): the attributes and the
    stream of a mail with the repair of gzip data; copying a mail into another mailbox.
  \<^item> \<^verbatim>\<open>Rmb_Parser\<close>, \<^verbatim>\<open>Rmb_Commands\<close>, \<^verbatim>\<open>Rmb_Main\<close> (\<^verbatim>\<open>ls_cmd_parser\<close>, \<^verbatim>\<open>rados-mail-box.h\<close>, \<^verbatim>\<open>rmb-commands.cpp\<close>,
    \<^verbatim>\<open>mailbox_tools.cpp\<close>, \<^verbatim>\<open>rmb.cpp\<close>): the conditions of a listing, the commands of the tool, its
    argument parser and main function.
  \<^item> \<^verbatim>\<open>Rbox_Doveadm\<close> (\<^verbatim>\<open>doveadm-rbox-plugin.cpp\<close>): the commands of doveadm.

  \<^bold>\<open>What is shown.\<close> Writing: a saved mail is exactly the mail given, written in pieces and joined again;
  copies and moves carry data, omap and attributes; both metadata modules read back what they wrote.
  Texts: the save log, the move operations, the flags, the configuration and the ceph index are
  read back, with the exact limits where they are not. Dictionary: the maps of a transaction refine
  the sequence of its changes, iterations return exactly the matching entries. Cluster: an
  invariant over all interleavings of its users. Mail storage: opening selects the namespace of the
  mailbox, an opened or created mailbox has its GUID, a rebuild restores every mail with consecutive uids, a synchronisation
  removes exactly the objects of the expunged mails and only after the index was committed, a mail
  that is saved is stored with exactly the data sent, gets its uid with the commit and is read back
  unchanged; a copied mail is a new object with the data of the source. Administration: without
  confirmation the tool changes no object; undoing a save log removes exactly the objects it lists; the check of an
  index removes exactly the objects no mailbox refers to, and what a mailbox that cannot be opened costs; the index object
  names every mail. The defects the model exposed are theorems as well, named in the manifest.

  \<^bold>\<open>Bounds.\<close> No recursion of the model is cut off: the loops of the source that split a buffer, read
  the log or drain completions are recursive functions with termination proofs; \<^verbatim>\<open>find_and_replace\<close>,
  which can run forever, is a partial function in the option monad. Retry counts are those of the
  source: ten for the removal of an object and for reading attributes, three rebuilds of two passes
  for the synchronisation. The text of numbers is modelled for all values of their types.

  \<^bold>\<open>Not modelled.\<close> The tables of functions that are handed to dovecot, the registration of the doveadm commands, the
  usage texts, plugin registration, debug output and the build: glue without logic of their own.
\<close>

section \<open>Saving and reading\<close>

text \<open>A cluster that answers every read of an object that is there.\<close>

definition reads_succeed :: "'w rados \<Rightarrow> ('w \<Rightarrow> obj_key \<rightharpoonup> robj) \<Rightarrow> bool" where
  "reads_succeed R V \<longleftrightarrow> (\<forall>c oid w. V w (okey c oid) \<noteq> None \<longrightarrow> 0 \<le> fst (rd_read_stat R c oid w))"

text \<open>
  Property C7: a saved mail is read back. A mail that was begun, continued and finished on a connected
  storage can be opened again: the stream of a mail whose index record names the generated object is
  exactly the data dovecot sent, unless they are a gzip file, and reading changes no object.
\<close>

theorem saved_mail_reads_back:
  assumes "law_dovecot (en_dovecot E) V" and "law_dovecot_mail M V" and "law_operate (en_rados E) V" and "law_append (en_rados E) V"
    and "writes_succeed (en_rados E)" and "\<And>w. length (dm_keyword_indexes M w) \<le> length (dm_keywords M w)"
    and "can_save (sv_mbox c) (length data) x" and "rs_ms (x_rs x) = Some kind" and "0 \<le> fst fin"
    and "(oid, w0) = dv_guid_generate (en_dovecot E) (x_w x)" and "V (x_w x) (okey (st_io_ctx (rs_s (x_rs x))) (dv_guid_to_string (en_dovecot E) oid)) = None"
    and "data = concat (concat iovs)" and "check_is_zlib data = Some False" and "int (length data) < INT_MAX"
    and "law_read_stat (en_rados E) V" and "reads_succeed (en_rados E) V" and "dm_istream_opened M = None"
  shows "\<exists>c1 x1. save_session E M garbage now iovs consumed fin c x = Some (0, c1, x1) \<and>
    (\<forall>seq guid. dv_lookup_ext (en_dovecot E) seq (x_w x1) = Some (guid, oid) \<and> seq \<noteq> -1 \<and>
       \<not> mail_alt M (sv_mbox c) (rbox_mail_alloc seq) (x_w x1) \<longrightarrow>
       (\<exists>r rm y. rbox_mail_get_stream E M garbage2 (sv_mbox c) (rbox_mail_alloc seq) x1 = Some (r, rm, y) \<and>
          rm_stream rm = Some data \<and> V (x_w y) = V (x_w x1)))"
proof -
  let ?D = "en_dovecot E" and ?b = "sv_mbox c" and ?io = "st_io_ctx (rs_s (x_rs x))"
  have "data \<noteq> []" using assms(13) by (auto simp: check_is_zlib_def byte_at_def split: option.splits)
  then have ne: "concat (concat iovs) \<noteq> []" unfolding assms(12) .
  obtain c1 x1 ob where s: "save_session E M garbage now iovs consumed fin c x = Some (0, c1, x1)" "same_storages x x1"
      "V (x_w x1) = (V (x_w x))(okey ?io (dv_guid_to_string ?D oid) \<mapsto> ob)" "o_data ob = data"
    using save_session_ok [OF assms(1-6) assms(7) [unfolded assms(12)] assms(8) ne assms(9) refl, of garbage now consumed]
      assms(10-12) by (metis fst_conv)
  have ready: "state_ready ?b False x1"
    using assms(7) same_storages_ready [OF s(2)] by (simp add: can_save_def Let_def)
  have io: "st_io_ctx (rs_s (x_rs x1)) = ?io" using s(2) by (simp add: same_storages_def)
  have ob: "V (x_w x1) (okey (st_io_ctx (rs_s (x_rs x1))) (dv_guid_to_string ?D oid)) = Some ob" by (simp add: s(3) io)
  then have "0 \<le> fst (rd_read_stat (en_rados E) (st_io_ctx (rs_s (x_rs x1))) (dv_guid_to_string ?D oid) (x_w x1))"
    using assms(16) by (simp add: reads_succeed_def)
  then show ?thesis
    using s(1,4) get_stream_returns_object [OF assms(15,2) ready _ _ assms(17) _ ob, of _ _ garbage2] assms(13,14) by blast
qed

lemma mem_reads_succeed: "reads_succeed mem_rados map_of"
  by (simp add: reads_succeed_def mem_rados_def mem_get_def split: option.split)

definition reading_env :: "mem env" where
  "reading_env = sample_env\<lparr>en_dovecot := fixed_dovecot ''guid'' (Some (''g'', ''guid'')) []\<rparr>"

theorem saved_mail_reads_back_witness:
  "\<exists>c1 x1 r rm y. save_session reading_env sample_mail_calls 0 100 [[''he''], [''l'', ''lo'']] 5 (0, []) (new_save_ctx sample_box) (sample_state []) =
       Some (0, c1, x1) \<and> rbox_mail_get_stream reading_env sample_mail_calls 0 sample_box (rbox_mail_alloc 1) x1 = Some (r, rm, y) \<and>
     rm_stream rm = Some ''hello''"
proof -
  let ?x = "sample_state [] :: mem rbox_state" and ?c = "new_save_ctx sample_box" and ?iovs = "[[''he''], [''l'', ''lo'']]"
  have laws: "law_dovecot (en_dovecot reading_env) map_of" "law_dovecot_mail sample_mail_calls map_of"
      "law_operate (en_rados reading_env) map_of" "law_append (en_rados reading_env) map_of" "writes_succeed (en_rados reading_env)"
    by (simp_all add: reading_env_def fixed_dovecot_law sample_mail_calls_def fixed_mail_law mem_rados_laws mem_writes_succeed)
  have kw: "length (dm_keyword_indexes sample_mail_calls w) \<le> length (dm_keywords sample_mail_calls w)" for w
    by (simp add: sample_mail_calls_def fixed_mail_def)
  have cs: "can_save (sv_mbox ?c) (length ''hello'') ?x"
    using sample_can_save [of "[] :: mem"] by (simp add: new_save_ctx_def eval_nat_numeral)
  have ms: "rs_ms (x_rs ?x) = Some Module_Default" by (simp add: sample_state_def)
  have g: "0 \<le> fst (0 :: int, [] :: bytes list list)" "(''guid'', x_w ?x) = dv_guid_generate (en_dovecot reading_env) (x_w ?x)"
      "map_of (x_w ?x) (okey (st_io_ctx (rs_s (x_rs ?x))) (dv_guid_to_string (en_dovecot reading_env) ''guid'')) = None"
      "''hello'' = concat (concat ?iovs)" "check_is_zlib ''hello'' = Some False" "int (length ''hello'') < INT_MAX"
    by (simp_all add: reading_env_def fixed_dovecot_def check_is_zlib_def byte_at_def)
  have rd: "law_read_stat (en_rados reading_env) map_of" "reads_succeed (en_rados reading_env) map_of" "dm_istream_opened sample_mail_calls = None"
    by (simp_all add: reading_env_def mem_law_read_stat mem_reads_succeed sample_mail_calls_def fixed_mail_def)
  have "dv_lookup_ext (en_dovecot reading_env) 1 w = Some (''g'', ''guid'')" "\<not> mail_alt sample_mail_calls sample_box (rbox_mail_alloc 1) w" for w
    by (simp_all add: reading_env_def fixed_dovecot_def sample_mail_calls_def fixed_mail_def mail_alt_def rec_alt_def is_alternate_storage_set_def)
  then show ?thesis
    using saved_mail_reads_back [OF laws kw cs ms g rd, of 0 100 5 0] by (fastforce simp: new_save_ctx_def)
qed

end
